(* ===== verification/Prelude.thy ===== *)
theory Prelude
  imports Main "HOL-Library.Word" "HOL-Library.Code_Target_Numeral"
begin

text \<open>
  Shared vocabulary of the development: the machine-integer and string types of the Go
  sources, the theorem collections the component proofs draw on, and generic lemmas on
  lists, options and sums.

  Go strings are byte sequences, so they are Isabelle's \<open>string\<close> (lists of 8-bit
  characters).  Unsigned machine integers are words.
\<close>

type_synonym u8 = "8 word"
type_synonym u32 = "32 word"
type_synonym u64 = "64 word"
type_synonym u128 = "128 word"

named_theorems digit_simps \<open>decimal digits and their characters\<close>
named_theorems parse_simps \<open>printing followed by parsing\<close>
named_theorems range_simps \<open>address ranges and the sets they denote\<close>
named_theorems table_simps \<open>database tables, row by row\<close>
named_theorems run_simps \<open>running effectful operations\<close>

section \<open>Lists\<close>

text \<open>The first element with a property, as a SQL query that scans one row.\<close>

fun find_first :: "('a \<Rightarrow> bool) \<Rightarrow> 'a list \<Rightarrow> 'a option" where
  "find_first P [] = None"
| "find_first P (x # xs) = (if P x then Some x else find_first P xs)"

lemma find_first_None [simp]: "find_first P xs = None \<longleftrightarrow> (\<forall>x \<in> set xs. \<not> P x)"
  by (induction xs) auto

lemma find_first_SomeD: "find_first P xs = Some x \<Longrightarrow> x \<in> set xs \<and> P x"
  by (induction xs) (auto split: if_splits)

lemma find_first_append:
  "find_first P (xs @ ys) = (case find_first P xs of Some x \<Rightarrow> Some x | None \<Rightarrow> find_first P ys)"
  by (induction xs) auto

lemma find_first_ex: "x \<in> set xs \<Longrightarrow> P x \<Longrightarrow> \<exists>y. find_first P xs = Some y"
  by (induction xs) auto

lemma find_first_distinct:
  "distinct (map f xs) \<Longrightarrow> x \<in> set xs \<Longrightarrow> find_first (\<lambda>y. f y = f x) xs = Some x"
  by (induction xs) force+

lemma find_first_map:
  "find_first P (map f xs) = map_option f (find_first (P \<circ> f) xs)"
  by (induction xs) auto

lemma find_first_cong:
  "(\<And>x. x \<in> set xs \<Longrightarrow> P x = Q x) \<Longrightarrow> find_first P xs = find_first Q xs"
  by (induction xs) auto

text \<open>Replacing the rows that satisfy a condition, as a SQL update.\<close>

definition update_where :: "('a \<Rightarrow> bool) \<Rightarrow> ('a \<Rightarrow> 'a) \<Rightarrow> 'a list \<Rightarrow> 'a list" where
  "update_where P f = map (\<lambda>x. if P x then f x else x)"

text \<open>How many rows a condition selects, as the number of rows a statement affects.\<close>

definition count_where :: "('a \<Rightarrow> bool) \<Rightarrow> 'a list \<Rightarrow> nat" where
  "count_where P xs = length (filter P xs)"

lemma update_where_simps [simp]:
  "update_where P f [] = []"
  "update_where P f (x # xs) = (if P x then f x else x) # update_where P f xs"
  "update_where P f (xs @ ys) = update_where P f xs @ update_where P f ys"
  by (simp_all add: update_where_def)

lemma length_update_where [simp]: "length (update_where P f xs) = length xs"
  by (simp add: update_where_def)

lemma set_update_where: "set (update_where P f xs) = (\<lambda>x. if P x then f x else x) ` set xs"
  by (simp add: update_where_def)

lemma update_where_none: "(\<And>x. x \<in> set xs \<Longrightarrow> \<not> P x) \<Longrightarrow> update_where P f xs = xs"
  by (induction xs) auto

lemma map_update_where_same:
  "(\<And>x. g (f x) = g x) \<Longrightarrow> map g (update_where P f xs) = map g xs"
  by (simp add: update_where_def comp_def)

lemma count_where_simps [simp]:
  "count_where P [] = 0"
  "count_where P (x # xs) = (if P x then 1 else 0) + count_where P xs"
  "count_where P (xs @ ys) = count_where P xs + count_where P ys"
  by (simp_all add: count_where_def)

lemma count_where_0: "count_where P xs = 0 \<longleftrightarrow> (\<forall>x \<in> set xs. \<not> P x)"
  by (auto simp: count_where_def filter_empty_conv)

lemma count_where_update_same:
  "(\<And>x. x \<in> set xs \<Longrightarrow> P x \<Longrightarrow> Q (f x) = Q x) \<Longrightarrow>
    count_where Q (update_where P f xs) = count_where Q xs"
  by (induction xs) auto

lemma count_where_cong:
  "(\<And>x. x \<in> set xs \<Longrightarrow> P x = Q x) \<Longrightarrow> count_where P xs = count_where Q xs"
  by (induction xs) auto

lemma count_where_pos: "x \<in> set xs \<Longrightarrow> P x \<Longrightarrow> 0 < count_where P xs"
  by (induction xs) auto

section \<open>Options and sums\<close>

text \<open>A pointer that may be nil, and the value SQL's COALESCE picks.\<close>

definition coalesce :: "'a option \<Rightarrow> 'a option \<Rightarrow> 'a option" where
  "coalesce a b = (case a of Some _ \<Rightarrow> a | None \<Rightarrow> b)"

lemma coalesce_simps [simp]: "coalesce (Some x) b = Some x" "coalesce None b = b"
  by (simp_all add: coalesce_def)

text \<open>SQL's NULLIF against the empty string.\<close>

definition nullif_empty :: "string \<Rightarrow> string option" where
  "nullif_empty s = (if s = '''' then None else Some s)"

definition from_option :: "'a \<Rightarrow> 'a option \<Rightarrow> 'a" where
  "from_option d x = (case x of None \<Rightarrow> d | Some y \<Rightarrow> y)"

lemma from_option_simps [simp]: "from_option d None = d" "from_option d (Some x) = x"
  by (simp_all add: from_option_def)

section \<open>Words\<close>

lemma unat_lt_2p32: "unat (w :: u32) < 2 ^ 32"
  using unsigned_less [of w, where ?'a = nat] by simp

lemma unat_u32_max: "unat (- 1 :: u32) = 2 ^ 32 - 1"
  by (simp add: unsigned_minus_1_eq_mask mask_eq_exp_minus_1)

lemma unat_u32_max_iff: "unat (w :: u32) = 4294967295 \<longleftrightarrow> w = - 1"
  by (simp add: word_unat_eq_iff unat_u32_max)

lemma unat_add_u32:
  "unat a + unat b < 2 ^ 32 \<Longrightarrow> unat (a + b :: u32) = unat a + unat b"
  by (simp add: unat_word_ariths)

lemma unat_Suc_u32: "(a :: u32) \<noteq> - 1 \<Longrightarrow> unat (a + 1) = Suc (unat a)"
  using unat_lt_2p32 [of a] unat_u32_max_iff [of a] by (simp add: unat_word_ariths)

lemma unat_pred_u32: "(a :: u32) \<noteq> 0 \<Longrightarrow> unat (a - 1) = unat a - 1"
  by (rule unat_minus_one)

lemma unat_of_nat_u32: "n < 2 ^ 32 \<Longrightarrow> unat (of_nat n :: u32) = n"
  by (simp add: unat_of_nat)

end
