(* ===== verification/Errors.thy ===== *)
theory Errors
  imports Prelude
begin

text \<open>
  Go's error values.  The sentinel errors of every package are constructors (where two packages
  use the same name, the package is part of the constructor's name); \<open>Errorf\<close> is an error made
  by \<open>fmt.Errorf\<close> or \<open>errors.New\<close> with a message only, \<open>Wrap\<close> one made with the
  verb that wraps another error.  The texts are the constant parts of the messages.
  \<open>SQLState\<close> is an error of the database with its code; \<open>Fault\<close> is the failure of an
  external call.
\<close>

datatype error =
    ErrUnsupportedProtocol | ErrServerNotConfigured | ErrNoServerAvailable
  | ErrSubnetExhausted | VPN_ErrNotFound
  | ErrPlanNotFound | ErrUnknownGateway | ErrOrderNotFound | ErrPromoInvalid | ErrPromoUsed
  | ErrTooManyPending | ErrBadProtocol | ErrWebhookConflict | ErrInvalidSignature
  | ErrEmailTaken | ErrInvalidCredentials | ErrUserBlocked | ErrInvalidToken
  | ErrSessionRevoked | ErrTelegramSignature | Auth_ErrNotFound | Err2FARequired
  | ErrInvalidTOTP | ErrTOTPNotSetup
  | Admin_ErrNotFound | User_ErrNotFound
  | ErrNoRows | RedisNil
  | SQLState string | Fault
  | Errorf string | Wrap string error

text \<open>\<open>errors.Is\<close>: the error itself or one it wraps.\<close>

fun errors_Is :: "error \<Rightarrow> error \<Rightarrow> bool" where
  "errors_Is (Wrap s e) t \<longleftrightarrow> Wrap s e = t \<or> errors_Is e t"
| "errors_Is e t \<longleftrightarrow> e = t"

text \<open>\<open>isUniqueViolation\<close> of the auth repository: the wrapped database error has code 23505.\<close>

fun isUniqueViolation :: "error \<Rightarrow> bool" where
  "isUniqueViolation (Wrap s e) \<longleftrightarrow> isUniqueViolation e"
| "isUniqueViolation (SQLState c) \<longleftrightarrow> c = ''23505''"
| "isUniqueViolation e \<longleftrightarrow> False"

abbreviation unique_violation :: error where "unique_violation \<equiv> SQLState ''23505''"
abbreviation foreign_key_violation :: error where "foreign_key_violation \<equiv> SQLState ''23503''"
abbreviation not_null_violation :: error where "not_null_violation \<equiv> SQLState ''23502''"

lemma errors_Is_refl [simp]: "errors_Is e e"
  by (cases e) simp_all

end
