(* ===== verification/Database.thy ===== *)
theory Database
  imports Errors
begin

text \<open>
  The database of the platform: one record type per table of \<open>migrations/\<close>, with the columns
  the Go code reads or writes (a nullable column is an option), the tables as lists of rows in
  insertion order, and the key lookups the statements share.  NUMERIC(10,2) amounts are integers
  in cents; timestamps are integers in nanoseconds; enum columns hold the enum's text.  The code never sets
  \<open>users.deleted_at\<close>, so every user row is one with NULL there, and the maintained
  \<open>updated_at\<close> columns are left out.
\<close>

type_synonym uuid = "128 word"
type_synonym timestamp = int

abbreviation uuid_Nil :: uuid where "uuid_Nil \<equiv> 0"

section \<open>Rows\<close>

record user_row =
  u_id :: uuid
  u_email :: "string option"
  u_phone :: "string option"
  u_telegram_id :: "int option"
  u_password_hash :: "string option"
  u_role :: string
  u_status :: string
  u_language :: string
  u_timezone :: string
  u_currency :: string
  u_country :: "string option"
  u_created_at :: timestamp
  u_totp_secret :: "string option"
  u_totp_enabled :: bool

record profile_row =
  pr_user_id :: uuid
  pr_first_name :: "string option"
  pr_last_name :: "string option"
  pr_avatar :: "string option"
  pr_city :: "string option"
  pr_country :: "string option"

record session_row =
  se_id :: uuid
  se_user_id :: uuid
  se_token_hash :: string
  se_user_agent :: "string option"
  se_ip :: "string option"
  se_expires_at :: timestamp
  se_revoked_at :: "timestamp option"
  se_created_at :: timestamp

record device_row =
  d_id :: uuid
  d_user_id :: uuid
  d_device_uuid :: string
  d_name :: "string option"
  d_platform :: "string option"
  d_os :: "string option"
  d_version :: "string option"
  d_last_online :: "timestamp option"
  d_created_at :: timestamp

record country_row =
  c_id :: uuid
  c_iso :: string
  c_name :: string
  c_flag :: "string option"
  c_enabled :: bool
  c_priority :: int

record plan_row =
  pl_id :: uuid
  pl_name :: string
  pl_price :: int
  pl_currency :: string
  pl_days :: int
  pl_max_devices :: int
  pl_active :: bool

record server_row =
  s_id :: uuid
  s_country_id :: uuid
  s_hostname :: string
  s_public_host :: string
  s_agent_url :: "string option"
  s_status :: string
  s_reserve :: bool
  s_priority :: int
  s_capacity :: int
  s_client_count :: int
  s_wg_port :: "int option"
  s_wg_public_key :: "string option"
  s_wg_subnet :: "string option"
  s_wg_dns :: "string option"
  s_reality_port :: "int option"
  s_reality_public_key :: "string option"
  s_reality_sni :: "string option"
  s_reality_short_id :: "string option"
  s_reality_dest :: "string option"
  s_ss_port :: "int option"
  s_ss_method :: "string option"
  s_ss_server_key :: "string option"
  s_trojan_port :: "int option"
  s_health_score :: int
  s_last_seen :: "timestamp option"

record subscription_row =
  sub_id :: uuid
  sub_user_id :: uuid
  sub_plan_id :: "uuid option"
  sub_server_id :: uuid
  sub_country_id :: uuid
  sub_protocol :: string
  sub_status :: string
  sub_label :: "string option"
  sub_max_devices :: int
  sub_expires_at :: timestamp
  sub_created_at :: timestamp

record config_row =
  vc_id :: uuid
  vc_subscription_id :: uuid
  vc_protocol :: string
  vc_uri :: "string option"
  vc_config_object_key :: "string option"
  vc_qr_object_key :: "string option"
  vc_hash :: "string option"
  vc_version :: int
  vc_created_at :: timestamp

record key_row =
  k_id :: uuid
  k_vpn_config_id :: uuid
  k_server_id :: uuid
  k_private_key :: "string option"
  k_public_key :: "string option"
  k_psk :: "string option"
  k_client_uuid :: "string option"
  k_assigned_ip :: "u32 option"
  k_status :: string
  k_created_at :: timestamp

record promo_row =
  pm_id :: uuid
  pm_code :: string
  pm_type :: string
  pm_discount :: int
  pm_currency :: "string option"
  pm_max_uses :: "int option"
  pm_used_count :: int
  pm_expires_at :: "timestamp option"
  pm_active :: bool
  pm_created_at :: timestamp

record order_row =
  o_id :: uuid
  o_user_id :: uuid
  o_plan_id :: uuid
  o_country_id :: uuid
  o_protocol :: string
  o_amount :: int
  o_discount :: int
  o_currency :: string
  o_promo_id :: "uuid option"
  o_gateway :: string
  o_status :: string
  o_subscription_id :: "uuid option"
  o_label :: "string option"
  o_renew_subscription_id :: "uuid option"
  o_routing :: string
  o_created_at :: timestamp
  o_paid_at :: "timestamp option"

record payment_row =
  pay_id :: uuid
  pay_order_id :: uuid
  pay_gateway :: string
  pay_external_id :: "string option"
  pay_status :: string
  pay_amount :: int
  pay_currency :: string
  pay_payment_url :: "string option"
  pay_created_at :: timestamp

record redemption_row =
  rd_id :: uuid
  rd_promo_id :: uuid
  rd_user_id :: uuid
  rd_order_id :: uuid

record ledger_row =
  l_id :: uuid
  l_user_id :: uuid
  l_type :: string
  l_amount :: int
  l_currency :: string
  l_ref_type :: "string option"
  l_ref_id :: "uuid option"
  l_prev_hash :: "string option"
  l_hash :: string
  l_created_at :: timestamp

record webhook_row =
  wh_id :: uuid
  wh_gateway :: string
  wh_external_id :: string
  wh_status :: "string option"
  wh_payload :: string
  wh_received_at :: timestamp
  wh_processed_at :: "timestamp option"

record audit_row =
  a_id :: uuid
  a_actor_id :: "uuid option"
  a_actor_email :: "string option"
  a_action :: string
  a_object_type :: "string option"
  a_object_id :: "string option"
  a_payload :: string
  a_ip :: "string option"
  a_created_at :: timestamp

record health_row =
  hl_id :: uuid
  hl_server_id :: uuid
  hl_score :: int
  hl_status :: string
  hl_reason :: "string option"
  hl_payload :: string
  hl_created_at :: timestamp

record migration_row =
  mg_id :: uuid
  mg_subscription_id :: uuid
  mg_user_id :: uuid
  mg_from_server :: "uuid option"
  mg_to_server :: "uuid option"
  mg_reason :: "string option"
  mg_created_at :: timestamp

section \<open>The tables\<close>

record db =
  users :: "user_row list"
  user_profiles :: "profile_row list"
  user_sessions :: "session_row list"
  devices :: "device_row list"
  countries :: "country_row list"
  plans :: "plan_row list"
  servers :: "server_row list"
  subscriptions :: "subscription_row list"
  vpn_configs :: "config_row list"
  vpn_keys :: "key_row list"
  promocodes :: "promo_row list"
  orders :: "order_row list"
  payments :: "payment_row list"
  promo_redemptions :: "redemption_row list"
  ledger :: "ledger_row list"
  webhook_events :: "webhook_row list"
  audit_log :: "audit_row list"
  server_health :: "health_row list"
  migrations :: "migration_row list"

definition empty_db :: db where
  "empty_db = \<lparr>users = [], user_profiles = [], user_sessions = [], devices = [], countries = [],
     plans = [], servers = [], subscriptions = [], vpn_configs = [], vpn_keys = [],
     promocodes = [], orders = [], payments = [], promo_redemptions = [], ledger = [],
     webhook_events = [], audit_log = [], server_health = [], migrations = []\<rparr>"

section \<open>Statements on a table\<close>

text \<open>
  A statement reads the time \<open>now()\<close> and a fresh UUID for \<open>gen_random_uuid()\<close>, and yields
  an error or a result with the new tables.
\<close>

type_synonym 'a statement = "timestamp \<Rightarrow> uuid \<Rightarrow> db \<Rightarrow> error + ('a \<times> db)"

definition select :: "(db \<Rightarrow> 'a) \<Rightarrow> 'a statement" where
  "select f now fresh d = Inr (f d, d)"

text \<open>A query for one row that fails with \<open>pgx.ErrNoRows\<close> when there is none.\<close>

definition select_row :: "(db \<Rightarrow> 'a option) \<Rightarrow> 'a statement" where
  "select_row f now fresh d = (case f d of None \<Rightarrow> Inl ErrNoRows | Some x \<Rightarrow> Inr (x, d))"

definition modify :: "(db \<Rightarrow> db) \<Rightarrow> unit statement" where
  "modify f now fresh d = Inr ((), f d)"

text \<open>\<open>WHERE id = $1\<close>.\<close>

definition by_key :: "('r \<Rightarrow> 'k) \<Rightarrow> 'k \<Rightarrow> 'r list \<Rightarrow> 'r option" where
  "by_key key k rows = find_first (\<lambda>r. key r = k) rows"

definition has_key :: "('r \<Rightarrow> 'k) \<Rightarrow> 'k \<Rightarrow> 'r list \<Rightarrow> bool" where
  "has_key key k rows = list_ex (\<lambda>r. key r = k) rows"

text \<open>A foreign key, nullable or not.\<close>

definition fk_ok :: "('r \<Rightarrow> uuid) \<Rightarrow> uuid \<Rightarrow> 'r list \<Rightarrow> bool" where
  "fk_ok key k rows = has_key key k rows"

definition fk_null_ok :: "('r \<Rightarrow> uuid) \<Rightarrow> uuid option \<Rightarrow> 'r list \<Rightarrow> bool" where
  "fk_null_ok key k rows = (case k of None \<Rightarrow> True | Some i \<Rightarrow> has_key key i rows)"

lemma has_key_iff: "has_key key k rows \<longleftrightarrow> (\<exists>r \<in> set rows. key r = k)"
  by (auto simp: has_key_def list_ex_iff)

lemma by_key_None: "by_key key k rows = None \<longleftrightarrow> \<not> has_key key k rows"
  by (auto simp: by_key_def has_key_iff)

lemma by_key_SomeD: "by_key key k rows = Some r \<Longrightarrow> r \<in> set rows \<and> key r = k"
  unfolding by_key_def by (drule find_first_SomeD) simp

lemma by_key_distinct:
  "distinct (map key rows) \<Longrightarrow> r \<in> set rows \<Longrightarrow> by_key key (key r) rows = Some r"
  unfolding by_key_def by (rule find_first_distinct)

lemma by_key_append:
  "by_key key k (xs @ ys) = (case by_key key k xs of Some r \<Rightarrow> Some r | None \<Rightarrow> by_key key k ys)"
  unfolding by_key_def by (induction xs) auto

lemma by_key_update_where:
  assumes "\<And>r. key (f r) = key r"
  shows "by_key key k (update_where P f rows) =
    map_option (\<lambda>r. if P r then f r else r) (by_key key k rows)"
  using assms by (induction rows) (auto simp: by_key_def)

lemma has_key_update_where [simp]:
  "(\<And>r. key (f r) = key r) \<Longrightarrow> has_key key k (update_where P f rows) = has_key key k rows"
  by (induction rows) (auto simp: has_key_def)

lemma has_key_append [simp]: "has_key key k (xs @ ys) \<longleftrightarrow> has_key key k xs \<or> has_key key k ys"
  by (simp add: has_key_def)

lemma has_key_simps [simp]:
  "has_key key k [] = False" "has_key key k (r # rows) \<longleftrightarrow> key r = k \<or> has_key key k rows"
  by (simp_all add: has_key_def)

text \<open>Updating the one row with a key changes a count by that row alone.\<close>

lemma count_where_update_key:
  assumes "distinct (map key rows)" "r \<in> set rows"
  shows "count_where Q (update_where (\<lambda>x. key x = key r) f rows) + (if Q r then 1 else 0) =
    count_where Q rows + (if Q (f r) then 1 else 0)"
  using assms
proof (induction rows)
  case (Cons x rows)
  show ?case
  proof (cases "x = r")
    case True
    have "update_where (\<lambda>x. key x = key r) f rows = rows"
      using Cons.prems(1) True by (intro update_where_none) (metis distinct.simps(2) image_eqI list.set_map list.simps(9))
    with True show ?thesis by simp
  next
    case False
    with Cons have "key x \<noteq> key r" "r \<in> set rows" by force+
    with Cons show ?thesis by simp
  qed
qed simp

end
