(* ===== verification/World.thy ===== *)
theory World
  imports Database
begin

text \<open>
  How an operation of the server runs.  Every interaction with the outside - a database
  statement, an object-store or Redis call, an HTTP call to a node, the clock, the random source -
  takes the next position of a tape; the environment says for each position whether the call
  fails, and what it yields.  An operation returns an error or a result, with the new world:
  the tables, the object store, Redis, the calls made to nodes so far and the tape position.

  A transaction restores the tables when its body or its commit fails; \<open>now()\<close> is constant
  within it.
\<close>

section \<open>The world\<close>

text \<open>
  What the outside decides, by position of the tape: failures, identifiers, the clock, random
  bytes (position and count), node answers; and the cryptographic and image functions the code
  calls, which are arguments of the model.
\<close>

text \<open>The claims of an access token: subject, id, the times in seconds, and the role.\<close>

record jwt_claims =
  jc_Subject :: string
  jc_ID :: string
  jc_IssuedAt :: int
  jc_ExpiresAt :: "int option"
  jc_NotBefore :: int
  jc_Role :: string

text \<open>The classes of Unicode code points that the code tells apart; the tables are an argument.\<close>

datatype rune_class = Rune_Upper | Rune_Lower | Rune_Digit | Rune_Special | Rune_Other

record env =
  env_fault :: "nat \<Rightarrow> bool"
  env_uuid :: "nat \<Rightarrow> uuid"
  env_clock :: "nat \<Rightarrow> timestamp"
  env_rand :: "nat \<Rightarrow> nat \<Rightarrow> string"
  env_http_status :: "nat \<Rightarrow> int"
  env_sha256 :: "string \<Rightarrow> string"
  env_x25519_base :: "string \<Rightarrow> string option"
  env_seal :: "string \<Rightarrow> string \<Rightarrow> string \<Rightarrow> string"
  env_unseal :: "string \<Rightarrow> string \<Rightarrow> string \<Rightarrow> string option"
  env_qr_png :: "string \<Rightarrow> int \<Rightarrow> string option"
  env_http_body :: "nat \<Rightarrow> string"
  env_md5 :: "string \<Rightarrow> string"
  env_sha1 :: "string \<Rightarrow> string"
  env_bcrypt_hash :: "nat \<Rightarrow> string \<Rightarrow> string option"
  env_bcrypt_check :: "string \<Rightarrow> string \<Rightarrow> bool"
  env_jwt_sign :: "string \<Rightarrow> jwt_claims \<Rightarrow> string option"
  env_jwt_parse :: "string \<Rightarrow> timestamp \<Rightarrow> string \<Rightarrow> jwt_claims option"
  env_unicode :: "nat \<Rightarrow> rune_class"

text \<open>
  The calls that reached other services: a POST to a node agent (the URL, the bearer token and the
  fields of the JSON body), a request to another API (the URL, the headers and the body).
\<close>

datatype node_call =
    NodeCall (call_url: string) (call_token: string) (call_fields: "(string \<times> string) list")
  | ApiCall (call_url: string) (call_headers: "(string \<times> string) list") (call_body: string)

record world =
  w_env :: env
  w_tick :: nat
  w_tx_now :: "timestamp option"
  w_db :: db
  w_store :: "(string \<times> string) list"
  w_redis :: "(string \<times> string \<times> timestamp option) list"
  w_nodes :: "node_call list"

type_synonym 'a go = "world \<Rightarrow> (error + 'a) \<times> world"

section \<open>Combinators\<close>

definition return :: "'a \<Rightarrow> 'a go" where
  "return x w = (Inr x, w)"

definition throw :: "error \<Rightarrow> 'a go" where
  "throw e w = (Inl e, w)"

definition bind :: "'a go \<Rightarrow> ('a \<Rightarrow> 'b go) \<Rightarrow> 'b go" where
  "bind m f w = (case m w of (Inl e, w') \<Rightarrow> (Inl e, w') | (Inr x, w') \<Rightarrow> f x w')"

definition catch :: "'a go \<Rightarrow> (error \<Rightarrow> 'a go) \<Rightarrow> 'a go" where
  "catch m h w = (case m w of (Inl e, w') \<Rightarrow> h e w' | (Inr x, w') \<Rightarrow> (Inr x, w'))"

text \<open>The error as a value, as in \<open>x, err := m\<close>.\<close>

definition attempt :: "'a go \<Rightarrow> (error + 'a) go" where
  "attempt m w = (case m w of (r, w') \<Rightarrow> (Inr r, w'))"

text \<open>\<open>fmt.Errorf\<close> with a wrapped error, for every error of an operation.\<close>

definition wrap :: "string \<Rightarrow> 'a go \<Rightarrow> 'a go" where
  "wrap s m = catch m (\<lambda>e. throw (Wrap s e))"

text \<open>The error of a query: a missing row becomes the given error, any other is wrapped.\<close>

definition no_rows :: "error \<Rightarrow> string \<Rightarrow> 'a go \<Rightarrow> 'a go" where
  "no_rows missing s m =
     catch m (\<lambda>e. if errors_Is e ErrNoRows then throw missing else throw (Wrap s e))"

definition run_if :: "bool \<Rightarrow> unit go \<Rightarrow> unit go" where
  "run_if b m = (if b then m else return ())"

definition of_sum :: "error + 'a \<Rightarrow> 'a go" where
  "of_sum r = (case r of Inl e \<Rightarrow> throw e | Inr x \<Rightarrow> return x)"

fun for_each :: "('a \<Rightarrow> unit go) \<Rightarrow> 'a list \<Rightarrow> unit go" where
  "for_each f [] = return ()"
| "for_each f (x # xs) = bind (f x) (\<lambda>_. for_each f xs)"

section \<open>External calls\<close>

text \<open>One position of the tape.\<close>

definition step_tick :: "world \<Rightarrow> world" where
  "step_tick w = w\<lparr>w_tick := Suc (w_tick w)\<rparr>"

text \<open>The database keeps times to the microsecond, in columns and in \<open>now()\<close>.\<close>

definition pg_time :: "timestamp \<Rightarrow> timestamp" where
  "pg_time t = t div 1000 * 1000"

definition now_of :: "world \<Rightarrow> timestamp" where
  "now_of w = (case w_tx_now w of Some t \<Rightarrow> t | None \<Rightarrow> pg_time (env_clock (w_env w) (w_tick w)))"

definition sql :: "'a statement \<Rightarrow> 'a go" where
  "sql st w =
     (let w1 = step_tick w in
      if env_fault (w_env w) (w_tick w) then (Inl Fault, w1)
      else (case st (now_of w) (env_uuid (w_env w) (w_tick w)) (w_db w) of
          Inl e \<Rightarrow> (Inl e, w1)
        | Inr (x, d) \<Rightarrow> (Inr x, w1\<lparr>w_db := d\<rparr>)))"

definition time_Now :: "timestamp go" where
  "time_Now w = (Inr (env_clock (w_env w) (w_tick w)), step_tick w)"

definition uuid_New :: "uuid go" where
  "uuid_New w = (Inr (env_uuid (w_env w) (w_tick w)), step_tick w)"

text \<open>\<open>rand.Read\<close> fills a buffer of \<open>n\<close> bytes.\<close>

definition rand_bytes :: "env \<Rightarrow> nat \<Rightarrow> nat \<Rightarrow> string" where
  "rand_bytes e t n = take n (env_rand e t n @ replicate n (CHR 0x00))"

lemma length_rand_bytes [simp]: "length (rand_bytes e t n) = n"
  by (simp add: rand_bytes_def)

definition rand_Read :: "nat \<Rightarrow> string go" where
  "rand_Read n w =
     (if env_fault (w_env w) (w_tick w) then (Inl Fault, step_tick w)
      else (Inr (rand_bytes (w_env w) (w_tick w) n), step_tick w))"

definition ask :: "(env \<Rightarrow> 'a) \<Rightarrow> 'a go" where
  "ask f w = (Inr (f (w_env w)), w)"

text \<open>
  A transaction: begin, the body with the time of its start as \<open>now()\<close>, commit.  The deferred
  rollback restores the tables on every error path.  The commit error is passed through
  \<open>commit_err\<close>, since one caller returns it bare.
\<close>

definition transaction :: "(error \<Rightarrow> error) \<Rightarrow> 'a go \<Rightarrow> 'a go" where
  "transaction commit_err body w =
     (if env_fault (w_env w) (w_tick w) then (Inl (Wrap ''begin tx'' Fault), step_tick w)
      else
        (case body ((step_tick w)\<lparr>w_tx_now := Some (now_of w)\<rparr>) of
          (Inl e, w2) \<Rightarrow> (Inl e, w2\<lparr>w_tx_now := None, w_db := w_db w\<rparr>)
        | (Inr x, w2) \<Rightarrow>
            if env_fault (w_env w2) (w_tick w2)
            then (Inl (commit_err Fault), (step_tick w2)\<lparr>w_tx_now := None, w_db := w_db w\<rparr>)
            else (Inr x, (step_tick w2)\<lparr>w_tx_now := None\<rparr>)))"

section \<open>Running operations\<close>

lemma run_simps_base [run_simps]:
  "return x w = (Inr x, w)"
  "throw e w = (Inl e, w)"
  "of_sum (Inl e) w = (Inl e, w)"
  "of_sum (Inr x) w = (Inr x, w)"
  "run_if True m w = m w"
  "run_if False m w = (Inr (), w)"
  "ask f w = (Inr (f (w_env w)), w)"
  by (simp_all add: return_def throw_def of_sum_def run_if_def ask_def)

lemma bind_run:
  "m w = (Inr x, w') \<Longrightarrow> bind m f w = f x w'"
  "m w = (Inl e, w') \<Longrightarrow> bind m f w = (Inl e, w')"
  by (simp_all add: bind_def)

lemma step_tick_simps [simp]:
  "w_env (step_tick w) = w_env w" "w_tick (step_tick w) = Suc (w_tick w)"
  "w_tx_now (step_tick w) = w_tx_now w" "w_db (step_tick w) = w_db w"
  "w_store (step_tick w) = w_store w" "w_redis (step_tick w) = w_redis w"
  "w_nodes (step_tick w) = w_nodes w"
  by (simp_all add: step_tick_def)

section \<open>Partial correctness\<close>

text \<open>A triple with separate postconditions for results and errors.\<close>

definition valid ::
    "(world \<Rightarrow> bool) \<Rightarrow> 'a go \<Rightarrow> ('a \<Rightarrow> world \<Rightarrow> bool) \<Rightarrow> (error \<Rightarrow> world \<Rightarrow> bool) \<Rightarrow> bool" where
  "valid P m Q E \<longleftrightarrow> (\<forall>w. P w \<longrightarrow> (case m w of (Inr x, w') \<Rightarrow> Q x w' | (Inl e, w') \<Rightarrow> E e w'))"

named_theorems triple_intro \<open>rules for triples, backwards over an operation\<close>

lemma validI:
  "(\<And>w. P w \<Longrightarrow> case m w of (Inr x, w') \<Rightarrow> Q x w' | (Inl e, w') \<Rightarrow> E e w') \<Longrightarrow> valid P m Q E"
  by (simp add: valid_def)

lemma validD:
  "valid P m Q E \<Longrightarrow> P w \<Longrightarrow> m w = (Inr x, w') \<Longrightarrow> Q x w'"
  "valid P m Q E \<Longrightarrow> P w \<Longrightarrow> m w = (Inl e, w') \<Longrightarrow> E e w'"
  by (auto simp: valid_def)

lemma valid_weaken:
  assumes "valid P' m Q' E'" "\<And>w. P w \<Longrightarrow> P' w" "\<And>x w. Q' x w \<Longrightarrow> Q x w" "\<And>e w. E' e w \<Longrightarrow> E e w"
  shows "valid P m Q E"
  using assms unfolding valid_def by (fastforce split: prod.splits sum.splits)

lemma valid_return [triple_intro]: "(\<And>w. P w \<Longrightarrow> Q x w) \<Longrightarrow> valid P (return x) Q E"
  by (simp add: valid_def return_def)

lemma valid_throw [triple_intro]: "(\<And>w. P w \<Longrightarrow> E e w) \<Longrightarrow> valid P (throw e) Q E"
  by (simp add: valid_def throw_def)

lemma valid_bind [triple_intro]:
  assumes "valid P m R E" "\<And>x. valid (R x) (f x) Q E"
  shows "valid P (bind m f) Q E"
  using assms unfolding valid_def bind_def by (fastforce split: prod.splits sum.splits)

lemma valid_catch [triple_intro]:
  assumes "valid P m Q R" "\<And>e. valid (R e) (h e) Q E"
  shows "valid P (catch m h) Q E"
  using assms unfolding valid_def catch_def by (fastforce split: prod.splits sum.splits)

text \<open>An invariant of an operation, on results and errors alike.\<close>

definition keeps :: "(world \<Rightarrow> bool) \<Rightarrow> 'a go \<Rightarrow> bool" where
  "keeps I m \<longleftrightarrow> (\<forall>w. I w \<longrightarrow> I (snd (m w)))"

named_theorems keeps_intro \<open>operations that keep an invariant\<close>

lemma keepsD: "keeps I m \<Longrightarrow> I w \<Longrightarrow> I (snd (m w))"
  by (simp add: keeps_def)

lemma keeps_return [keeps_intro]: "keeps I (return x)"
  by (simp add: keeps_def return_def)

lemma keeps_throw [keeps_intro]: "keeps I (throw e)"
  by (simp add: keeps_def throw_def)

lemma keeps_bind [keeps_intro]: "keeps I m \<Longrightarrow> (\<And>x. keeps I (f x)) \<Longrightarrow> keeps I (bind m f)"
  unfolding keeps_def bind_def by (fastforce split: prod.splits sum.splits)

lemma keeps_catch [keeps_intro]: "keeps I m \<Longrightarrow> (\<And>e. keeps I (h e)) \<Longrightarrow> keeps I (catch m h)"
  unfolding keeps_def catch_def by (fastforce split: prod.splits sum.splits)

lemma keeps_attempt [keeps_intro]: "keeps I m \<Longrightarrow> keeps I (attempt m)"
  unfolding keeps_def attempt_def by (fastforce split: prod.splits)

lemma keeps_wrap [keeps_intro]: "keeps I m \<Longrightarrow> keeps I (wrap s m)"
  by (simp add: wrap_def keeps_catch keeps_throw)

lemma keeps_no_rows [keeps_intro]: "keeps I m \<Longrightarrow> keeps I (no_rows e s m)"
  by (simp add: no_rows_def keeps_catch keeps_throw)

lemma keeps_run_if [keeps_intro]: "keeps I m \<Longrightarrow> keeps I (run_if b m)"
  by (simp add: run_if_def keeps_return)

lemma keeps_if [keeps_intro]: "(b \<Longrightarrow> keeps I m) \<Longrightarrow> (\<not> b \<Longrightarrow> keeps I n) \<Longrightarrow> keeps I (if b then m else n)"
  by simp

lemma keeps_of_sum [keeps_intro]: "keeps I (of_sum r)"
  by (cases r) (simp_all add: of_sum_def keeps_return keeps_throw)

lemma keeps_ask [keeps_intro]: "keeps I (ask f)"
  by (simp add: keeps_def ask_def)

lemma keeps_for_each [keeps_intro]: "(\<And>x. keeps I (f x)) \<Longrightarrow> keeps I (for_each f xs)"
  by (induction xs) (auto intro: keeps_return keeps_bind)

lemma keeps_case_option [keeps_intro]:
  "keeps I m \<Longrightarrow> (\<And>x. keeps I (f x)) \<Longrightarrow> keeps I (case v of None \<Rightarrow> m | Some x \<Rightarrow> f x)"
  by (cases v) auto

lemma keeps_case_sum [keeps_intro]:
  "(\<And>e. keeps I (f e)) \<Longrightarrow> (\<And>x. keeps I (g x)) \<Longrightarrow> keeps I (case v of Inl e \<Rightarrow> f e | Inr x \<Rightarrow> g x)"
  by (cases v) auto

lemma keeps_case_prod [keeps_intro]:
  "(\<And>x y. keeps I (f x y)) \<Longrightarrow> keeps I (case v of (x, y) \<Rightarrow> f x y)"
  by (cases v) auto

section \<open>Invariants of the tables\<close>

text \<open>A property of the tables alone, and when a statement keeps it.\<close>

definition on_db :: "(db \<Rightarrow> bool) \<Rightarrow> world \<Rightarrow> bool" where
  "on_db I w \<longleftrightarrow> I (w_db w)"

definition stmt_keeps :: "(db \<Rightarrow> bool) \<Rightarrow> 'a statement \<Rightarrow> bool" where
  "stmt_keeps I st \<longleftrightarrow> (\<forall>now fresh d x d'. I d \<longrightarrow> st now fresh d = Inr (x, d') \<longrightarrow> I d')"

lemma stmt_keeps_select [keeps_intro]: "stmt_keeps I (select f)"
  by (simp add: stmt_keeps_def select_def)

lemma stmt_keeps_select_row [keeps_intro]: "stmt_keeps I (select_row f)"
  by (auto simp: stmt_keeps_def select_row_def split: option.splits)

lemma stmt_keeps_modify: "(\<And>d. I d \<Longrightarrow> I (f d)) \<Longrightarrow> stmt_keeps I (modify f)"
  by (simp add: stmt_keeps_def modify_def)

lemma keeps_sql [keeps_intro]: "stmt_keeps I st \<Longrightarrow> keeps (on_db I) (sql st)"
  unfolding keeps_def stmt_keeps_def sql_def on_db_def
  by (fastforce simp: Let_def split: sum.splits prod.splits)

lemma keeps_time_Now [keeps_intro]: "keeps (on_db I) time_Now"
  by (simp add: keeps_def on_db_def time_Now_def)

lemma keeps_uuid_New [keeps_intro]: "keeps (on_db I) uuid_New"
  by (simp add: keeps_def on_db_def uuid_New_def)

lemma keeps_rand_Read [keeps_intro]: "keeps (on_db I) (rand_Read n)"
  by (simp add: keeps_def on_db_def rand_Read_def)

text \<open>
  A transaction keeps a property of the tables when its body, run from the tables it starts
  with, leaves tables that have it whenever it succeeds: the intermediate states do not matter.
\<close>

lemma keeps_transaction:
  assumes "\<And>w x w'. I (w_db w) \<Longrightarrow> body w = (Inr x, w') \<Longrightarrow> I (w_db w')"
  shows "keeps (on_db I) (transaction ce body)"
proof (unfold keeps_def on_db_def, intro allI impI)
  fix w :: world assume I: "I (w_db w)"
  let ?w1 = "(step_tick w)\<lparr>w_tx_now := Some (now_of w)\<rparr>"
  obtain r w2 where b: "body ?w1 = (r, w2)" by fastforce
  have "I (w_db w2)" if "r = Inr x" for x
    using assms [of ?w1 x w2] I b that by simp
  with I b show "I (w_db (snd (transaction ce body w)))"
    by (cases r) (simp_all add: transaction_def)
qed

text \<open>An operation that leaves the tables alone when it fails and keeps the property otherwise.\<close>

lemma keeps_atomic:
  assumes "\<And>w x w'. I (w_db w) \<Longrightarrow> m w = (Inr x, w') \<Longrightarrow> I (w_db w')"
    and "\<And>w e w'. m w = (Inl e, w') \<Longrightarrow> w_db w' = w_db w"
  shows "keeps (on_db I) m"
proof (unfold keeps_def on_db_def, intro allI impI)
  fix w :: world assume I: "I (w_db w)"
  obtain r w' where r: "m w = (r, w')" by fastforce
  with assms I show "I (w_db (snd (m w)))"
    by (cases r) (metis snd_conv)+
qed

lemma transaction_error_db:
  "transaction ce body w = (Inl e, w') \<Longrightarrow> w_db w' = w_db w"
  by (auto simp: transaction_def split: if_splits sum.splits prod.splits)

lemma transaction_SomeD:
  assumes "transaction ce body w = (Inr x, w')"
  obtains w2 where "body ((step_tick w)\<lparr>w_tx_now := Some (now_of w)\<rparr>) = (Inr x, w2)"
    "w' = (step_tick w2)\<lparr>w_tx_now := None\<rparr>"
  using assms by (auto simp: transaction_def split: if_splits sum.splits prod.splits)

lemma sql_InrD:
  assumes "sql st w = (Inr x, w')"
  obtains d where "st (now_of w) (env_uuid (w_env w) (w_tick w)) (w_db w) = Inr (x, d)"
    "w' = (step_tick w)\<lparr>w_db := d\<rparr>"
  using assms by (auto simp: sql_def Let_def split: if_splits sum.splits prod.splits)

lemma bind_InrD:
  assumes "bind m f w = (Inr y, w')"
  obtains x w1 where "m w = (Inr x, w1)" "f x w1 = (Inr y, w')"
  using assms by (auto simp: bind_def split: sum.splits prod.splits)

lemma catch_throw_InrD: "catch m (\<lambda>e. throw (g e)) w = (Inr x, w') \<Longrightarrow> m w = (Inr x, w')"
  by (auto simp: catch_def throw_def split: sum.splits prod.splits)

lemma wrap_InrD: "wrap s m w = (Inr x, w') \<Longrightarrow> m w = (Inr x, w')"
  unfolding wrap_def by (rule catch_throw_InrD)

lemma no_rows_InrD: "no_rows e s m w = (Inr x, w') \<Longrightarrow> m w = (Inr x, w')"
  by (auto simp: no_rows_def catch_def throw_def split: sum.splits prod.splits if_splits)

lemma throw_InrD: "throw e w = (Inr x, w') \<Longrightarrow> False"
  by (simp add: throw_def)

lemma return_InrD: "return y w = (Inr x, w') \<Longrightarrow> x = y \<and> w' = w"
  by (simp add: return_def)

lemmas success_elims = bind_InrD sql_InrD
lemmas success_dests = wrap_InrD no_rows_InrD return_InrD

section \<open>Quiet operations\<close>

text \<open>An operation that changes neither the tables, the object store nor Redis, on any outcome.\<close>

definition same_state :: "world \<Rightarrow> world \<Rightarrow> bool" where
  "same_state w w' \<longleftrightarrow> w_db w' = w_db w \<and> w_store w' = w_store w \<and> w_redis w' = w_redis w \<and>
     w_env w' = w_env w \<and> w_tx_now w' = w_tx_now w"

definition quiet :: "'a go \<Rightarrow> bool" where
  "quiet m \<longleftrightarrow> (\<forall>w. same_state w (snd (m w)))"

named_theorems quiet_intro \<open>operations that change no stored state\<close>

lemma same_state_refl [simp]: "same_state w w"
  by (simp add: same_state_def)

lemma same_state_trans: "same_state w1 w2 \<Longrightarrow> same_state w2 w3 \<Longrightarrow> same_state w1 w3"
  by (simp add: same_state_def)

lemma same_state_step_tick [simp]: "same_state w (step_tick w)"
  by (simp add: same_state_def)

lemma quietD: "quiet m \<Longrightarrow> m w = (r, w') \<Longrightarrow> same_state w w'"
  unfolding quiet_def by (metis snd_conv)

lemma quiet_fields:
  assumes "quiet m" "m w = (r, w')"
  shows "w_db w' = w_db w" "w_store w' = w_store w" "w_redis w' = w_redis w" "w_env w' = w_env w"
    "w_tx_now w' = w_tx_now w"
  using quietD [OF assms] by (simp_all add: same_state_def)

lemma snd_attempt [simp]: "snd (attempt m w) = snd (m w)"
  by (simp add: attempt_def split: prod.split)

lemma snd_wrap [simp]: "snd (wrap s m w) = snd (m w)"
  by (simp add: wrap_def catch_def throw_def split: prod.split sum.split)

lemma snd_no_rows [simp]: "snd (no_rows e s m w) = snd (m w)"
  by (simp add: no_rows_def catch_def throw_def split: prod.split sum.split)

lemma quiet_return [quiet_intro]: "quiet (return x)"
  by (simp add: quiet_def return_def)

lemma quiet_throw [quiet_intro]: "quiet (throw e)"
  by (simp add: quiet_def throw_def)

lemma quiet_bind [quiet_intro]:
  assumes m: "quiet m" and f: "\<And>x. quiet (f x)"
  shows "quiet (bind m f)"
  unfolding quiet_def
proof
  fix w
  obtain r w1 where 1: "m w = (r, w1)" by fastforce
  show "same_state w (snd (bind m f w))"
  proof (cases r)
    case (Inl e)
    with 1 quietD [OF m 1] show ?thesis by (simp add: bind_def)
  next
    case (Inr x)
    obtain r2 w2 where 2: "f x w1 = (r2, w2)" by fastforce
    with 1 Inr same_state_trans [OF quietD [OF m 1] quietD [OF f 2]] show ?thesis
      by (simp add: bind_def)
  qed
qed

lemma quiet_catch [quiet_intro]:
  assumes m: "quiet m" and h: "\<And>e. quiet (h e)"
  shows "quiet (catch m h)"
  unfolding quiet_def
proof
  fix w
  obtain r w1 where 1: "m w = (r, w1)" by fastforce
  show "same_state w (snd (catch m h w))"
  proof (cases r)
    case (Inr x)
    with 1 quietD [OF m 1] show ?thesis by (simp add: catch_def)
  next
    case (Inl e)
    obtain r2 w2 where 2: "h e w1 = (r2, w2)" by fastforce
    with 1 Inl same_state_trans [OF quietD [OF m 1] quietD [OF h 2]] show ?thesis
      by (simp add: catch_def)
  qed
qed

lemma quiet_attempt [quiet_intro]: "quiet m \<Longrightarrow> quiet (attempt m)"
  by (simp add: quiet_def)

lemma quiet_wrap [quiet_intro]: "quiet m \<Longrightarrow> quiet (wrap s m)"
  by (simp add: quiet_def)

lemma quiet_no_rows [quiet_intro]: "quiet m \<Longrightarrow> quiet (no_rows e s m)"
  by (simp add: quiet_def)

lemma quiet_of_sum [quiet_intro]: "quiet (of_sum r)"
  by (cases r) (simp_all add: of_sum_def quiet_return quiet_throw)

lemma quiet_ask [quiet_intro]: "quiet (ask f)"
  by (simp add: quiet_def ask_def)

lemma quiet_if [quiet_intro]: "quiet m \<Longrightarrow> quiet n \<Longrightarrow> quiet (if b then m else n)"
  by simp

lemma quiet_run_if [quiet_intro]: "quiet m \<Longrightarrow> quiet (run_if b m)"
  by (simp add: run_if_def quiet_return)

lemma quiet_case_option [quiet_intro]:
  "quiet m \<Longrightarrow> (\<And>x. quiet (f x)) \<Longrightarrow> quiet (case v of None \<Rightarrow> m | Some x \<Rightarrow> f x)"
  by (cases v) auto

lemma quiet_case_sum [quiet_intro]:
  "(\<And>e. quiet (f e)) \<Longrightarrow> (\<And>x. quiet (g x)) \<Longrightarrow> quiet (case v of Inl e \<Rightarrow> f e | Inr x \<Rightarrow> g x)"
  by (cases v) auto

lemma quiet_case_prod [quiet_intro]:
  "(\<And>x y. quiet (f x y)) \<Longrightarrow> quiet (case v of (x, y) \<Rightarrow> f x y)"
  by (cases v) auto

lemma quiet_let [quiet_intro]: "quiet (f x) \<Longrightarrow> quiet (let y = x in f y)"
  by simp

lemma quiet_for_each [quiet_intro]: "(\<And>x. quiet (f x)) \<Longrightarrow> quiet (for_each f xs)"
  by (induction xs) (auto intro: quiet_return quiet_bind)

lemma quiet_calls [quiet_intro]:
  "quiet time_Now" "quiet uuid_New" "quiet (rand_Read n)"
  by (simp_all add: quiet_def time_Now_def uuid_New_def rand_Read_def)

lemma quiet_select [quiet_intro]: "quiet (sql (select f))"
  by (simp add: quiet_def sql_def select_def Let_def same_state_def)

lemma quiet_select_row [quiet_intro]: "quiet (sql (select_row f))"
  by (simp add: quiet_def sql_def select_row_def Let_def same_state_def split: option.split)

text \<open>A quiet operation keeps every property of the tables.\<close>

lemma keeps_quiet: "quiet m \<Longrightarrow> keeps (on_db I) m"
  by (simp add: keeps_def on_db_def quiet_def same_state_def)

end
