(* ===== verification/Redis.thy ===== *)
theory Redis
  imports World GoStrings
begin

text \<open>
  The Redis commands the server uses, on the association list of the world.  A key whose expiry
  is not after the time of the command is gone.  The client library sends the expiration of SET in
  milliseconds and that of EXPIRE in seconds, and at least one of them.
\<close>

section \<open>Keys\<close>

type_synonym redis_entry = "string \<times> timestamp option"

definition alive :: "timestamp \<Rightarrow> redis_entry \<Rightarrow> bool" where
  "alive now e \<longleftrightarrow> (case snd e of None \<Rightarrow> True | Some t \<Rightarrow> now < t)"

definition redis_lookup :: "timestamp \<Rightarrow> string \<Rightarrow> (string \<times> redis_entry) list \<Rightarrow> redis_entry option" where
  "redis_lookup now k r = (case map_of r k of Some e \<Rightarrow> if alive now e then Some e else None | None \<Rightarrow> None)"

definition redis_put :: "string \<Rightarrow> redis_entry \<Rightarrow> (string \<times> redis_entry) list \<Rightarrow> (string \<times> redis_entry) list" where
  "redis_put k e r = (k, e) # filter (\<lambda>(k', _). k' \<noteq> k) r"

definition redis_drop :: "string \<Rightarrow> (string \<times> redis_entry) list \<Rightarrow> (string \<times> redis_entry) list" where
  "redis_drop k r = filter (\<lambda>(k', _). k' \<noteq> k) r"

definition redis_ttl :: "int \<Rightarrow> int" where
  "redis_ttl d = max (10 ^ 6) (d div 10 ^ 6 * 10 ^ 6)"

text \<open>A command at the server's time: it fails, or yields a result and the new keys.\<close>

definition redis_cmd ::
    "(timestamp \<Rightarrow> (string \<times> redis_entry) list \<Rightarrow> (error + 'a) \<times> (string \<times> redis_entry) list) \<Rightarrow> 'a go" where
  "redis_cmd f w =
     (if env_fault (w_env w) (w_tick w) then (Inl Fault, step_tick w)
      else (case f (env_clock (w_env w) (w_tick w)) (w_redis w) of
        (r, keys) \<Rightarrow> (r, (step_tick w)\<lparr>w_redis := keys\<rparr>)))"

section \<open>Commands\<close>

text \<open>SET with an expiration; zero means none.\<close>

definition redis_Set :: "string \<Rightarrow> string \<Rightarrow> int \<Rightarrow> unit go" where
  "redis_Set k v ttl = redis_cmd (\<lambda>now r.
     (Inr (), redis_put k (v, if ttl = 0 then None else Some (now + redis_ttl ttl)) r))"

definition redis_Exists :: "string \<Rightarrow> nat go" where
  "redis_Exists k = redis_cmd (\<lambda>now r. (Inr (case redis_lookup now k r of None \<Rightarrow> 0 | Some _ \<Rightarrow> 1), r))"

definition redis_Get :: "string \<Rightarrow> string go" where
  "redis_Get k = redis_cmd (\<lambda>now r.
     (case redis_lookup now k r of None \<Rightarrow> Inl RedisNil | Some e \<Rightarrow> Inr (fst e), r))"

definition redis_Del :: "string \<Rightarrow> unit go" where
  "redis_Del k = redis_cmd (\<lambda>now r. (Inr (), redis_drop k r))"

text \<open>INCR counts from zero and keeps the expiry.\<close>

definition parse_int :: "string \<Rightarrow> int option" where
  "parse_int s =
     (if take 1 s = ''-'' then map_option (\<lambda>n. - int n) (parse_dec (drop 1 s))
      else map_option int (parse_dec s))"

definition redis_Incr :: "string \<Rightarrow> int go" where
  "redis_Incr k = redis_cmd (\<lambda>now r.
     (case redis_lookup now k r of
       None \<Rightarrow> (Inr 1, redis_put k (show_int 1, None) r)
     | Some (v, t) \<Rightarrow>
         (case parse_int v of
           None \<Rightarrow> (Inl (Errorf ''ERR value is not an integer''), r)
         | Some n \<Rightarrow> (Inr (n + 1), redis_put k (show_int (n + 1), t) r))))"

definition redis_Expire :: "string \<Rightarrow> int \<Rightarrow> unit go" where
  "redis_Expire k d = redis_cmd (\<lambda>now r.
     (case redis_lookup now k r of
       None \<Rightarrow> (Inr (), r)
     | Some (v, t) \<Rightarrow> (Inr (), redis_put k (v, Some (now + max (10 ^ 9) (d div 10 ^ 9 * 10 ^ 9))) r)))"

text \<open>TTL in whole seconds, as a duration; -1 and -2 come back as nanoseconds.\<close>

definition redis_TTL :: "string \<Rightarrow> int go" where
  "redis_TTL k = redis_cmd (\<lambda>now r.
     (Inr (case redis_lookup now k r of
         None \<Rightarrow> - 2
       | Some (v, None) \<Rightarrow> - 1
       | Some (v, Some t) \<Rightarrow> (t - now + 5 * 10 ^ 8) div 10 ^ 9 * 10 ^ 9), r))"

section \<open>Laws\<close>

lemma lookup_put: "redis_lookup now k (redis_put k' e r) =
    (if k = k' then (if alive now e then Some e else None) else redis_lookup now k r)"
proof -
  have "map_of (filter (\<lambda>(k'', _). k'' \<noteq> k') r) k = (if k = k' then None else map_of r k)"
    by (induction r) auto
  then show ?thesis by (simp add: redis_lookup_def redis_put_def)
qed

lemma redis_db:
  "w_db (snd (redis_cmd f w)) = w_db w" "w_env (snd (redis_cmd f w)) = w_env w"
  "w_store (snd (redis_cmd f w)) = w_store w" "w_tx_now (snd (redis_cmd f w)) = w_tx_now w"
  "w_tick (snd (redis_cmd f w)) = Suc (w_tick w)"
  by (simp_all add: redis_cmd_def split: prod.split)

lemma keeps_redis [keeps_intro]: "keeps (on_db I) (redis_cmd f)"
  by (simp add: keeps_def on_db_def redis_db)

end
