(* ===== verification/GoNet.thy ===== *)
theory GoNet
  imports GoStrings
begin

text \<open>
  The parts of Go's \<open>net\<close>, \<open>net/netip\<close> and \<open>math/bits\<close> packages the sources use:
  parsing of addresses and CIDR blocks, the textual form of IPv4 addresses, and bit counts.
\<close>

section \<open>Addresses\<close>

datatype ip = IPv4 u32 | IPv6 u128

text \<open>One decimal field of a dotted quad: no leading zero, at most 255.\<close>

definition parse_octet :: "string \<Rightarrow> nat option" where
  "parse_octet s = (case parse_dec s of
     None \<Rightarrow> None
   | Some n \<Rightarrow> if n \<le> 255 \<and> (hd s \<noteq> CHR ''0'' \<or> length s = 1) then Some n else None)"

definition quad :: "nat \<Rightarrow> nat \<Rightarrow> nat \<Rightarrow> nat \<Rightarrow> nat" where
  "quad a b c d = ((a * 256 + b) * 256 + c) * 256 + d"

definition parse_ipv4 :: "string \<Rightarrow> nat option" where
  "parse_ipv4 s = (case map parse_octet (Split s CHR ''.'') of
     [Some a, Some b, Some c, Some d] \<Rightarrow> Some (quad a b c d)
   | _ \<Rightarrow> None)"

definition hex_val :: "char \<Rightarrow> nat option" where
  "hex_val c = (let n = of_char c :: nat in
     if 48 \<le> n \<and> n \<le> 57 then Some (n - 48)
     else if 97 \<le> n \<and> n \<le> 102 then Some (n - 87)
     else if 65 \<le> n \<and> n \<le> 70 then Some (n - 55)
     else None)"

fun hex_fold :: "nat \<Rightarrow> string \<Rightarrow> nat option" where
  "hex_fold v [] = Some v"
| "hex_fold v (c # s) = (case hex_val c of None \<Rightarrow> None | Some d \<Rightarrow> hex_fold (16 * v + d) s)"

definition parse_group :: "string \<Rightarrow> nat option" where
  "parse_group s = (if s = [] \<or> 4 < length s then None else hex_fold 0 s)"

text \<open>
  The groups of an IPv6 literal between colons; the last one may be a dotted quad, which
  counts as two groups.
\<close>

fun parse_groups :: "string list \<Rightarrow> nat list option" where
  "parse_groups [] = Some []"
| "parse_groups [s] =
     (if CHR ''.'' \<in> set s
      then map_option (\<lambda>n. [n div 65536, n mod 65536]) (parse_ipv4 s)
      else map_option (\<lambda>g. [g]) (parse_group s))"
| "parse_groups (s # ss) =
     (case parse_group s of None \<Rightarrow> None | Some g \<Rightarrow> map_option ((#) g) (parse_groups ss))"

fun cut_ellipsis :: "string \<Rightarrow> (string \<times> string) option" where
  "cut_ellipsis [] = None"
| "cut_ellipsis [c] = None"
| "cut_ellipsis (c # d # s) =
     (if c = CHR '':'' \<and> d = CHR '':'' then Some ([], s)
      else map_option (\<lambda>(l, r). (c # l, r)) (cut_ellipsis (d # s)))"

definition side_groups :: "string \<Rightarrow> nat list option" where
  "side_groups s = (if s = [] then Some [] else parse_groups (Split s CHR '':''))"

definition groups_val :: "nat list \<Rightarrow> nat" where
  "groups_val gs = foldl (\<lambda>v g. v * 65536 + g) 0 gs"

definition parse_ipv6 :: "string \<Rightarrow> nat option" where
  "parse_ipv6 s = (case cut_ellipsis s of
     None \<Rightarrow> (case parse_groups (Split s CHR '':'') of
         Some gs \<Rightarrow> if length gs = 8 then Some (groups_val gs) else None
       | None \<Rightarrow> None)
   | Some (l, r) \<Rightarrow>
       if CHR ''.'' \<in> set l then None
       else (case (side_groups l, side_groups r) of
         (Some ls, Some rs) \<Rightarrow>
           if length ls + length rs < 8
           then Some (groups_val (ls @ replicate (8 - length ls - length rs) 0 @ rs))
           else None
       | _ \<Rightarrow> None))"

text \<open>
  \<open>netip.ParseAddr\<close>: the first separator decides the family.  A zone (after a percent
  sign) makes both callers below refuse the address, so it is refused here.
\<close>

definition ParseAddr :: "string \<Rightarrow> ip option" where
  "ParseAddr s =
     (if CHR ''%'' \<in> set s then None
      else (case find_first (\<lambda>c. c = CHR ''.'' \<or> c = CHR '':'') s of
        None \<Rightarrow> None
      | Some c \<Rightarrow>
          if c = CHR ''.'' then map_option (\<lambda>n. IPv4 (of_nat n)) (parse_ipv4 s)
          else map_option (\<lambda>n. IPv6 (of_nat n)) (parse_ipv6 s)))"

text \<open>\<open>net.ParseIP\<close>, and \<open>IP.To4\<close> with its IPv4-mapped IPv6 addresses.\<close>

definition ParseIP :: "string \<Rightarrow> ip option" where
  "ParseIP s = ParseAddr s"

fun To4 :: "ip \<Rightarrow> u32 option" where
  "To4 (IPv4 a) = Some a"
| "To4 (IPv6 a) = (if drop_bit 32 a = 0xFFFF then Some (ucast a) else None)"

definition ParseIP4 :: "string \<Rightarrow> u32 option" where
  "ParseIP4 s = (case ParseIP s of None \<Rightarrow> None | Some a \<Rightarrow> To4 a)"

section \<open>CIDR blocks\<close>

text \<open>A parsed block: its masked base address and its prefix length.\<close>

record ipnet =
  net_ip :: ip
  net_ones :: nat

unbundle bit_operations_syntax

definition mask_ip :: "ip \<Rightarrow> nat \<Rightarrow> ip" where
  "mask_ip a n = (case a of
     IPv4 w \<Rightarrow> IPv4 (w AND NOT (mask (32 - n)))
   | IPv6 w \<Rightarrow> IPv6 (w AND NOT (mask (128 - n))))"

lemma and_not_mask: "(w :: 'a::len word) AND NOT (mask k) = push_bit k (drop_bit k w)"
  by (rule bit_eqI) (auto simp: bit_simps)

lemma mask_ip_shift:
  "mask_ip a n = (case a of
     IPv4 w \<Rightarrow> IPv4 (push_bit (32 - n) (drop_bit (32 - n) w))
   | IPv6 w \<Rightarrow> IPv6 (push_bit (128 - n) (drop_bit (128 - n) w)))"
  by (simp add: mask_ip_def and_not_mask split: ip.split)

fun ip_bits :: "ip \<Rightarrow> nat" where
  "ip_bits (IPv4 _) = 32"
| "ip_bits (IPv6 _) = 128"

definition ParseCIDR :: "string \<Rightarrow> ipnet option" where
  "ParseCIDR s = (case Cut s CHR ''/'' of
     None \<Rightarrow> None
   | Some (addr, m) \<Rightarrow>
       (case ParseAddr addr of
         None \<Rightarrow> None
       | Some a \<Rightarrow>
           (case parse_dec m of
             None \<Rightarrow> None
           | Some n \<Rightarrow>
               if n \<le> ip_bits a then Some \<lparr>net_ip = mask_ip a n, net_ones = n\<rparr> else None)))"

section \<open>Printing IPv4 addresses\<close>

definition octet :: "nat \<Rightarrow> nat \<Rightarrow> nat" where
  "octet i n = n div 256 ^ i mod 256"

definition show_ipv4 :: "u32 \<Rightarrow> string" where
  "show_ipv4 w = (let n = unat w in
     Join [show_nat (octet 3 n), show_nat (octet 2 n),
           show_nat (octet 1 n), show_nat (octet 0 n)] ''.'')"

lemma quad_octets: "n < 2 ^ 32 \<Longrightarrow> quad (octet 3 n) (octet 2 n) (octet 1 n) (octet 0 n) = n"
proof -
  assume n: "n < 2 ^ 32"
  define a b c where "a = n div 256" and "b = a div 256" and "c = b div 256"
  have eqs: "n div 256 ^ 2 = b" "n div 256 ^ 3 = c"
    by (simp_all add: a_def b_def c_def div_mult2_eq [symmetric])
  have "c mod 256 = c"
    using n by (simp add: a_def b_def c_def div_mult2_eq [symmetric] less_mult_imp_div_less)
  moreover have "b = c * 256 + b mod 256" "a = b * 256 + a mod 256" "n = a * 256 + n mod 256"
    by (simp_all add: a_def b_def c_def)
  ultimately show ?thesis
    by (simp add: quad_def octet_def eqs [unfolded numeral_2_eq_2 numeral_3_eq_3, simplified] eqs
        flip: a_def)
qed

lemma octet_less: "octet i n < 256"
  by (simp add: octet_def)

lemma show_nat_hd_or_1: "hd (show_nat n) \<noteq> CHR ''0'' \<or> length (show_nat n) = 1"
proof (cases "n = 0")
  case True
  then show ?thesis by (simp add: show_nat.simps)
next
  case False
  then show ?thesis using show_nat_head by simp
qed

lemma parse_octet_show [parse_simps]: "n < 256 \<Longrightarrow> parse_octet (show_nat n) = Some n"
  using show_nat_hd_or_1 [of n] by (auto simp: parse_octet_def parse_simps)

lemma dot_not_digit: "\<not> is_digit CHR ''.''" "\<not> is_digit CHR ''/''" "\<not> is_digit CHR ''%''"
  "\<not> is_digit CHR '':''"
  by (simp_all add: is_digit_def)

lemma Split_show_ipv4:
  "Split (show_ipv4 w) CHR ''.'' =
     [show_nat (octet 3 (unat w)), show_nat (octet 2 (unat w)),
      show_nat (octet 1 (unat w)), show_nat (octet 0 (unat w))]"
  unfolding show_ipv4_def Let_def
  by (rule Split_Join) (auto dest: not_digit_show_nat [OF dot_not_digit(1), THEN notE])

lemma parse_show_ipv4 [parse_simps]: "parse_ipv4 (show_ipv4 w) = Some (unat w)"
  using unat_lt_2p32 [of w]
  using quad_octets [of "unat w"]
  by (simp add: parse_ipv4_def Split_show_ipv4 parse_simps octet_less)

lemma set_show_ipv4: "c \<in> set (show_ipv4 w) \<Longrightarrow> is_digit c \<or> c = CHR ''.''"
  unfolding show_ipv4_def Let_def
  using not_digit_show_nat by (auto)

lemma dot_in_show_ipv4: "CHR ''.'' \<in> set (show_ipv4 w)"
  by (simp add: show_ipv4_def Let_def)

lemma ParseAddr_show_ipv4 [parse_simps]: "ParseAddr (show_ipv4 w) = Some (IPv4 w)"
proof -
  have no: "c \<notin> set (show_ipv4 w)" if "\<not> is_digit c" "c \<noteq> CHR ''.''" for c
    using that set_show_ipv4 by blast
  obtain c where c: "find_first (\<lambda>c. c = CHR ''.'' \<or> c = CHR '':'') (show_ipv4 w) = Some c"
    using find_first_ex [OF dot_in_show_ipv4, of "\<lambda>c. c = CHR ''.'' \<or> c = CHR '':''"] by auto
  then have "c = CHR ''.''"
    using no [of "CHR '':''"] dot_not_digit by (auto dest: find_first_SomeD)
  with c no [of "CHR ''%''"] dot_not_digit show ?thesis
    by (simp add: ParseAddr_def parse_simps)
qed

lemma ParseIP4_show_ipv4 [parse_simps]: "ParseIP4 (show_ipv4 w) = Some w"
  by (simp add: ParseIP4_def ParseIP_def parse_simps)

lemma ParseCIDR_show [parse_simps]:
  assumes "n \<le> 32"
  shows "ParseCIDR (show_ipv4 w @ ''/'' @ show_nat n) =
    Some \<lparr>net_ip = mask_ip (IPv4 w) n, net_ones = n\<rparr>"
proof -
  have "CHR ''/'' \<notin> set (show_ipv4 w)"
    using set_show_ipv4 dot_not_digit by auto
  then have "Cut (show_ipv4 w @ CHR ''/'' # show_nat n) CHR ''/'' = Some (show_ipv4 w, show_nat n)"
    by (rule Cut_append)
  with assms show ?thesis by (simp add: ParseCIDR_def parse_simps)
qed

lemma show_ipv4_inj: "show_ipv4 v = show_ipv4 w \<Longrightarrow> v = w"
  using ParseIP4_show_ipv4 by (metis option.inject)

section \<open>Bit counts\<close>

text \<open>\<open>bits.TrailingZeros32\<close> (32 for zero) and \<open>bits.LeadingZeros64\<close> (64 for zero).\<close>

fun trailing_zeros :: "nat \<Rightarrow> nat" where
  "trailing_zeros n = (if n = 0 \<or> odd n then 0 else Suc (trailing_zeros (n div 2)))"

declare trailing_zeros.simps [simp del]

definition TrailingZeros32 :: "u32 \<Rightarrow> nat" where
  "TrailingZeros32 w = (if w = 0 then 32 else trailing_zeros (unat w))"

fun bit_len :: "nat \<Rightarrow> nat" where
  "bit_len n = (if n = 0 then 0 else Suc (bit_len (n div 2)))"

declare bit_len.simps [simp del]

definition LeadingZeros64 :: "u64 \<Rightarrow> nat" where
  "LeadingZeros64 w = 64 - bit_len (unat w)"

lemma trailing_zeros_dvd: "2 ^ trailing_zeros n dvd n"
proof (induction n rule: trailing_zeros.induct)
  case (1 n)
  show ?case
  proof (cases "n = 0 \<or> odd n")
    case True
    then show ?thesis by (simp add: trailing_zeros.simps [of n])
  next
    case False
    then obtain m where "n = 2 * m" by auto
    with False 1 show ?thesis by (simp add: trailing_zeros.simps [of "2 * m"])
  qed
qed

lemma bit_len_bounds: "n \<noteq> 0 \<Longrightarrow> 2 ^ (bit_len n - 1) \<le> n \<and> n < 2 ^ bit_len n \<and> 0 < bit_len n"
proof (induction n rule: bit_len.induct)
  case (1 n)
  show ?case
  proof (cases "n div 2 = 0")
    case True
    with 1(2) have "n = 1" by auto
    then show ?thesis by (simp add: bit_len.simps)
  next
    case False
    with 1 have IH: "2 ^ (bit_len (n div 2) - 1) \<le> n div 2" "n div 2 < 2 ^ bit_len (n div 2)"
      "0 < bit_len (n div 2)" by auto
    have "2 ^ bit_len (n div 2) = 2 * (2 :: nat) ^ (bit_len (n div 2) - 1)"
      using IH(3) by (cases "bit_len (n div 2)") auto
    with IH have "2 ^ bit_len (n div 2) \<le> n" by linarith
    with IH 1(2) show ?thesis by (simp add: bit_len.simps [of n])
  qed
qed

lemma bit_len_mono_bound: "n < 2 ^ k \<Longrightarrow> bit_len n \<le> k"
proof (cases "n = 0")
  case True
  then show ?thesis by (simp add: bit_len.simps)
next
  case False
  assume "n < 2 ^ k"
  with bit_len_bounds [OF False] have "(2 :: nat) ^ (bit_len n - 1) < 2 ^ k" by linarith
  then show ?thesis by simp
qed

end
