(* ===== verification/Float64.thy ===== *)
theory Float64
  imports Complex_Main GoNet
begin

text \<open>
  Go's \<open>float64\<close> for amounts of money: a float is the rational number it denotes, and every
  operation rounds its exact result to 53 significant bits, ties to even.  The magnitudes here
  lie between \<open>10 ^ -2\<close> and \<open>10 ^ 22\<close>, or are 0, so that neither overflow nor subnormal
  numbers occur and the exponent needs no bounds.

  The lemmas bound the rounding error and show that amounts of whole cents survive the code's
  \<open>round2\<close> and its differences exactly.
\<close>

type_synonym float64 = rat

section \<open>Rounding\<close>

definition pow2 :: "int \<Rightarrow> rat" where
  "pow2 e = (if e \<ge> 0 then 2 ^ nat e else 1 / 2 ^ nat (- e))"

text \<open>The exponent of the leading bit of a positive number.\<close>

definition fexp :: "rat \<Rightarrow> int" where
  "fexp x =
     (let (n, d) = quotient_of x; e = int (bit_len (nat n)) - int (bit_len (nat d))
      in if pow2 e \<le> x then e else e - 1)"

definition round_even :: "rat \<Rightarrow> int" where
  "round_even x =
     (let f = \<lfloor>x\<rfloor>; r = x - of_int f
      in if r < 1 / 2 then f else if r > 1 / 2 then f + 1 else if even f then f else f + 1)"

definition fl :: "rat \<Rightarrow> float64" where
  "fl x = (if x = 0 then 0 else
     (let u = pow2 (fexp \<bar>x\<bar> - 52) in of_int (round_even (x / u)) * u))"

text \<open>\<open>math.Round\<close>: to the nearest integer, halves away from zero.\<close>

definition math_Round :: "float64 \<Rightarrow> float64" where
  "math_Round x = of_int (if x \<ge> 0 then \<lfloor>x + 1 / 2\<rfloor> else - \<lfloor>- x + 1 / 2\<rfloor>)"

section \<open>The rounding error\<close>

lemma pow2_pos [simp]: "0 < pow2 e" "pow2 e \<noteq> 0"
  by (simp_all add: pow2_def)

lemma pow2_Suc: "pow2 (e + 1) = 2 * pow2 e"
proof (cases "e \<ge> 0")
  case True
  then show ?thesis by (simp add: pow2_def nat_add_distrib)
next
  case False
  then have "nat (- e) = Suc (nat (- (e + 1)))" by linarith
  with False show ?thesis by (cases "e = - 1") (simp_all add: pow2_def)
qed

lemma pow2_add_nat: "pow2 (e + int n) = 2 ^ n * pow2 e"
proof (induction n)
  case (Suc n)
  have "pow2 (e + int (Suc n)) = pow2 ((e + int n) + 1)" by (simp add: algebra_simps)
  then show ?case using Suc by (simp add: pow2_Suc)
qed simp

lemma pow2_diff: "pow2 (int a - int b) = 2 ^ a / 2 ^ b"
proof -
  have 1: "pow2 (int a) = 2 ^ b * pow2 (int a - int b)"
    using pow2_add_nat [of "int a - int b" b] by simp
  have "pow2 (int a) = 2 ^ a" by (simp add: pow2_def)
  with 1 show ?thesis by (simp add: field_simps)
qed

lemma fexp_bounds:
  assumes "0 < x"
  shows "pow2 (fexp x) \<le> x" "x < pow2 (fexp x + 1)"
proof -
  obtain n d where q: "quotient_of x = (n, d)" by fastforce
  have d: "d > 0" and x: "x = of_int n / of_int d"
    using quotient_of_denom_pos [OF q] quotient_of_div [OF q] by simp_all
  have n: "n > 0" using assms d by (simp add: x zero_less_divide_iff)
  define a b where "a = bit_len (nat n)" and "b = bit_len (nat d)"
  have nb: "(2 :: rat) ^ (a - 1) \<le> of_int n" "(of_int n :: rat) < 2 ^ a" "0 < a"
  proof -
    have "2 ^ (a - 1) \<le> nat n" "nat n < 2 ^ a" using bit_len_bounds [of "nat n"] n by (auto simp: a_def)
    then have "int (2 ^ (a - 1)) \<le> n" "n < int (2 ^ a)" using n by linarith+
    then show "(2 :: rat) ^ (a - 1) \<le> of_int n" "(of_int n :: rat) < 2 ^ a"
      by (metis of_int_le_iff of_int_numeral of_int_power of_nat_numeral of_nat_power)
        (metis \<open>n < int (2 ^ a)\<close> of_int_less_iff of_int_numeral of_int_power of_nat_numeral of_nat_power)
    show "0 < a" using n by (auto simp: a_def bit_len.simps [of "nat n"])
  qed
  have db: "(2 :: rat) ^ (b - 1) \<le> of_int d" "(of_int d :: rat) < 2 ^ b" "0 < b"
  proof -
    have "2 ^ (b - 1) \<le> nat d" "nat d < 2 ^ b" using bit_len_bounds [of "nat d"] d by (auto simp: b_def)
    then have "int (2 ^ (b - 1)) \<le> d" "d < int (2 ^ b)" using d by linarith+
    then show "(2 :: rat) ^ (b - 1) \<le> of_int d" "(of_int d :: rat) < 2 ^ b"
      by (metis of_int_le_iff of_int_numeral of_int_power of_nat_numeral of_nat_power)
        (metis \<open>d < int (2 ^ b)\<close> of_int_less_iff of_int_numeral of_int_power of_nat_numeral of_nat_power)
    show "0 < b" using d by (auto simp: b_def bit_len.simps [of "nat d"])
  qed
  define e where "e = int a - int b"
  obtain a' b' where ab: "a = Suc a'" "b = Suc b'" using nb(3) db(3) by (cases a; cases b) auto
  have dp: "(0 :: rat) < of_int d" using d by simp
  have "x < 2 ^ a / 2 ^ b'"
  proof -
    have "x \<le> of_int n / 2 ^ b'"
      unfolding x using n db(1) dp by (intro divide_left_mono) (auto simp: ab)
    also have "\<dots> < 2 ^ a / 2 ^ b'" using nb(2) by (simp add: divide_strict_right_mono)
    finally show ?thesis .
  qed
  then have up: "x < pow2 (e + 1)" by (simp add: e_def pow2_Suc pow2_diff ab)
  have "2 ^ a' / 2 ^ b < x"
  proof -
    have "2 ^ a' / 2 ^ b \<le> of_int n / (2 :: rat) ^ b"
      using nb(1) by (simp add: ab divide_right_mono)
    also have "\<dots> < x"
      unfolding x using n db(2) dp by (intro divide_strict_left_mono) auto
    finally show ?thesis .
  qed
  moreover have "pow2 (e - 1) = 2 ^ a' / 2 ^ b"
    using pow2_Suc [of "e - 1"] by (simp add: e_def pow2_diff ab)
  ultimately have low: "pow2 (e - 1) < x" by simp
  have f: "fexp x = (if pow2 e \<le> x then e else e - 1)"
    by (simp add: fexp_def q e_def a_def b_def Let_def)
  show "pow2 (fexp x) \<le> x" using low by (simp add: f)
  show "x < pow2 (fexp x + 1)" using up by (simp add: f)
qed

lemma round_even_error: "\<bar>of_int (round_even x) - x\<bar> \<le> 1 / 2"
proof -
  have "of_int \<lfloor>x\<rfloor> \<le> x" "x < of_int \<lfloor>x\<rfloor> + 1" by linarith+
  then show ?thesis by (auto simp: round_even_def Let_def abs_le_iff)
qed

text \<open>The relative error of a rounded operation is at most \<open>2 ^ -53\<close>.\<close>

lemma fl_error: "\<bar>fl x - x\<bar> \<le> \<bar>x\<bar> / 2 ^ 53"
proof (cases "x = 0")
  case False
  define u where "u = pow2 (fexp \<bar>x\<bar> - 52)"
  have u: "0 < u" by (simp add: u_def)
  have "fl x - x = (of_int (round_even (x / u)) - x / u) * u"
    using False u by (simp add: fl_def Let_def u_def [symmetric] algebra_simps)
  then have "\<bar>fl x - x\<bar> = \<bar>of_int (round_even (x / u)) - x / u\<bar> * u"
    using u by (simp add: abs_mult)
  also have "\<dots> \<le> 1 / 2 * u"
    using round_even_error u by (intro mult_right_mono) auto
  also have "\<dots> \<le> \<bar>x\<bar> / 2 ^ 53"
  proof -
    have "2 ^ 52 * u = pow2 (fexp \<bar>x\<bar>)"
      using pow2_add_nat [of "fexp \<bar>x\<bar> - 52" 52] by (simp add: u_def)
    also have "\<dots> \<le> \<bar>x\<bar>" using False by (intro fexp_bounds) simp
    finally show ?thesis by simp
  qed
  finally show ?thesis .
qed (simp add: fl_def)

lemma fl_0 [simp]: "fl 0 = 0"
  by (simp add: fl_def)

lemma math_Round_near: "\<bar>x - of_int k\<bar> < 1 / 2 \<Longrightarrow> math_Round x = of_int k"
proof -
  assume "\<bar>x - of_int k\<bar> < 1 / 2"
  then have k: "of_int k - 1 / 2 < x" "x < of_int k + 1 / 2" by arith+
  have "\<lfloor>x + 1 / 2\<rfloor> = k" "\<lfloor>- x + 1 / 2\<rfloor> = - k"
    using k by (intro floor_unique; simp)+
  then show ?thesis by (simp add: math_Round_def)
qed

lemma math_Round_error: "\<bar>math_Round x - x\<bar> \<le> 1 / 2"
proof -
  have "of_int \<lfloor>y\<rfloor> \<le> y" "y < of_int \<lfloor>y\<rfloor> + 1" for y :: rat by linarith+
  note f = this [of "x + 1 / 2"] this [of "- x + 1 / 2"]
  have "\<bar>of_int \<lfloor>x + 1 / 2\<rfloor> - x\<bar> \<le> 1 / 2" "\<bar>- of_int \<lfloor>- x + 1 / 2\<rfloor> - x\<bar> \<le> 1 / 2"
    using f by arith+
  then show ?thesis by (simp add: math_Round_def)
qed

section \<open>Amounts of money\<close>

text \<open>The float read from a NUMERIC column that holds \<open>k\<close> hundredths: the nearest one.\<close>

definition cents :: "int \<Rightarrow> float64" where
  "cents k = fl (of_int k / 100)"

text \<open>The hundredths a float is stored as: rounded, halves away from zero.\<close>

definition numeric2 :: "float64 \<Rightarrow> int" where
  "numeric2 v = (if v \<ge> 0 then \<lfloor>v * 100 + 1 / 2\<rfloor> else - \<lfloor>- (v * 100) + 1 / 2\<rfloor>)"

text \<open>\<open>round2\<close> of the billing service.\<close>

definition round2 :: "float64 \<Rightarrow> float64" where
  "round2 v = fl (math_Round (fl (v * 100)) / 100)"

lemma numeric2_eq: "of_int (numeric2 v) = math_Round (v * 100)"
  by (simp add: numeric2_def math_Round_def zero_le_mult_iff)

lemma cents_error: "\<bar>cents k * 100 - of_int k\<bar> \<le> \<bar>of_int k\<bar> / 2 ^ 53"
proof -
  have "\<bar>cents k - of_int k / 100\<bar> \<le> \<bar>of_int k / 100\<bar> / 2 ^ 53"
    unfolding cents_def by (rule fl_error)
  then have "\<bar>cents k - of_int k / 100\<bar> * 100 \<le> \<bar>of_int k\<bar> / 2 ^ 53"
    by (simp add: abs_divide)
  moreover have "\<bar>cents k * 100 - of_int k\<bar> = \<bar>cents k - of_int k / 100\<bar> * 100"
    by (simp add: abs_if algebra_simps)
  ultimately show ?thesis by simp
qed

text \<open>A float close to a whole number of cents is rounded to it.\<close>

lemma round2_near:
  assumes "\<bar>v * 100 - of_int k\<bar> \<le> 1 / 4" "\<bar>of_int k\<bar> \<le> (10 ^ 13 :: rat)"
  shows "round2 v = cents k"
proof -
  have "\<bar>v * 100\<bar> \<le> 10 ^ 13 + 1 / 4" using assms by arith
  then have "\<bar>fl (v * 100) - v * 100\<bar> \<le> (10 ^ 13 + 1 / 4) / 2 ^ 53"
    using fl_error [of "v * 100"] by (simp add: field_simps)
  moreover have "(10 ^ 13 + 1 / 4) / 2 ^ 53 < (1 / 4 :: rat)" by simp
  ultimately have "\<bar>fl (v * 100) - of_int k\<bar> < 1 / 2" using assms(1) by arith
  then show ?thesis by (simp add: round2_def math_Round_near cents_def)
qed

lemma cents_near: "\<bar>of_int k\<bar> \<le> (10 ^ 13 :: rat) \<Longrightarrow> \<bar>cents k * 100 - of_int k\<bar> \<le> 1 / 8"
proof -
  assume "\<bar>of_int k\<bar> \<le> (10 ^ 13 :: rat)"
  then have "\<bar>of_int k\<bar> / 2 ^ 53 \<le> (10 ^ 13 / 2 ^ 53 :: rat)" by (simp add: divide_right_mono)
  moreover have "(10 ^ 13 / 2 ^ 53 :: rat) \<le> 1 / 8" by simp
  ultimately show ?thesis using cents_error [of k] by linarith
qed

lemma round2_cents [simp]: "\<bar>k\<bar> \<le> 10 ^ 13 \<Longrightarrow> round2 (cents k) = cents k"
proof (rule round2_near)
  assume "\<bar>k\<bar> \<le> 10 ^ 13"
  then show k: "\<bar>of_int k\<bar> \<le> (10 ^ 13 :: rat)"
    by (metis of_int_abs of_int_le_iff of_int_numeral of_int_power)
  show "\<bar>cents k * 100 - of_int k\<bar> \<le> 1 / 4" using cents_near [OF k] by simp
qed

lemma numeric2_near:
  assumes "\<bar>v * 100 - of_int k\<bar> < 1 / 2"
  shows "numeric2 v = k"
proof -
  have "of_int (numeric2 v) = (of_int k :: rat)"
    unfolding numeric2_eq using assms by (rule math_Round_near)
  then show ?thesis by simp
qed

lemma numeric2_cents [simp]: "\<bar>k\<bar> \<le> 10 ^ 13 \<Longrightarrow> numeric2 (cents k) = k"
proof (rule numeric2_near)
  assume "\<bar>k\<bar> \<le> 10 ^ 13"
  then have "\<bar>of_int k\<bar> \<le> (10 ^ 13 :: rat)"
    by (metis of_int_abs of_int_le_iff of_int_numeral of_int_power)
  then show "\<bar>cents k * 100 - of_int k\<bar> < 1 / 2" using cents_near by fastforce
qed

text \<open>The difference of two amounts, computed in floats and rounded, is the exact difference.\<close>

lemma round2_diff:
  assumes "\<bar>a\<bar> \<le> 10 ^ 12" "\<bar>b\<bar> \<le> 10 ^ 12"
  shows "round2 (fl (cents a - cents b)) = cents (a - b)"
proof (rule round2_near)
  have ab: "\<bar>of_int a\<bar> \<le> (10 ^ 12 :: rat)" "\<bar>of_int b\<bar> \<le> (10 ^ 12 :: rat)"
    using assms by (metis of_int_abs of_int_le_iff of_int_numeral of_int_power)+
  then show "\<bar>of_int (a - b)\<bar> \<le> (10 ^ 13 :: rat)" by (simp add: abs_le_iff)
  have bounds: "(10 ^ 12 / 2 ^ 53 :: rat) \<le> 1 / 64" by simp
  have c: "\<bar>cents k * 100 - of_int k\<bar> \<le> 1 / 64" if "\<bar>of_int k\<bar> \<le> (10 ^ 12 :: rat)" for k
  proof -
    have "\<bar>of_int k\<bar> / 2 ^ 53 \<le> (10 ^ 12 / 2 ^ 53 :: rat)" using that by (simp add: divide_right_mono)
    with bounds cents_error [of k] show ?thesis by linarith
  qed
  define d where "d = cents a - cents b"
  have d: "\<bar>d * 100 - of_int (a - b)\<bar> \<le> 1 / 32"
    using c [OF ab(1)] c [OF ab(2)] unfolding d_def left_diff_distrib of_int_diff by arith
  have "\<bar>of_int (a - b)\<bar> \<le> (2 * 10 ^ 12 :: rat)" using ab by (simp add: abs_le_iff)
  then have "\<bar>d\<bar> * 100 \<le> 2 * 10 ^ 12 + 1" using d by (simp add: abs_le_iff abs_if split: if_splits)
  then have "\<bar>fl d - d\<bar> * 100 \<le> (2 * 10 ^ 12 + 1) / 2 ^ 53"
    using fl_error [of d] by simp
  then have "\<bar>fl d - d\<bar> * 100 \<le> 1 / 8" by simp
  with d show "\<bar>fl (cents a - cents b) * 100 - of_int (a - b)\<bar> \<le> 1 / 4"
    unfolding d_def [symmetric] by (simp add: abs_le_iff abs_if split: if_splits)
qed

end
