(* ===== verification/Encoding.thy ===== *)
theory Encoding
  imports GoStrings "HOL-Library.List_Lexorder" "HOL-Library.Char_ord"
begin

text \<open>
  The encodings of Go's standard library the sources use, on byte strings: \<open>encoding/base64\<close>
  (standard with padding, URL without), \<open>encoding/hex\<close>, the text form of a UUID, and the
  escaping of \<open>net/url\<close>, with their round trips.
\<close>

section \<open>Base64\<close>

definition std_alphabet :: string where
  "std_alphabet = ''ABCDEFGHIJKLMNOPQRSTUVWXYZabcdefghijklmnopqrstuvwxyz0123456789+/''"

definition url_alphabet :: string where
  "url_alphabet = ''ABCDEFGHIJKLMNOPQRSTUVWXYZabcdefghijklmnopqrstuvwxyz0123456789-_''"

abbreviation byte :: "char \<Rightarrow> nat" where "byte c \<equiv> of_char c"

fun base64_encode :: "string \<Rightarrow> bool \<Rightarrow> string \<Rightarrow> string" where
  "base64_encode alpha pad [] = []"
| "base64_encode alpha pad [a] =
     [alpha ! (byte a div 4), alpha ! (byte a mod 4 * 16)] @ (if pad then ''=='' else [])"
| "base64_encode alpha pad [a, b] =
     [alpha ! (byte a div 4), alpha ! (byte a mod 4 * 16 + byte b div 16),
      alpha ! (byte b mod 16 * 4)] @ (if pad then ''='' else [])"
| "base64_encode alpha pad (a # b # c # s) =
     [alpha ! (byte a div 4), alpha ! (byte a mod 4 * 16 + byte b div 16),
      alpha ! (byte b mod 16 * 4 + byte c div 64), alpha ! (byte c mod 64)]
     @ base64_encode alpha pad s"

definition StdEncoding_EncodeToString :: "string \<Rightarrow> string" where
  "StdEncoding_EncodeToString = base64_encode std_alphabet True"

definition RawURLEncoding_EncodeToString :: "string \<Rightarrow> string" where
  "RawURLEncoding_EncodeToString = base64_encode url_alphabet False"

text \<open>The decoder: groups of four characters, the last one padded or, without padding, short.\<close>

definition b64_val :: "string \<Rightarrow> char \<Rightarrow> nat option" where
  "b64_val alpha c = IndexByte alpha c"

definition b64_two :: "string \<Rightarrow> char \<Rightarrow> char \<Rightarrow> string option" where
  "b64_two alpha a b = (case (b64_val alpha a, b64_val alpha b) of
     (Some i, Some j) \<Rightarrow> Some [char_of (i * 4 + j div 16)] | _ \<Rightarrow> None)"

definition b64_three :: "string \<Rightarrow> char \<Rightarrow> char \<Rightarrow> char \<Rightarrow> string option" where
  "b64_three alpha a b c = (case (b64_val alpha a, b64_val alpha b, b64_val alpha c) of
     (Some i, Some j, Some k) \<Rightarrow>
       Some [char_of (i * 4 + j div 16), char_of (j mod 16 * 16 + k div 4)]
   | _ \<Rightarrow> None)"

definition b64_four :: "string \<Rightarrow> char \<Rightarrow> char \<Rightarrow> char \<Rightarrow> char \<Rightarrow> string option" where
  "b64_four alpha a b c d =
     (case (b64_val alpha a, b64_val alpha b, b64_val alpha c, b64_val alpha d) of
       (Some i, Some j, Some k, Some l) \<Rightarrow>
         Some [char_of (i * 4 + j div 16), char_of (j mod 16 * 16 + k div 4),
               char_of (k mod 4 * 64 + l)]
     | _ \<Rightarrow> None)"

fun base64_decode :: "string \<Rightarrow> bool \<Rightarrow> string \<Rightarrow> string option" where
  "base64_decode alpha pad [] = Some []"
| "base64_decode alpha pad [a] = None"
| "base64_decode alpha pad [a, b] = (if pad then None else b64_two alpha a b)"
| "base64_decode alpha pad [a, b, c] = (if pad then None else b64_three alpha a b c)"
| "base64_decode alpha pad (a # b # c # d # s) =
     (if pad \<and> s = [] \<and> d = CHR ''='' then
        (if c = CHR ''='' then b64_two alpha a b else b64_three alpha a b c)
      else (case b64_four alpha a b c d of
        None \<Rightarrow> None
      | Some t \<Rightarrow> map_option ((@) t) (base64_decode alpha pad s)))"

text \<open>The decoder of the library skips carriage returns and line feeds.\<close>

definition StdEncoding_DecodeString :: "string \<Rightarrow> string option" where
  "StdEncoding_DecodeString s =
     base64_decode std_alphabet True (filter (\<lambda>c. c \<noteq> CHR 0x0A \<and> c \<noteq> CHR 0x0D) s)"

definition RawURLEncoding_DecodeString :: "string \<Rightarrow> string option" where
  "RawURLEncoding_DecodeString s =
     base64_decode url_alphabet False (filter (\<lambda>c. c \<noteq> CHR 0x0A \<and> c \<noteq> CHR 0x0D) s)"

definition good_alphabet :: "string \<Rightarrow> bool" where
  "good_alphabet alpha \<longleftrightarrow> length alpha = 64 \<and> distinct alpha \<and> CHR ''='' \<notin> set alpha"

lemma alphabets: "good_alphabet std_alphabet" "good_alphabet url_alphabet"
  by (simp_all add: good_alphabet_def std_alphabet_def url_alphabet_def)

lemma IndexByte_nth: "distinct s \<Longrightarrow> i < length s \<Longrightarrow> IndexByte s (s ! i) = Some i"
proof (induction s arbitrary: i)
  case (Cons c s)
  then show ?case by (cases i) auto
qed simp

lemma b64_val_nth: "good_alphabet alpha \<Longrightarrow> i < 64 \<Longrightarrow> b64_val alpha (alpha ! i) = Some i"
  by (simp add: b64_val_def good_alphabet_def IndexByte_nth)

lemma nth_alpha_not_pad: "good_alphabet alpha \<Longrightarrow> i < 64 \<Longrightarrow> alpha ! i \<noteq> CHR ''=''"
  unfolding good_alphabet_def by (metis nth_mem)

lemma byte_less: "byte c < 256"
  using of_char_mod_256 [of c, where ?'a = nat] by (metis mod_less_divisor zero_less_numeral)

lemma div_below: "(x :: nat) < n * m \<Longrightarrow> x div n < m"
  by (simp add: less_mult_imp_div_less mult.commute)

lemma mix_less: "(x :: nat) < n \<Longrightarrow> y < m \<Longrightarrow> x * m + y < n * m"
proof -
  assume "x < n" "y < m"
  then have "x * m + y < Suc x * m" and "Suc x * m \<le> n * m"
    by (simp, intro mult_le_mono1) simp
  then show ?thesis by linarith
qed

lemma mix_div: "(y :: nat) < m \<Longrightarrow> (x * m + y) div m = x"
  by simp

lemma mix_mod: "(y :: nat) < m \<Longrightarrow> (x * m + y) mod m = y"
  by simp

lemma byte_parts:
  "byte c div 4 < 64" "byte c div 16 < 16" "byte c div 64 < 4" "byte c mod 4 * 16 < 64"
  "byte c mod 16 * 4 < 64" "byte c mod 64 < 64"
  "byte c mod 4 * 16 + byte d div 16 < 64" "byte c mod 16 * 4 + byte d div 64 < 64"
proof -
  have d: "byte x div 4 < 64" "byte x div 16 < 16" "byte x div 64 < 4" for x
    using byte_less [of x] by (simp_all add: div_below)
  then show "byte c div 4 < 64" "byte c div 16 < 16" "byte c div 64 < 4" by simp_all
  show "byte c mod 4 * 16 < 64" "byte c mod 16 * 4 < 64" "byte c mod 64 < 64"
    using mod_less_divisor [of 4 "byte c"] mod_less_divisor [of 16 "byte c"] by linarith+
  show "byte c mod 4 * 16 + byte d div 16 < 64"
    using mix_less [of "byte c mod 4" 4 "byte d div 16" 16] d by simp
  show "byte c mod 16 * 4 + byte d div 64 < 64"
    using mix_less [of "byte c mod 16" 16 "byte d div 64" 4] d by simp
qed

lemma recombine:
  "byte a div 4 * 4 + byte a mod 4 * 16 div 16 = byte a"
  "byte a div 4 * 4 + (byte a mod 4 * 16 + byte b div 16) div 16 = byte a"
  "(byte a mod 4 * 16 + byte b div 16) mod 16 * 16 + byte b mod 16 * 4 div 4 = byte b"
  "(byte a mod 4 * 16 + byte b div 16) mod 16 * 16 + (byte b mod 16 * 4 + byte c div 64) div 4
    = byte b"
  "(byte b mod 16 * 4 + byte c div 64) mod 4 * 64 + byte c mod 64 = byte c"
  using byte_parts(2) [of b] byte_parts(3) [of c]
  by (simp_all add: mix_div mix_mod)

lemma b64_quads:
  assumes "good_alphabet alpha"
  shows "b64_two alpha (alpha ! (byte a div 4)) (alpha ! (byte a mod 4 * 16)) = Some [a]"
    "b64_three alpha (alpha ! (byte a div 4)) (alpha ! (byte a mod 4 * 16 + byte b div 16))
       (alpha ! (byte b mod 16 * 4)) = Some [a, b]"
    "b64_four alpha (alpha ! (byte a div 4)) (alpha ! (byte a mod 4 * 16 + byte b div 16))
       (alpha ! (byte b mod 16 * 4 + byte c div 64)) (alpha ! (byte c mod 64)) = Some [a, b, c]"
  by (simp_all add: b64_two_def b64_three_def b64_four_def b64_val_nth [OF assms] byte_parts
      recombine)

lemma base64_decode_encode:
  "good_alphabet alpha \<Longrightarrow> base64_decode alpha pad (base64_encode alpha pad s) = Some s"
proof (induction alpha pad s rule: base64_encode.induct)
  case (4 alpha pad a b c s)
  then have "alpha ! (byte c mod 64) \<noteq> CHR ''=''" by (simp add: nth_alpha_not_pad byte_parts)
  with 4 show ?case by (simp add: b64_quads)
next
  case (3 alpha pad a b)
  then have "alpha ! (byte b mod 16 * 4) \<noteq> CHR ''=''" by (simp add: nth_alpha_not_pad byte_parts)
  with 3 show ?case by (simp add: b64_quads)
qed (simp_all add: b64_quads)

lemma base64_encode_chars:
  "good_alphabet alpha \<Longrightarrow> set (base64_encode alpha pad s) \<subseteq> insert (CHR ''='') (set alpha)"
proof (induction alpha pad s rule: base64_encode.induct)
  case (2 alpha pad a)
  then show ?case using byte_parts by (auto simp: good_alphabet_def)
next
  case (3 alpha pad a b)
  then show ?case using byte_parts by (auto simp: good_alphabet_def)
next
  case (4 alpha pad a b c s)
  then show ?case using byte_parts by (auto simp: good_alphabet_def)
qed simp

lemma no_newline_base64:
  assumes "good_alphabet alpha" "CHR 0x0A \<notin> set alpha" "CHR 0x0D \<notin> set alpha"
  shows "filter (\<lambda>c. c \<noteq> CHR 0x0A \<and> c \<noteq> CHR 0x0D) (base64_encode alpha pad s) =
    base64_encode alpha pad s"
  using base64_encode_chars [OF assms(1), of pad s] assms(2,3)
  by (intro filter_True) auto

lemma StdEncoding_roundtrip [parse_simps]:
  "StdEncoding_DecodeString (StdEncoding_EncodeToString s) = Some s"
proof -
  have "CHR 0x0A \<notin> set std_alphabet" "CHR 0x0D \<notin> set std_alphabet"
    by (simp_all add: std_alphabet_def)
  then show ?thesis
    by (simp add: StdEncoding_DecodeString_def StdEncoding_EncodeToString_def
        no_newline_base64 alphabets base64_decode_encode)
qed

lemma RawURLEncoding_roundtrip [parse_simps]:
  "RawURLEncoding_DecodeString (RawURLEncoding_EncodeToString s) = Some s"
proof -
  have "CHR 0x0A \<notin> set url_alphabet" "CHR 0x0D \<notin> set url_alphabet"
    by (simp_all add: url_alphabet_def)
  then show ?thesis
    by (simp add: RawURLEncoding_DecodeString_def RawURLEncoding_EncodeToString_def
        no_newline_base64 alphabets base64_decode_encode)
qed

section \<open>Hexadecimal\<close>

definition hex_digit :: "nat \<Rightarrow> char" where
  "hex_digit n = ''0123456789abcdef'' ! n"

definition upper_hex_digit :: "nat \<Rightarrow> char" where
  "upper_hex_digit n = ''0123456789ABCDEF'' ! n"

definition hex_EncodeToString :: "string \<Rightarrow> string" where
  "hex_EncodeToString s = concat (map (\<lambda>c. [hex_digit (byte c div 16), hex_digit (byte c mod 16)]) s)"

text \<open>The value of a hexadecimal digit of either case.\<close>

definition unhex :: "char \<Rightarrow> nat option" where
  "unhex c = (let n = byte c in
     if 48 \<le> n \<and> n \<le> 57 then Some (n - 48)
     else if 97 \<le> n \<and> n \<le> 102 then Some (n - 87)
     else if 65 \<le> n \<and> n \<le> 70 then Some (n - 55)
     else None)"

fun hex_DecodeString :: "string \<Rightarrow> string option" where
  "hex_DecodeString [] = Some []"
| "hex_DecodeString [a] = None"
| "hex_DecodeString (a # b # s) =
     (case (unhex a, unhex b) of
       (Some i, Some j) \<Rightarrow> map_option ((#) (char_of (i * 16 + j))) (hex_DecodeString s)
     | _ \<Rightarrow> None)"

lemma unhex_digit: "n < 16 \<Longrightarrow> unhex (hex_digit n) = Some n \<and> unhex (upper_hex_digit n) = Some n"
proof -
  have "list_all (\<lambda>n. unhex (hex_digit n) = Some n \<and> unhex (upper_hex_digit n) = Some n) [0..<16]"
    by code_simp
  then show "n < 16 \<Longrightarrow> ?thesis" by (simp only: list_all_iff) simp
qed

lemma hex_roundtrip [parse_simps]: "hex_DecodeString (hex_EncodeToString s) = Some s"
proof (induction s)
  case (Cons c s)
  have "byte c div 16 < 16" "byte c mod 16 < 16" using byte_parts(2) [of c] by simp_all
  with Cons show ?case by (simp add: hex_EncodeToString_def unhex_digit)
qed (simp add: hex_EncodeToString_def)

lemma length_hex: "length (hex_EncodeToString s) = 2 * length s"
  by (induction s) (simp_all add: hex_EncodeToString_def)

section \<open>UUIDs\<close>

definition uuid_bytes :: "128 word \<Rightarrow> string" where
  "uuid_bytes u = map (\<lambda>i. char_of (unat u div 256 ^ (15 - i) mod 256)) [0..<16]"

definition uuid_String :: "128 word \<Rightarrow> string" where
  "uuid_String u =
     (let h = hex_EncodeToString (uuid_bytes u) in
      take 8 h @ ''-'' @ take 4 (drop 8 h) @ ''-'' @ take 4 (drop 12 h) @ ''-'' @
      take 4 (drop 16 h) @ ''-'' @ drop 20 h)"

text \<open>
  \<open>uuid.Parse\<close>: the dashed form, possibly as a URN or in braces, or 32 hexadecimal digits.
\<close>

definition bytes_val :: "string \<Rightarrow> nat" where
  "bytes_val s = foldl (\<lambda>v c. v * 256 + byte c) 0 s"

definition parse_dashed :: "string \<Rightarrow> 128 word option" where
  "parse_dashed s =
     (if s ! 8 = CHR ''-'' \<and> s ! 13 = CHR ''-'' \<and> s ! 18 = CHR ''-'' \<and> s ! 23 = CHR ''-''
      then map_option (\<lambda>b. of_nat (bytes_val b))
        (hex_DecodeString (take 8 s @ take 4 (drop 9 s) @ take 4 (drop 14 s) @
           take 4 (drop 19 s) @ take 12 (drop 24 s)))
      else None)"

definition uuid_Parse :: "string \<Rightarrow> 128 word option" where
  "uuid_Parse s =
     (if length s = 36 then parse_dashed s
      else if length s = 45 then
        (if map ascii_lower (take 9 s) = ''urn:uuid:'' then parse_dashed (drop 9 s) else None)
      else if length s = 38 then parse_dashed (drop 1 s)
      else if length s = 32 then map_option (\<lambda>b. of_nat (bytes_val b)) (hex_DecodeString s)
      else None)"

lemma bytes_val_snoc: "bytes_val (s @ [c]) = bytes_val s * 256 + byte c"
  by (simp add: bytes_val_def)

lemma bytes_val_digits:
  "bytes_val (map (\<lambda>i. char_of (n div 256 ^ (k - Suc i) mod 256)) [0..<k]) = n mod 256 ^ k"
proof (induction k arbitrary: n)
  case 0
  then show ?case by (simp add: bytes_val_def)
next
  case (Suc k)
  have "n div 256 ^ (k - i) = n div 256 div 256 ^ (k - Suc i)" if "i < k" for i
  proof -
    have "(256 :: nat) ^ (k - i) = 256 * 256 ^ (k - Suc i)"
      using that by (metis Suc_diff_Suc power_Suc)
    then show ?thesis by (simp add: div_mult2_eq)
  qed
  then have "map (\<lambda>i. char_of (n div 256 ^ (Suc k - Suc i) mod 256)) [0..<Suc k] =
      map (\<lambda>i. char_of (n div 256 div 256 ^ (k - Suc i) mod 256)) [0..<k] @ [char_of (n mod 256)]"
    by simp
  moreover have "n div 256 mod 256 ^ k * 256 + n mod 256 = n mod 256 ^ Suc k"
    by (simp add: mod_mult2_eq mult.commute)
  ultimately show ?case by (simp only: bytes_val_snoc Suc.IH) simp
qed

lemma bytes_val_uuid: "of_nat (bytes_val (uuid_bytes u)) = u"
proof -
  have "unat u < 256 ^ 16" using unsigned_less [of u, where ?'a = nat] by simp
  then have "bytes_val (uuid_bytes u) = unat u"
    using bytes_val_digits [of "unat u" 16] by (simp add: uuid_bytes_def)
  then show ?thesis by simp
qed

lemma uuid_roundtrip [parse_simps]: "uuid_Parse (uuid_String u) = Some u"
proof -
  define h where "h = hex_EncodeToString (uuid_bytes u)"
  have len: "length h = 32" by (simp add: h_def length_hex uuid_bytes_def)
  obtain a b c d e where h: "h = a @ b @ c @ d @ e"
      and l: "length a = 8" "length b = 4" "length c = 4" "length d = 4" "length e = 12"
  proof
    have c: "drop 8 h = take 4 (drop 8 h) @ drop 12 h" "drop 12 h = take 4 (drop 12 h) @ drop 16 h"
        "drop 16 h = take 4 (drop 16 h) @ drop 20 h"
      using append_take_drop_id [of 4 "drop 8 h"] append_take_drop_id [of 4 "drop 12 h"]
        append_take_drop_id [of 4 "drop 16 h"] by simp_all
    show "h = take 8 h @ take 4 (drop 8 h) @ take 4 (drop 12 h) @ take 4 (drop 16 h) @ drop 20 h"
      by (simp only: c [symmetric] append_take_drop_id)
  qed (use len in simp_all)
  have s: "uuid_String u = a @ ''-'' @ b @ ''-'' @ c @ ''-'' @ d @ ''-'' @ e"
    using l by (simp add: uuid_String_def Let_def flip: h_def) (simp add: h)
  have "parse_dashed (uuid_String u) = Some u"
  proof -
    have "hex_DecodeString (a @ b @ c @ d @ e) = Some (uuid_bytes u)"
      using hex_roundtrip [of "uuid_bytes u"] by (simp add: h flip: h_def)
    then show ?thesis
      using l by (simp add: parse_dashed_def s nth_append bytes_val_uuid)
  qed
  moreover have "length (uuid_String u) = 36" using l by (simp add: s)
  ultimately show ?thesis by (simp add: uuid_Parse_def)
qed

lemma uuid_String_inj: "uuid_String u = uuid_String v \<Longrightarrow> u = v"
  by (metis option.inject uuid_roundtrip)

section \<open>URL escaping\<close>

datatype url_mode = encodeHost | encodeUserPassword | encodeQueryComponent | encodeFragment

definition is_alnum :: "char \<Rightarrow> bool" where
  "is_alnum c \<longleftrightarrow> (let n = byte c in
     (97 \<le> n \<and> n \<le> 122) \<or> (65 \<le> n \<and> n \<le> 90) \<or> (48 \<le> n \<and> n \<le> 57))"

text \<open>\<open>shouldEscape\<close> of \<open>net/url\<close>.\<close>

definition shouldEscape :: "url_mode \<Rightarrow> char \<Rightarrow> bool" where
  "shouldEscape mode c =
     (if is_alnum c then False
      else if mode = encodeHost \<and> c \<in> set ''!$&'' \<union> {CHR 0x27} \<union> set ''()*+,;=:[]<>'' \<union> {CHR 0x22}
      then False
      else if c \<in> set ''-_.~'' then False
      else if c \<in> set ''$&+,/:;=?@'' then
        (case mode of
          encodeUserPassword \<Rightarrow> c \<in> set ''@/?:''
        | encodeQueryComponent \<Rightarrow> True
        | encodeFragment \<Rightarrow> False
        | encodeHost \<Rightarrow> True)
      else if mode = encodeFragment \<and> c \<in> set ''!()*'' then False
      else True)"

definition escape_char :: "url_mode \<Rightarrow> char \<Rightarrow> string" where
  "escape_char mode c =
     (if \<not> shouldEscape mode c then [c]
      else if mode = encodeQueryComponent \<and> c = CHR '' '' then ''+''
      else [CHR ''%'', upper_hex_digit (byte c div 16), upper_hex_digit (byte c mod 16)])"

definition url_escape :: "url_mode \<Rightarrow> string \<Rightarrow> string" where
  "url_escape mode s = concat (map (escape_char mode) s)"

text \<open>\<open>url.Values\<close> with one value per key, and \<open>Values.Encode\<close>, which sorts by key.\<close>

definition Values_Encode :: "(string \<times> string) list \<Rightarrow> string" where
  "Values_Encode kvs =
     Join (map (\<lambda>(k, v). url_escape encodeQueryComponent k @ ''='' @
                          url_escape encodeQueryComponent v) (sort_key fst kvs)) ''&''"

record url_parts =
  url_scheme :: string
  url_user :: string
  url_host :: string
  url_query :: string
  url_fragment :: string

text \<open>\<open>URL.String\<close> for a URL with a user and a host and no path.\<close>

definition URL_String :: "url_parts \<Rightarrow> string" where
  "URL_String u =
     url_scheme u @ ''://'' @ url_escape encodeUserPassword (url_user u) @ ''@'' @
     url_escape encodeHost (url_host u) @
     (if url_query u \<noteq> [] then ''?'' @ url_query u else []) @
     (if url_fragment u \<noteq> [] then ''#'' @ url_escape encodeFragment (url_fragment u) else [])"

text \<open>\<open>unescape\<close>: percent escapes, and a plus sign in a query component.\<close>

fun url_unescape :: "url_mode \<Rightarrow> string \<Rightarrow> string option" where
  "url_unescape mode [] = Some []"
| "url_unescape mode (c # s) =
     (if c = CHR ''%'' then
        (case s of
          a # b # t \<Rightarrow>
            (case (unhex a, unhex b) of
              (Some i, Some j) \<Rightarrow> map_option ((#) (char_of (i * 16 + j))) (url_unescape mode t)
            | _ \<Rightarrow> None)
        | _ \<Rightarrow> None)
      else if c = CHR ''+'' \<and> mode = encodeQueryComponent
      then map_option ((#) (CHR '' '')) (url_unescape mode s)
      else map_option ((#) c) (url_unescape mode s))"

lemma unescape_escape [parse_simps]:
  "url_unescape mode (url_escape mode s) = Some s"
proof (induction s)
  case (Cons c s)
  have d: "byte c div 16 < 16" "byte c mod 16 < 16" using byte_parts(2) [of c] by simp_all
  have esc: "shouldEscape mode CHR ''%''"
    by (cases mode) (simp_all add: shouldEscape_def is_alnum_def)
  have plus: "mode = encodeQueryComponent \<Longrightarrow> shouldEscape mode CHR ''+''"
    by (simp add: shouldEscape_def is_alnum_def)
  show ?case
  proof (cases "shouldEscape mode c")
    case True
    with Cons d show ?thesis
      by (auto simp: url_escape_def escape_char_def unhex_digit)
  next
    case False
    with esc plus have "c \<noteq> CHR ''%''" "\<not> (c = CHR ''+'' \<and> mode = encodeQueryComponent)" by auto
    with Cons False show ?thesis by (simp add: url_escape_def escape_char_def)
  qed
qed (simp add: url_escape_def)

text \<open>Bytes that cannot appear in an escaped string.\<close>

lemma escape_char_set:
  assumes "shouldEscape mode x" "x \<noteq> CHR ''%''" "\<not> is_alnum x"
    "\<not> (mode = encodeQueryComponent \<and> x = CHR ''+'')"
  shows "x \<notin> set (url_escape mode s)"
proof -
  have "list_all (\<lambda>n. is_alnum (upper_hex_digit n)) [0..<16]" by code_simp
  then have h: "n < 16 \<Longrightarrow> is_alnum (upper_hex_digit n)" for n by (simp only: list_all_iff) simp
  have "byte c div 16 < 16" "byte c mod 16 < 16" for c using byte_parts(2) [of c] by simp_all
  with assms h show ?thesis
    by (auto simp: url_escape_def escape_char_def split: if_splits)
qed

end
