(* ===== verification/Json.thy ===== *)
theory Json
  imports Float64 Encoding
begin

text \<open>
  The part of \<open>encoding/json\<close> the sources use.  A value keeps the text of its numbers and the
  order of its members; decoding into \<open>map[string]any\<close> and marshalling again (\<open>json_any\<close>) turns
  numbers into floats, keeps the last of equal keys and sorts them.  The decoder of a request
  reads one value and ignores what follows it; \<open>json_Unmarshal\<close> allows white space only.

  Decoding a struct matches field names exactly or without regard to case, leaves a field alone
  when the member is null, and fails on a member of another type.
\<close>

datatype json =
    JNull | JBool bool | JNum string | JStr string | JArr "json list"
  | JObj "(string \<times> json) list"

section \<open>UTF-8\<close>

definition is_cont :: "char \<Rightarrow> bool" where
  "is_cont c \<longleftrightarrow> 128 \<le> byte c \<and> byte c < 192"

text \<open>The length of the valid encoding a text starts with, 0 when there is none.\<close>

definition utf8_len :: "string \<Rightarrow> nat" where
  "utf8_len s =
     (case map byte (take 4 s) of
       [] \<Rightarrow> 0
     | a # r \<Rightarrow>
        (let cont = (\<lambda>i lo hi. i < length r \<and> lo \<le> r ! i \<and> r ! i \<le> hi) in
         if a < 128 then 1
         else if 194 \<le> a \<and> a \<le> 223 \<and> cont 0 128 191 then 2
         else if a = 224 \<and> cont 0 160 191 \<and> cont 1 128 191 then 3
         else if (225 \<le> a \<and> a \<le> 236 \<or> a = 238 \<or> a = 239) \<and> cont 0 128 191 \<and> cont 1 128 191 then 3
         else if a = 237 \<and> cont 0 128 159 \<and> cont 1 128 191 then 3
         else if a = 240 \<and> cont 0 144 191 \<and> cont 1 128 191 \<and> cont 2 128 191 then 4
         else if 241 \<le> a \<and> a \<le> 243 \<and> cont 0 128 191 \<and> cont 1 128 191 \<and> cont 2 128 191 then 4
         else if a = 244 \<and> cont 0 128 143 \<and> cont 1 128 191 \<and> cont 2 128 191 then 4
         else 0))"

text \<open>U+FFFD.\<close>

definition utf8_bad :: string where
  "utf8_bad = [CHR 0xEF, CHR 0xBF, CHR 0xBD]"

function utf8_coerce :: "string \<Rightarrow> string" where
  "utf8_coerce s =
     (if s = [] then []
      else let n = utf8_len s in
        if n = 0 then utf8_bad @ utf8_coerce (drop 1 s) else take n s @ utf8_coerce (drop n s))"
  by pat_completeness auto
termination by (relation "measure length") auto

declare utf8_coerce.simps [simp del]

definition utf8_encode :: "nat \<Rightarrow> string" where
  "utf8_encode r = map char_of
     (if r < 128 then [r]
      else if r < 2048 then [192 + r div 64, 128 + r mod 64]
      else if r < 65536 then [224 + r div 4096, 128 + r div 64 mod 64, 128 + r mod 64]
      else [240 + r div 262144, 128 + r div 4096 mod 64, 128 + r div 64 mod 64, 128 + r mod 64])"

section \<open>Strings\<close>

definition quote_char :: char where "quote_char = CHR 0x22"
definition backslash :: char where "backslash = CHR 0x5C"

definition hex4 :: "string \<Rightarrow> nat option" where
  "hex4 s = (if length s < 4 then None else hex_fold 0 (take 4 s))"

definition simple_escape :: "char \<Rightarrow> char option" where
  "simple_escape c = map_of (zip [quote_char, backslash, CHR ''/'', CHR ''b'', CHR ''f'', CHR ''n'',
     CHR ''r'', CHR ''t''] [quote_char, backslash, CHR ''/'', CHR 0x08, CHR 0x0C, CHR 0x0A,
     CHR 0x0D, CHR 0x09]) c"

definition is_high :: "nat \<Rightarrow> bool" where "is_high r \<longleftrightarrow> 0xD800 \<le> r \<and> r < 0xDC00"
definition is_low :: "nat \<Rightarrow> bool" where "is_low r \<longleftrightarrow> 0xDC00 \<le> r \<and> r < 0xE000"

text \<open>
  The escape after a \<open>\\u\<close> and its four digits \<open>r\<close>: the bytes of the rune and how much of the
  following text it takes (a second escape completes a surrogate pair).
\<close>

definition unicode_escape :: "nat \<Rightarrow> string \<Rightarrow> string \<times> nat" where
  "unicode_escape r rest =
     (if is_high r \<or> is_low r then
        (case (take 2 rest = [backslash, CHR ''u''], hex4 (drop 2 rest)) of
          (True, Some r2) \<Rightarrow>
            if is_high r \<and> is_low r2
            then (utf8_encode (65536 + (r - 0xD800) * 1024 + (r2 - 0xDC00)), 6)
            else (utf8_bad, 0)
        | _ \<Rightarrow> (utf8_bad, 0))
      else (utf8_encode r, 0))"

definition prepend :: "string \<Rightarrow> (string \<times> string) option \<Rightarrow> (string \<times> string) option" where
  "prepend s r = map_option (\<lambda>(t, rest). (s @ t, rest)) r"

text \<open>A string after its opening quote: its bytes and the text after the closing quote.\<close>

function str_body :: "string \<Rightarrow> (string \<times> string) option" where
  "str_body [] = None"
| "str_body (c # cs) =
     (if c = quote_char then Some ([], cs)
      else if c = backslash then
        (if cs = [] then None
         else if hd cs = CHR ''u'' then
           (case hex4 (tl cs) of
             None \<Rightarrow> None
           | Some r \<Rightarrow>
               (let rest = drop 5 cs; e = unicode_escape r rest
                in prepend (fst e) (str_body (drop (snd e) rest))))
         else (case simple_escape (hd cs) of
             None \<Rightarrow> None | Some d \<Rightarrow> prepend [d] (str_body (tl cs))))
      else if byte c < 32 then None
      else prepend [c] (str_body cs))"
  by pat_completeness auto
termination by (relation "measure length") auto

declare str_body.simps(2) [simp del]

definition parse_string :: "string \<Rightarrow> (string \<times> string) option" where
  "parse_string cs = map_option (\<lambda>(s, r). (utf8_coerce s, r)) (str_body cs)"

section \<open>Numbers\<close>

definition span_digits :: "string \<Rightarrow> string \<times> string" where
  "span_digits s = (takeWhile is_digit s, dropWhile is_digit s)"

text \<open>The longest number literal a text starts with, and the rest.\<close>

definition lex_int :: "string \<Rightarrow> (string \<times> string) option" where
  "lex_int s =
     (let (sign, s1) = (if take 1 s = ''-'' then (''-'', drop 1 s) else ([], s));
          (ds, r) = span_digits s1
      in if ds = [] then None
         else if hd ds = CHR ''0'' then Some (sign @ ''0'', drop 1 s1)
         else Some (sign @ ds, r))"

definition lex_frac :: "string \<Rightarrow> (string \<times> string) option" where
  "lex_frac s =
     (if take 1 s = ''.'' then
        (let (ds, r) = span_digits (drop 1 s) in if ds = [] then None else Some (''.'' @ ds, r))
      else Some ([], s))"

definition lex_exp :: "string \<Rightarrow> (string \<times> string) option" where
  "lex_exp s =
     (if take 1 s = ''e'' \<or> take 1 s = ''E'' then
        (let s1 = drop 1 s;
             (sign, s2) = (if take 1 s1 = ''-'' \<or> take 1 s1 = ''+'' then (take 1 s1, drop 1 s1) else ([], s1));
             (ds, r) = span_digits s2
         in if ds = [] then None else Some (take 1 s @ sign @ ds, r))
      else Some ([], s))"

definition lex_number :: "string \<Rightarrow> (string \<times> string) option" where
  "lex_number s =
     (case lex_int s of None \<Rightarrow> None | Some (i, s1) \<Rightarrow>
       (case lex_frac s1 of None \<Rightarrow> None | Some (f, s2) \<Rightarrow>
         (case lex_exp s2 of None \<Rightarrow> None | Some (e, r) \<Rightarrow> Some (i @ f @ e, r))))"

definition pow10 :: "int \<Rightarrow> rat" where
  "pow10 e = (if e \<ge> 0 then 10 ^ nat e else 1 / 10 ^ nat (- e))"

definition signed_val :: "string \<Rightarrow> int" where
  "signed_val s =
     (if take 1 s = ''-'' then - int (dec_val (drop 1 s))
      else if take 1 s = ''+'' then int (dec_val (drop 1 s)) else int (dec_val s))"

text \<open>The exact value of a literal, and the float it is decoded to (out of range is an error).\<close>

definition literal_val :: "string \<Rightarrow> rat" where
  "literal_val l =
     (let neg = (take 1 l = ''-''); b = (if neg then drop 1 l else l);
          i = takeWhile is_digit b; r1 = dropWhile is_digit b;
          f = (if take 1 r1 = ''.'' then takeWhile is_digit (drop 1 r1) else []);
          r2 = (if take 1 r1 = ''.'' then dropWhile is_digit (drop 1 r1) else r1);
          e = (if r2 = [] then 0 else signed_val (drop 1 r2));
          v = of_nat (dec_val (i @ f)) * pow10 (e - int (length f))
      in if neg then - v else v)"

definition literal_float :: "string \<Rightarrow> float64 option" where
  "literal_float l =
     (let v = fl (literal_val l) in if \<bar>v\<bar> \<ge> 2 ^ 1024 then None else Some v)"

text \<open>A literal decoded into an \<open>int\<close> has no fraction and no exponent, and is in range.\<close>

definition literal_int :: "string \<Rightarrow> int option" where
  "literal_int l =
     (let b = (if take 1 l = ''-'' then drop 1 l else l); v = signed_val l
      in if list_all is_digit b \<and> b \<noteq> [] \<and> - (2 ^ 63) \<le> v \<and> v < 2 ^ 63 then Some v else None)"

section \<open>Values\<close>

text \<open>White space, as bytes: space, tab, newline, carriage return.\<close>

definition is_ws :: "char \<Rightarrow> bool" where
  "is_ws c \<longleftrightarrow> byte c \<in> {32, 9, 10, 13}"

definition skip_ws :: "string \<Rightarrow> string" where
  "skip_ws = dropWhile is_ws"

lemma length_skip_ws: "length (skip_ws s) \<le> length s"
  by (simp add: skip_ws_def length_dropWhile_le)

definition lex_const :: "string \<Rightarrow> json \<Rightarrow> string \<Rightarrow> (json \<times> string) option" where
  "lex_const w v s = (if HasPrefix s w then Some (v, drop (length w) s) else None)"

text \<open>
  A value at the start of a text.  The tests that a call consumed something hold of every call;
  they make the recursion plainly terminating.
\<close>

function parse_value :: "string \<Rightarrow> (json \<times> string) option"
  and parse_elems :: "string \<Rightarrow> (json list \<times> string) option"
  and parse_members :: "string \<Rightarrow> ((string \<times> json) list \<times> string) option" where
  "parse_value s =
     (let s1 = skip_ws s in
      if s1 = [] then None
      else let c = hd s1; cs = tl s1 in
        if c = CHR ''{'' then
          (if take 1 (skip_ws cs) = ''}'' then Some (JObj [], drop 1 (skip_ws cs))
           else map_option (\<lambda>(ms, r). (JObj ms, r)) (parse_members cs))
        else if c = CHR ''['' then
          (if take 1 (skip_ws cs) = '']'' then Some (JArr [], drop 1 (skip_ws cs))
           else map_option (\<lambda>(vs, r). (JArr vs, r)) (parse_elems cs))
        else if c = quote_char then map_option (\<lambda>(t, r). (JStr t, r)) (parse_string cs)
        else if c = CHR ''t'' then lex_const ''true'' (JBool True) s1
        else if c = CHR ''f'' then lex_const ''false'' (JBool False) s1
        else if c = CHR ''n'' then lex_const ''null'' JNull s1
        else map_option (\<lambda>(l, r). (JNum l, r)) (lex_number s1))"
| "parse_elems s =
     (case parse_value s of
       None \<Rightarrow> None
     | Some (v, r) \<Rightarrow>
         (let r1 = skip_ws r in
          if \<not> length r < length s then None
          else if take 1 r1 = '']'' then Some ([v], drop 1 r1)
          else if take 1 r1 = '','' then
            map_option (\<lambda>(vs, r2). (v # vs, r2)) (parse_elems (drop 1 r1))
          else None))"
| "parse_members s =
     (let s1 = skip_ws s in
      if take 1 s1 \<noteq> [quote_char] then None
      else case parse_string (drop 1 s1) of
        None \<Rightarrow> None
      | Some (k, r) \<Rightarrow>
          (let r1 = skip_ws r in
           if take 1 r1 \<noteq> '':'' \<or> \<not> length r < length s then None
           else case parse_value (drop 1 r1) of
             None \<Rightarrow> None
           | Some (v, r2) \<Rightarrow>
               (let r3 = skip_ws r2 in
                if \<not> length r2 < length s then None
                else if take 1 r3 = ''}'' then Some ([(k, v)], drop 1 r3)
                else if take 1 r3 = '','' then
                  map_option (\<lambda>(ms, r4). ((k, v) # ms, r4)) (parse_members (drop 1 r3))
                else None)))"
  by pat_completeness auto
termination
proof (relation "measure (case_sum (\<lambda>s. 2 * length s) (case_sum (\<lambda>s. 2 * length s + 1)
    (\<lambda>s. 2 * length s + 1)))", goal_cases)
  case (2 s s1 c cs)
  then show ?case using length_skip_ws [of s] by (cases "skip_ws s") auto
next
  case (3 s s1 c cs)
  then show ?case using length_skip_ws [of s] by (cases "skip_ws s") auto
next
  case (5 s p v r r1)
  then show ?case using length_skip_ws [of r] by (cases "skip_ws r") auto
next
  case (6 s s1 p k r r1)
  then show ?case using length_skip_ws [of r] by (cases "skip_ws r") auto
next
  case (7 s s1 p k r r1 q v r2 r3)
  then show ?case using length_skip_ws [of r2] by (cases "skip_ws r2") auto
qed auto

declare parse_value.simps [simp del] parse_elems.simps [simp del] parse_members.simps [simp del]

text \<open>\<open>json.Unmarshal\<close> of a whole text, and a decoder that reads the first value.\<close>

definition json_Unmarshal :: "string \<Rightarrow> json option" where
  "json_Unmarshal s =
     (case parse_value s of
       None \<Rightarrow> None | Some (v, r) \<Rightarrow> if skip_ws r = [] then Some v else None)"

definition json_Decode :: "string \<Rightarrow> json option" where
  "json_Decode s = map_option fst (parse_value s)"

section \<open>Printing\<close>

definition hex_escape :: "char \<Rightarrow> string" where
  "hex_escape c = [backslash] @ ''u00'' @ [hex_digit (byte c div 16), hex_digit (byte c mod 16)]"

text \<open>An ASCII byte inside a string; the marshaller also escapes for HTML.\<close>

definition quote_ascii :: "char \<Rightarrow> string" where
  "quote_ascii c =
     (if c = quote_char \<or> c = backslash then [backslash, c]
      else if c = CHR 0x08 then [backslash, CHR ''b'']
      else if c = CHR 0x0C then [backslash, CHR ''f'']
      else if c = CHR 0x0A then [backslash, CHR ''n'']
      else if c = CHR 0x0D then [backslash, CHR ''r'']
      else if c = CHR 0x09 then [backslash, CHR ''t'']
      else if byte c < 32 \<or> c = CHR ''<'' \<or> c = CHR ''>'' \<or> c = CHR ''&'' then hex_escape c
      else [c])"

text \<open>The line and paragraph separators U+2028 and U+2029 are escaped as well.\<close>

definition quote_multi :: "string \<Rightarrow> string" where
  "quote_multi s =
     (if s = [CHR 0xE2, CHR 0x80, CHR 0xA8] then [backslash] @ ''u2028''
      else if s = [CHR 0xE2, CHR 0x80, CHR 0xA9] then [backslash] @ ''u2029'' else s)"

function quote_body :: "string \<Rightarrow> string" where
  "quote_body s =
     (if s = [] then []
      else let n = utf8_len s in
        if n = 0 then [backslash] @ ''ufffd'' @ quote_body (drop 1 s)
        else if n = 1 then quote_ascii (hd s) @ quote_body (drop 1 s)
        else quote_multi (take n s) @ quote_body (drop n s))"
  by pat_completeness auto
termination by (relation "measure length") auto

declare quote_body.simps [simp del]

definition quote :: "string \<Rightarrow> string" where
  "quote s = [quote_char] @ quote_body s @ [quote_char]"

fun json_Marshal :: "json \<Rightarrow> string" where
  "json_Marshal JNull = ''null''"
| "json_Marshal (JBool b) = (if b then ''true'' else ''false'')"
| "json_Marshal (JNum l) = l"
| "json_Marshal (JStr s) = quote s"
| "json_Marshal (JArr vs) = ''['' @ Join (map json_Marshal vs) '','' @ '']''"
| "json_Marshal (JObj ms) =
     ''{'' @ Join (map (\<lambda>(k, v). quote k @ '':'' @ json_Marshal v) ms) '','' @ ''}''"

text \<open>The shortest decimal that is read back as the float, and its printed form.\<close>

definition dec_exp :: "rat \<Rightarrow> int" where
  "dec_exp x =
     (let (n, d) = quotient_of x;
          e = int (length (show_nat (nat n))) - int (length (show_nat (nat d)))
      in if pow10 e \<le> x then e else e - 1)"

definition shortest :: "rat \<Rightarrow> int \<times> int" where
  "shortest x =
     (let cand = (\<lambda>k. let p = dec_exp x - int k + 1 in (round_even (x / pow10 p), p));
          good = filter (\<lambda>(m, p). fl (of_int m * pow10 p) = x) (map cand [1..<18])
      in case good of [] \<Rightarrow> cand 17 | c # _ \<Rightarrow> c)"

definition exp_text :: "int \<Rightarrow> string" where
  "exp_text e = (if e < 0 then ''e-'' else ''e+'') @ show_nat (nat \<bar>e\<bar>)"

definition show_pos_float :: "rat \<Rightarrow> string" where
  "show_pos_float x =
     (let (m, p) = shortest x; ds = show_nat (nat m); e = p + int (length ds) - 1 in
      if x < 1 / 10 ^ 6 \<or> x \<ge> 10 ^ 21 then
        (case ds of [] \<Rightarrow> []
         | d # r \<Rightarrow> (let f = TrimRight r (CHR ''0'') in
             [d] @ (if f = [] then [] else ''.'' @ f) @ exp_text e))
      else if p \<ge> 0 then ds @ replicate (nat p) (CHR ''0'')
      else if e \<ge> 0 then
        (let f = TrimRight (drop (nat e + 1) ds) (CHR ''0'')
         in take (nat e + 1) ds @ (if f = [] then [] else ''.'' @ f))
      else ''0.'' @ replicate (nat (- e) - 1) (CHR ''0'') @ TrimRight ds (CHR ''0''))"

definition json_float :: "float64 \<Rightarrow> string" where
  "json_float x =
     (if x = 0 then ''0'' else if x < 0 then ''-'' @ show_pos_float (- x) else show_pos_float x)"

section \<open>Decoding into a map\<close>

text \<open>The members of a map: the last of equal keys, sorted.\<close>

fun str_le :: "string \<Rightarrow> string \<Rightarrow> bool" where
  "str_le [] t = True"
| "str_le (a # s) [] = False"
| "str_le (a # s) (b # t) = (byte a < byte b \<or> byte a = byte b \<and> str_le s t)"

fun insert_member :: "string \<Rightarrow> 'v \<Rightarrow> (string \<times> 'v) list \<Rightarrow> (string \<times> 'v) list" where
  "insert_member k v [] = [(k, v)]"
| "insert_member k v ((k', v') # ms) =
     (if k = k' then (k, v) # ms
      else if str_le k k' then (k, v) # (k', v') # ms
      else (k', v') # insert_member k v ms)"

definition map_of_members :: "(string \<times> 'v) list \<Rightarrow> (string \<times> 'v) list" where
  "map_of_members ms = foldl (\<lambda>acc (k, v). insert_member k v acc) [] ms"

fun json_any :: "json \<Rightarrow> json option" where
  "json_any (JNum l) = map_option (\<lambda>v. JNum (json_float v)) (literal_float l)"
| "json_any (JArr vs) =
     (let rs = map json_any vs in if None \<in> set rs then None else Some (JArr (map the rs)))"
| "json_any (JObj ms) =
     (let rs = map (\<lambda>(k, v). (k, json_any v)) ms
      in if None \<in> snd ` set rs then None
         else Some (JObj (map_of_members (map (\<lambda>(k, v). (k, the v)) rs))))"
| "json_any v = Some v"

text \<open>\<open>json.Unmarshal\<close> into a \<open>map[string]any\<close> (null leaves the nil map).\<close>

definition Unmarshal_map :: "string \<Rightarrow> (string \<times> json) list option" where
  "Unmarshal_map s =
     (case json_Unmarshal s of
       Some (JObj ms) \<Rightarrow> (case json_any (JObj ms) of Some (JObj n) \<Rightarrow> Some n | _ \<Rightarrow> None)
     | Some JNull \<Rightarrow> Some []
     | _ \<Rightarrow> None)"

section \<open>Decoding into a struct\<close>

definition fold_eq :: "string \<Rightarrow> string \<Rightarrow> bool" where
  "fold_eq s t \<longleftrightarrow> map ascii_lower s = map ascii_lower t"

text \<open>The members that set a field, in order: null changes nothing.\<close>

definition field_values :: "string \<Rightarrow> (string \<times> json) list \<Rightarrow> json list" where
  "field_values name ms = map snd (filter (\<lambda>(k, v). fold_eq k name \<and> v \<noteq> JNull) ms)"

fun last_string :: "string \<Rightarrow> json list \<Rightarrow> string option" where
  "last_string d [] = Some d"
| "last_string d (JStr s # vs) = last_string s vs"
| "last_string d (_ # vs) = None"

text \<open>A string field, an optional string (a pointer), and how an optional field is cleared.\<close>

definition string_field :: "string \<Rightarrow> (string \<times> json) list \<Rightarrow> string option" where
  "string_field name ms = last_string '''' (field_values name ms)"

fun last_opt :: "string option \<Rightarrow> json list \<Rightarrow> string option option" where
  "last_opt d [] = Some d"
| "last_opt d (JStr s # vs) = last_opt (Some s) vs"
| "last_opt d (JNull # vs) = last_opt None vs"
| "last_opt d (_ # vs) = None"

definition string_opt_field :: "string \<Rightarrow> (string \<times> json) list \<Rightarrow> string option option" where
  "string_opt_field name ms = last_opt None (map snd (filter (\<lambda>(k, v). fold_eq k name) ms))"

definition known_fields :: "string list \<Rightarrow> (string \<times> json) list \<Rightarrow> bool" where
  "known_fields names ms = list_all (\<lambda>(k, v). list_ex (fold_eq k) names) ms"

text \<open>The members of the value a struct is decoded from; null leaves the zero struct.\<close>

fun struct_members :: "json \<Rightarrow> (string \<times> json) list option" where
  "struct_members (JObj ms) = Some ms"
| "struct_members JNull = Some []"
| "struct_members _ = None"

end
