(* ===== verification/JsonCorrect.thy ===== *)
theory JsonCorrect
  imports Json
begin

text \<open>
  Reading back what the marshaller wrote: every value whose strings are valid UTF-8 and whose
  numbers are literals is parsed to itself, whatever follows it.
\<close>

section \<open>Strings\<close>

function valid_utf8 :: "string \<Rightarrow> bool" where
  "valid_utf8 s =
     (if s = [] then True else if utf8_len s = 0 then False else valid_utf8 (drop (utf8_len s) s))"
  by pat_completeness auto
termination by (relation "measure length") auto

declare valid_utf8.simps [simp del]

lemma prepend_Some [simp]: "prepend s (Some (t, r)) = Some (s @ t, r)"
  by (simp add: prepend_def)

lemma prepend_prepend: "prepend s (prepend t x) = prepend (s @ t) x"
  by (cases x) (auto simp: prepend_def)

lemma utf8_len_cases:
  assumes "utf8_len s = n" "n \<noteq> 0"
  shows "n \<le> length s" "n = 1 \<Longrightarrow> byte (hd s) < 128" "n \<noteq> 1 \<Longrightarrow> \<forall>c \<in> set (take n s). 128 \<le> byte c"
proof -
  consider "s = []" | a where "s = [a]" | a b where "s = [a, b]" | a b c where "s = [a, b, c]"
    | a b c d r where "s = a # b # c # d # r"
    by (metis list.exhaust)
  then have "n \<le> length s \<and> (n = 1 \<longrightarrow> byte (hd s) < 128) \<and>
      (n \<noteq> 1 \<longrightarrow> (\<forall>c \<in> set (take n s). 128 \<le> byte c))"
    using assms by cases (auto simp: utf8_len_def Let_def nth_Cons' split: if_splits)
  then show "n \<le> length s" "n = 1 \<Longrightarrow> byte (hd s) < 128"
      "n \<noteq> 1 \<Longrightarrow> \<forall>c \<in> set (take n s). 128 \<le> byte c" by auto
qed

lemma str_body_plain:
  "c \<noteq> quote_char \<Longrightarrow> c \<noteq> backslash \<Longrightarrow> 32 \<le> byte c \<Longrightarrow> str_body (c # cs) = prepend [c] (str_body cs)"
  by (simp add: str_body.simps(2))

lemma str_body_high: "\<forall>c \<in> set s. 128 \<le> byte c \<Longrightarrow> str_body (s @ r) = prepend s (str_body r)"
proof (induction s)
  case Nil
  then show ?case by (cases "str_body r") (auto simp: prepend_def)
next
  case (Cons c s)
  have "c \<noteq> quote_char" "c \<noteq> backslash" "32 \<le> byte c"
    using Cons.prems by (auto simp: quote_char_def backslash_def)
  with Cons show ?case by (simp add: str_body_plain prepend_prepend)
qed

lemma str_body_escape:
  "d \<noteq> CHR ''u'' \<Longrightarrow> simple_escape d = Some e \<Longrightarrow>
    str_body (backslash # d # cs) = prepend [e] (str_body cs)"
  by (subst str_body.simps(2)) (simp add: quote_char_def backslash_def)

lemma str_body_unicode:
  assumes "length h = 4" "hex_fold 0 h = Some r" "\<not> is_high r" "\<not> is_low r"
  shows "str_body (backslash # CHR ''u'' # h @ cs) = prepend (utf8_encode r) (str_body cs)"
  using assms
  by (subst str_body.simps(2))
    (simp add: quote_char_def backslash_def hex4_def unicode_escape_def Let_def)

lemma hex_val_digit: "n < 16 \<Longrightarrow> hex_val (hex_digit n) = Some n"
  using unhex_digit [of n] by (simp add: hex_val_def unhex_def)

lemma simple_escapes:
  "str_body (backslash # quote_char # cs) = prepend [quote_char] (str_body cs)"
  "str_body (backslash # backslash # cs) = prepend [backslash] (str_body cs)"
  "str_body (backslash # CHR ''b'' # cs) = prepend [CHR 0x08] (str_body cs)"
  "str_body (backslash # CHR ''f'' # cs) = prepend [CHR 0x0C] (str_body cs)"
  "str_body (backslash # CHR ''n'' # cs) = prepend [CHR 0x0A] (str_body cs)"
  "str_body (backslash # CHR ''r'' # cs) = prepend [CHR 0x0D] (str_body cs)"
  "str_body (backslash # CHR ''t'' # cs) = prepend [CHR 0x09] (str_body cs)"
  by (rule str_body_escape; simp add: simple_escape_def quote_char_def backslash_def)+

lemma hex_escape_read:
  assumes "byte c < 128"
  shows "str_body (hex_escape c @ cs) = prepend [c] (str_body cs)"
proof -
  have zero: "hex_val (CHR ''0'') = Some 0" by (simp add: hex_val_def)
  have d: "byte c div 16 < 16" "byte c mod 16 < 16" using assms by simp_all
  have "hex_fold 0 (''00'' @ [hex_digit (byte c div 16), hex_digit (byte c mod 16)]) =
      Some (byte c)"
    using d by (simp add: hex_val_digit zero)
  then show ?thesis
    using str_body_unicode [of "''00'' @ [hex_digit (byte c div 16), hex_digit (byte c mod 16)]"
        "byte c" cs] assms
    by (simp add: hex_escape_def is_high_def is_low_def utf8_encode_def)
qed

lemma quote_ascii_simple:
  "quote_ascii quote_char = [backslash, quote_char]"
  "quote_ascii backslash = [backslash, backslash]"
  "quote_ascii (CHR 0x08) = [backslash, CHR ''b'']" "quote_ascii (CHR 0x0C) = [backslash, CHR ''f'']"
  "quote_ascii (CHR 0x0A) = [backslash, CHR ''n'']" "quote_ascii (CHR 0x0D) = [backslash, CHR ''r'']"
  "quote_ascii (CHR 0x09) = [backslash, CHR ''t'']"
  by (simp_all add: quote_ascii_def quote_char_def backslash_def)

lemma quote_ascii_read:
  assumes "byte c < 128"
  shows "str_body (quote_ascii c @ cs) = prepend [c] (str_body cs)"
proof (cases "c \<in> {quote_char, backslash, CHR 0x08, CHR 0x0C, CHR 0x0A, CHR 0x0D, CHR 0x09}")
  case True
  then show ?thesis
    by (elim insertE emptyE) (simp_all only: quote_ascii_simple simple_escapes append_Cons append_Nil)
next
  case simple: False
  show ?thesis
  proof (cases "byte c < 32 \<or> c = CHR ''<'' \<or> c = CHR ''>'' \<or> c = CHR ''&''")
    case True
    then have "quote_ascii c = hex_escape c" using simple by (simp add: quote_ascii_def)
    with assms show ?thesis by (simp add: hex_escape_read)
  next
    case False
    then have "quote_ascii c = [c]" using simple by (simp add: quote_ascii_def)
    with False simple show ?thesis by (simp add: str_body_plain)
  qed
qed

lemma quote_multi_read:
  assumes "\<forall>c \<in> set s. 128 \<le> byte c"
  shows "str_body (quote_multi s @ cs) = prepend s (str_body cs)"
proof -
  have hex: "hex_fold 0 ''2028'' = Some 8232" "hex_fold 0 ''2029'' = Some 8233"
    by (simp_all add: hex_val_def)
  have chars: "char_of (226 :: nat) = CHR 0xE2" "char_of (128 :: nat) = CHR 0x80"
      "char_of (168 :: nat) = CHR 0xA8" "char_of (169 :: nat) = CHR 0xA9"
    by code_simp+
  from str_body_unicode [OF _ hex(1), of cs] str_body_unicode [OF _ hex(2), of cs]
  have "str_body (backslash # ''u2028'' @ cs) = prepend [CHR 0xE2, CHR 0x80, CHR 0xA8] (str_body cs)"
      "str_body (backslash # ''u2029'' @ cs) = prepend [CHR 0xE2, CHR 0x80, CHR 0xA9] (str_body cs)"
    by (simp_all add: is_high_def is_low_def utf8_encode_def chars)
  with str_body_high [OF assms] show ?thesis by (auto simp: quote_multi_def)
qed

lemma quote_body_read:
  "valid_utf8 s \<Longrightarrow> str_body (quote_body s @ quote_char # r) = Some (s, r)"
proof (induction s rule: valid_utf8.induct)
  case (1 s)
  show ?case
  proof (cases "s = []")
    case True
    then show ?thesis by (simp add: quote_body.simps str_body.simps(2))
  next
    case False
    define n where "n = utf8_len s"
    have v: "n \<noteq> 0" "valid_utf8 (drop n s)"
      using 1(2) False by (simp_all add: valid_utf8.simps [of s] n_def split: if_splits)
    have IH: "str_body (quote_body (drop n s) @ quote_char # r) = Some (drop n s, r)"
      using 1 v False by (simp add: n_def)
    note len = utf8_len_cases [OF n_def [symmetric] v(1)]
    show ?thesis
    proof (cases "n = 1")
      case True
      obtain c t where s: "s = c # t" using False by (cases s) auto
      have "quote_body s = quote_ascii c @ quote_body t"
        using True s by (subst quote_body.simps) (simp add: n_def Let_def)
      with IH True s len(2) show ?thesis by (simp add: quote_ascii_read)
    next
      case n1: False
      have "quote_body s = quote_multi (take n s) @ quote_body (drop n s)"
        using n1 v(1) False by (simp add: quote_body.simps [of s] n_def [symmetric] Let_def)
      with IH len(3) [OF n1] show ?thesis by (simp add: quote_multi_read)
    qed
  qed
qed

lemma utf8_coerce_valid: "valid_utf8 s \<Longrightarrow> utf8_coerce s = s"
proof (induction s rule: valid_utf8.induct)
  case (1 s)
  show ?case
  proof (cases "s = []")
    case True
    then show ?thesis by (simp add: utf8_coerce.simps)
  next
    case False
    then have "utf8_len s \<noteq> 0" "valid_utf8 (drop (utf8_len s) s)"
      using 1(2) False by (simp_all add: valid_utf8.simps [of s] split: if_splits)
    moreover have "utf8_coerce (drop (utf8_len s) s) = drop (utf8_len s) s"
      using 1(1) False calculation by blast
    ultimately show ?thesis using False by (subst utf8_coerce.simps) (simp add: Let_def)
  qed
qed

lemma parse_string_quote [parse_simps]:
  "valid_utf8 s \<Longrightarrow> parse_string (quote_body s @ quote_char # r) = Some (s, r)"
  by (simp add: parse_string_def quote_body_read utf8_coerce_valid)

lemma valid_utf8_ascii: "list_all (\<lambda>c. byte c < 128) s \<Longrightarrow> valid_utf8 s"
proof (induction s)
  case Nil
  then show ?case by (simp add: valid_utf8.simps [of "[]"])
next
  case (Cons c s)
  then have "utf8_len (c # s) = 1" by (simp add: utf8_len_def Let_def)
  with Cons show ?case by (subst valid_utf8.simps) simp
qed

section \<open>Numbers\<close>

text \<open>What may follow a number without being read as a part of it.\<close>

definition delim :: "string \<Rightarrow> bool" where
  "delim r \<longleftrightarrow> (case r of [] \<Rightarrow> True
     | c # _ \<Rightarrow> \<not> is_digit c \<and> c \<noteq> CHR ''.'' \<and> c \<noteq> CHR ''e'' \<and> c \<noteq> CHR ''E'')"

definition number_ok :: "string \<Rightarrow> bool" where
  "number_ok l \<longleftrightarrow> lex_number l = Some (l, [])"

lemma delim_cases: "delim r \<Longrightarrow> r = [] \<or> (\<exists>c t. r = c # t \<and> \<not> is_digit c \<and> c \<noteq> CHR ''.'' \<and>
    c \<noteq> CHR ''e'' \<and> c \<noteq> CHR ''E'')"
  by (cases r) (auto simp: delim_def)

lemma span_digits_append:
  assumes "span_digits s = (ds, t)" "t = [] \<Longrightarrow> delim r"
  shows "span_digits (s @ r) = (ds, t @ r)"
  using assms
proof (induction s arbitrary: ds)
  case Nil
  then show ?case by (auto simp: span_digits_def dest!: delim_cases)
next
  case (Cons c s)
  show ?case
  proof (cases "is_digit c")
    case True
    then have "span_digits s = (tl ds, t)" using Cons.prems by (auto simp: span_digits_def)
    from Cons.IH [OF this Cons.prems(2)] True Cons.prems(1) show ?thesis
      by (auto simp: span_digits_def)
  next
    case False
    with Cons.prems show ?thesis by (auto simp: span_digits_def)
  qed
qed

lemma lex_int_append:
  assumes "lex_int s = Some (i, t)" "t = [] \<Longrightarrow> delim r"
  shows "lex_int (s @ r) = Some (i, t @ r)"
proof -
  define body where "body = (\<lambda>(sign, s1). let (ds, r) = span_digits s1
      in if ds = [] then None
         else if hd ds = CHR ''0'' then Some (sign @ ''0'', drop 1 s1)
         else Some (sign @ ds, r))"
  have body: "lex_int u = body (if take 1 u = ''-'' then (''-'', drop 1 u) else ([], u))" for u
    by (simp add: lex_int_def body_def Let_def)
  have step: "body (sign, s1 @ r) = Some (i, t @ r)" if b: "body (sign, s1) = Some (i, t)" for sign s1
  proof -
    obtain ds u where d: "span_digits s1 = (ds, u)" by fastforce
    obtain ds' u' where d': "span_digits (s1 @ r) = (ds', u')" by fastforce
    have ds: "ds \<noteq> []" using b d by (auto simp: body_def)
    then obtain x xs where s1: "s1 = x # xs" "is_digit x" "hd ds = x"
      using d by (cases s1) (auto simp: span_digits_def split: if_splits)
    show ?thesis
    proof (cases "x = CHR ''0''")
      case True
      have "ds' \<noteq> []" "hd ds' = x" using d' s1 by (auto simp: span_digits_def)
      with True b d d' s1 ds show ?thesis by (simp add: body_def)
    next
      case False
      then have "u = t" using b d ds s1 by (simp add: body_def)
      then have "span_digits (s1 @ r) = (ds, u @ r)"
        using d assms(2) by (intro span_digits_append) auto
      with False b d ds s1 show ?thesis by (simp add: body_def)
    qed
  qed
  show ?thesis
  proof (cases s)
    case Nil
    with assms(1) show ?thesis by (simp add: lex_int_def span_digits_def)
  next
    case (Cons c cs)
    with assms(1) step [of "''-''" cs] step [of "[]" s] show ?thesis
      by (auto simp: body split: if_splits)
  qed
qed

lemma lex_frac_append:
  assumes "lex_frac s = Some (f, t)" "t = [] \<Longrightarrow> delim r"
  shows "lex_frac (s @ r) = Some (f, t @ r)"
proof (cases s)
  case Nil
  with assms show ?thesis by (auto simp: lex_frac_def dest!: delim_cases)
next
  case (Cons c cs)
  obtain ds u where d: "span_digits cs = (ds, u)" by fastforce
  show ?thesis
  proof (cases "c = CHR ''.''")
    case True
    then have "ds \<noteq> []" "f = ''.'' @ ds" "t = u"
      using assms(1) Cons d by (auto simp: lex_frac_def split: if_splits)
    moreover have "span_digits (cs @ r) = (ds, u @ r)"
      using d assms(2) \<open>t = u\<close> by (intro span_digits_append) auto
    ultimately show ?thesis using True Cons by (simp add: lex_frac_def)
  next
    case False
    with assms(1) Cons show ?thesis by (auto simp: lex_frac_def)
  qed
qed

lemma lex_exp_append:
  assumes "lex_exp s = Some (f, t)" "t = [] \<Longrightarrow> delim r"
  shows "lex_exp (s @ r) = Some (f, t @ r)"
proof (cases s)
  case Nil
  with assms show ?thesis by (auto simp: lex_exp_def dest!: delim_cases)
next
  case s: (Cons c cs)
  show ?thesis
  proof (cases "c = CHR ''e'' \<or> c = CHR ''E''")
    case False
    with assms(1) s show ?thesis by (auto simp: lex_exp_def)
  next
    case True
    define digits where "digits = (\<lambda>(sign, s2). let (ds, r) = span_digits s2
      in if ds = [] then None else Some ([c] @ sign @ ds, r))"
    have e: "lex_exp (c # u) = digits (if take 1 u = ''-'' \<or> take 1 u = ''+''
        then (take 1 u, drop 1 u) else ([], u))" for u
      using True by (auto simp: lex_exp_def digits_def Let_def split: prod.split)
    have step: "digits (sign, s2 @ r) = Some (f, t @ r)" if d: "digits (sign, s2) = Some (f, t)" for sign s2
    proof -
      obtain ds u where sp: "span_digits s2 = (ds, u)" by fastforce
      with d have "ds \<noteq> []" "t = u" by (auto simp: digits_def split: if_splits)
      moreover have "span_digits (s2 @ r) = (ds, u @ r)"
        using sp assms(2) \<open>t = u\<close> by (intro span_digits_append) auto
      ultimately show ?thesis using d sp by (auto simp: digits_def)
    qed
    show ?thesis
    proof (cases cs)
      case Nil
      with assms(1) s e [of cs] show ?thesis by (simp add: digits_def span_digits_def)
    next
      case (Cons d ds)
      with assms(1) s e [of cs] e [of "cs @ r"] step [of "[d]" ds] step [of "[]" cs] show ?thesis
        by (auto split: if_splits)
    qed
  qed
qed

lemma lex_number_append: "number_ok l \<Longrightarrow> delim r \<Longrightarrow> lex_number (l @ r) = Some (l, r)"
proof -
  assume a: "number_ok l" "delim r"
  obtain i s1 f s2 e where l: "lex_int l = Some (i, s1)" "lex_frac s1 = Some (f, s2)"
      "lex_exp s2 = Some (e, [])" "i @ f @ e = l"
    using a(1) by (auto simp: number_ok_def lex_number_def split: option.splits)
  show ?thesis
    using lex_int_append [OF l(1) a(2)] lex_frac_append [OF l(2) a(2)] lex_exp_append [OF l(3) a(2)] l(4)
    by (simp add: lex_number_def)
qed

section \<open>Values\<close>

fun wf_json :: "json \<Rightarrow> bool" where
  "wf_json (JNum l) = number_ok l"
| "wf_json (JStr s) = valid_utf8 s"
| "wf_json (JArr vs) = list_all wf_json vs"
| "wf_json (JObj ms) = list_all (\<lambda>(k, v). valid_utf8 k \<and> wf_json v) ms"
| "wf_json v = True"

lemma skip_ws_id: "s \<noteq> [] \<Longrightarrow> \<not> is_ws (hd s) \<Longrightarrow> skip_ws s = s"
  by (cases s) (simp_all add: skip_ws_def)

lemma number_ok_hd:
  assumes "number_ok l"
  shows "l \<noteq> []" "is_digit (hd l) \<or> hd l = CHR ''-''"
  using assms
  by (cases l; auto simp: number_ok_def lex_number_def lex_int_def span_digits_def
      split: option.splits if_splits)+

lemma is_digit_facts: "is_digit c \<Longrightarrow> \<not> is_ws c \<and> c \<notin> {CHR ''{'', CHR ''['', quote_char,
    CHR ''t'', CHR ''f'', CHR ''n'', CHR '']'', CHR ''}''}"
  by (auto simp: is_digit_def is_ws_def quote_char_def)

lemma hd_take1: "s \<noteq> [] \<Longrightarrow> take 1 s = [hd s]"
  by (cases s) simp_all

text \<open>The first byte of a printed value is no white space and closes no list.\<close>

lemma json_Marshal_hd:
  assumes "wf_json v"
  shows "json_Marshal v \<noteq> [] \<and> \<not> is_ws (hd (json_Marshal v)) \<and> hd (json_Marshal v) \<noteq> CHR '']''"
proof (cases v)
  case (JNum l)
  with assms number_ok_hd [of l] is_digit_facts [of "hd l"] show ?thesis
    by (auto simp: is_ws_def)
qed (auto simp: is_ws_def quote_def quote_char_def)

lemma parse_value_start:
  assumes "s \<noteq> []" "\<not> is_ws (hd s)"
  shows "skip_ws s = s"
  using assms by (rule skip_ws_id)

lemma parse_elems_print:
  assumes "\<And>v r. v \<in> set vs \<Longrightarrow> delim r \<Longrightarrow> parse_value (json_Marshal v @ r) = Some (v, r)"
    and "vs \<noteq> []" "list_all wf_json vs"
  shows "parse_elems (Join (map json_Marshal vs) '','' @ '']'' @ r) = Some (vs, r)"
  using assms
proof (induction vs)
  case (Cons v vs)
  have ne: "json_Marshal v \<noteq> []" using Cons.prems(3) json_Marshal_hd [of v] by simp
  show ?case
  proof (cases "vs = []")
    case True
    have "parse_value (json_Marshal v @ '']'' @ r) = Some (v, '']'' @ r)"
      by (rule Cons.prems(1)) (simp_all add: delim_def is_digit_def)
    then show ?thesis
      using True ne by (simp add: parse_elems.simps skip_ws_id is_ws_def)
  next
    case False
    let ?r = "Join (map json_Marshal vs) '','' @ '']'' @ r"
    have "parse_value (json_Marshal v @ '','' @ ?r) = Some (v, '','' @ ?r)"
      by (rule Cons.prems(1)) (simp_all add: delim_def is_digit_def)
    moreover have "parse_elems ?r = Some (vs, r)"
      using Cons False by simp
    moreover have "Join (map json_Marshal (v # vs)) '','' = json_Marshal v @ '','' @ Join (map json_Marshal vs) '',''"
      using False by (cases vs) simp_all
    ultimately show ?thesis
      using ne by (subst parse_elems.simps) (simp add: skip_ws_id is_ws_def)
  qed
qed simp

abbreviation show_member :: "string \<times> json \<Rightarrow> string" where
  "show_member m \<equiv> (case m of (k, v) \<Rightarrow> quote k @ '':'' @ json_Marshal v)"

lemma parse_members_print:
  assumes "\<And>k v r. (k, v) \<in> set ms \<Longrightarrow> delim r \<Longrightarrow> parse_value (json_Marshal v @ r) = Some (v, r)"
    and "ms \<noteq> []" "list_all (\<lambda>(k, v). valid_utf8 k \<and> wf_json v) ms"
  shows "parse_members (Join (map show_member ms) '','' @ ''}'' @ r) = Some (ms, r)"
  using assms
proof (induction ms)
  case (Cons m ms)
  obtain k v where m: "m = (k, v)" by (cases m) auto
  have k: "valid_utf8 k" and ne: "json_Marshal v \<noteq> []"
    using Cons.prems(3) json_Marshal_hd [of v] m by simp_all
  have key: "parse_string (quote_body k @ quote_char # u) = Some (k, u)" for u
    using k by (simp add: parse_simps)
  have ws: "skip_ws (quote_char # u) = quote_char # u" "skip_ws (CHR '':'' # u) = CHR '':'' # u"
      "skip_ws (CHR ''}'' # u) = CHR ''}'' # u" "skip_ws (CHR '','' # u) = CHR '','' # u" for u
    by (simp_all add: skip_ws_def is_ws_def quote_char_def)
  show ?case
  proof (cases "ms = []")
    case True
    have "parse_value (json_Marshal v @ ''}'' @ r) = Some (v, ''}'' @ r)"
      by (rule Cons.prems(1) [of k]) (simp_all add: delim_def is_digit_def m)
    then show ?thesis
      using True ne by (subst parse_members.simps) (simp add: m quote_def key ws)
  next
    case False
    let ?r = "Join (map show_member ms) '','' @ ''}'' @ r"
    have "parse_value (json_Marshal v @ '','' @ ?r) = Some (v, '','' @ ?r)"
      by (rule Cons.prems(1) [of k]) (simp_all add: delim_def is_digit_def m)
    moreover have "parse_members ?r = Some (ms, r)"
    proof (rule Cons.IH)
      show "parse_value (json_Marshal v' @ r') = Some (v', r')" if "(k', v') \<in> set ms" "delim r'" for k' v' r'
        using Cons.prems(1) [of k' v' r'] that by simp
    qed (use False Cons.prems in simp_all)
    moreover have "Join (map show_member (m # ms)) '','' = show_member m @ '','' @ Join (map show_member ms) '',''"
      using False by (cases ms) simp_all
    ultimately show ?thesis
      using ne by (subst parse_members.simps) (simp add: m quote_def key ws)
  qed
qed simp

theorem json_roundtrip [parse_simps]:
  "wf_json v \<Longrightarrow> delim r \<Longrightarrow> parse_value (json_Marshal v @ r) = Some (v, r)"
proof (induction v arbitrary: r)
  case JNull
  then show ?case by (simp add: parse_value.simps skip_ws_def is_ws_def quote_char_def lex_const_def HasPrefix_def Let_def)
next
  case (JBool b)
  then show ?case by (simp add: parse_value.simps skip_ws_def is_ws_def quote_char_def lex_const_def HasPrefix_def Let_def)
next
  case (JNum l)
  have l: "number_ok l" using JNum by simp
  note h = number_ok_hd [OF l]
  have "hd (l @ r) = hd l" "l @ r \<noteq> []" using h(1) by simp_all
  moreover have "\<not> is_ws (hd l)" "hd l \<notin> {CHR ''{'', CHR ''['', quote_char, CHR ''t'', CHR ''f'', CHR ''n''}"
    using h(2) is_digit_facts [of "hd l"] by (auto simp: is_ws_def quote_char_def)
  ultimately show ?case
    using lex_number_append [OF l JNum.prems(2)]
    by (simp add: parse_value.simps [of "l @ r"] skip_ws_id Let_def)
next
  case (JStr s)
  then show ?case
    by (simp add: parse_value.simps skip_ws_def is_ws_def quote_char_def Let_def quote_def
        parse_string_quote [unfolded quote_char_def])
next
  case (JArr vs)
  show ?case
  proof (cases "vs = []")
    case True
    then show ?thesis by (simp add: parse_value.simps skip_ws_def is_ws_def Let_def)
  next
    case False
    then obtain v ws where vs: "vs = v # ws" by (cases vs) auto
    let ?t = "Join (map json_Marshal vs) '','' @ '']'' @ r"
    have wf: "list_all wf_json vs" using JArr.prems by simp
    have "parse_elems ?t = Some (vs, r)"
      using JArr wf False by (intro parse_elems_print) (auto simp: list_all_iff)
    moreover have t: "?t \<noteq> []" "hd ?t = hd (json_Marshal v)"
      using json_Marshal_hd [of v] wf vs by (cases ws; simp)+
    have "wf_json v" using wf vs by simp
    note v = json_Marshal_hd [OF this]
    have "skip_ws ?t = ?t" by (rule skip_ws_id [OF t(1)]) (simp only: t(2) v not_False_eq_True)
    moreover have "take 1 ?t \<noteq> '']''" unfolding hd_take1 [OF t(1)] t(2) using v by simp
    ultimately show ?thesis
      by (subst parse_value.simps)
        (simp add: skip_ws_id [of "CHR ''['' # u" for u] is_ws_def quote_char_def)
  qed
next
  case (JObj ms)
  show ?case
  proof (cases "ms = []")
    case True
    then show ?thesis by (simp add: parse_value.simps skip_ws_def is_ws_def Let_def)
  next
    case False
    let ?t = "Join (map show_member ms) '','' @ ''}'' @ r"
    have wf: "list_all (\<lambda>(k, v). valid_utf8 k \<and> wf_json v) ms" using JObj.prems by simp
    have "parse_members ?t = Some (ms, r)"
    proof (rule parse_members_print)
      show "parse_value (json_Marshal v @ r') = Some (v, r')" if "(k, v) \<in> set ms" "delim r'" for k v r'
        using that wf by (intro JObj.IH [of "(k, v)"]) (auto simp: list_all_iff)
    qed (use False wf in auto)
    moreover obtain k v ns where "ms = (k, v) # ns" using False by (cases ms) auto
    then have t: "?t \<noteq> []" "hd ?t = quote_char" by (cases ns; simp add: quote_def)+
    have "skip_ws ?t = ?t"
      by (rule skip_ws_id [OF t(1)]) (simp only: t(2), simp add: is_ws_def quote_char_def)
    moreover have "take 1 ?t \<noteq> ''}''"
      unfolding hd_take1 [OF t(1)] t(2) by (simp add: quote_char_def)
    ultimately show ?thesis
      by (subst parse_value.simps)
        (simp add: skip_ws_id [of "CHR ''{'' # u" for u] is_ws_def quote_char_def)
  qed
qed

lemma json_Unmarshal_Marshal [parse_simps]:
  "wf_json v \<Longrightarrow> json_Unmarshal (json_Marshal v) = Some v"
  using json_roundtrip [of v "[]"] by (simp add: json_Unmarshal_def delim_def skip_ws_def)

end
