(* ===== verification/RoutingCorrect.thy ===== *)
theory RoutingCorrect
  imports Routing
begin

text \<open>
  Correctness of split-tunnel routing: \<open>rangeToCIDRs\<close> covers its range exactly and never
  panics, \<open>mergeRanges\<close> keeps the addresses of its input and separates them, and
  \<open>computeComplement\<close> of the merged ranges covers exactly the other addresses.
\<close>

section \<open>What a CIDR block and a list of ranges denote\<close>

definition covers :: "string \<Rightarrow> u32 \<Rightarrow> bool" where
  "covers c a \<longleftrightarrow> (case ParseCIDR (TrimSpace c) of
     None \<Rightarrow> False
   | Some n \<Rightarrow> mask_ip (IPv4 a) (net_ones n) = net_ip n)"

definition in_range :: "ipRange \<Rightarrow> u32 \<Rightarrow> bool" where
  "in_range r a \<longleftrightarrow> r_start r \<le> a \<and> a \<le> r_end r"

definition in_ranges :: "ipRange list \<Rightarrow> u32 \<Rightarrow> bool" where
  "in_ranges rs a \<longleftrightarrow> list_ex (\<lambda>r. in_range r a) rs"

definition wf_range :: "ipRange \<Rightarrow> bool" where
  "wf_range r \<longleftrightarrow> r_start r \<le> r_end r"

text \<open>A block as the code prints it.\<close>

definition block_text :: "u32 \<Rightarrow> nat \<Rightarrow> string" where
  "block_text b n = show_ipv4 b @ ''/'' @ show_nat n"

definition plain_block :: "string \<Rightarrow> bool" where
  "plain_block c \<longleftrightarrow> (\<exists>b n. n \<le> 32 \<and> c = block_text b n)"

lemma in_ranges_simps [range_simps]:
  "in_ranges [] a = False"
  "in_ranges (r # rs) a = (in_range r a \<or> in_ranges rs a)"
  "in_ranges (rs @ rs') a = (in_ranges rs a \<or> in_ranges rs' a)"
  by (simp_all add: in_ranges_def)

lemma in_ranges_iff: "in_ranges rs a \<longleftrightarrow> (\<exists>r \<in> set rs. in_range r a)"
  by (simp add: in_ranges_def list_ex_iff)

section \<open>Blocks\<close>

lemma solid_digit: "is_digit c \<Longrightarrow> solid c"
  by (auto simp: is_digit_def solid_def)

lemma hd_show_ipv4: "show_ipv4 w \<noteq> []" "is_digit (hd (show_ipv4 w))"
proof -
  obtain t where t: "show_ipv4 w = show_nat (octet 3 (unat w)) @ t"
    by (simp add: show_ipv4_def Let_def)
  then show "show_ipv4 w \<noteq> []" by simp
  show "is_digit (hd (show_ipv4 w))"
    using t show_nat_digits [of "octet 3 (unat w)"] hd_in_set [OF show_nat_nonempty]
    by (auto simp: list_all_iff)
qed

lemma TrimSpace_show_ipv4: "TrimSpace (show_ipv4 w) = show_ipv4 w"
proof (rule TrimSpace_solid)
  show "show_ipv4 w \<noteq> []" "solid (hd (show_ipv4 w))" using hd_show_ipv4 by (simp_all add: solid_digit)
  have "last (show_ipv4 w) \<in> set (show_nat (octet 0 (unat w)))"
    by (simp add: show_ipv4_def Let_def)
  then show "solid (last (show_ipv4 w))"
    using show_nat_digits [of "octet 0 (unat w)"] by (auto simp: list_all_iff solid_digit)
qed

lemma TrimSpace_block: "TrimSpace (block_text b n) = block_text b n"
proof (rule TrimSpace_solid)
  show "block_text b n \<noteq> []" by (simp add: block_text_def)
  show "solid (hd (block_text b n))"
    using hd_show_ipv4 [of b] by (simp add: block_text_def solid_digit)
  have "last (block_text b n) \<in> set (show_nat n)"
    by (simp add: block_text_def)
  then show "solid (last (block_text b n))"
    using show_nat_digits [of n] by (auto simp: list_all_iff solid_digit)
qed

lemma comma_not_in_block: "CHR '','' \<notin> set (block_text b n)"
proof -
  have c: "\<not> is_digit CHR '',''" by (simp add: is_digit_def)
  show ?thesis
    using set_show_ipv4 [of "CHR '',''" b] not_digit_show_nat [OF c] c
    by (auto simp: block_text_def)
qed

lemma unat_mask: "unat (push_bit k (drop_bit k w) :: u32) = 2 ^ k * (unat w div 2 ^ k)"
proof -
  have "2 ^ k * (unat w div 2 ^ k) \<le> unat w" by simp
  then have "2 ^ k * (unat w div 2 ^ k) < 2 ^ 32"
    using unat_lt_2p32 [of w] by linarith
  then show ?thesis
    by (simp only: unsigned_push_bit_eq unat_drop_bit_eq)
      (simp add: push_bit_eq_mult drop_bit_eq_div take_bit_nat_eq_self mult.commute)
qed

lemma same_block_iff:
  "mask_ip (IPv4 a) (32 - k) = mask_ip (IPv4 s) (32 - k) \<longleftrightarrow>
    unat a div 2 ^ k = unat s div 2 ^ k" if "k \<le> 32"
  using that by (simp add: mask_ip_shift word_unat_eq_iff unat_mask)

lemma div_eq_iff_interval:
  fixes s a d :: nat
  assumes "d dvd s" "0 < d"
  shows "a div d = s div d \<longleftrightarrow> s \<le> a \<and> a < s + d"
proof
  obtain q where q: "s = d * q" using assms(1) by auto
  show "s \<le> a \<and> a < s + d" if "a div d = s div d"
  proof -
    have "a = d * q + a mod d"
      using that q assms(2) by (metis mult_div_mod_eq nonzero_mult_div_cancel_left less_not_refl)
    then show ?thesis using q mod_less_divisor [OF assms(2), of a] by linarith
  qed
  show "a div d = s div d" if "s \<le> a \<and> a < s + d"
  proof (rule div_nat_eqI)
    show "d * (s div d) \<le> a" using that assms(1) by simp
    show "a < d * Suc (s div d)" using that assms(1) by simp
  qed
qed

lemma covers_block:
  assumes "k \<le> 32" "2 ^ k dvd unat s"
  shows "covers (block_text s (32 - k)) a \<longleftrightarrow> unat s \<le> unat a \<and> unat a < unat s + 2 ^ k"
proof -
  have "ParseCIDR (block_text s (32 - k)) =
      Some \<lparr>net_ip = mask_ip (IPv4 s) (32 - k), net_ones = 32 - k\<rparr>"
    unfolding block_text_def by (rule ParseCIDR_show) simp
  then have "covers (block_text s (32 - k)) a \<longleftrightarrow>
      mask_ip (IPv4 a) (32 - k) = mask_ip (IPv4 s) (32 - k)"
    by (simp add: covers_def TrimSpace_block)
  also have "\<dots> \<longleftrightarrow> unat s \<le> unat a \<and> unat a < unat s + 2 ^ k"
    using same_block_iff [OF assms(1)] div_eq_iff_interval [OF assms(2)] by simp
  finally show ?thesis .
qed

section \<open>The blocks of a range\<close>

lemma itoa_prefix: "n \<le> 32 \<Longrightarrow> itoa (int n) = Some (show_nat n)"
proof -
  assume "n \<le> 32"
  then have "n \<in> set [0..<33]" by simp
  moreover have "list_all (\<lambda>n. itoa (int n) = Some (show_nat n)) [0..<33]"
    by code_simp
  ultimately show ?thesis by (simp only: list_all_iff)
qed

lemma unat_remaining:
  fixes s e :: u32
  assumes "s \<le> e"
  shows "unat (ucast e - ucast s + 1 :: u64) = unat e - unat s + 1"
proof -
  have se: "unat s \<le> unat e" using assms by (simp add: word_le_nat_alt)
  have "(ucast e - ucast s + 1 :: u64) = of_nat (unat e - unat s + 1)"
    using se by (simp add: of_nat_diff)
  moreover have "unat e - unat s + 1 < 2 ^ 64" using unat_lt_2p32 [of e] by simp
  ultimately show ?thesis by (simp only: unat_of_nat len_of_numeral_defs) simp
qed

lemma max_block_facts:
  assumes "s \<le> e"
  defines "k \<equiv> max_block s e"
  shows "2 ^ k dvd unat s" and "unat s + 2 ^ k \<le> unat e + 1"
proof -
  let ?R = "unat e - unat s + 1"
  have R: "?R < 2 ^ 33" using unat_lt_2p32 [of e] by simp
  have b: "2 ^ (bit_len ?R - 1) \<le> ?R" "0 < bit_len ?R" "bit_len ?R \<le> 33"
    using bit_len_bounds [of ?R] bit_len_mono_bound [OF R] by auto
  have "63 - LeadingZeros64 (ucast e - ucast s + 1) = bit_len ?R - 1"
    using b(2,3) unat_remaining [OF assms(1)] by (simp add: LeadingZeros64_def)
  then have k: "k \<le> bit_len ?R - 1" "s \<noteq> 0 \<Longrightarrow> k \<le> trailing_zeros (unat s)"
    by (auto simp: k_def max_block_def Let_def TrailingZeros32_def)
  show "2 ^ k dvd unat s"
  proof (cases "s = 0")
    case False
    then show ?thesis
      using k(2) trailing_zeros_dvd [of "unat s"] by (meson dvd_trans le_imp_power_dvd)
  qed simp
  have "(2 :: nat) ^ k \<le> 2 ^ (bit_len ?R - 1)" using k(1) by (intro power_increasing) auto
  moreover have "unat s \<le> unat e" using assms(1) by (simp add: word_le_nat_alt)
  ultimately show "unat s + 2 ^ k \<le> unat e + 1" using b(1) by linarith
qed

lemma unat_ucast_next:
  assumes "k \<le> 32" "\<not> next_start s k > ucast max_u32"
  shows "unat (ucast (next_start s k) :: u32) = unat s + 2 ^ k"
proof -
  have n: "unat (next_start s k) = unat s + 2 ^ k" using assms(1) by (rule unat_next_start)
  have "unat (next_start s k) < 2 ^ 32"
    using assms(2) by (simp add: word_less_nat_alt unat_ucast_64 unat_u32_max)
  with n show ?thesis by (simp add: unsigned_ucast_eq take_bit_nat_eq_self)
qed

lemma rangeToCIDRs_blocks:
  "\<exists>cs. rangeToCIDRs s e = Some cs \<and> list_all plain_block cs \<and>
     (\<forall>a. list_ex (\<lambda>c. covers c a) cs \<longleftrightarrow> s \<le> a \<and> a \<le> e)"
proof (induction s e rule: rangeToCIDRs.induct)
  case (1 s e)
  show ?case
  proof (cases "s \<le> e")
    case False
    then show ?thesis by (auto simp: rangeToCIDRs.simps [of s e])
  next
    case True
    define k where "k = max_block s e"
    have k: "k \<le> 32" "2 ^ k dvd unat s" "unat s + 2 ^ k \<le> unat e + 1"
      using max_block_le max_block_facts [OF True] by (simp_all add: k_def)
    have nxt: "unat (next_start s k) = unat s + 2 ^ k" using k(1) by (rule unat_next_start)
    have it: "itoa (32 - int k) = Some (show_nat (32 - k))"
      using itoa_prefix [of "32 - k"] k(1) by (simp add: of_nat_diff)
    let ?b = "block_text s (32 - k)"
    have cov: "covers ?b a \<longleftrightarrow> unat s \<le> unat a \<and> unat a < unat s + 2 ^ k" for a
      using k(1,2) by (rule covers_block)
    have plain: "plain_block ?b" by (auto simp: plain_block_def intro!: exI [of _ "32 - k"])
    show ?thesis
    proof (cases "next_start s k > ucast max_u32")
      case stop: True
      then have "2 ^ 32 - 1 < unat s + 2 ^ k"
        by (simp add: word_less_nat_alt nxt unat_ucast_64 unat_u32_max)
      then have "covers ?b a \<longleftrightarrow> s \<le> a \<and> a \<le> e" for a
        using k(3) unat_lt_2p32 [of e] unat_lt_2p32 [of a] by (auto simp: cov word_le_nat_alt)
      with True stop it plain show ?thesis
        by (simp add: rangeToCIDRs.simps [of s e] Let_def ipString_def block_text_def
            flip: k_def)
    next
      case go: False
      obtain cs where cs: "rangeToCIDRs (ucast (next_start s k)) e = Some cs"
          "list_all plain_block cs"
          "\<And>a. list_ex (\<lambda>c. covers c a) cs \<longleftrightarrow> ucast (next_start s k) \<le> a \<and> a \<le> e"
        using 1 [OF True k_def refl it refl go] by blast
      have "covers ?b a \<or> ucast (next_start s k) \<le> a \<and> a \<le> e \<longleftrightarrow> s \<le> a \<and> a \<le> e" for a
        using k(3) unat_ucast_next [OF k(1) go] by (auto simp: cov word_le_nat_alt)
      with cs True go it plain show ?thesis
        by (simp add: rangeToCIDRs.simps [of s e] Let_def ipString_def block_text_def
            flip: k_def)
    qed
  qed
qed

section \<open>Merging\<close>

text \<open>The merge loop from its last range on, with the ranges before it left out.\<close>

fun merge_from :: "ipRange \<Rightarrow> ipRange list \<Rightarrow> ipRange list" where
  "merge_from l [] = [l]"
| "merge_from l (r # rs) =
     (if r_start r \<le> r_end l + 1 \<and> r_end l \<noteq> max_u32
      then merge_from (if r_end r > r_end l then l\<lparr>r_end := r_end r\<rparr> else l) rs
      else l # merge_from r rs)"

lemma merge_step_snoc:
  "merge_step (xs @ [l]) r =
     (if r_start r \<le> r_end l + 1 \<and> r_end l \<noteq> max_u32
      then xs @ [if r_end r > r_end l then l\<lparr>r_end := r_end r\<rparr> else l]
      else (xs @ [l]) @ [r])"
  by (simp only: merge_step_def Let_def last_snoc butlast_snoc split: if_split) auto

lemma foldl_merge_step: "foldl merge_step (xs @ [l]) rs = xs @ merge_from l rs"
proof (induction rs arbitrary: xs l)
  case Nil
  then show ?case by simp
next
  case (Cons r rs)
  show ?case
  proof (cases "r_start r \<le> r_end l + 1 \<and> r_end l \<noteq> max_u32")
    case True
    then show ?thesis
      by (simp only: foldl_Cons merge_step_snoc merge_from.simps if_True simp_thms Cons.IH)
  next
    case False
    then show ?thesis
      by (simp only: foldl_Cons merge_step_snoc merge_from.simps if_False Cons.IH) simp
  qed
qed

lemma mergeRanges_merge_from:
  "mergeRanges rs = (case sort_key r_start rs of [] \<Rightarrow> [] | r # rest \<Rightarrow> merge_from r rest)"
  using foldl_merge_step [of "[]"] by (simp add: mergeRanges_def split: list.split)

lemma in_range_extend:
  assumes "wf_range l" "r_start l \<le> r_start r" "r_start r \<le> r_end l + 1" "r_end l \<noteq> max_u32"
    and "wf_range r"
  shows "in_range (if r_end r > r_end l then l\<lparr>r_end := r_end r\<rparr> else l) a \<longleftrightarrow>
    in_range l a \<or> in_range r a"
  using assms unat_Suc_u32 [OF assms(4)]
  by (auto simp: in_range_def wf_range_def word_le_nat_alt word_less_nat_alt)

fun separated :: "ipRange list \<Rightarrow> bool" where
  "separated (a # b # rs) \<longleftrightarrow>
     r_start a \<le> r_start b \<and> (r_end a \<noteq> max_u32 \<longrightarrow> r_end a + 1 < r_start b) \<and> separated (b # rs)"
| "separated _ \<longleftrightarrow> True"

lemma merge_from_hd: "r_start (hd (merge_from l rs)) = r_start l \<and> merge_from l rs \<noteq> []"
  by (induction l rs rule: merge_from.induct) auto

lemma merge_from_correct:
  assumes "list_all wf_range (l # rs)" "sorted (map r_start (l # rs))"
  shows "list_all wf_range (merge_from l rs) \<and> separated (merge_from l rs) \<and>
    (\<forall>a. in_ranges (merge_from l rs) a \<longleftrightarrow> in_ranges (l # rs) a)"
  using assms
proof (induction l rs rule: merge_from.induct)
  case (1 l)
  then show ?case by simp
next
  case (2 l r rs)
  let ?l' = "if r_end r > r_end l then l\<lparr>r_end := r_end r\<rparr> else l"
  show ?case
  proof (cases "r_start r \<le> r_end l + 1 \<and> r_end l \<noteq> max_u32")
    case True
    have "wf_range ?l'" using "2.prems"(1) by (auto simp: wf_range_def)
    then have prem: "list_all wf_range (?l' # rs)" "sorted (map r_start (?l' # rs))"
      using "2.prems" by auto
    have "in_range ?l' a \<longleftrightarrow> in_range l a \<or> in_range r a" for a
      using "2.prems" True by (intro in_range_extend) auto
    with "2.IH"(1) [OF True prem] True show ?thesis
      by (simp add: range_simps)
  next
    case False
    have IH: "list_all wf_range (merge_from r rs)" "separated (merge_from r rs)"
      "\<And>a. in_ranges (merge_from r rs) a \<longleftrightarrow> in_ranges (r # rs) a"
      using "2.IH"(2) [OF False] "2.prems" by auto
    obtain b bs where b: "merge_from r rs = b # bs" "r_start b = r_start r"
      using merge_from_hd [of r rs] by (cases "merge_from r rs") auto
    have m: "merge_from l (r # rs) = l # merge_from r rs"
      using False by (simp only: merge_from.simps if_False)
    have "r_start l \<le> r_start r" using "2.prems"(2) by simp
    moreover have "r_end l + 1 < r_start r" if "r_end l \<noteq> max_u32" using False that by auto
    ultimately have "separated (l # merge_from r rs)" using IH(2) b by simp
    with IH(1,3) "2.prems"(1) show ?thesis unfolding m by (simp add: range_simps)
  qed
qed

lemma sort_key_facts:
  "list_all wf_range rs \<Longrightarrow> list_all wf_range (sort_key r_start rs)"
  "in_ranges (sort_key r_start rs) a \<longleftrightarrow> in_ranges rs a"
  by (simp_all add: list_all_iff in_ranges_iff)

lemma mergeRanges_correct:
  assumes "list_all wf_range rs"
  shows "list_all wf_range (mergeRanges rs)" "separated (mergeRanges rs)"
    "in_ranges (mergeRanges rs) a \<longleftrightarrow> in_ranges rs a"
proof -
  have "list_all wf_range (mergeRanges rs) \<and> separated (mergeRanges rs) \<and>
      (in_ranges (mergeRanges rs) a \<longleftrightarrow> in_ranges rs a)"
  proof (cases "sort_key r_start rs")
    case Nil
    then have "rs = []" by (metis length_0_conv length_sort)
    then show ?thesis by (simp add: mergeRanges_merge_from)
  next
    case (Cons r rest)
    moreover have "sorted (map r_start (r # rest))"
      using sorted_sort_key [of r_start rs] Cons by simp
    ultimately show ?thesis
      using merge_from_correct [of r rest] sort_key_facts(1) [OF assms] sort_key_facts(2) [of rs a]
      by (simp add: mergeRanges_merge_from)
  qed
  then show "list_all wf_range (mergeRanges rs)" "separated (mergeRanges rs)"
    "in_ranges (mergeRanges rs) a \<longleftrightarrow> in_ranges rs a" by auto
qed

section \<open>The complement\<close>

lemma separated_tl: "separated (r # rs) \<Longrightarrow> separated rs"
  by (cases rs) auto

lemma separated_starts:
  "separated (r # rs) \<Longrightarrow> r' \<in> set rs \<Longrightarrow> r_start r \<le> r_start r'"
  by (induction rs arbitrary: r) (auto dest: order_trans)

lemma separated_next:
  assumes "separated (r # rs)" "r_end r \<noteq> max_u32" "r' \<in> set rs"
  shows "r_end r + 1 \<le> r_start r'"
proof (cases rs)
  case (Cons b bs)
  with assms have "r_end r + 1 < r_start b" "separated (b # bs)" by auto
  with assms(3) Cons separated_starts [of b bs r'] show ?thesis by auto
qed (use assms in simp)

lemma not_in_later:
  assumes "\<And>r'. r' \<in> set rs \<Longrightarrow> s \<le> r_start r'" "a < s"
  shows "\<not> in_ranges rs a"
  using assms by (fastforce simp: in_ranges_iff in_range_def)

lemma le_pred_iff: "(c :: u32) < s \<Longrightarrow> a \<le> s - 1 \<longleftrightarrow> a < s"
  using unat_pred_u32 [of s] by (auto simp: word_le_nat_alt word_less_nat_alt word_unat_eq_iff)

lemma complement_loop_correct:
  assumes "list_all wf_range rs" "separated rs" "rs = [] \<or> cursor \<le> r_start (hd rs)"
    and "list_all plain_block out"
  shows "\<exists>cs. complement_loop cursor started out rs = Some cs \<and> list_all plain_block cs \<and>
    (\<forall>a. list_ex (\<lambda>c. covers c a) cs \<longleftrightarrow>
      list_ex (\<lambda>c. covers c a) out \<or> (cursor \<le> a \<and> \<not> in_ranges rs a))"
  using assms
proof (induction rs arbitrary: cursor started out)
  case Nil
  obtain cs where "rangeToCIDRs cursor max_u32 = Some cs" "list_all plain_block cs"
    "\<And>a. list_ex (\<lambda>c. covers c a) cs \<longleftrightarrow> cursor \<le> a \<and> a \<le> max_u32"
    using rangeToCIDRs_blocks by blast
  with Nil show ?case by (simp add: range_simps)
next
  case (Cons r rs)
  obtain gap where gap: "rangeToCIDRs cursor (r_start r - 1) = Some gap" "list_all plain_block gap"
    "\<And>a. list_ex (\<lambda>c. covers c a) gap \<longleftrightarrow> cursor \<le> a \<and> a \<le> r_start r - 1"
    using rangeToCIDRs_blocks by blast
  define out' where "out' = (if r_start r > cursor then out @ gap else out)"
  have plain: "list_all plain_block out'" using gap(2) Cons.prems(4) by (simp add: out'_def)
  have out': "list_ex (\<lambda>c. covers c a) out' \<longleftrightarrow>
      list_ex (\<lambda>c. covers c a) out \<or> (cursor \<le> a \<and> a < r_start r)" for a
    using gap(3) le_pred_iff [of cursor "r_start r"] by (auto simp: out'_def)
  have step: "complement_loop cursor started out (r # rs) =
      (if r_end r = max_u32 then Some out' else complement_loop (r_end r + 1) True out' rs)"
    using gap(1) by (simp add: out'_def)
  have later: "\<not> in_ranges rs a" if "a < r_start r" for a
    using separated_starts [OF Cons.prems(2)] that by (rule not_in_later)
  show ?case
  proof (cases "r_end r = max_u32")
    case True
    have "cursor \<le> a \<and> a < r_start r \<longleftrightarrow> cursor \<le> a \<and> \<not> in_ranges (r # rs) a" for a
      using later [of a] True by (auto simp: range_simps in_range_def)
    with step True out' plain show ?thesis by simp
  next
    case False
    have nxt: "rs = [] \<or> r_end r + 1 \<le> r_start (hd rs)"
      using separated_next [OF Cons.prems(2) False] by (cases rs) auto
    have "complement_loop cursor started out (r # rs) = complement_loop (r_end r + 1) True out' rs"
      using step False by simp
    moreover obtain cs where cs: "complement_loop (r_end r + 1) True out' rs = Some cs"
        "list_all plain_block cs"
        "\<And>a. list_ex (\<lambda>c. covers c a) cs \<longleftrightarrow>
          list_ex (\<lambda>c. covers c a) out' \<or> (r_end r + 1 \<le> a \<and> \<not> in_ranges rs a)"
      using Cons.IH [OF _ separated_tl [OF Cons.prems(2)] nxt plain] Cons.prems(1) by auto
    moreover have "(cursor \<le> a \<and> a < r_start r) \<or> (r_end r + 1 \<le> a \<and> \<not> in_ranges rs a) \<longleftrightarrow>
        cursor \<le> a \<and> \<not> in_ranges (r # rs) a" for a
      using later [of a] Cons.prems(1,3) unat_Suc_u32 [OF False]
      by (auto simp: range_simps in_range_def wf_range_def word_le_nat_alt word_less_nat_alt)
    ultimately show ?thesis using out' by auto
  qed
qed

lemma computeComplement_correct:
  assumes "list_all wf_range rs"
  shows "\<exists>cs. computeComplement (mergeRanges rs) = Some cs \<and> list_all plain_block cs \<and>
    (\<forall>a. list_ex (\<lambda>c. covers c a) cs \<longleftrightarrow> \<not> in_ranges rs a)"
  using complement_loop_correct [of "mergeRanges rs" 0 "[]" False] mergeRanges_correct [OF assms]
  by (simp add: computeComplement_def)

section \<open>The ranges that are excluded\<close>

text \<open>
  A line of the address list that denotes an IPv4 block, or nothing: an IPv4-mapped IPv6 block
  would be read with the wrong size, since its prefix length counts from bit 128.
\<close>

definition v4_line :: "string \<Rightarrow> bool" where
  "v4_line c \<longleftrightarrow> (case ParseCIDR (TrimSpace c) of
     None \<Rightarrow> True
   | Some n \<Rightarrow> (case net_ip n of IPv4 _ \<Rightarrow> True | IPv6 w \<Rightarrow> To4 (IPv6 w) = None))"

lemma ParseCIDR_v4:
  assumes "ParseCIDR s = Some n" "net_ip n = IPv4 b"
  shows "net_ones n \<le> 32" and "2 ^ (32 - net_ones n) dvd unat b"
    and "mask_ip (IPv4 b) (net_ones n) = IPv4 b"
proof -
  obtain a m where a: "n = \<lparr>net_ip = mask_ip (IPv4 a) m, net_ones = m\<rparr>" "m \<le> 32"
    using assms by (auto simp: ParseCIDR_def mask_ip_shift split: option.splits if_splits ip.splits)
  then have b: "b = push_bit (32 - m) (drop_bit (32 - m) a)" using assms(2)
    by (simp add: mask_ip_shift)
  show "net_ones n \<le> 32" using a by simp
  show d: "2 ^ (32 - net_ones n) dvd unat b" using a(1) by (simp add: b unat_mask)
  have "unat (push_bit (32 - m) (drop_bit (32 - m) b) :: u32) = unat b"
    using d a(1) by (simp only: unat_mask) (simp add: dvd_mult_div_cancel)
  then show "mask_ip (IPv4 b) (net_ones n) = IPv4 b"
    using a(1) by (simp add: mask_ip_shift word_unat_eq_iff)
qed

lemma block_range_end:
  fixes b :: u32
  assumes "k \<le> 32" "2 ^ k dvd unat b"
  shows "unat (b + shl_one (int k) - 1) = unat b + (2 ^ k - 1)"
proof (cases "k = 32")
  case True
  then have "unat b = 0" using assms(2) unat_lt_2p32 [of b] by (auto dest: dvd_imp_le)
  then have "b = 0" by (simp add: unat_eq_zero)
  with True show ?thesis by (simp add: shl_one_def unat_u32_max)
next
  case False
  then have p: "(2 :: nat) ^ k < 2 ^ 32" using assms(1) by (intro power_strict_increasing) auto
  have "unat b + (2 ^ k - 1) < 2 ^ 32"
  proof -
    obtain q where q: "unat b = 2 ^ k * q" using assms(2) by auto
    have e: "(2 :: nat) ^ 32 = 2 ^ k * 2 ^ (32 - k)" using assms(1) by (simp flip: power_add)
    have "2 ^ k * q < 2 ^ k * 2 ^ (32 - k)" using q unat_lt_2p32 [of b] e by simp
    then have "q < 2 ^ (32 - k)" by (simp only: nat_mult_less_cancel_disj)
    then have "2 ^ k * Suc q \<le> 2 ^ k * 2 ^ (32 - k)" by (intro mult_le_mono2) simp
    then show ?thesis using q e by simp
  qed
  moreover have "b + shl_one (int k) - 1 = of_nat (unat b + (2 ^ k - 1))"
  proof -
    have "(1 :: nat) \<le> 2 ^ k" by simp
    then have "of_nat (2 ^ k - 1) = (2 ^ k - 1 :: u32)" by (simp only: of_nat_diff) simp
    then show ?thesis using False assms(1) by (simp only: of_nat_add) (simp add: shl_one_def)
  qed
  ultimately show ?thesis by (simp only: unat_of_nat_u32)
qed

lemma add_range_correct:
  assumes "v4_line c"
  shows "\<exists>rs'. add_range rs c = rs @ rs' \<and> list_all wf_range rs' \<and>
    (\<forall>a. in_ranges rs' a \<longleftrightarrow> covers c a)"
proof (cases "ParseCIDR (TrimSpace c)")
  case None
  then show ?thesis by (auto simp: add_range_def Let_def covers_def range_simps)
next
  case (Some n)
  have ne: "TrimSpace c \<noteq> []" using Some by (auto simp: ParseCIDR_def Cut_def)
  show ?thesis
  proof (cases "net_ip n")
    case (IPv6 w)
    then have "To4 (net_ip n) = None" using assms Some by (simp add: v4_line_def)
    with Some IPv6 ne show ?thesis
      by (auto simp: add_range_def Let_def covers_def range_simps mask_ip_shift)
  next
    case (IPv4 b)
    note n = ParseCIDR_v4 [OF Some IPv4]
    define k where "k = 32 - net_ones n"
    define e where "e = b + shl_one (int k) - 1"
    have k: "k \<le> 32" "net_ones n = 32 - k" "32 - int (net_ones n) = int k"
      using n(1) by (simp_all add: k_def of_nat_diff)
    have e: "unat e = unat b + (2 ^ k - 1)"
      unfolding e_def using n(2) by (intro block_range_end) (simp_all add: k_def)
    have "covers c a \<longleftrightarrow> in_range \<lparr>r_start = b, r_end = e\<rparr> a" for a
    proof -
      have "covers c a \<longleftrightarrow> mask_ip (IPv4 a) (32 - k) = mask_ip (IPv4 b) (32 - k)"
        using Some IPv4 n(3) k(2) by (simp add: covers_def)
      also have "\<dots> \<longleftrightarrow> unat b \<le> unat a \<and> unat a < unat b + 2 ^ k"
        using n(2) div_eq_iff_interval [of "2 ^ k" "unat b" "unat a"]
        by (simp add: same_block_iff [OF k(1)] flip: k_def)
      also have "\<dots> \<longleftrightarrow> unat b \<le> unat a \<and> unat a \<le> unat e"
        using e by (simp add: less_eq_Suc_le [symmetric] le_diff_conv2 less_Suc_eq_le [symmetric])
      finally show ?thesis by (simp add: in_range_def word_le_nat_alt)
    qed
    moreover have "wf_range \<lparr>r_start = b, r_end = e\<rparr>"
      using e by (simp only: wf_range_def word_le_nat_alt ipRange.simps)
    moreover have "add_range rs c = rs @ [\<lparr>r_start = b, r_end = e\<rparr>]"
      using Some IPv4 ne k(3) by (simp add: add_range_def Let_def e_def)
    ultimately show ?thesis by (auto simp: range_simps)
  qed
qed

lemma foldl_add_range:
  assumes "list_all v4_line cs"
  shows "\<exists>rs'. foldl add_range rs cs = rs @ rs' \<and> list_all wf_range rs' \<and>
    (\<forall>a. in_ranges rs' a \<longleftrightarrow> list_ex (\<lambda>c. covers c a) cs)"
  using assms
proof (induction cs arbitrary: rs)
  case Nil
  then show ?case by (simp add: range_simps)
next
  case (Cons c cs)
  obtain r1 where r1: "add_range rs c = rs @ r1" "list_all wf_range r1"
      "\<And>a. in_ranges r1 a \<longleftrightarrow> covers c a"
    using add_range_correct Cons.prems by (metis list.pred_inject(2))
  obtain r2 where r2: "foldl add_range (rs @ r1) cs = (rs @ r1) @ r2" "list_all wf_range r2"
      "\<And>a. in_ranges r2 a \<longleftrightarrow> list_ex (\<lambda>c. covers c a) cs"
    using Cons.IH [of "rs @ r1"] Cons.prems by auto
  from r1 r2 show ?case by (intro exI [of _ "r1 @ r2"]) (simp add: range_simps)
qed

lemma v4_private: "list_all v4_line privateCIDRs"
  by code_simp

lemma excludedRanges_correct:
  assumes "list_all v4_line (Split ru (CHR 0x0A))"
  shows "list_all wf_range (excludedRanges ru)" "separated (excludedRanges ru)"
    "in_ranges (excludedRanges ru) a \<longleftrightarrow>
      list_ex (\<lambda>c. covers c a) (Split ru (CHR 0x0A) @ privateCIDRs)"
proof -
  obtain r1 where r1: "foldl add_range [] (Split ru (CHR 0x0A)) = r1" "list_all wf_range r1"
      "\<And>a. in_ranges r1 a \<longleftrightarrow> list_ex (\<lambda>c. covers c a) (Split ru (CHR 0x0A))"
    using foldl_add_range [OF assms, of "[]"] by auto
  obtain r2 where r2: "foldl add_range r1 privateCIDRs = r1 @ r2" "list_all wf_range r2"
      "\<And>a. in_ranges r2 a \<longleftrightarrow> list_ex (\<lambda>c. covers c a) privateCIDRs"
    using foldl_add_range [OF v4_private, of r1] by auto
  have m: "excludedRanges ru = mergeRanges (r1 @ r2)"
    by (simp add: excludedRanges_def r1(1) r2(1))
  have wf: "list_all wf_range (r1 @ r2)" using r1(2) r2(2) by simp
  show "list_all wf_range (excludedRanges ru)" "separated (excludedRanges ru)"
    using mergeRanges_correct(1,2) [OF wf] by (simp_all only: m)
  show "in_ranges (excludedRanges ru) a \<longleftrightarrow>
      list_ex (\<lambda>c. covers c a) (Split ru (CHR 0x0A) @ privateCIDRs)"
    using mergeRanges_correct(3) [OF wf, of a] r1(3) r2(3) by (simp add: m range_simps)
qed

section \<open>What an AllowedIPs value routes\<close>

text \<open>The peer's side: a comma-separated list of blocks.\<close>

definition routes :: "string \<Rightarrow> u32 \<Rightarrow> bool" where
  "routes v a \<longleftrightarrow> list_ex (\<lambda>c. covers c a) (Split v CHR '','')"

lemma TrimSpace_leading_space: "TrimSpace (CHR '' '' # s) = TrimSpace s"
proof -
  have "CHR '' '' = char_of (32 :: nat)" by code_simp
  then have "space_prefix space_runes (CHR '' '' # s) = 1"
    by (simp only: space_runes_def) (simp add: HasPrefix_def)
  then have "trim_runes space_runes (CHR '' '' # s) = trim_runes space_runes s"
    by (subst trim_runes.simps) (simp add: Let_def)
  then show ?thesis by (simp add: TrimSpace_def)
qed

lemma covers_leading_space: "covers (CHR '' '' # c) a = covers c a"
  by (simp add: covers_def TrimSpace_leading_space)

lemma covers_empty [simp]: "\<not> covers [] a"
  by (simp add: covers_def TrimSpace_def trim_runes.simps ParseCIDR_def Cut_def)

lemma Split_Join_space:
  "cs \<noteq> [] \<Longrightarrow> list_all (\<lambda>c. CHR '','' \<notin> set c) cs \<Longrightarrow>
    Split (Join cs '', '') CHR '','' = hd cs # map ((#) CHR '' '') (tl cs)"
proof (induction cs "'', ''" rule: Join.induct)
  case (3 s t ss)
  then show ?case by (simp add: Split_append_sep)
qed (simp_all add: Split_no_sep)

lemma routes_Join:
  assumes "list_all plain_block cs"
  shows "routes (Join cs '', '') a \<longleftrightarrow> list_ex (\<lambda>c. covers c a) cs"
proof (cases cs)
  case Nil
  then show ?thesis by (simp add: routes_def)
next
  case (Cons c rest)
  have "list_all (\<lambda>c. CHR '','' \<notin> set c) cs"
    using assms comma_not_in_block by (fastforce simp: plain_block_def list_all_iff)
  then show ?thesis
    using Split_Join_space [of cs] Cons
    by (simp add: routes_def list_ex_iff covers_leading_space)
qed

text \<open>
  C17. Split tunnelling is exact: whatever the address list, the AllowedIPs value is computed
  without a panic, and the peer routes through the tunnel exactly the IPv4 addresses that lie in
  no line of the list and in no private block, provided no line is an IPv4-mapped IPv6 block.
\<close>

theorem split_routing_exact:
  assumes "list_all v4_line (Split ru (CHR 0x0A))"
  shows "\<exists>v. allowedIPsFor ru RoutingSplitRU = Some v \<and>
    (\<forall>a. routes v a \<longleftrightarrow> \<not> list_ex (\<lambda>c. covers c a) (Split ru (CHR 0x0A) @ privateCIDRs))"
proof -
  note ex = excludedRanges_correct [OF assms]
  obtain cs where cs: "computeComplement (excludedRanges ru) = Some cs" "list_all plain_block cs"
      "\<And>a. list_ex (\<lambda>c. covers c a) cs \<longleftrightarrow> \<not> in_ranges (excludedRanges ru) a"
    using complement_loop_correct [OF ex(1,2), of 0 "[]" False] by (auto simp: computeComplement_def)
  then show ?thesis
    using ex(3) by (simp add: allowedIPsFor_def routes_Join)
qed

theorem split_routing_exact_witness:
  "\<exists>v. allowedIPsFor ''5.3.0.0/16'' RoutingSplitRU = Some v \<and>
    routes v 0x08080808 \<and> \<not> routes v 0x05030001 \<and> \<not> routes v 0x0A000001"
proof -
  let ?ru = "''5.3.0.0/16''"
  have "list_all v4_line (Split ?ru (CHR 0x0A))" by code_simp
  note f = split_routing_exact [OF this]
  have "\<not> list_ex (\<lambda>c. covers c 0x08080808) (Split ?ru (CHR 0x0A) @ privateCIDRs)" by code_simp
  moreover have "list_ex (\<lambda>c. covers c 0x05030001) (Split ?ru (CHR 0x0A) @ privateCIDRs)"
    by code_simp
  moreover have "list_ex (\<lambda>c. covers c 0x0A000001) (Split ?ru (CHR 0x0A) @ privateCIDRs)"
    by code_simp
  ultimately show ?thesis using f by metis
qed

text \<open>
  C18. A range of IPv4 addresses always splits into blocks (the prefix buffer never overflows and
  the loop ends), every one a well-formed CIDR block, and they cover exactly the range.
\<close>

theorem rangeToCIDRs_exact:
  "\<exists>cs. rangeToCIDRs s e = Some cs \<and> list_all plain_block cs \<and>
    (\<forall>a. list_ex (\<lambda>c. covers c a) cs \<longleftrightarrow> s \<le> a \<and> a \<le> e)"
  by (rule rangeToCIDRs_blocks)

text \<open>
  Merging keeps every address, leaves the ranges well formed, in order, and pairwise
  separated by at least one address.
\<close>

theorem mergeRanges_exact:
  assumes "list_all wf_range rs"
  shows "list_all wf_range (mergeRanges rs) \<and> separated (mergeRanges rs) \<and>
    (in_ranges (mergeRanges rs) a \<longleftrightarrow> in_ranges rs a)"
  using mergeRanges_correct [OF assms] by simp

theorem mergeRanges_exact_witness:
  "separated (mergeRanges [\<lparr>r_start = 9, r_end = 12\<rparr>, \<lparr>r_start = 4, r_end = 8\<rparr>]) \<and>
   in_ranges (mergeRanges [\<lparr>r_start = 9, r_end = 12\<rparr>, \<lparr>r_start = 4, r_end = 8\<rparr>]) 9"
  using mergeRanges_exact [of "[\<lparr>r_start = 9, r_end = 12\<rparr>, \<lparr>r_start = 4, r_end = 8\<rparr>]" 9]
  by (simp add: wf_range_def range_simps in_range_def)

end
