(* ===== verification/WireGuard.thy ===== *)
theory WireGuard
  imports RoutingCorrect Errors
begin

text \<open>
  WireGuard client configurations (\<open>internal/vpn/wireguard.go\<close>): the allocation of a client
  address in a node's subnet and the rendered configuration file, with the correctness of the
  allocator.
\<close>

section \<open>The code\<close>

record wgParams =
  wg_ClientPrivateKey :: string
  wg_ClientAddress :: string
  wg_DNS :: string
  wg_ServerPublicKey :: string
  wg_PresharedKey :: string
  wg_Endpoint :: string
  wg_AllowedIPs :: string

abbreviation newline :: string where "newline \<equiv> [CHR 0x0A]"

definition renderWireGuardConfig :: "wgParams \<Rightarrow> string" where
  "renderWireGuardConfig p =
     (let allowed = (if wg_AllowedIPs p = '''' then fullAllowedIPs else wg_AllowedIPs p) in
      ''[Interface]'' @ newline @
      ''PrivateKey = '' @ wg_ClientPrivateKey p @ newline @
      ''Address = '' @ wg_ClientAddress p @ newline @
      (if wg_DNS p \<noteq> '''' then ''DNS = '' @ wg_DNS p @ newline else '''') @
      newline @ ''[Peer]'' @ newline @
      ''PublicKey = '' @ wg_ServerPublicKey p @ newline @
      (if wg_PresharedKey p \<noteq> ''''
       then ''PresharedKey = '' @ wg_PresharedKey p @ newline else '''') @
      ''AllowedIPs = '' @ allowed @ newline @
      ''Endpoint = '' @ wg_Endpoint p @ newline @
      ''PersistentKeepalive = 25'' @ newline)"

text \<open>The address a used entry takes, with or without a mask suffix.\<close>

definition used_addr :: "string \<Rightarrow> u32 option" where
  "used_addr u =
     (let host = (case IndexByte u (CHR ''/'') of Some i \<Rightarrow> take i u | None \<Rightarrow> u)
      in ParseIP4 (TrimSpace host))"

definition taken_addrs :: "string list \<Rightarrow> u32 list" where
  "taken_addrs used = List.map_filter used_addr used"

text \<open>The search loop, from an offset up to and without the last one.\<close>

function alloc_loop :: "u32 list \<Rightarrow> u32 \<Rightarrow> u32 \<Rightarrow> u32 \<Rightarrow> u32 option" where
  "alloc_loop taken network stop offset =
     (if offset < stop then
        (let candidate = network + offset in
         if candidate \<in> set taken then alloc_loop taken network stop (offset + 1)
         else Some candidate)
      else None)"
  by pat_completeness auto
termination
proof (relation "measure (\<lambda>(_, _, stop, offset). unat stop - unat offset)", goal_cases)
  case (2 taken network stop offset x)
  then have "unat offset < unat stop" "offset \<noteq> - 1"
    using word_order.extremum_strict by (auto simp: word_less_nat_alt)
  then show ?case by (simp add: unat_Suc_u32)
qed (simp_all)

declare alloc_loop.simps [simp del]

definition allocateWireGuardIP :: "string \<Rightarrow> string list \<Rightarrow> error + string" where
  "allocateWireGuardIP subnet used =
     (case ParseCIDR subnet of
       None \<Rightarrow> Inl (Wrap ''parse subnet'' (Errorf ''invalid CIDR address''))
     | Some n \<Rightarrow>
         (case To4 (net_ip n) of
           None \<Rightarrow> Inl (Errorf ''only IPv4 subnets are supported'')
         | Some network \<Rightarrow>
             (let taken = taken_addrs used;
                  size = shl_one (int (ip_bits (net_ip n)) - int (net_ones n))
              in (case alloc_loop taken network (size - 1) 2 of
                   Some candidate \<Rightarrow> Inr (show_ipv4 candidate @ ''/32'')
                 | None \<Rightarrow> Inl ErrSubnetExhausted))))"

section \<open>The allocator\<close>

lemma alloc_loop_Some:
  "alloc_loop taken network stop offset = Some c \<longleftrightarrow>
    (\<exists>k. offset \<le> k \<and> k < stop \<and> c = network + k \<and> c \<notin> set taken \<and>
      (\<forall>j. offset \<le> j \<longrightarrow> j < k \<longrightarrow> network + j \<in> set taken))"
proof (induction taken network stop offset rule: alloc_loop.induct)
  case (1 taken network stop offset)
  show ?case
  proof (cases "offset < stop \<and> network + offset \<in> set taken")
    case True
    then have "offset \<noteq> - 1" using word_order.extremum_strict by auto
    then have nxt: "offset + 1 \<le> k \<longleftrightarrow> offset < k" for k
      by (simp add: word_le_nat_alt word_less_nat_alt unat_Suc_u32 Suc_le_eq)
    have "alloc_loop taken network stop offset = alloc_loop taken network stop (offset + 1)"
      using True by (subst alloc_loop.simps) simp
    with 1 True show ?thesis by (simp add: nxt) (metis order_le_less)
  next
    case False
    show ?thesis
    proof (cases "offset < stop")
      case lt: True
      with False have "alloc_loop taken network stop offset = Some (network + offset)"
        by (subst alloc_loop.simps) simp
      with lt False show ?thesis by (auto simp: order_le_less)
    next
      case ge: False
      then have "alloc_loop taken network stop offset = None"
        by (subst alloc_loop.simps) simp
      with ge show ?thesis by auto
    qed
  qed
qed

lemma alloc_loop_None:
  "alloc_loop taken network stop offset = None \<longleftrightarrow>
    (\<forall>k. offset \<le> k \<and> k < stop \<longrightarrow> network + k \<in> set taken)"
proof (induction taken network stop offset rule: alloc_loop.induct)
  case (1 taken network stop offset)
  show ?case
  proof (cases "offset < stop \<and> network + offset \<in> set taken")
    case True
    then have "offset \<noteq> - 1" using word_order.extremum_strict by auto
    then have nxt: "offset + 1 \<le> k \<longleftrightarrow> offset < k" for k
      by (simp add: word_le_nat_alt word_less_nat_alt unat_Suc_u32 Suc_le_eq)
    have "alloc_loop taken network stop offset = alloc_loop taken network stop (offset + 1)"
      using True by (subst alloc_loop.simps) simp
    with 1 True show ?thesis by (simp add: nxt) (metis order_le_less)
  next
    case False
    then show ?thesis by (subst alloc_loop.simps) auto
  qed
qed

text \<open>
  The addresses of a block with base \<open>b\<close> and prefix length \<open>n\<close> a client may get: not the
  network address, not the gateway after it, and not the last (broadcast) address.
\<close>

definition usable_host :: "u32 \<Rightarrow> nat \<Rightarrow> u32 \<Rightarrow> bool" where
  "usable_host b n d \<longleftrightarrow> unat b + 2 \<le> unat d \<and> unat d < unat b + (2 ^ (32 - n) - 1)"

lemma block_fits:
  fixes b :: u32
  assumes "k \<le> 32" "2 ^ k dvd unat b"
  shows "unat b + 2 ^ k \<le> 2 ^ 32"
  using block_range_end [OF assms] unat_lt_2p32 [of "b + shl_one (int k) - 1"] by simp

lemma unat_size_pred: "k \<le> 32 \<Longrightarrow> unat (shl_one (int k) - 1) = 2 ^ k - 1"
  using block_range_end [of k 0] by simp

lemma offset_iff:
  assumes "n \<le> 32" "2 ^ (32 - n) dvd unat b"
  shows "(\<exists>k. 2 \<le> k \<and> k < shl_one (32 - int n) - 1 \<and> d = b + k \<and> P k) \<longleftrightarrow>
    usable_host b n d \<and> P (d - b)"
proof -
  let ?m = "2 ^ (32 - n) - 1 :: nat"
  have sz: "unat (shl_one (32 - int n) - 1) = ?m"
    using unat_size_pred [of "32 - n"] assms(1) by (simp add: of_nat_diff)
  have fit: "unat b + ?m < 2 ^ 32"
    using block_fits [OF _ assms(2)] by (simp add: less_le_trans)
  have k: "2 \<le> k \<and> k < shl_one (32 - int n) - 1 \<longleftrightarrow> 2 \<le> unat k \<and> unat k < ?m" for k :: u32
    by (simp add: word_le_nat_alt word_less_nat_alt sz)
  show ?thesis
  proof
    assume "\<exists>k. 2 \<le> k \<and> k < shl_one (32 - int n) - 1 \<and> d = b + k \<and> P k"
    then obtain k where k': "2 \<le> unat k" "unat k < ?m" "d = b + k" "P k" using k by blast
    then have "unat d = unat b + unat k" using fit by (simp add: unat_add_u32)
    with k' show "usable_host b n d \<and> P (d - b)" by (simp add: usable_host_def)
  next
    assume a: "usable_host b n d \<and> P (d - b)"
    then have "b \<le> d" by (simp add: usable_host_def word_le_nat_alt)
    then have "unat (d - b) = unat d - unat b" by (rule unat_sub)
    with a have "2 \<le> unat (d - b) \<and> unat (d - b) < ?m"
      by (auto simp: usable_host_def)
    with a k [of "d - b"] show "\<exists>k. 2 \<le> k \<and> k < shl_one (32 - int n) - 1 \<and> d = b + k \<and> P k"
      by (intro exI [of _ "d - b"]) simp
  qed
qed

text \<open>
  C19. The allocator returns the lowest address of the subnet that no used entry takes and that is
  neither the network address, the gateway, nor the broadcast address; it reports exhaustion
  exactly when every such address is taken.
\<close>

theorem allocateWireGuardIP_lowest_free:
  assumes "ParseCIDR subnet = Some net" "net_ip net = IPv4 b"
  shows "case allocateWireGuardIP subnet used of
      Inr ip \<Rightarrow> (\<exists>c. ip = show_ipv4 c @ ''/32'' \<and> usable_host b (net_ones net) c \<and>
        c \<notin> set (taken_addrs used) \<and>
        (\<forall>d. usable_host b (net_ones net) d \<longrightarrow> d < c \<longrightarrow> d \<in> set (taken_addrs used)))
    | Inl e \<Rightarrow> e = ErrSubnetExhausted \<and>
        (\<forall>d. usable_host b (net_ones net) d \<longrightarrow> d \<in> set (taken_addrs used))"
proof -
  note n = ParseCIDR_v4 [OF assms]
  let ?t = "taken_addrs used" and ?stop = "shl_one (32 - int (net_ones net)) - 1"
  note off = offset_iff [OF n(1,2)]
  have res: "allocateWireGuardIP subnet used = (case alloc_loop ?t b ?stop 2 of
      Some c \<Rightarrow> Inr (show_ipv4 c @ ''/32'') | None \<Rightarrow> Inl ErrSubnetExhausted)"
    using assms by (simp add: allocateWireGuardIP_def)
  show ?thesis
  proof (cases "alloc_loop ?t b ?stop 2")
    case None
    then have "\<forall>k. 2 \<le> k \<and> k < ?stop \<longrightarrow> b + k \<in> set ?t" by (simp only: alloc_loop_None)
    then have "d \<in> set ?t" if "usable_host b (net_ones net) d" for d
      using off [where P = "\<lambda>_. True", of d] that by auto
    with res None show ?thesis by simp
  next
    case (Some c)
    then obtain k where k: "2 \<le> k" "k < ?stop" "c = b + k" "c \<notin> set ?t"
        "\<forall>j. 2 \<le> j \<longrightarrow> j < k \<longrightarrow> b + j \<in> set ?t"
      by (auto simp only: alloc_loop_Some)
    have c: "usable_host b (net_ones net) c" using off [where P = "\<lambda>_. True", of c] k by blast
    have "d \<in> set ?t" if d: "usable_host b (net_ones net) d" "d < c" for d
    proof -
      obtain j where j: "2 \<le> j" "j < ?stop" "d = b + j"
        using off [where P = "\<lambda>_. True", of d] d(1) by blast
      have "unat (d - b) = unat d - unat b" "unat (c - b) = unat c - unat b"
        using c d(1) by (simp_all add: unat_sub usable_host_def word_le_nat_alt)
      then have "j < k" using d c j(3) k(3) by (simp add: usable_host_def word_less_nat_alt)
      with k(5) j show ?thesis by blast
    qed
    with res Some k(4) c show ?thesis by auto
  qed
qed

theorem allocateWireGuardIP_lowest_free_witness:
  "\<exists>c. allocateWireGuardIP ''10.7.0.0/29'' [''10.7.0.2'', ''10.7.0.3/32''] =
    Inr (show_ipv4 c @ ''/32'') \<and> usable_host 0x0A070000 29 c"
proof -
  have p: "ParseCIDR ''10.7.0.0/29'' = Some \<lparr>net_ip = IPv4 0x0A070000, net_ones = 29\<rparr>"
    by code_simp
  let ?r = "allocateWireGuardIP ''10.7.0.0/29'' [''10.7.0.2'', ''10.7.0.3/32'']"
  have ip: "?r = Inr ''10.7.0.4/32''" by code_simp
  show ?thesis
    using allocateWireGuardIP_lowest_free [OF p, where b = "0x0A070000"
        and used = "[''10.7.0.2'', ''10.7.0.3/32'']"]
    by (auto simp: ip)
qed

text \<open>An address the allocator handed out, as the database returns it, is taken next time.\<close>

lemma used_addr_show_ipv4: "used_addr (show_ipv4 c) = Some c"
proof -
  have "CHR ''/'' \<notin> set (show_ipv4 c)" using set_show_ipv4 dot_not_digit by auto
  then have "IndexByte (show_ipv4 c) CHR ''/'' = None"
    by (simp add: IndexByte_None)
  then show ?thesis
    by (simp add: used_addr_def TrimSpace_show_ipv4 parse_simps)
qed

text \<open>
  No address is handed out twice: once the address the allocator returned is among the used
  ones, no later allocation in any subnet returns it.
\<close>

theorem allocateWireGuardIP_never_reuses:
  assumes "used_addr u = Some c" "u \<in> set used"
  shows "allocateWireGuardIP subnet used \<noteq> Inr (show_ipv4 c @ ''/32'')"
proof
  assume a: "allocateWireGuardIP subnet used = Inr (show_ipv4 c @ ''/32'')"
  then obtain b stop d where "alloc_loop (taken_addrs used) b stop 2 = Some d"
      "show_ipv4 d = show_ipv4 c"
    by (auto simp: allocateWireGuardIP_def Let_def split: option.splits)
  then have "c \<notin> set (taken_addrs used)"
    using alloc_loop_Some show_ipv4_inj by metis
  moreover have "c \<in> set (taken_addrs used)"
    using assms by (force simp: taken_addrs_def List.map_filter_def)
  ultimately show False by simp
qed

theorem allocateWireGuardIP_never_reuses_witness:
  "allocateWireGuardIP ''10.7.0.0/24'' [''10.7.0.2''] \<noteq> Inr (show_ipv4 0x0A070002 @ ''/32'')"
proof (rule allocateWireGuardIP_never_reuses)
  show "used_addr ''10.7.0.2'' = Some 0x0A070002" by code_simp
  show "''10.7.0.2'' \<in> set [''10.7.0.2'']" by simp
qed

end
