(* ===== verification/VPNLinks.thy ===== *)
theory VPNLinks
  imports Encoding
begin

text \<open>
  Import links for clients (\<open>internal/vpn/reality.go\<close>, \<open>shadowsocks.go\<close>, \<open>trojan.go\<close>), and
  the round trip: what a client that splits and unescapes a link reads back.
\<close>

section \<open>The code\<close>

record realityParams =
  rl_UUID :: string
  rl_Host :: string
  rl_Port :: int
  rl_SNI :: string
  rl_PublicKey :: string
  rl_ShortID :: string
  rl_Label :: string

definition host_port :: "string \<Rightarrow> int \<Rightarrow> string" where
  "host_port host port = host @ '':'' @ show_int port"

definition renderRealityURI :: "realityParams \<Rightarrow> string" where
  "renderRealityURI p =
     (let q = [(''type'', ''tcp''), (''security'', ''reality''), (''encryption'', ''none''),
               (''flow'', ''xtls-rprx-vision''), (''sni'', rl_SNI p), (''fp'', ''chrome''),
               (''pbk'', rl_PublicKey p), (''sid'', rl_ShortID p)]
      in URL_String \<lparr>url_scheme = ''vless'', url_user = rl_UUID p,
           url_host = host_port (rl_Host p) (rl_Port p), url_query = Values_Encode q,
           url_fragment = rl_Label p\<rparr>)"

record ssParams =
  ss_Method :: string
  ss_ServerKey :: string
  ss_UserKey :: string
  ss_Host :: string
  ss_Port :: int
  ss_Label :: string

definition renderShadowsocksURI :: "ssParams \<Rightarrow> string" where
  "renderShadowsocksURI p =
     (let userinfo = RawURLEncoding_EncodeToString
            (ss_Method p @ '':'' @ ss_ServerKey p @ '':'' @ ss_UserKey p)
      in URL_String \<lparr>url_scheme = ''ss'', url_user = userinfo,
           url_host = host_port (ss_Host p) (ss_Port p), url_query = '''',
           url_fragment = ss_Label p\<rparr>)"

record trojanParams =
  tj_Password :: string
  tj_Host :: string
  tj_Port :: int
  tj_SNI :: string
  tj_PublicKey :: string
  tj_ShortID :: string
  tj_Label :: string

definition renderTrojanURI :: "trojanParams \<Rightarrow> string" where
  "renderTrojanURI p =
     (let q = [(''type'', ''tcp''), (''security'', ''reality''), (''flow'', ''xtls-rprx-vision''),
               (''sni'', tj_SNI p), (''fp'', ''chrome''), (''pbk'', tj_PublicKey p),
               (''sid'', tj_ShortID p)]
      in URL_String \<lparr>url_scheme = ''trojan'', url_user = tj_Password p,
           url_host = host_port (tj_Host p) (tj_Port p), url_query = Values_Encode q,
           url_fragment = tj_Label p\<rparr>)"

section \<open>The client's side\<close>

definition cut_or :: "string \<Rightarrow> char \<Rightarrow> string \<times> string" where
  "cut_or s c = (case Cut s c of None \<Rightarrow> (s, []) | Some p \<Rightarrow> p)"

text \<open>Scheme, user, host, query and fragment of a link, unescaped (the query still as text).\<close>

definition parse_link ::
    "string \<Rightarrow> (string \<times> string option \<times> string option \<times> string \<times> string option) option" where
  "parse_link s =
     (case Cut s CHR '':'' of
       None \<Rightarrow> None
     | Some (scheme, rest0) \<Rightarrow>
         (let (rest, frag) = cut_or (TrimPrefix rest0 ''//'') CHR ''#'';
              (auth, query) = cut_or rest CHR ''?''
          in (case Cut auth CHR ''@'' of
               None \<Rightarrow> None
             | Some (user, host) \<Rightarrow>
                 Some (scheme, url_unescape encodeUserPassword user, url_unescape encodeHost host,
                   query, url_unescape encodeFragment frag))))"

definition parse_pair :: "string \<Rightarrow> (string \<times> string) option" where
  "parse_pair kv = (case Cut kv CHR ''='' of
     None \<Rightarrow> None
   | Some (k, v) \<Rightarrow>
       (case (url_unescape encodeQueryComponent k, url_unescape encodeQueryComponent v) of
         (Some k', Some v') \<Rightarrow> Some (k', v')
       | _ \<Rightarrow> None))"

definition parse_query :: "string \<Rightarrow> (string \<times> string) option list" where
  "parse_query q = (if q = [] then [] else map parse_pair (Split q CHR ''&''))"

section \<open>Round trips\<close>

lemma cut_or_append: "c \<notin> set s \<Longrightarrow> cut_or (s @ c # t) c = (s, t)"
  by (simp add: cut_or_def Cut_append)

lemma cut_or_none: "c \<notin> set s \<Longrightarrow> cut_or s c = (s, [])"
  by (simp add: cut_or_def Cut_def IndexByte_None [THEN iffD2])

lemma escape_no_delim:
  "CHR ''#'' \<notin> set (url_escape mode s)"
  "mode \<noteq> encodeFragment \<Longrightarrow> CHR ''?'' \<notin> set (url_escape mode s)"
  "mode \<noteq> encodeFragment \<Longrightarrow> CHR ''@'' \<notin> set (url_escape mode s)"
  by (rule escape_char_set; cases mode; simp add: shouldEscape_def is_alnum_def)+

lemma escape_query_no_delim:
  "CHR ''&'' \<notin> set (url_escape encodeQueryComponent s)"
  "CHR ''='' \<notin> set (url_escape encodeQueryComponent s)"
  by (rule escape_char_set; simp add: shouldEscape_def is_alnum_def)+

lemma parse_URL_String:
  assumes "CHR '':'' \<notin> set (url_scheme u)" "CHR ''#'' \<notin> set (url_query u)"
  shows "parse_link (URL_String u) =
    Some (url_scheme u, Some (url_user u), Some (url_host u), url_query u, Some (url_fragment u))"
proof -
  define us where "us = url_escape encodeUserPassword (url_user u)"
  define ho where "ho = url_escape encodeHost (url_host u)"
  define fr where "fr = url_escape encodeFragment (url_fragment u)"
  define au where "au = us @ CHR ''@'' # ho"
  define re where "re = au @ (if url_query u \<noteq> [] then CHR ''?'' # url_query u else [])"
  have au: "CHR ''#'' \<notin> set au" "CHR ''?'' \<notin> set au" "CHR ''@'' \<notin> set us"
    by (simp_all add: au_def us_def ho_def escape_no_delim)
  have re: "CHR ''#'' \<notin> set re" using au(1) assms(2) by (simp add: re_def)
  have s: "URL_String u = url_scheme u @ CHR '':'' # ''//'' @ re @
      (if url_fragment u \<noteq> [] then CHR ''#'' # fr else [])"
    by (simp add: URL_String_def re_def au_def us_def ho_def fr_def)
  have q: "cut_or re CHR ''?'' = (au, url_query u)"
    using au(2) by (auto simp: re_def cut_or_append cut_or_none)
  have f: "cut_or (re @ (if url_fragment u \<noteq> [] then CHR ''#'' # fr else [])) CHR ''#'' =
      (re, if url_fragment u \<noteq> [] then fr else [])"
    using re by (auto simp: cut_or_append cut_or_none)
  have fe: "url_unescape encodeFragment (if url_fragment u \<noteq> [] then fr else []) =
      Some (url_fragment u)"
    by (simp add: fr_def parse_simps)
  have c: "Cut (URL_String u) CHR '':'' = Some (url_scheme u, ''//'' @ re @
      (if url_fragment u \<noteq> [] then CHR ''#'' # fr else []))"
    unfolding s using assms(1) by (rule Cut_append)
  have a: "Cut au CHR ''@'' = Some (us, ho)" unfolding au_def using au(3) by (rule Cut_append)
  show ?thesis
    by (simp only: parse_link_def c option.case prod.case TrimPrefix_append Let_def f q a fe)
      (simp add: us_def ho_def parse_simps)
qed

lemma Values_Encode_no_hash: "CHR ''#'' \<notin> set (Values_Encode kvs)"
proof -
  have "CHR ''#'' \<notin> set (Join ss ''&'')" if "\<forall>s \<in> set ss. CHR ''#'' \<notin> set s" for ss
    using that by (induction ss "''&''" rule: Join.induct) auto
  then show ?thesis by (auto simp: Values_Encode_def escape_no_delim)
qed

lemma parse_query_Encode:
  assumes "kvs \<noteq> []"
  shows "parse_query (Values_Encode kvs) = map Some (sort_key fst kvs)"
proof -
  let ?enc = "\<lambda>(k, v). url_escape encodeQueryComponent k @ ''='' @ url_escape encodeQueryComponent v"
  have pair: "parse_pair (?enc kv) = Some kv" for kv
    by (cases kv) (simp add: parse_pair_def Cut_append escape_query_no_delim parse_simps)
  have "length (map ?enc (sort_key fst kvs)) \<noteq> 0" using assms by simp
  then have ne: "map ?enc (sort_key fst kvs) \<noteq> []" by (metis list.size(3))
  have "Split (Values_Encode kvs) CHR ''&'' = map ?enc (sort_key fst kvs)"
    unfolding Values_Encode_def
    by (rule Split_Join [OF ne]) (auto simp: escape_query_no_delim)
  moreover have "Values_Encode kvs \<noteq> []"
  proof -
    obtain x xs where "sort_key fst kvs = x # xs" using ne by (cases "sort_key fst kvs") auto
    then show ?thesis by (cases xs) (auto simp: Values_Encode_def split: prod.splits)
  qed
  ultimately show ?thesis using pair by (simp add: parse_query_def)
qed

text \<open>What a client reads from a link.\<close>

definition link_fields :: "string \<Rightarrow>
    (string \<times> string option \<times> string option \<times> (string \<times> string) option list \<times> string option) option"
where
  "link_fields s = map_option (\<lambda>(a, b, c, q, d). (a, b, c, parse_query q, d)) (parse_link s)"

text \<open>
  C20. A VLESS link carries its parameters faithfully: whatever bytes the host, keys and label
  contain, a client reads back exactly the user id, the endpoint, the eight query parameters (in
  key order) and the label.
\<close>

theorem reality_link_roundtrip:
  "link_fields (renderRealityURI p) =
    Some (''vless'', Some (rl_UUID p), Some (host_port (rl_Host p) (rl_Port p)),
      map Some [(''encryption'', ''none''), (''flow'', ''xtls-rprx-vision''), (''fp'', ''chrome''),
        (''pbk'', rl_PublicKey p), (''security'', ''reality''), (''sid'', rl_ShortID p),
        (''sni'', rl_SNI p), (''type'', ''tcp'')],
      Some (rl_Label p))"
  unfolding link_fields_def renderRealityURI_def Let_def
  by (subst parse_URL_String) (simp_all add: Values_Encode_no_hash parse_query_Encode)

text \<open>
  A Trojan link carries its parameters faithfully, as a VLESS link does.
\<close>

theorem trojan_link_roundtrip:
  "link_fields (renderTrojanURI p) =
    Some (''trojan'', Some (tj_Password p), Some (host_port (tj_Host p) (tj_Port p)),
      map Some [(''flow'', ''xtls-rprx-vision''), (''fp'', ''chrome''),
        (''pbk'', tj_PublicKey p), (''security'', ''reality''), (''sid'', tj_ShortID p),
        (''sni'', tj_SNI p), (''type'', ''tcp'')],
      Some (tj_Label p))"
  unfolding link_fields_def renderTrojanURI_def Let_def
  by (subst parse_URL_String) (simp_all add: Values_Encode_no_hash parse_query_Encode)

text \<open>
  A Shadowsocks link carries its parameters faithfully: the user part decodes to the cipher,
  the server key and the user key, and the endpoint and label read back unchanged.
\<close>

theorem shadowsocks_link_roundtrip:
  "\<exists>userinfo. link_fields (renderShadowsocksURI p) =
      Some (''ss'', Some userinfo, Some (host_port (ss_Host p) (ss_Port p)), [], Some (ss_Label p)) \<and>
    RawURLEncoding_DecodeString userinfo =
      Some (ss_Method p @ '':'' @ ss_ServerKey p @ '':'' @ ss_UserKey p)"
  unfolding link_fields_def renderShadowsocksURI_def Let_def
  by (subst parse_URL_String) (simp_all add: parse_query_def parse_simps)

end
