(* ===== verification/VPNModel.thy ===== *)
theory VPNModel
  imports World WireGuard VPNLinks
begin

text \<open>
  The data of the VPN package (\<open>internal/vpn/model.go\<close>) and its cryptography
  (\<open>internal/vpn/crypto.go\<close>): key generation and the cipher that protects stored
  configurations, whose AEAD, X25519 and random source are arguments of the model.
\<close>

section \<open>Data\<close>

type_synonym Protocol = string

definition ProtocolWireGuard :: Protocol where "ProtocolWireGuard = ''wireguard''"
definition ProtocolVLESSReality :: Protocol where "ProtocolVLESSReality = ''vless_reality''"
definition ProtocolShadowsocks :: Protocol where "ProtocolShadowsocks = ''shadowsocks''"
definition ProtocolTrojan :: Protocol where "ProtocolTrojan = ''trojan''"

lemmas protocol_defs = ProtocolWireGuard_def ProtocolVLESSReality_def ProtocolShadowsocks_def
  ProtocolTrojan_def

definition Protocol_Valid :: "Protocol \<Rightarrow> bool" where
  "Protocol_Valid p \<longleftrightarrow>
     p \<in> set [ProtocolWireGuard, ProtocolVLESSReality, ProtocolShadowsocks, ProtocolTrojan]"

record Server =
  srv_ID :: uuid
  srv_CountryID :: uuid
  srv_PublicHost :: string
  srv_AgentURL :: "string option"
  srv_Status :: string
  srv_WGPort :: "int option"
  srv_WGPublicKey :: "string option"
  srv_WGSubnet :: "string option"
  srv_WGDNS :: "string option"
  srv_RealityPort :: "int option"
  srv_RealityPublicKey :: "string option"
  srv_RealitySNI :: "string option"
  srv_RealityShortID :: "string option"
  srv_RealityDest :: "string option"
  srv_SSPort :: "int option"
  srv_SSMethod :: "string option"
  srv_SSServerKey :: "string option"
  srv_TrojanPort :: "int option"

record Plan =
  plan_ID :: uuid
  plan_Name :: string
  plan_Days :: int
  plan_MaxDevices :: int

record Subscription =
  sb_ID :: uuid
  sb_UserID :: uuid
  sb_ServerID :: uuid
  sb_CountryID :: uuid
  sb_Protocol :: Protocol
  sb_Status :: string
  sb_Label :: "string option"
  sb_ExpiresAt :: timestamp
  sb_CreatedAt :: timestamp

record Config =
  cf_ID :: uuid
  cf_Protocol :: Protocol
  cf_URI :: string
  cf_Hash :: string
  cf_Version :: int
  cf_CreatedAt :: timestamp

record VPNView =
  vw_Subscription :: Subscription
  vw_Config :: Config
  vw_Country :: string
  vw_Host :: string

record generated =
  g_uri :: string
  g_configText :: string
  g_hash :: string
  g_privateKey :: "string option"
  g_publicKey :: "string option"
  g_psk :: "string option"
  g_clientUUID :: "string option"
  g_assignedIP :: "string option"
  g_ssUserKey :: "string option"

text \<open>The zero value of \<open>generated\<close>, on which the code sets the fields it has.\<close>

definition generated0 :: generated where
  "generated0 = \<lparr>g_uri = '''', g_configText = '''', g_hash = '''', g_privateKey = None,
     g_publicKey = None, g_psk = None, g_clientUUID = None, g_assignedIP = None,
     g_ssUserKey = None\<rparr>"

section \<open>Keys\<close>

unbundle bit_operations_syntax

definition byte_and :: "char \<Rightarrow> nat \<Rightarrow> char" where
  "byte_and c m = char_of (byte c AND m)"

definition byte_or :: "char \<Rightarrow> nat \<Rightarrow> char" where
  "byte_or c m = char_of (byte c OR m)"

text \<open>The clamping of a Curve25519 private key of 32 bytes.\<close>

definition clamp :: "string \<Rightarrow> string" where
  "clamp priv =
     (let p1 = priv[0 := byte_and (priv ! 0) 248];
          p2 = p1[31 := byte_and (p1 ! 31) 127]
      in p2[31 := byte_or (p2 ! 31) 64])"

definition x25519_public :: "string \<Rightarrow> string go" where
  "x25519_public priv =
     bind (ask (\<lambda>e. env_x25519_base e priv))
       (\<lambda>r. case r of None \<Rightarrow> throw (Wrap ''derive public key'' (Errorf ''x25519''))
          | Some pub \<Rightarrow> return pub)"

definition GenerateWireGuardKeypair :: "(string \<times> string) go" where
  "GenerateWireGuardKeypair =
     bind (wrap ''read random'' (rand_Read 32)) (\<lambda>raw.
     let priv = clamp raw in
     bind (x25519_public priv) (\<lambda>pub.
     return (StdEncoding_EncodeToString priv, StdEncoding_EncodeToString pub)))"

definition GenerateRealityKeypair :: "(string \<times> string) go" where
  "GenerateRealityKeypair =
     bind (wrap ''read random'' (rand_Read 32)) (\<lambda>raw.
     let priv = clamp raw in
     bind (x25519_public priv) (\<lambda>pub.
     return (RawURLEncoding_EncodeToString priv, RawURLEncoding_EncodeToString pub)))"

definition GeneratePresharedKey :: "string go" where
  "GeneratePresharedKey =
     bind (wrap ''read random'' (rand_Read 32)) (\<lambda>b. return (StdEncoding_EncodeToString b))"

definition GenerateShadowsocksKey :: "string go" where
  "GenerateShadowsocksKey =
     bind (wrap ''read random'' (rand_Read 16)) (\<lambda>b. return (StdEncoding_EncodeToString b))"

definition NewUUID :: "string go" where
  "NewUUID = bind uuid_New (\<lambda>u. return (uuid_String u))"

definition NewShortID :: "string go" where
  "NewShortID =
     bind (wrap ''read random'' (rand_Read 4)) (\<lambda>b. return (hex_EncodeToString b))"

section \<open>The cipher\<close>

text \<open>AES-256-GCM with its key; the nonce has 12 bytes.\<close>

type_synonym Cipher = string

definition NonceSize :: nat where "NonceSize = 12"

definition NewCipher :: "string \<Rightarrow> error + Cipher" where
  "NewCipher hexKey =
     (case hex_DecodeString hexKey of
       None \<Rightarrow> Inl (Wrap ''decode key'' (Errorf ''encoding/hex: invalid input''))
     | Some key \<Rightarrow>
         if length key \<noteq> 32 then Inl (Errorf ''encryption key must be 32 bytes'') else Inr key)"

definition Encrypt :: "Cipher \<Rightarrow> string \<Rightarrow> string go" where
  "Encrypt key plaintext =
     bind (wrap ''read nonce'' (rand_Read NonceSize)) (\<lambda>nonce.
     bind (ask (\<lambda>e. env_seal e key nonce plaintext)) (\<lambda>sealed.
     return (StdEncoding_EncodeToString (nonce @ sealed))))"

definition Decrypt :: "Cipher \<Rightarrow> string \<Rightarrow> string go" where
  "Decrypt key encoded =
     (case StdEncoding_DecodeString encoded of
       None \<Rightarrow> throw (Wrap ''decode'' (Errorf ''illegal base64 data''))
     | Some raw \<Rightarrow>
         if length raw < NonceSize then throw (Errorf ''ciphertext too short'')
         else
           bind (ask (\<lambda>e. env_unseal e key (take NonceSize raw) (drop NonceSize raw)))
             (\<lambda>r. case r of
                None \<Rightarrow> throw (Wrap ''decrypt'' (Errorf ''cipher: message authentication failed''))
              | Some plain \<Rightarrow> return plain))"

text \<open>What the code relies on of AES-GCM: opening what was sealed with the same key and nonce.\<close>

definition aead_law :: "env \<Rightarrow> bool" where
  "aead_law e \<longleftrightarrow> (\<forall>k n p. env_unseal e k n (env_seal e k n p) = Some p)"

lemma Encrypt_InrD:
  assumes "Encrypt key p w = (Inr c, w')"
  obtains nonce where "length nonce = NonceSize"
    "c = StdEncoding_EncodeToString (nonce @ env_seal (w_env w) key nonce p)"
    "w' = step_tick w"
  using assms that [of "rand_bytes (w_env w) (w_tick w) NonceSize"]
  by (auto simp: Encrypt_def wrap_def catch_def bind_def rand_Read_def ask_def return_def throw_def
      split: if_splits)

lemma Decrypt_sealed:
  assumes "aead_law (w_env w)" "length nonce = NonceSize"
  shows "Decrypt key (StdEncoding_EncodeToString (nonce @ env_seal (w_env w) key nonce p)) w =
    (Inr p, w)"
  using assms
  by (simp add: Decrypt_def parse_simps bind_def ask_def return_def aead_law_def)

end
