(* ===== verification/Http.thy ===== *)
theory Http
  imports Redis JsonCorrect VPNModel
begin

text \<open>
  HTTP as the handlers see it, and the middleware of \<open>internal/platform/httpx\<close>.  A handler takes
  a request and the response written so far.  The bodies of replies are trees with the tags of the
  Go structs; their encoding as text, log lines and metrics are not modelled.
\<close>

section \<open>Requests and responses\<close>

text \<open>The identity that authentication attaches to the context of a request.\<close>

record Principal =
  pn_UserID :: uuid
  pn_Role :: string
  pn_JTI :: string
  pn_ExpiresAt :: timestamp

text \<open>
  Header names are canonical.  The query and the wildcards of the route are decoded; the path is
  its clean list of segments.
\<close>

record request =
  rq_Method :: string
  rq_Path :: "string list"
  rq_Query :: "(string \<times> string) list"
  rq_Header :: "(string \<times> string) list"
  rq_RemoteAddr :: string
  rq_Body :: string
  rq_PathValues :: "(string \<times> string) list"
  rq_Principal :: "Principal option"
  rq_RequestID :: string

datatype out =
    O_null | O_bool bool | O_int int | O_float float64 | O_str string | O_uuid uuid
  | O_time timestamp | O_error error | O_bytes string
  | O_list "out list" | O_obj "(string \<times> out) list"

record writer =
  wr_Header :: "(string \<times> string) list"
  wr_Status :: "nat option"
  wr_Body :: "out list"

definition fresh_writer :: writer where
  "fresh_writer = \<lparr>wr_Header = [], wr_Status = None, wr_Body = []\<rparr>"

type_synonym serve = "writer \<Rightarrow> world \<Rightarrow> writer \<times> world"
type_synonym handler = "request \<Rightarrow> serve"

definition get_first :: "string \<Rightarrow> (string \<times> string) list \<Rightarrow> string" where
  "get_first k kvs = from_option '''' (map_of kvs k)"

definition Header_Get :: "request \<Rightarrow> string \<Rightarrow> string" where
  "Header_Get r k = get_first k (rq_Header r)"

definition PathValue :: "request \<Rightarrow> string \<Rightarrow> string" where
  "PathValue r k = get_first k (rq_PathValues r)"

definition set_header :: "string \<Rightarrow> string \<Rightarrow> writer \<Rightarrow> writer" where
  "set_header k v rw = rw\<lparr>wr_Header := (k, v) # filter (\<lambda>(k', _). k' \<noteq> k) (wr_Header rw)\<rparr>"

text \<open>The first status stays; a write without one sends 200.\<close>

definition WriteHeader :: "nat \<Rightarrow> writer \<Rightarrow> writer" where
  "WriteHeader code rw = (if wr_Status rw = None then rw\<lparr>wr_Status := Some code\<rparr> else rw)"

definition Write :: "out \<Rightarrow> writer \<Rightarrow> writer" where
  "Write body rw = (WriteHeader 200 rw)\<lparr>wr_Body := wr_Body rw @ [body]\<rparr>"

definition status_of :: "writer \<Rightarrow> nat" where
  "status_of rw = from_option 200 (wr_Status rw)"

section \<open>Replies\<close>

definition writeJSON :: "nat \<Rightarrow> out \<Rightarrow> serve" where
  "writeJSON code body rw w =
     (Write body (WriteHeader code (set_header ''Content-Type'' ''application/json'' rw)), w)"

definition writeError :: "nat \<Rightarrow> string \<Rightarrow> serve" where
  "writeError code msg = writeJSON code (O_obj [(''error'', O_str msg)])"

text \<open>The text of an error in a reply.\<close>

definition writeErr :: "nat \<Rightarrow> error \<Rightarrow> serve" where
  "writeErr code e = writeJSON code (O_obj [(''error'', O_error e)])"

definition status_reply :: "nat \<Rightarrow> string \<Rightarrow> serve" where
  "status_reply code s = writeJSON code (O_obj [(''status'', O_str s)])"

text \<open>A call of a service, and the reply for each outcome.\<close>

definition on_result :: "'a go \<Rightarrow> (error \<Rightarrow> serve) \<Rightarrow> ('a \<Rightarrow> serve) \<Rightarrow> serve" where
  "on_result m bad good rw w =
     (case m w of (Inl e, w') \<Rightarrow> bad e rw w' | (Inr x, w') \<Rightarrow> good x rw w')"

section \<open>Request bodies\<close>

text \<open>
  \<open>decode\<close>: at most a mebibyte, one value, no unknown member; the members of the object are then
  read into the fields.
\<close>

definition decode_body :: "string list \<Rightarrow> string \<Rightarrow> (string \<times> json) list option" where
  "decode_body names body =
     (case json_Decode (take (2 ^ 20) body) of
       None \<Rightarrow> None
     | Some v \<Rightarrow> (case struct_members v of
         None \<Rightarrow> None
       | Some ms \<Rightarrow> if known_fields names ms then Some ms else None))"

definition decode ::
    "string list \<Rightarrow> ((string \<times> json) list \<Rightarrow> 'a option) \<Rightarrow> request \<Rightarrow> ('a \<Rightarrow> serve) \<Rightarrow> serve" where
  "decode names read r k =
     (case Option.bind (decode_body names (rq_Body r)) read of
       None \<Rightarrow> writeError 400 ''invalid request body''
     | Some x \<Rightarrow> k x)"

text \<open>An \<open>int64\<close> field: literals that are integers in range.\<close>

fun last_int :: "int \<Rightarrow> json list \<Rightarrow> int option" where
  "last_int d [] = Some d"
| "last_int d (JNum l # vs) = (case literal_int l of None \<Rightarrow> None | Some n \<Rightarrow> last_int n vs)"
| "last_int d (_ # vs) = None"

definition int_field :: "string \<Rightarrow> (string \<times> json) list \<Rightarrow> int option" where
  "int_field name ms = last_int 0 (field_values name ms)"

text \<open>Fields of other types; null leaves a value alone and clears a pointer.\<close>

fun last_float :: "float64 \<Rightarrow> json list \<Rightarrow> float64 option" where
  "last_float d [] = Some d"
| "last_float d (JNum l # vs) = (case literal_float l of None \<Rightarrow> None | Some x \<Rightarrow> last_float x vs)"
| "last_float d (_ # vs) = None"

fun last_bool :: "bool \<Rightarrow> json list \<Rightarrow> bool option" where
  "last_bool d [] = Some d"
| "last_bool d (JBool b # vs) = last_bool b vs"
| "last_bool d (_ # vs) = None"

fun last_int_opt :: "int option \<Rightarrow> json list \<Rightarrow> int option option" where
  "last_int_opt d [] = Some d"
| "last_int_opt d (JNull # vs) = last_int_opt None vs"
| "last_int_opt d (JNum l # vs) =
     (case literal_int l of None \<Rightarrow> None | Some n \<Rightarrow> last_int_opt (Some n) vs)"
| "last_int_opt d (_ # vs) = None"

definition float_field :: "string \<Rightarrow> (string \<times> json) list \<Rightarrow> float64 option" where
  "float_field name ms = last_float 0 (field_values name ms)"

definition int_opt_field :: "string \<Rightarrow> (string \<times> json) list \<Rightarrow> int option option" where
  "int_opt_field name ms = last_int_opt None (map snd (filter (\<lambda>(k, v). fold_eq k name) ms))"

section \<open>Client addresses\<close>

text \<open>\<open>net.SplitHostPort\<close>; its port is not used.\<close>

fun last_index :: "string \<Rightarrow> char \<Rightarrow> nat option" where
  "last_index [] c = None"
| "last_index (x # s) c = (case last_index s c of Some i \<Rightarrow> Some (Suc i)
     | None \<Rightarrow> if x = c then Some 0 else None)"

definition SplitHost :: "string \<Rightarrow> string option" where
  "SplitHost s =
     (case last_index s (CHR '':'') of
       None \<Rightarrow> None
     | Some i \<Rightarrow>
         if take 1 s = ''['' then
           (case IndexByte s (CHR '']'') of
             None \<Rightarrow> None
           | Some e \<Rightarrow>
               if Suc e \<noteq> i \<or> CHR ''['' \<in> set (drop 1 s) \<or> CHR '']'' \<in> set (drop (Suc e) s) then None
               else Some (drop 1 (take e s)))
         else if CHR '':'' \<in> set (take i s) \<or> CHR ''['' \<in> set s \<or> CHR '']'' \<in> set s then None
         else Some (take i s))"

definition is_blank :: "char \<Rightarrow> bool" where
  "is_blank c \<longleftrightarrow> c = CHR '' '' \<or> c = CHR 0x09"

definition trimSpace :: "string \<Rightarrow> string" where
  "trimSpace s = rev (dropWhile is_blank (rev (dropWhile is_blank s)))"

definition ClientIP :: "request \<Rightarrow> string" where
  "ClientIP r =
     (let xff = Header_Get r ''X-Forwarded-For'' in
      if xff \<noteq> '''' then
        (case IndexByte xff (CHR '','') of
          Some i \<Rightarrow> trimSpace (take i xff)
        | None \<Rightarrow> trimSpace xff)
      else from_option (rq_RemoteAddr r) (SplitHost (rq_RemoteAddr r)))"

section \<open>Middleware\<close>

definition newID :: "string go" where
  "newID = bind (attempt (rand_Read 16)) (\<lambda>b.
     return (case b of Inl _ \<Rightarrow> ''unknown'' | Inr b \<Rightarrow> hex_EncodeToString b))"

definition RequestID :: "handler \<Rightarrow> handler" where
  "RequestID next r =
     (let k = (\<lambda>i rw. next (r\<lparr>rq_RequestID := i\<rparr>) (set_header ''X-Request-Id'' i rw));
          given = Header_Get r ''X-Request-Id''
      in if given = '''' then on_result newID (\<lambda>_ rw w. (rw, w)) k else k given)"

definition security_headers :: "(string \<times> string) list" where
  "security_headers =
     [(''X-Content-Type-Options'', ''nosniff''), (''X-Frame-Options'', ''SAMEORIGIN''),
      (''Referrer-Policy'', ''strict-origin-when-cross-origin''),
      (''Cross-Origin-Opener-Policy'', ''same-origin''),
      (''Strict-Transport-Security'', ''max-age=31536000; includeSubDomains'')]"

definition SecurityHeaders :: "handler \<Rightarrow> handler" where
  "SecurityHeaders next r rw = next r (fold (\<lambda>(k, v). set_header k v) security_headers rw)"

text \<open>
  The fixed window of the rate limiter.  A failed INCR lets the request pass; the errors of EXPIRE
  and TTL are dropped.
\<close>

definition rate_key :: "string \<Rightarrow> request \<Rightarrow> string" where
  "rate_key scope r = ''rl:'' @ scope @ '':'' @ ClientIP r"

definition retry_after :: "int \<Rightarrow> int \<Rightarrow> string" where
  "retry_after window ttl = show_int ((if ttl \<le> 0 then window else ttl) div 10 ^ 9)"

definition too_many :: "int \<Rightarrow> string \<Rightarrow> serve" where
  "too_many window key =
     on_result (catch (redis_TTL key) (\<lambda>_. return 0)) (\<lambda>_ rw w. (rw, w)) (\<lambda>ttl rw.
       writeError 429 ''rate limit exceeded'' (set_header ''Retry-After'' (retry_after window ttl) rw))"

definition RateLimiter_Middleware :: "string \<Rightarrow> int \<Rightarrow> int \<Rightarrow> handler \<Rightarrow> handler" where
  "RateLimiter_Middleware scope limit window next r =
     on_result (redis_Incr (rate_key scope r)) (\<lambda>_. next r) (\<lambda>count.
     on_result (run_if (count = 1) (bind (attempt (redis_Expire (rate_key scope r) window)) (\<lambda>_. return ())))
       (\<lambda>_ rw w. (rw, w)) (\<lambda>_.
       if count > limit then too_many window (rate_key scope r) else next r))"

text \<open>The first listed runs outermost.\<close>

fun Chain :: "handler \<Rightarrow> (handler \<Rightarrow> handler) list \<Rightarrow> handler" where
  "Chain h [] = h"
| "Chain h (m # ms) = m (Chain h ms)"

section \<open>Routes\<close>

text \<open>
  A pattern of the mux: its method and its segments, a wildcard by its name; \<open>Rest\<close> stands for the
  slash that ends the pattern of a subtree.  A GET pattern also matches HEAD.  The patterns of the
  server do not overlap, so the first match is the match.
\<close>

datatype segment = Lit string | Wild string | Rest

fun match_segments :: "segment list \<Rightarrow> string list \<Rightarrow> (string \<times> string) list option" where
  "match_segments [] [] = Some []"
| "match_segments (Lit s # ps) (x # xs) = (if s = x then match_segments ps xs else None)"
| "match_segments (Wild n # ps) (x # xs) =
     (if x = '''' then None else map_option ((#) (n, x)) (match_segments ps xs))"
| "match_segments [Rest] (x # xs) = Some []"
| "match_segments _ _ = None"

type_synonym route = "string \<times> segment list \<times> handler"

definition method_ok :: "string \<Rightarrow> string \<Rightarrow> bool" where
  "method_ok pattern m \<longleftrightarrow> m = pattern \<or> pattern = ''GET'' \<and> m = ''HEAD''"

definition route_for :: "route list \<Rightarrow> request \<Rightarrow> ((string \<times> string) list \<times> handler) option" where
  "route_for rs r = find_first (\<lambda>_. True) (concat (map (\<lambda>(m, p, h).
     case match_segments p (rq_Path r) of
       Some vs \<Rightarrow> if method_ok m (rq_Method r) then [(vs, h)] else [] | None \<Rightarrow> []) rs))"

text \<open>No route for the path is 404, a route for another method only is 405.\<close>

definition Mux :: "route list \<Rightarrow> handler" where
  "Mux rs r =
     (case route_for rs r of
       Some (vs, h) \<Rightarrow> h (r\<lparr>rq_PathValues := vs\<rparr>)
     | None \<Rightarrow> (\<lambda>rw w.
         if list_ex (\<lambda>(m, p, h). match_segments p (rq_Path r) \<noteq> None) rs
         then (Write (O_bytes ''Method Not Allowed'') (WriteHeader 405 rw), w)
         else (Write (O_bytes ''404 page not found'') (WriteHeader 404 rw), w)))"

end
