(* ===== verification/AuthCrypto.thy ===== *)
theory AuthCrypto
  imports JsonCorrect Float64 VPNModel
begin

text \<open>
  The pure parts of the auth package: the password policy (\<open>password.go\<close>), access and refresh
  tokens (\<open>tokens.go\<close>), one-time codes (\<open>totp.go\<close>) and the Telegram login signature
  (\<open>telegram.go\<close>).  HMAC and base32 are written out; SHA-1, SHA-256, bcrypt, the JWT library and
  the Unicode tables are arguments of the model.
\<close>

section \<open>The password policy\<close>

definition minPasswordLen :: nat where "minPasswordLen = 12"

text \<open>The runes of a string, as \<open>range\<close> yields them: an invalid byte is U+FFFD.\<close>

definition rune_val :: "nat list \<Rightarrow> nat" where
  "rune_val bs = (case bs of
     [a] \<Rightarrow> a
   | [a, b] \<Rightarrow> (a mod 32) * 64 + b mod 64
   | [a, b, c] \<Rightarrow> (a mod 16) * 4096 + (b mod 64) * 64 + c mod 64
   | [a, b, c, d] \<Rightarrow> (a mod 8) * 262144 + (b mod 64) * 4096 + (c mod 64) * 64 + d mod 64
   | _ \<Rightarrow> 0xFFFD)"

function runes :: "string \<Rightarrow> nat list" where
  "runes s =
     (if s = [] then []
      else let n = utf8_len s in
        if n = 0 then 0xFFFD # runes (drop 1 s)
        else rune_val (map byte (take n s)) # runes (drop n s))"
  by pat_completeness auto
termination by (relation "measure length") auto

declare runes.simps [simp del]

text \<open>The class of a rune; those of ASCII are spelled out.\<close>

definition class_of :: "env \<Rightarrow> nat \<Rightarrow> rune_class" where
  "class_of e r =
     (if r \<ge> 128 then env_unicode e r
      else if 65 \<le> r \<and> r \<le> 90 then Rune_Upper
      else if 97 \<le> r \<and> r \<le> 122 then Rune_Lower
      else if 48 \<le> r \<and> r \<le> 57 then Rune_Digit
      else if 32 < r \<and> r < 127 then Rune_Special
      else Rune_Other)"

text \<open>One turn of the loop: which of the four flags are set so far.\<close>

fun note_rune :: "rune_class \<Rightarrow> bool \<times> bool \<times> bool \<times> bool \<Rightarrow> bool \<times> bool \<times> bool \<times> bool" where
  "note_rune Rune_Upper (u, l, d, s) = (True, l, d, s)"
| "note_rune Rune_Lower (u, l, d, s) = (u, True, d, s)"
| "note_rune Rune_Digit (u, l, d, s) = (u, l, True, s)"
| "note_rune Rune_Special (u, l, d, s) = (u, l, d, True)"
| "note_rune Rune_Other f = f"

definition ValidatePassword :: "env \<Rightarrow> string \<Rightarrow> error option" where
  "ValidatePassword e pw =
     (if length pw < minPasswordLen
      then Some (Errorf ''password must be at least 12 characters'')
      else
        (case fold (note_rune \<circ> class_of e) (runes pw) (False, False, False, False) of
          (upper, lower, digit, special) \<Rightarrow>
            if \<not> upper \<or> \<not> lower \<or> \<not> digit \<or> \<not> special
            then Some (Errorf ''password must include upper, lower, digit and special characters'')
            else None))"

definition HashPassword :: "string \<Rightarrow> string go" where
  "HashPassword pw w =
     (case env_bcrypt_hash (w_env w) (w_tick w) pw of
       None \<Rightarrow> (Inl (Wrap ''hash password'' (Errorf ''bcrypt'')), step_tick w)
     | Some h \<Rightarrow> (Inr h, step_tick w))"

definition CheckPassword :: "string \<Rightarrow> string \<Rightarrow> bool go" where
  "CheckPassword hash plaintext = ask (\<lambda>e. env_bcrypt_check e hash plaintext)"

section \<open>Tokens\<close>

record TokenManager =
  tm_secret :: string
  tm_accessTTL :: int
  tm_refreshTTL :: int

text \<open>A claims time has whole seconds.\<close>

definition NumericDate :: "timestamp \<Rightarrow> int" where
  "NumericDate t = t div 10 ^ 9"

definition IssueAccess :: "TokenManager \<Rightarrow> uuid \<Rightarrow> string \<Rightarrow> (string \<times> string \<times> timestamp) go" where
  "IssueAccess tm userID role =
     bind time_Now (\<lambda>now.
     bind uuid_New (\<lambda>u.
     let expiresAt = now + tm_accessTTL tm; jti = uuid_String u in
     bind (ask (\<lambda>e. env_jwt_sign e (tm_secret tm)
       \<lparr>jc_Subject = uuid_String userID, jc_ID = jti, jc_IssuedAt = NumericDate now,
        jc_ExpiresAt = Some (NumericDate expiresAt), jc_NotBefore = NumericDate now,
        jc_Role = role\<rparr>)) (\<lambda>signed.
     case signed of
       None \<Rightarrow> throw (Wrap ''sign access token'' (Errorf ''jwt''))
     | Some t \<Rightarrow> return (t, jti, expiresAt))))"

definition ParseAccess :: "TokenManager \<Rightarrow> string \<Rightarrow> jwt_claims go" where
  "ParseAccess tm token =
     bind time_Now (\<lambda>now.
     bind (ask (\<lambda>e. env_jwt_parse e (tm_secret tm) now token)) (\<lambda>r.
     case r of None \<Rightarrow> throw ErrInvalidToken | Some c \<Rightarrow> return c))"

definition HashRefreshToken :: "string \<Rightarrow> string go" where
  "HashRefreshToken token = ask (\<lambda>e. env_sha256 e token)"

definition NewRefreshToken :: "TokenManager \<Rightarrow> (string \<times> string) go" where
  "NewRefreshToken tm =
     bind (wrap ''generate refresh token'' (rand_Read 32)) (\<lambda>b.
     let token = RawURLEncoding_EncodeToString b in
     bind (HashRefreshToken token) (\<lambda>hash. return (token, hash)))"

section \<open>HMAC\<close>

text \<open>HMAC over a hash function with blocks of 64 bytes.\<close>

definition xor_byte :: "nat \<Rightarrow> char \<Rightarrow> char" where
  "xor_byte k c = char_of (unat ((of_nat (byte c) :: u8) XOR of_nat k))"

definition hmac :: "(string \<Rightarrow> string) \<Rightarrow> string \<Rightarrow> string \<Rightarrow> string" where
  "hmac H key msg =
     (let k0 = (if length key > 64 then H key else key);
          k = k0 @ replicate (64 - length k0) (CHR 0x00)
      in H (map (xor_byte 0x5C) k @ H (map (xor_byte 0x36) k @ msg)))"

section \<open>Base32 without padding\<close>

definition b32_alphabet :: string where
  "b32_alphabet = ''ABCDEFGHIJKLMNOPQRSTUVWXYZ234567''"

definition b32_val :: "char \<Rightarrow> nat option" where
  "b32_val c = map_option fst (find_first (\<lambda>(i, d). d = c) (enumerate 0 b32_alphabet))"

text \<open>A big-endian number in a base, with a fixed number of digits.\<close>

definition digits_in :: "nat \<Rightarrow> nat \<Rightarrow> nat \<Rightarrow> nat list" where
  "digits_in b k n = map (\<lambda>i. n div b ^ (k - Suc i) mod b) [0..<k]"

definition value_in :: "nat \<Rightarrow> nat list \<Rightarrow> nat" where
  "value_in b ds = foldl (\<lambda>v d. v * b + d) 0 ds"

text \<open>How many characters encode that many bytes of a last group, and back.\<close>

definition b32_chars :: "nat \<Rightarrow> nat" where
  "b32_chars k = (if k = 0 then 0 else if k = 1 then 2 else if k = 2 then 4 else if k = 3 then 5
     else if k = 4 then 7 else 8)"

definition b32_bytes :: "nat \<Rightarrow> nat" where
  "b32_bytes k = (if k = 8 then 5 else if k = 7 then 4 else if k = 5 then 3 else if k = 4 then 2
     else if k = 2 then 1 else 0)"

text \<open>A group of up to five bytes: its bits, padded with zeros, in groups of five.\<close>

definition b32_group :: "string \<Rightarrow> string" where
  "b32_group g =
     (let n = value_in 256 (map byte g @ replicate (5 - length g) 0)
      in take (b32_chars (length g)) (map (nth b32_alphabet) (digits_in 32 8 n)))"

fun b32_EncodeToString :: "string \<Rightarrow> string" where
  "b32_EncodeToString [] = []"
| "b32_EncodeToString [a] = b32_group [a]"
| "b32_EncodeToString [a, b] = b32_group [a, b]"
| "b32_EncodeToString [a, b, c] = b32_group [a, b, c]"
| "b32_EncodeToString [a, b, c, d] = b32_group [a, b, c, d]"
| "b32_EncodeToString (a # b # c # d # e # s) = b32_group [a, b, c, d, e] @ b32_EncodeToString s"

text \<open>
  The decoder drops line ends first.  A last group of 1, 3 or 6 characters is not refused: its
  switch has no case for it and no byte comes out.
\<close>

definition b32_ungroup :: "string \<Rightarrow> string option" where
  "b32_ungroup g =
     (let vs = map b32_val g in
      if None \<in> set vs then None
      else Some (take (b32_bytes (length g)) (map char_of
        (digits_in 256 5 (value_in 32 (map the vs @ replicate (8 - length g) 0))))))"

function b32_decode :: "string \<Rightarrow> string option" where
  "b32_decode s =
     (if s = [] then Some []
      else case b32_ungroup (take 8 s) of
        None \<Rightarrow> None
      | Some b \<Rightarrow> map_option ((@) b) (b32_decode (drop 8 s)))"
  by pat_completeness auto
termination by (relation "measure length") auto

declare b32_decode.simps [simp del]

definition b32_DecodeString :: "string \<Rightarrow> string option" where
  "b32_DecodeString s = b32_decode (filter (\<lambda>c. c \<noteq> CHR 0x0A \<and> c \<noteq> CHR 0x0D) s)"

section \<open>One-time codes\<close>

definition totpPeriod :: int where "totpPeriod = 30"
definition totpDigits :: nat where "totpDigits = 6"
definition totpIssuer :: string where "totpIssuer = ''VPN''"

definition GenerateTOTPSecret :: "string go" where
  "GenerateTOTPSecret =
     bind (wrap ''read random'' (rand_Read 20)) (\<lambda>b. return (b32_EncodeToString b))"

text \<open>
  Upper case as far as the decoder can tell: ASCII letters, and the two code points outside ASCII
  whose upper case is an ASCII letter (U+0131 and U+017F).
\<close>

fun strings_ToUpper :: "string \<Rightarrow> string" where
  "strings_ToUpper [] = []"
| "strings_ToUpper [c] = [ascii_upper c]"
| "strings_ToUpper (a # b # s) =
     (if a = CHR 0xC4 \<and> b = CHR 0xB1 then CHR ''I'' # strings_ToUpper s
      else if a = CHR 0xC5 \<and> b = CHR 0xBF then CHR ''S'' # strings_ToUpper s
      else ascii_upper a # strings_ToUpper (b # s))"

definition pad6 :: "nat \<Rightarrow> string" where
  "pad6 n = (let s = show_nat n in replicate (6 - length s) (CHR ''0'') @ s)"

text \<open>The dynamic truncation of a digest: four bytes at the offset its last byte names.\<close>

definition truncate_code :: "string \<Rightarrow> nat" where
  "truncate_code digest =
     (let offset = byte (last digest) mod 16; b = (\<lambda>i. byte (digest ! (offset + i)))
      in (b 0 mod 128 * 2 ^ 24 + b 1 * 2 ^ 16 + b 2 * 2 ^ 8 + b 3) mod 1000000)"

definition totp_code :: "env \<Rightarrow> string \<Rightarrow> nat \<Rightarrow> string" where
  "totp_code e key counter =
     pad6 (truncate_code (hmac (env_sha1 e) key (map char_of (digits_in 256 8 counter))))"

definition totpAt :: "env \<Rightarrow> string \<Rightarrow> timestamp \<Rightarrow> string option" where
  "totpAt e secret t =
     (case b32_DecodeString (strings_ToUpper (TrimSpace secret)) of
       None \<Rightarrow> None
     | Some key \<Rightarrow> Some (totp_code e key (nat (t div 10 ^ 9 mod 2 ^ 64) div 30)))"

definition ValidateTOTP :: "string \<Rightarrow> string \<Rightarrow> bool go" where
  "ValidateTOTP secret code0 =
     (let code = TrimSpace code0 in
      if length code \<noteq> totpDigits then return False
      else
        bind time_Now (\<lambda>now.
        ask (\<lambda>e. list_ex (\<lambda>skew. totpAt e secret (now + skew) = Some code)
          [- totpPeriod * 10 ^ 9, 0, totpPeriod * 10 ^ 9])))"

text \<open>\<open>url.PathEscape\<close>.\<close>

definition path_escape :: "string \<Rightarrow> string" where
  "path_escape s = concat (map (\<lambda>c.
     if is_alnum c \<or> c \<in> set ''-_.~$&+:=@'' then [c]
     else [CHR ''%'', upper_hex_digit (byte c div 16), upper_hex_digit (byte c mod 16)]) s)"

definition TOTPURI :: "string \<Rightarrow> string \<Rightarrow> string" where
  "TOTPURI secret account =
     ''otpauth://totp/'' @ path_escape (totpIssuer @ '':'' @ account) @ ''?'' @
     Values_Encode [(''algorithm'', ''SHA1''), (''digits'', ''6''), (''issuer'', totpIssuer),
       (''period'', ''30''), (''secret'', secret)]"

section \<open>Telegram login\<close>

record TelegramAuth =
  ta_ID :: int
  ta_FirstName :: string
  ta_LastName :: string
  ta_Username :: string
  ta_PhotoURL :: string
  ta_AuthDate :: int
  ta_Hash :: string

definition maxTelegramAuthAge :: int where "maxTelegramAuthAge = 24 * 3600 * 10 ^ 9"

text \<open>
  \<open>time.Unix\<close>: the seconds are stored since the year 1 in 64 bits, so that a huge argument wraps
  around.
\<close>

definition time_Unix :: "int \<Rightarrow> timestamp" where
  "time_Unix sec =
     (let k = 62135596800; v = (sec + k + 2 ^ 63) mod 2 ^ 64 - 2 ^ 63 in (v - k) * 10 ^ 9)"

text \<open>The fields that are signed, as sorted lines.\<close>

definition telegram_pairs :: "TelegramAuth \<Rightarrow> (string \<times> string) list" where
  "telegram_pairs a =
     (let opt = (\<lambda>k v. if v = '''' then [] else [(k, v)]) in
      [(''auth_date'', show_int (ta_AuthDate a))] @ opt ''first_name'' (ta_FirstName a) @
      [(''id'', show_int (ta_ID a))] @ opt ''last_name'' (ta_LastName a) @
      opt ''photo_url'' (ta_PhotoURL a) @ opt ''username'' (ta_Username a))"

definition check_string :: "TelegramAuth \<Rightarrow> string" where
  "check_string a = Join (map (\<lambda>(k, v). k @ ''='' @ v) (telegram_pairs a)) [CHR 0x0A]"

definition telegram_hash :: "env \<Rightarrow> string \<Rightarrow> TelegramAuth \<Rightarrow> string" where
  "telegram_hash e botToken a =
     hex_EncodeToString (hmac (env_sha256 e) (env_sha256 e botToken) (check_string a))"

definition VerifyTelegramAuth :: "string \<Rightarrow> TelegramAuth \<Rightarrow> unit go" where
  "VerifyTelegramAuth botToken a =
     (if botToken = '''' then throw (Errorf ''telegram login not configured'')
      else if ta_Hash a = '''' then throw ErrTelegramSignature
      else
        bind time_Now (\<lambda>now.
        if now - time_Unix (ta_AuthDate a) > maxTelegramAuthAge
        then throw (Errorf ''telegram auth data expired'')
        else
          bind (ask (\<lambda>e. telegram_hash e botToken a)) (\<lambda>expected.
          if expected \<noteq> map ascii_lower (ta_Hash a) then throw ErrTelegramSignature
          else return ())))"

section \<open>Properties\<close>

lemma fold_note_rune:
  "fold (note_rune \<circ> f) rs (u, l, d, s) =
    (u \<or> Rune_Upper \<in> f ` set rs, l \<or> Rune_Lower \<in> f ` set rs, d \<or> Rune_Digit \<in> f ` set rs,
     s \<or> Rune_Special \<in> f ` set rs)"
proof (induction rs arbitrary: u l d s)
  case (Cons r rs)
  then show ?case by (cases "f r") auto
qed simp

text \<open>
  A password is accepted exactly when it has twelve bytes and a rune of each of the four
  classes.
\<close>

theorem password_policy_exact:
  "ValidatePassword e pw = None \<longleftrightarrow> 12 \<le> length pw \<and>
    {Rune_Upper, Rune_Lower, Rune_Digit, Rune_Special} \<subseteq> class_of e ` set (runes pw)"
  by (auto simp: ValidatePassword_def minPasswordLen_def fold_note_rune)

section \<open>Base32 is read back\<close>

lemma digits_in_Suc: "digits_in b (Suc k) n = digits_in b k (n div b) @ [n mod b]"
proof -
  have "n div b ^ (Suc k - Suc i) = n div b div b ^ (k - Suc i)" if "i < k" for i
  proof -
    have "Suc k - Suc i = Suc (k - Suc i)" using that by simp
    then show ?thesis by (simp add: div_mult2_eq)
  qed
  then show ?thesis by (simp add: digits_in_def)
qed

lemma value_in_snoc: "value_in b (ds @ [d]) = value_in b ds * b + d"
  by (simp add: value_in_def)

lemma length_digits_in [simp]: "length (digits_in b k n) = k"
  by (simp add: digits_in_def)

lemma digits_in_less: "0 < b \<Longrightarrow> d \<in> set (digits_in b k n) \<Longrightarrow> d < b"
  by (auto simp: digits_in_def)

lemma value_digits: "n < b ^ k \<Longrightarrow> value_in b (digits_in b k n) = n"
proof (induction k arbitrary: n)
  case 0
  then show ?case by (simp add: value_in_def digits_in_def)
next
  case (Suc k)
  then have "n div b < b ^ k" by (simp add: less_mult_imp_div_less mult.commute)
  with Suc.IH show ?case by (simp add: digits_in_Suc value_in_snoc)
qed

lemma value_in_less: "(\<And>d. d \<in> set ds \<Longrightarrow> d < b) \<Longrightarrow> value_in b ds < b ^ length ds"
proof (induction ds rule: rev_induct)
  case (snoc d ds)
  then have "value_in b ds < b ^ length ds" "d < b" by auto
  then have "value_in b ds * b + d < (value_in b ds + 1) * b" by simp
  also have "\<dots> \<le> b ^ length ds * b"
    using \<open>value_in b ds < b ^ length ds\<close> by (intro mult_le_mono1) simp
  finally show ?case by (simp add: value_in_snoc mult.commute)
qed (simp add: value_in_def)

lemma digits_value: "(\<And>d. d \<in> set ds \<Longrightarrow> d < b) \<Longrightarrow> digits_in b (length ds) (value_in b ds) = ds"
proof (induction ds rule: rev_induct)
  case (snoc d ds)
  then have "d < b" by simp
  then have "(value_in b ds * b + d) div b = value_in b ds"
    using div_mult_self1 [of b d "value_in b ds"] by (simp add: add.commute mult.commute)
  with snoc \<open>d < b\<close> show ?case by (simp add: value_in_snoc digits_in_Suc)
qed (simp add: digits_in_def)

text \<open>Trailing zero digits of a multiple.\<close>

lemma digits_multiple:
  "0 < b \<Longrightarrow> b ^ r dvd n \<Longrightarrow> digits_in b (c + r) n = digits_in b c (n div b ^ r) @ replicate r 0"
proof (induction r arbitrary: n)
  case (Suc r)
  then obtain m where n: "n = b ^ Suc r * m" by auto
  then have "n div b = b ^ r * m" "n mod b = 0" using Suc.prems by simp_all
  moreover have "n div b ^ Suc r = m" "n div b div b ^ r = m"
    using Suc.prems by (simp_all add: n)
  ultimately show ?case using Suc.IH [of "n div b"] Suc.prems
    by (simp add: digits_in_Suc replicate_append_same)
qed simp

lemma b32_val_nth: "i < 32 \<Longrightarrow> b32_val (b32_alphabet ! i) = Some i"
proof -
  have "list_all (\<lambda>i. b32_val (b32_alphabet ! i) = Some i) [0..<32]" by code_simp
  then show "i < 32 \<Longrightarrow> ?thesis" by (simp only: list_all_iff) simp
qed

lemma value_in_zeros: "value_in b (ds @ replicate r 0) = value_in b ds * b ^ r"
  by (induction r) (simp_all add: value_in_snoc flip: replicate_append_same append_assoc)

lemma b32_group_read:
  assumes g: "length g \<in> {1, 2, 3, 4, 5}"
  shows "b32_ungroup (b32_group g) = Some g" "length (b32_group g) = b32_chars (length g)"
    "CHR 0x0A \<notin> set (b32_group g) \<and> CHR 0x0D \<notin> set (b32_group g)"
proof -
  define pad where "pad = map byte g @ replicate (5 - length g) 0"
  define n where "n = value_in 256 pad"
  define c where "c = b32_chars (length g)"
  have len: "length pad = 5" using g by (auto simp: pad_def)
  have small: "d < 256" if "d \<in> set pad" for d using that by (auto simp: pad_def)
  have n: "n < 32 ^ 8" using value_in_less [of pad 256] small len by (simp add: n_def)
  have nd: "digits_in 256 5 n = pad" using digits_value [of pad 256] small len by (simp add: n_def)
  have c: "c \<le> 8" "b32_bytes c = length g" using g by (auto simp: c_def b32_chars_def b32_bytes_def)
  have "(32 :: nat) ^ (8 - c) dvd 256 ^ (5 - length g)"
    using g by (auto simp: c_def b32_chars_def)
  also have "256 ^ (5 - length g) dvd n" by (simp add: n_def pad_def value_in_zeros)
  finally have dvd: "32 ^ (8 - c) dvd n" .
  have digs: "digits_in 32 8 n = take c (digits_in 32 8 n) @ replicate (8 - c) 0"
    using digits_multiple [OF _ dvd, of c] c(1) by simp
  have grp: "b32_group g = map (nth b32_alphabet) (take c (digits_in 32 8 n))"
    by (simp add: b32_group_def n_def pad_def c_def take_map)
  have low: "d < 32" if "d \<in> set (take c (digits_in 32 8 n))" for d
    using digits_in_less [of 32 d 8 n] in_set_takeD [OF that] by simp
  then have "map b32_val (b32_group g) = map Some (take c (digits_in 32 8 n))"
    by (simp add: grp b32_val_nth)
  moreover show len': "length (b32_group g) = b32_chars (length g)" using c(1) by (simp add: grp c_def)
  ultimately show "b32_ungroup (b32_group g) = Some g"
    using value_digits [OF n] digs nd c
    by (simp add: b32_ungroup_def Let_def comp_def c_def [symmetric]) (simp add: pad_def comp_def)
  have "list_all (\<lambda>i. b32_alphabet ! i \<noteq> CHR 0x0A \<and> b32_alphabet ! i \<noteq> CHR 0x0D) [0..<32]"
    by code_simp
  then show "CHR 0x0A \<notin> set (b32_group g) \<and> CHR 0x0D \<notin> set (b32_group g)"
    using low by (fastforce simp: grp list_all_iff)
qed

lemma b32_decode_group:
  assumes "length g \<in> {1, 2, 3, 4, 5}"
  shows "b32_decode (b32_group g) = Some g"
proof -
  have "b32_chars k \<in> {2, 4, 5, 7, 8}" if "k \<in> {1, 2, 3, 4, 5}" for k
    using that by (auto simp: b32_chars_def)
  from this [OF assms] have "length (b32_group g) \<le> 8" "b32_group g \<noteq> []"
    using b32_group_read(2) [OF assms] by auto
  then show ?thesis
    by (subst b32_decode.simps) (simp add: b32_group_read(1) [OF assms] b32_decode.simps [of "[]"])
qed

lemma b32_decode_full:
  assumes "length g = 5"
  shows "b32_decode (b32_group g @ s) = map_option ((@) g) (b32_decode s)"
proof -
  have "length (b32_group g) = 8" using b32_group_read(2) [of g] assms by (simp add: b32_chars_def)
  then show ?thesis
    using b32_group_read(1) [of g] assms by (subst b32_decode.simps) auto
qed

lemma b32_decode_encode: "b32_decode (b32_EncodeToString s) = Some s"
  by (induction s rule: b32_EncodeToString.induct)
    (simp_all add: b32_decode_group b32_decode_full b32_decode.simps [of "[]"])

lemma b32_group_chars: "set (b32_group g) \<subseteq> set b32_alphabet"
proof -
  have "length b32_alphabet = 32" by (simp add: b32_alphabet_def)
  then have "map (nth b32_alphabet) (digits_in 32 8 n) = map (nth b32_alphabet) (digits_in 32 8 n) \<and>
      set (map (nth b32_alphabet) (digits_in 32 8 n)) \<subseteq> set b32_alphabet" for n
    using digits_in_less [of 32 _ 8 n] by (force simp del: set_nths_subset)
  then show ?thesis unfolding b32_group_def Let_def by (meson order_trans set_take_subset)
qed

lemma b32_chars: "set (b32_EncodeToString s) \<subseteq> set b32_alphabet"
  by (induction s rule: b32_EncodeToString.induct) (use b32_group_chars in \<open>auto simp del: b32_group_def\<close>)

definition secret_char :: "char \<Rightarrow> bool" where
  "secret_char c \<longleftrightarrow> solid c \<and> ascii_upper c = c \<and> c \<notin> {CHR 0x0A, CHR 0x0D, CHR 0xC4, CHR 0xC5}"

lemma b32_secret_chars: "list_all secret_char (b32_EncodeToString s)"
proof -
  have "list_all secret_char b32_alphabet" by code_simp
  with b32_chars [of s] show ?thesis by (auto simp: list_all_iff)
qed

lemma ToUpper_id: "list_all secret_char s \<Longrightarrow> strings_ToUpper s = s"
  by (induction s rule: strings_ToUpper.induct) (auto simp: secret_char_def)

lemma TrimSpace_id: "list_all secret_char s \<Longrightarrow> TrimSpace s = s"
proof (cases "s = []")
  case True
  have "TrimSpace '''' = ''''" by code_simp
  with True show ?thesis by simp
next
  case False
  assume "list_all secret_char s"
  with False show ?thesis
    by (intro TrimSpace_solid) (auto simp: list_all_iff secret_char_def)
qed

lemma b32_secret_read:
  "b32_DecodeString (strings_ToUpper (TrimSpace (b32_EncodeToString b))) = Some b"
proof -
  have "filter (\<lambda>c. c \<noteq> CHR 0x0A \<and> c \<noteq> CHR 0x0D) (b32_EncodeToString b) = b32_EncodeToString b"
    using b32_secret_chars [of b] by (auto simp: filter_id_conv list_all_iff secret_char_def)
  then show ?thesis
    by (simp add: TrimSpace_id ToUpper_id b32_secret_chars b32_DecodeString_def b32_decode_encode)
qed

lemma length_pad6: "n < 10 ^ 6 \<Longrightarrow> length (pad6 n) = 6"
proof -
  assume n: "n < 10 ^ 6"
  have len: "length (show_nat m) \<le> k" if "m < 10 ^ k" "0 < k" for m k
    using that
  proof (induction k arbitrary: m)
    case (Suc k)
    show ?case
    proof (cases "m < 10")
      case True
      then show ?thesis by (simp add: show_nat.simps [of m])
    next
      case False
      then have "0 < k" using Suc.prems by (cases k) auto
      moreover have "m div 10 < 10 ^ k" using Suc.prems(1) by (simp add: less_mult_imp_div_less mult.commute)
      ultimately have "length (show_nat (m div 10)) \<le> k" by (intro Suc.IH)
      with False show ?thesis by (simp add: show_nat.simps [of m])
    qed
  qed simp
  show ?thesis using len [of n 6] n by (simp add: pad6_def Let_def)
qed

lemma length_totp_code: "length (totp_code e key c) = 6"
  by (simp add: totp_code_def length_pad6 truncate_code_def Let_def)

text \<open>
  C40. A code is accepted exactly when it is the one for the current step of thirty seconds, the
  step before or the step after, computed from the random bytes behind the secret the user was
  given.
\<close>

theorem totp_window_exact:
  assumes "ValidateTOTP (b32_EncodeToString key) code w = (Inr ok, w')"
    and now: "now = env_clock (w_env w) (w_tick w)" "step = nat (now div (30 * 10 ^ 9))"
    and range: "30 * 10 ^ 9 \<le> now" "now < 2 ^ 63 * 10 ^ 9"
  shows "ok \<longleftrightarrow> TrimSpace code \<in> totp_code (w_env w) key ` {step - 1, step, step + 1}"
proof -
  define P :: int where "P = 30 * 10 ^ 9"
  define T where "T = (\<lambda>t. totpAt (w_env w) (b32_EncodeToString key) t)"
  have P: "0 < P" "P = 10 ^ 9 * 30" by (simp_all add: P_def)
  have at: "T t = Some (totp_code (w_env w) key (nat (t div P)))" if t: "0 \<le> t" "t < 2 ^ 64 * 10 ^ 9" for t
  proof -
    have "t div 10 ^ 9 < 2 ^ 64" using t(2) by (simp add: div_less_iff_less_mult)
    moreover have "0 \<le> t div 10 ^ 9" using t(1) by (simp add: pos_imp_zdiv_nonneg_iff)
    ultimately have "t div 10 ^ 9 mod 2 ^ 64 = t div 10 ^ 9" by (intro mod_pos_pos_trivial)
    moreover have "nat (t div 10 ^ 9) div 30 = nat (t div 10 ^ 9 div 30)"
      using nat_div_distrib [of "t div 10 ^ 9" 30] \<open>0 \<le> t div 10 ^ 9\<close> by simp
    moreover have "t div 10 ^ 9 div 30 = t div P" unfolding P(2) by (simp add: zdiv_zmult2_eq)
    ultimately show ?thesis by (simp only: T_def totpAt_def b32_secret_read option.case)
  qed
  have now': "P \<le> now" "now + P < 2 ^ 64 * 10 ^ 9" "step = nat (now div P)"
    using range now(2) by (simp_all add: P_def)
  have steps: "T (now + d * P) = Some (totp_code (w_env w) key (nat (now div P + d)))"
    if d: "d = - 1 \<or> d = 0 \<or> d = 1" for d
  proof -
    have "0 \<le> now + d * P \<and> now + d * P < 2 ^ 64 * 10 ^ 9"
      using d now'(1,2) P(1) by auto
    moreover have "(now + d * P) div P = now div P + d" using P(1) by simp
    ultimately show ?thesis using at [of "now + d * P"] by simp
  qed
  have pos: "1 \<le> now div P" using zdiv_mono1 [OF now'(1) P(1)] P(1) by simp
  have near: "nat (now div P + (- 1)) = step - 1" "nat (now div P + 1) = step + 1"
    using pos by (simp_all add: now'(3) nat_diff_distrib' nat_add_distrib)
  have skews: "[- totpPeriod * 10 ^ 9, 0, totpPeriod * 10 ^ 9] = [- 1 * P, 0 * P, 1 * P]"
    by (simp add: totpPeriod_def P_def)
  have "ok \<longleftrightarrow> length (TrimSpace code) = 6 \<and>
      list_ex (\<lambda>s. T (now + s) = Some (TrimSpace code)) [- 1 * P, 0 * P, 1 * P]"
    using assms(1) unfolding ValidateTOTP_def Let_def skews T_def
    by (cases "length (TrimSpace code) = 6")
      (simp_all add: totpDigits_def bind_def time_Now_def ask_def return_def now(1))
  also have "\<dots> \<longleftrightarrow> TrimSpace code \<in> totp_code (w_env w) key ` {step - 1, step, step + 1}"
    using steps [of "- 1"] steps [of 0] steps [of 1] near now'(3) length_totp_code by auto
  finally show ?thesis .
qed

end
