(* ===== verification/VPNRepo.thy ===== *)
theory VPNRepo
  imports VPNModel "HOL-Library.Product_Lexorder"
begin

text \<open>
  The VPN repository (\<open>internal/vpn/repository.go\<close>): its SQL statements on the tables and the
  operations built from them.  A query without ORDER BY yields rows in insertion order; ORDER BY
  is a stable sort; LIMIT 1 takes the first row.
\<close>

section \<open>Rows and structs\<close>

definition scanServer :: "server_row \<Rightarrow> Server" where
  "scanServer s = \<lparr>srv_ID = s_id s, srv_CountryID = s_country_id s,
     srv_PublicHost = s_public_host s, srv_AgentURL = s_agent_url s, srv_Status = s_status s,
     srv_WGPort = s_wg_port s, srv_WGPublicKey = s_wg_public_key s, srv_WGSubnet = s_wg_subnet s,
     srv_WGDNS = s_wg_dns s, srv_RealityPort = s_reality_port s,
     srv_RealityPublicKey = s_reality_public_key s, srv_RealitySNI = s_reality_sni s,
     srv_RealityShortID = s_reality_short_id s, srv_RealityDest = s_reality_dest s,
     srv_SSPort = s_ss_port s, srv_SSMethod = s_ss_method s, srv_SSServerKey = s_ss_server_key s,
     srv_TrojanPort = s_trojan_port s\<rparr>"

definition sub_of_row :: "subscription_row \<Rightarrow> Subscription" where
  "sub_of_row r = \<lparr>sb_ID = sub_id r, sb_UserID = sub_user_id r, sb_ServerID = sub_server_id r,
     sb_CountryID = sub_country_id r, sb_Protocol = sub_protocol r, sb_Status = sub_status r,
     sb_Label = sub_label r, sb_ExpiresAt = sub_expires_at r, sb_CreatedAt = sub_created_at r\<rparr>"

text \<open>Scanning a nullable column into a Go string fails on NULL.\<close>

definition null_scan :: error where
  "null_scan = Errorf ''cannot scan NULL into *string''"

definition cfg_of_row :: "config_row \<Rightarrow> Config option" where
  "cfg_of_row r = (case (vc_uri r, vc_hash r) of
     (Some u, Some h) \<Rightarrow> Some \<lparr>cf_ID = vc_id r, cf_Protocol = vc_protocol r, cf_URI = u,
       cf_Hash = h, cf_Version = vc_version r, cf_CreatedAt = vc_created_at r\<rparr>
   | _ \<Rightarrow> None)"

definition first_row :: "'r list \<Rightarrow> 'r option" where
  "first_row rs = (case rs of [] \<Rightarrow> None | r # _ \<Rightarrow> Some r)"

section \<open>Choosing a server\<close>

definition protocolAvailabilityClause :: "Protocol \<Rightarrow> server_row \<Rightarrow> bool" where
  "protocolAvailabilityClause p s =
     (if p = ProtocolVLESSReality then s_reality_port s \<noteq> None \<and> s_reality_public_key s \<noteq> None
      else if p = ProtocolShadowsocks then s_ss_port s \<noteq> None \<and> s_ss_server_key s \<noteq> None
      else if p = ProtocolTrojan then s_trojan_port s \<noteq> None \<and> s_reality_public_key s \<noteq> None
      else s_wg_port s \<noteq> None \<and> s_wg_public_key s \<noteq> None \<and> s_wg_subnet s \<noteq> None)"

definition eligible :: "uuid \<Rightarrow> Protocol \<Rightarrow> server_row \<Rightarrow> bool" where
  "eligible country p s \<longleftrightarrow>
     s_country_id s = country \<and> s_status s = ''active'' \<and> protocolAvailabilityClause p s"

definition load_order :: "server_row \<Rightarrow> bool \<times> int \<times> int" where
  "load_order s = (s_reserve s, s_priority s, s_client_count s)"

definition reserve_order :: "server_row \<Rightarrow> bool \<times> int \<times> int" where
  "reserve_order s = (\<not> s_reserve s, s_priority s, s_client_count s)"

definition SelectServer :: "uuid \<Rightarrow> Protocol \<Rightarrow> Server go" where
  "SelectServer countryID protocol =
     no_rows ErrNoServerAvailable ''select server''
       (sql (select_row (\<lambda>d. map_option scanServer
          (first_row (sort_key load_order (filter (eligible countryID protocol) (servers d)))))))"

definition SelectReserveServer :: "uuid \<Rightarrow> Protocol \<Rightarrow> uuid \<Rightarrow> Server go" where
  "SelectReserveServer countryID protocol excludeID =
     no_rows ErrNoServerAvailable ''select reserve''
       (sql (select_row (\<lambda>d. map_option scanServer
          (first_row (sort_key reserve_order
             (filter (\<lambda>s. eligible countryID protocol s \<and> s_id s \<noteq> excludeID) (servers d)))))))"

definition GetServerByID :: "uuid \<Rightarrow> Server go" where
  "GetServerByID i =
     no_rows VPN_ErrNotFound ''get server''
       (sql (select_row (\<lambda>d. map_option scanServer (by_key s_id i (servers d)))))"

section \<open>Creating\<close>

record CreateParams =
  cp_UserID :: uuid
  cp_Server :: Server
  cp_CountryID :: uuid
  cp_PlanID :: "uuid option"
  cp_Protocol :: Protocol
  cp_Label :: "string option"
  cp_MaxDevices :: int
  cp_ExpiresAt :: timestamp
  cp_URI :: string
  cp_ConfigObjectKey :: string
  cp_QRObjectKey :: string
  cp_Hash :: string
  cp_PrivateKeyEnc :: "string option"
  cp_PublicKey :: "string option"
  cp_PSKEnc :: "string option"
  cp_ClientUUID :: "string option"
  cp_AssignedIP :: "string option"

definition enum_violation :: error where "enum_violation = SQLState ''22P02''"

definition insert_subscription :: "CreateParams \<Rightarrow> subscription_row statement" where
  "insert_subscription p now fresh d =
     (if \<not> Protocol_Valid (cp_Protocol p) then Inl enum_violation
      else if has_key sub_id fresh (subscriptions d) then Inl unique_violation
      else if \<not> (fk_ok u_id (cp_UserID p) (users d) \<and> fk_null_ok pl_id (cp_PlanID p) (plans d) \<and>
                 fk_ok s_id (srv_ID (cp_Server p)) (servers d) \<and>
                 fk_ok c_id (cp_CountryID p) (countries d))
      then Inl foreign_key_violation
      else
        (let r = \<lparr>sub_id = fresh, sub_user_id = cp_UserID p, sub_plan_id = cp_PlanID p,
               sub_server_id = srv_ID (cp_Server p), sub_country_id = cp_CountryID p,
               sub_protocol = cp_Protocol p, sub_status = ''active'', sub_label = cp_Label p,
               sub_max_devices = cp_MaxDevices p, sub_expires_at = pg_time (cp_ExpiresAt p),
               sub_created_at = now\<rparr>
         in Inr (r, d\<lparr>subscriptions := subscriptions d @ [r]\<rparr>)))"

definition insert_config :: "CreateParams \<Rightarrow> uuid \<Rightarrow> uuid \<Rightarrow> int \<Rightarrow> config_row statement" where
  "insert_config p configID subID version now fresh d =
     (if \<not> Protocol_Valid (cp_Protocol p) then Inl enum_violation
      else if has_key vc_id configID (vpn_configs d) then Inl unique_violation
      else if \<not> fk_ok sub_id subID (subscriptions d) then Inl foreign_key_violation
      else
        (let r = \<lparr>vc_id = configID, vc_subscription_id = subID, vc_protocol = cp_Protocol p,
               vc_uri = Some (cp_URI p), vc_config_object_key = Some (cp_ConfigObjectKey p),
               vc_qr_object_key = Some (cp_QRObjectKey p), vc_hash = Some (cp_Hash p),
               vc_version = version, vc_created_at = now\<rparr>
         in Inr (r, d\<lparr>vpn_configs := vpn_configs d @ [r]\<rparr>)))"

text \<open>The text input of an INET column, for the IPv4 addresses the allocator produces.\<close>

definition inet_in :: "string option \<Rightarrow> error + u32 option" where
  "inet_in s = (case s of
     None \<Rightarrow> Inr None
   | Some t \<Rightarrow> (case ParseIP4 t of None \<Rightarrow> Inl (SQLState ''22P02'') | Some a \<Rightarrow> Inr (Some a)))"

definition ip_taken :: "uuid \<Rightarrow> u32 option \<Rightarrow> key_row list \<Rightarrow> bool" where
  "ip_taken server ip ks \<longleftrightarrow>
     ip \<noteq> None \<and>
     list_ex (\<lambda>k. k_server_id k = server \<and> k_assigned_ip k = ip \<and> k_status k = ''active'') ks"

definition insert_key :: "CreateParams \<Rightarrow> uuid \<Rightarrow> unit statement" where
  "insert_key p configID now fresh d =
     (case inet_in (cp_AssignedIP p) of
       Inl e \<Rightarrow> Inl e
     | Inr ip \<Rightarrow>
        if has_key k_id fresh (vpn_keys d) \<or> ip_taken (srv_ID (cp_Server p)) ip (vpn_keys d)
        then Inl unique_violation
        else if \<not> (fk_ok vc_id configID (vpn_configs d) \<and>
                   fk_ok s_id (srv_ID (cp_Server p)) (servers d))
        then Inl foreign_key_violation
        else
          (let r = \<lparr>k_id = fresh, k_vpn_config_id = configID,
                 k_server_id = srv_ID (cp_Server p), k_private_key = cp_PrivateKeyEnc p,
                 k_public_key = cp_PublicKey p, k_psk = cp_PSKEnc p,
                 k_client_uuid = cp_ClientUUID p, k_assigned_ip = ip, k_status = ''active'',
                 k_created_at = now\<rparr>
           in Inr ((), d\<lparr>vpn_keys := vpn_keys d @ [r]\<rparr>)))"

definition set_server :: "uuid \<Rightarrow> (server_row \<Rightarrow> server_row) \<Rightarrow> unit statement" where
  "set_server i f = modify (\<lambda>d. d\<lparr>servers := update_where (\<lambda>s. s_id s = i) f (servers d)\<rparr>)"

definition inc_load :: "server_row \<Rightarrow> server_row" where
  "inc_load s = s\<lparr>s_client_count := s_client_count s + 1\<rparr>"

definition dec_load :: "server_row \<Rightarrow> server_row" where
  "dec_load s = s\<lparr>s_client_count := max (s_client_count s - 1) 0\<rparr>"

definition Persist :: "CreateParams \<Rightarrow> uuid \<Rightarrow> (Subscription \<times> Config) go" where
  "Persist p configID =
     transaction (Wrap ''commit'')
       (bind (wrap ''insert subscription'' (sql (insert_subscription p))) (\<lambda>sr.
        bind (wrap ''insert config'' (sql (insert_config p configID (sub_id sr) 1))) (\<lambda>cr.
        bind (wrap ''insert key'' (sql (insert_key p (vc_id cr)))) (\<lambda>_.
        bind (wrap ''bump server load'' (sql (set_server (srv_ID (cp_Server p)) inc_load))) (\<lambda>_.
        return (sub_of_row sr,
          \<lparr>cf_ID = vc_id cr, cf_Protocol = vc_protocol cr, cf_URI = cp_URI p, cf_Hash = cp_Hash p,
           cf_Version = vc_version cr, cf_CreatedAt = vc_created_at cr\<rparr>))))))"

definition GetPlan :: "uuid \<Rightarrow> Plan go" where
  "GetPlan planID =
     no_rows VPN_ErrNotFound ''get plan''
       (sql (select_row (\<lambda>d. case by_key pl_id planID (plans d) of
          None \<Rightarrow> None
        | Some p \<Rightarrow>
            if pl_active p
            then Some \<lparr>plan_ID = pl_id p, plan_Name = pl_name p, plan_Days = pl_days p,
                   plan_MaxDevices = pl_max_devices p\<rparr>
            else None)))"

section \<open>The catalogue\<close>

record CountryRef =
  cr_ID :: uuid
  cr_ISO :: string
  cr_Name :: string
  cr_Flag :: "string option"
  cr_Servers :: nat

definition ListCountries :: "CountryRef list go" where
  "ListCountries =
     wrap ''list countries'' (sql (select (\<lambda>d.
       map (\<lambda>c. \<lparr>cr_ID = c_id c, cr_ISO = c_iso c, cr_Name = c_name c, cr_Flag = c_flag c,
               cr_Servers = count_where (\<lambda>s. s_country_id s = c_id c \<and> s_status s = ''active'')
                 (servers d)\<rparr>)
         (sort_key (\<lambda>c. (c_priority c, c_name c)) (filter c_enabled (countries d))))))"

record PlanRef =
  pf_ID :: uuid
  pf_Name :: string
  pf_Price :: int
  pf_Currency :: string
  pf_Days :: int
  pf_MaxDevices :: int

definition ListPlans :: "PlanRef list go" where
  "ListPlans =
     wrap ''list plans'' (sql (select (\<lambda>d.
       map (\<lambda>p. \<lparr>pf_ID = pl_id p, pf_Name = pl_name p, pf_Price = pl_price p,
               pf_Currency = pl_currency p, pf_Days = pl_days p,
               pf_MaxDevices = pl_max_devices p\<rparr>)
         (sort_key pl_days (filter pl_active (plans d))))))"

section \<open>Migration\<close>

record MigrationSub =
  ms_SubID :: uuid
  ms_UserID :: uuid
  ms_CountryID :: uuid
  ms_Protocol :: Protocol
  ms_Label :: "string option"
  ms_TelegramID :: "int option"
  ms_Country :: string

definition ActiveSubsOnServer :: "uuid \<Rightarrow> MigrationSub list go" where
  "ActiveSubsOnServer serverID =
     wrap ''active subs on server'' (sql (select (\<lambda>d.
       [\<lparr>ms_SubID = sub_id s, ms_UserID = sub_user_id s, ms_CountryID = sub_country_id s,
         ms_Protocol = sub_protocol s, ms_Label = sub_label s, ms_TelegramID = u_telegram_id u,
         ms_Country = c_name co\<rparr>.
         s \<leftarrow> subscriptions d, u \<leftarrow> users d, co \<leftarrow> countries d,
         u_id u = sub_user_id s \<and> c_id co = sub_country_id s \<and>
         sub_server_id s = serverID \<and> sub_status s = ''active''])))"

text \<open>The keys of a subscription's configurations, in the order of the tables.\<close>

definition key_rows :: "uuid \<Rightarrow> db \<Rightarrow> (config_row \<times> key_row) list" where
  "key_rows subID d =
     [(c, k). c \<leftarrow> vpn_configs d, k \<leftarrow> vpn_keys d,
       k_vpn_config_id k = vc_id c \<and> vc_subscription_id c = subID]"

definition OldKeyForSub :: "uuid \<Rightarrow> (string option \<times> string option) go" where
  "OldKeyForSub subID =
     catch (sql (select_row (\<lambda>d. map_option (\<lambda>k. (k_public_key k, k_client_uuid k))
         (first_row (sort_key (\<lambda>k. - k_created_at k)
           (filter (\<lambda>k. k_status k = ''active'') (map snd (key_rows subID d))))))))
       (\<lambda>e. if errors_Is e ErrNoRows then return (None, None) else throw (Wrap ''old key'' e))"

definition config_ids :: "uuid \<Rightarrow> db \<Rightarrow> uuid list" where
  "config_ids subID d = map vc_id (filter (\<lambda>c. vc_subscription_id c = subID) (vpn_configs d))"

definition revoke_keys :: "uuid \<Rightarrow> unit statement" where
  "revoke_keys subID = modify (\<lambda>d. d\<lparr>vpn_keys :=
     update_where (\<lambda>k. k_vpn_config_id k \<in> set (config_ids subID d))
       (\<lambda>k. k\<lparr>k_status := ''revoked''\<rparr>) (vpn_keys d)\<rparr>)"

definition next_version :: "uuid \<Rightarrow> int statement" where
  "next_version subID = select (\<lambda>d.
     (case map vc_version (filter (\<lambda>c. vc_subscription_id c = subID) (vpn_configs d)) of
       [] \<Rightarrow> 0 | v # vs \<Rightarrow> foldl max v vs) + 1)"

definition set_sub :: "uuid \<Rightarrow> (subscription_row \<Rightarrow> subscription_row) \<Rightarrow> unit statement" where
  "set_sub i f =
     modify (\<lambda>d. d\<lparr>subscriptions := update_where (\<lambda>s. sub_id s = i) f (subscriptions d)\<rparr>)"

text \<open>The assignment of a subscription to a server; the server must exist when a row changes.\<close>

definition assign_sub :: "uuid \<Rightarrow> uuid \<Rightarrow> unit statement" where
  "assign_sub subID serverID now fresh d =
     (if has_key sub_id subID (subscriptions d) \<and> \<not> fk_ok s_id serverID (servers d)
      then Inl foreign_key_violation
      else set_sub subID (\<lambda>s. s\<lparr>sub_server_id := serverID, sub_status := ''active''\<rparr>) now fresh d)"

definition insert_migration :: "uuid \<Rightarrow> uuid \<Rightarrow> uuid \<Rightarrow> uuid \<Rightarrow> string \<Rightarrow> unit statement" where
  "insert_migration subID userID fromID toID reason now fresh d =
     (if has_key mg_id fresh (migrations d) then Inl unique_violation
      else if \<not> (fk_ok sub_id subID (subscriptions d) \<and> fk_ok u_id userID (users d) \<and>
                 fk_ok s_id fromID (servers d) \<and> fk_ok s_id toID (servers d))
      then Inl foreign_key_violation
      else Inr ((), d\<lparr>migrations := migrations d @
        [\<lparr>mg_id = fresh, mg_subscription_id = subID, mg_user_id = userID,
          mg_from_server = Some fromID, mg_to_server = Some toID, mg_reason = Some reason,
          mg_created_at = now\<rparr>]\<rparr>))"

definition Reassign :: "CreateParams \<Rightarrow> uuid \<Rightarrow> uuid \<Rightarrow> uuid \<Rightarrow> string \<Rightarrow> unit go" where
  "Reassign p configID subID oldServerID reason =
     transaction (\<lambda>e. e)
       (bind (wrap ''revoke old keys'' (sql (revoke_keys subID))) (\<lambda>_.
        bind (wrap ''next version'' (sql (next_version subID))) (\<lambda>version.
        bind (wrap ''insert config'' (sql (insert_config p configID subID version))) (\<lambda>_.
        bind (wrap ''insert key'' (sql (insert_key p configID))) (\<lambda>_.
        bind (wrap ''update subscription'' (sql (assign_sub subID (srv_ID (cp_Server p))))) (\<lambda>_.
        bind (wrap ''inc new server'' (sql (set_server (srv_ID (cp_Server p)) inc_load))) (\<lambda>_.
        bind (wrap ''dec old server'' (sql (set_server oldServerID dec_load))) (\<lambda>_.
        wrap ''insert migration''
          (sql (insert_migration subID (cp_UserID p) oldServerID (srv_ID (cp_Server p)) reason))))))))))"

section \<open>Reading\<close>

definition ListUsedIPs :: "uuid \<Rightarrow> string list go" where
  "ListUsedIPs serverID =
     wrap ''list used ips'' (sql (select (\<lambda>d.
       map show_ipv4 (List.map_filter k_assigned_ip
         (filter (\<lambda>k. k_server_id k = serverID \<and> k_status k = ''active'') (vpn_keys d))))))"

definition latest_config :: "uuid \<Rightarrow> db \<Rightarrow> config_row option" where
  "latest_config subID d =
     first_row (sort_key (\<lambda>c. - vc_version c)
       (filter (\<lambda>c. vc_subscription_id c = subID) (vpn_configs d)))"

text \<open>The joined rows of a user's VPNs, newest subscription first.\<close>

definition vpn_rows ::
    "uuid \<Rightarrow> db \<Rightarrow> (subscription_row \<times> server_row \<times> country_row) list" where
  "vpn_rows userID d =
     sort_key (\<lambda>(s, _). - sub_created_at s)
       [(s, srv, co). s \<leftarrow> subscriptions d, srv \<leftarrow> servers d, co \<leftarrow> countries d,
          s_id srv = sub_server_id s \<and> c_id co = sub_country_id s \<and>
          sub_user_id s = userID \<and> sub_status s \<noteq> ''deleted'']"

definition scan_view :: "db \<Rightarrow> subscription_row \<times> server_row \<times> country_row \<Rightarrow> VPNView option" where
  "scan_view d row =
     (case row of (s, srv, co) \<Rightarrow>
       (case latest_config (sub_id s) d of
         None \<Rightarrow> None
       | Some c \<Rightarrow>
           (case cfg_of_row c of
             None \<Rightarrow> None
           | Some cfg \<Rightarrow> Some \<lparr>vw_Subscription = sub_of_row s, vw_Config = cfg,
               vw_Country = c_name co, vw_Host = s_public_host srv\<rparr>)))"

fun all_some :: "'a option list \<Rightarrow> 'a list option" where
  "all_some [] = Some []"
| "all_some (None # xs) = None"
| "all_some (Some x # xs) = map_option ((#) x) (all_some xs)"

definition ListUserVPNs :: "uuid \<Rightarrow> VPNView list go" where
  "ListUserVPNs userID =
     bind (wrap ''list user vpns'' (sql (select (\<lambda>d.
       all_some (map (scan_view d) (vpn_rows userID d)))))) (\<lambda>r.
     case r of None \<Rightarrow> throw (Wrap ''scan vpn view'' null_scan) | Some vs \<Rightarrow> return vs)"

record ConfigArtifact =
  ca_ConfigObjectKey :: string
  ca_QRObjectKey :: string
  ca_Protocol :: Protocol
  ca_URI :: string

text \<open>A subscription of the user that is not deleted, and its latest configuration.\<close>

definition live_sub :: "uuid \<Rightarrow> uuid \<Rightarrow> db \<Rightarrow> subscription_row option" where
  "live_sub userID subID d =
     find_first (\<lambda>s. sub_id s = subID \<and> sub_user_id s = userID \<and> sub_status s \<noteq> ''deleted'')
       (subscriptions d)"

definition artifact_row :: "uuid \<Rightarrow> uuid \<Rightarrow> db \<Rightarrow> config_row option" where
  "artifact_row userID subID d =
     (case live_sub userID subID d of None \<Rightarrow> None | Some s \<Rightarrow> latest_config subID d)"

definition GetArtifactForUser :: "uuid \<Rightarrow> uuid \<Rightarrow> ConfigArtifact go" where
  "GetArtifactForUser userID subID =
     no_rows VPN_ErrNotFound ''get artifact''
       (bind (sql (select_row (artifact_row userID subID))) (\<lambda>c.
        case (vc_config_object_key c, vc_qr_object_key c, vc_uri c) of
          (Some ck, Some qk, Some u) \<Rightarrow>
            return \<lparr>ca_ConfigObjectKey = ck, ca_QRObjectKey = qk, ca_Protocol = vc_protocol c,
              ca_URI = u\<rparr>
        | _ \<Rightarrow> throw null_scan))"

section \<open>Deleting\<close>

record Deletion =
  dl_Server :: Server
  dl_Protocol :: Protocol
  dl_PublicKey :: "string option"
  dl_ClientUUID :: "string option"
  dl_ObjectKeys :: "string list"

type_synonym key_scan = "string option \<times> string option \<times> string list"

definition scan_key_row :: "key_scan \<Rightarrow> config_row \<times> key_row \<Rightarrow> key_scan" where
  "scan_key_row acc row =
     (case (acc, row) of ((pub, cuuid, objs), (c, k)) \<Rightarrow>
       (let (pub', cuuid') =
              (if pub = None then (k_public_key k, k_client_uuid k) else (pub, cuuid))
        in (pub', cuuid',
            objs @ (case vc_config_object_key c of None \<Rightarrow> [] | Some o1 \<Rightarrow> [o1])
                 @ (case vc_qr_object_key c of None \<Rightarrow> [] | Some o2 \<Rightarrow> [o2]))))"

definition SoftDelete :: "uuid \<Rightarrow> uuid \<Rightarrow> Deletion go" where
  "SoftDelete userID subID =
     transaction (Wrap ''commit'')
       (bind (no_rows VPN_ErrNotFound ''lock subscription''
                (sql (select_row (live_sub userID subID)))) (\<lambda>s.
        bind (wrap ''load keys'' (sql (select (key_rows subID)))) (\<lambda>rows.
        let (pub, cuuid, objs) = foldl scan_key_row (None, None, []) rows in
        bind (wrap ''revoke keys'' (sql (revoke_keys subID))) (\<lambda>_.
        bind (wrap ''mark deleted''
                (sql (set_sub subID (\<lambda>s. s\<lparr>sub_status := ''deleted''\<rparr>)))) (\<lambda>_.
        bind (wrap ''decrement load'' (sql (set_server (sub_server_id s) dec_load))) (\<lambda>_.
        bind (wrap ''load server'' (sql (select_row (\<lambda>d.
                map_option scanServer (by_key s_id (sub_server_id s) (servers d)))))) (\<lambda>srv.
        return \<lparr>dl_Server = srv, dl_Protocol = sub_protocol s, dl_PublicKey = pub,
          dl_ClientUUID = cuuid, dl_ObjectKeys = objs\<rparr>)))))))"

end
