(* ===== verification/VPNRepoCorrect.thy ===== *)
theory VPNRepoCorrect
  imports VPNRepo
begin

text \<open>
  Correctness of the VPN repository: what each write transaction does to the tables when it
  succeeds, that it leaves them alone when it fails, and the invariants it keeps - a server's
  client count is the number of its subscriptions that are not deleted, and no two active keys of
  a server have the same address.
\<close>

section \<open>What a successful transaction did\<close>

lemmas stmt_defs = insert_subscription_def insert_config_def insert_key_def set_server_def
  set_sub_def revoke_keys_def next_version_def assign_sub_def insert_migration_def modify_def
  select_def select_row_def

definition persisted_sub :: "CreateParams \<Rightarrow> subscription_row \<Rightarrow> bool" where
  "persisted_sub p r \<longleftrightarrow> sub_user_id r = cp_UserID p \<and> sub_plan_id r = cp_PlanID p \<and>
     sub_server_id r = srv_ID (cp_Server p) \<and> sub_country_id r = cp_CountryID p \<and>
     sub_protocol r = cp_Protocol p \<and> sub_status r = ''active'' \<and> sub_label r = cp_Label p \<and>
     sub_max_devices r = cp_MaxDevices p \<and> sub_expires_at r = pg_time (cp_ExpiresAt p)"

definition persisted_config :: "CreateParams \<Rightarrow> uuid \<Rightarrow> uuid \<Rightarrow> int \<Rightarrow> config_row \<Rightarrow> bool" where
  "persisted_config p configID subID v c \<longleftrightarrow> vc_id c = configID \<and> vc_subscription_id c = subID \<and>
     vc_protocol c = cp_Protocol p \<and> vc_uri c = Some (cp_URI p) \<and>
     vc_config_object_key c = Some (cp_ConfigObjectKey p) \<and>
     vc_qr_object_key c = Some (cp_QRObjectKey p) \<and> vc_hash c = Some (cp_Hash p) \<and>
     vc_version c = v"

definition persisted_key :: "CreateParams \<Rightarrow> uuid \<Rightarrow> key_row \<Rightarrow> bool" where
  "persisted_key p configID k \<longleftrightarrow> k_vpn_config_id k = configID \<and>
     k_server_id k = srv_ID (cp_Server p) \<and> k_private_key k = cp_PrivateKeyEnc p \<and>
     k_public_key k = cp_PublicKey p \<and> k_psk k = cp_PSKEnc p \<and>
     k_client_uuid k = cp_ClientUUID p \<and> inet_in (cp_AssignedIP p) = Inr (k_assigned_ip k) \<and>
     k_status k = ''active''"

lemma insert_subscription_InrD:
  assumes "insert_subscription p now fresh d = Inr (r, d')"
  shows "d' = d\<lparr>subscriptions := subscriptions d @ [r]\<rparr> \<and> persisted_sub p r \<and> sub_id r = fresh \<and>
    \<not> has_key sub_id fresh (subscriptions d) \<and> has_key s_id (srv_ID (cp_Server p)) (servers d) \<and>
    has_key u_id (cp_UserID p) (users d)"
  using assms
  by (auto simp: insert_subscription_def Let_def persisted_sub_def fk_ok_def split: if_splits)

lemma insert_config_InrD:
  assumes "insert_config p c s v now fresh d = Inr (r, d')"
  shows "d' = d\<lparr>vpn_configs := vpn_configs d @ [r]\<rparr> \<and> persisted_config p c s v r \<and>
    \<not> has_key vc_id c (vpn_configs d) \<and> has_key sub_id s (subscriptions d)"
  using assms
  by (auto simp: insert_config_def Let_def persisted_config_def fk_ok_def split: if_splits)

lemma insert_key_InrD:
  assumes "insert_key p c now fresh d = Inr (u, d')"
  shows "\<exists>k. d' = d\<lparr>vpn_keys := vpn_keys d @ [k]\<rparr> \<and> persisted_key p c k \<and>
    \<not> has_key k_id (k_id k) (vpn_keys d) \<and>
    \<not> ip_taken (srv_ID (cp_Server p)) (k_assigned_ip k) (vpn_keys d) \<and>
    has_key s_id (srv_ID (cp_Server p)) (servers d)"
  using assms
  by (auto simp: insert_key_def Let_def persisted_key_def fk_ok_def split: if_splits sum.splits)

lemma set_server_InrD:
  "set_server i f now fresh d = Inr (u, d') \<Longrightarrow>
    d' = d\<lparr>servers := update_where (\<lambda>s. s_id s = i) f (servers d)\<rparr>"
  by (simp add: set_server_def modify_def)

lemma set_sub_InrD:
  "set_sub i f now fresh d = Inr (u, d') \<Longrightarrow>
    d' = d\<lparr>subscriptions := update_where (\<lambda>s. sub_id s = i) f (subscriptions d)\<rparr>"
  by (simp add: set_sub_def modify_def)

lemma revoke_keys_InrD:
  "revoke_keys i now fresh d = Inr (u, d') \<Longrightarrow>
    d' = d\<lparr>vpn_keys := update_where (\<lambda>k. k_vpn_config_id k \<in> set (config_ids i d))
       (\<lambda>k. k\<lparr>k_status := ''revoked''\<rparr>) (vpn_keys d)\<rparr>"
  by (simp add: revoke_keys_def modify_def)

lemma select_InrD: "select f now fresh d = Inr (x, d') \<Longrightarrow> x = f d \<and> d' = d"
  by (auto simp: select_def)

lemma select_row_InrD: "select_row f now fresh d = Inr (x, d') \<Longrightarrow> f d = Some x \<and> d' = d"
  by (auto simp: select_row_def split: option.splits)

lemma Persist_InrD:
  assumes "Persist p configID w = (Inr (s, cf), w')"
  shows "\<exists>r c k. w_db w' = (w_db w)\<lparr>subscriptions := subscriptions (w_db w) @ [r],
        vpn_configs := vpn_configs (w_db w) @ [c], vpn_keys := vpn_keys (w_db w) @ [k],
        servers := update_where (\<lambda>s. s_id s = srv_ID (cp_Server p)) inc_load (servers (w_db w))\<rparr> \<and>
      persisted_sub p r \<and> persisted_config p configID (sub_id r) 1 c \<and> persisted_key p configID k \<and>
      s = sub_of_row r \<and> cfg_of_row c = Some cf \<and>
      \<not> has_key sub_id (sub_id r) (subscriptions (w_db w)) \<and>
      \<not> has_key vc_id configID (vpn_configs (w_db w)) \<and>
      \<not> has_key k_id (k_id k) (vpn_keys (w_db w)) \<and>
      \<not> ip_taken (srv_ID (cp_Server p)) (k_assigned_ip k) (vpn_keys (w_db w)) \<and>
      has_key s_id (srv_ID (cp_Server p)) (servers (w_db w)) \<and>
      w_store w' = w_store w \<and> w_env w' = w_env w \<and> w_nodes w' = w_nodes w"
  using assms unfolding Persist_def
  apply (elim transaction_SomeD bind_InrD)
  apply (drule wrap_InrD)+
  apply (elim sql_InrD)
  apply (drule insert_subscription_InrD)
  apply (drule insert_config_InrD)
  apply (drule insert_key_InrD)
  apply (drule set_server_InrD)
  apply (drule return_InrD)
  apply clarsimp
  apply (intro exI conjI)
           apply (rule refl)
          apply (simp_all add: persisted_config_def cfg_of_row_def)
  done

lemma SoftDelete_InrD:
  assumes "SoftDelete userID subID w = (Inr del, w')"
  shows "\<exists>s srv. live_sub userID subID (w_db w) = Some s \<and>
      w_db w' = (w_db w)\<lparr>
        vpn_keys := update_where (\<lambda>k. k_vpn_config_id k \<in> set (config_ids subID (w_db w)))
          (\<lambda>k. k\<lparr>k_status := ''revoked''\<rparr>) (vpn_keys (w_db w)),
        subscriptions := update_where (\<lambda>s. sub_id s = subID)
          (\<lambda>s. s\<lparr>sub_status := ''deleted''\<rparr>) (subscriptions (w_db w)),
        servers := update_where (\<lambda>x. s_id x = sub_server_id s) dec_load (servers (w_db w))\<rparr> \<and>
      dl_Protocol del = sub_protocol s \<and> dl_Server del = srv \<and> srv_ID srv = sub_server_id s \<and>
      (dl_PublicKey del, dl_ClientUUID del, dl_ObjectKeys del) =
        foldl scan_key_row (None, None, []) (key_rows subID (w_db w)) \<and>
      w_store w' = w_store w \<and> w_env w' = w_env w \<and> w_nodes w' = w_nodes w"
proof -
  obtain pub cuuid objs where f:
      "foldl scan_key_row (None, None, []) (key_rows subID (w_db w)) = (pub, cuuid, objs)"
    by (cases "foldl scan_key_row (None, None, []) (key_rows subID (w_db w))") auto
  show ?thesis
    using assms unfolding SoftDelete_def
    apply (elim transaction_SomeD)
    apply (elim bind_InrD)
    apply (drule no_rows_InrD)
    apply (elim sql_InrD)
    apply (drule select_row_InrD)
    apply (drule wrap_InrD)
    apply (elim sql_InrD)
    apply (drule select_InrD)
    apply (clarsimp simp: f)
    apply (elim bind_InrD)
    apply (drule wrap_InrD)+
    apply (elim sql_InrD)
    apply (drule select_row_InrD)
    apply (drule revoke_keys_InrD)
    apply (drule set_sub_InrD)
    apply (drule set_server_InrD)
    apply (drule return_InrD)
    apply (auto simp: scanServer_def dest!: by_key_SomeD)
    done
qed

lemma Reassign_InrD:
  assumes "Reassign p configID subID old reason w = (Inr u, w')"
  shows "\<exists>c k v m. w_db w' = (w_db w)\<lparr>
        vpn_configs := vpn_configs (w_db w) @ [c],
        vpn_keys := update_where (\<lambda>k. k_vpn_config_id k \<in> set (config_ids subID (w_db w)))
          (\<lambda>k. k\<lparr>k_status := ''revoked''\<rparr>) (vpn_keys (w_db w)) @ [k],
        subscriptions := update_where (\<lambda>s. sub_id s = subID)
          (\<lambda>s. s\<lparr>sub_server_id := srv_ID (cp_Server p), sub_status := ''active''\<rparr>)
          (subscriptions (w_db w)),
        servers := update_where (\<lambda>x. s_id x = old) dec_load
          (update_where (\<lambda>x. s_id x = srv_ID (cp_Server p)) inc_load (servers (w_db w))),
        migrations := migrations (w_db w) @ [m]\<rparr> \<and>
      persisted_config p configID subID v c \<and> persisted_key p configID k \<and>
      \<not> has_key vc_id configID (vpn_configs (w_db w)) \<and>
      \<not> has_key k_id (k_id k) (vpn_keys (w_db w)) \<and>
      \<not> ip_taken (srv_ID (cp_Server p)) (k_assigned_ip k)
        (update_where (\<lambda>k. k_vpn_config_id k \<in> set (config_ids subID (w_db w)))
          (\<lambda>k. k\<lparr>k_status := ''revoked''\<rparr>) (vpn_keys (w_db w))) \<and>
      has_key s_id (srv_ID (cp_Server p)) (servers (w_db w)) \<and>
      w_store w' = w_store w \<and> w_env w' = w_env w \<and> w_nodes w' = w_nodes w"
  using assms unfolding Reassign_def
  apply (elim transaction_SomeD)
  apply (elim bind_InrD)
  apply (drule wrap_InrD)+
  apply (elim sql_InrD)
  apply (drule revoke_keys_InrD)
  apply (clarsimp simp: next_version_def dest!: select_InrD)
  apply (drule insert_config_InrD)
  apply (drule insert_key_InrD)
  apply (drule set_server_InrD)+
  apply (clarsimp simp: assign_sub_def insert_migration_def split: if_splits
      dest!: set_sub_InrD)
  apply (intro exI conjI; (rule refl | assumption)?)
  done

section \<open>The load of a server\<close>

text \<open>How many subscriptions of a server are not deleted.\<close>

definition on_server :: "uuid \<Rightarrow> subscription_row \<Rightarrow> bool" where
  "on_server i s \<longleftrightarrow> sub_server_id s = i \<and> sub_status s \<noteq> ''deleted''"

definition live_count :: "uuid \<Rightarrow> subscription_row list \<Rightarrow> nat" where
  "live_count i subs = count_where (on_server i) subs"

text \<open>Every server's client count is the number of its subscriptions that are not deleted.\<close>

definition load_ok :: "db \<Rightarrow> bool" where
  "load_ok d \<longleftrightarrow> distinct (map s_id (servers d)) \<and> distinct (map sub_id (subscriptions d)) \<and>
     list_all (\<lambda>s. s_client_count s = int (live_count (s_id s) (subscriptions d))) (servers d)"

lemma load_simps [simp]:
  "s_id (inc_load s) = s_id s" "s_id (dec_load s) = s_id s"
  "s_client_count (inc_load s) = s_client_count s + 1"
  "s_client_count (dec_load s) = max (s_client_count s - 1) 0"
  by (simp_all add: inc_load_def dec_load_def)

lemma live_sub_SomeD:
  "live_sub userID subID d = Some s \<Longrightarrow> s \<in> set (subscriptions d) \<and> sub_id s = subID \<and>
    sub_user_id s = userID \<and> sub_status s \<noteq> ''deleted''"
  unfolding live_sub_def by (drule find_first_SomeD) auto

lemma live_count_update:
  assumes "distinct (map sub_id subs)" "s \<in> set subs"
  shows "live_count i (update_where (\<lambda>x. sub_id x = sub_id s) f subs) +
      (if on_server i s then 1 else 0) =
    live_count i subs + (if on_server i (f s) then 1 else 0)"
  unfolding live_count_def using assms by (rule count_where_update_key)

lemma distinct_map_update:
  "(\<And>r. key (f r) = key r) \<Longrightarrow> distinct (map key (update_where P f rows)) = distinct (map key rows)"
  by (simp add: map_update_where_same)

lemma load_ok_update:
  assumes "load_ok d" "servers d' = map g (servers d)" "\<And>x. s_id (g x) = s_id x"
    "distinct (map sub_id (subscriptions d'))"
    "\<And>x. s_client_count x = int (live_count (s_id x) (subscriptions d)) \<Longrightarrow>
      s_client_count (g x) = int (live_count (s_id x) (subscriptions d'))"
  shows "load_ok d'"
  using assms by (simp add: load_ok_def list_all_iff comp_def)

lemma load_ok_Persist:
  assumes "load_ok (w_db w)" "Persist p c w = (Inr x, w')"
  shows "load_ok (w_db w')"
proof -
  obtain s cf where x: "x = (s, cf)" by (cases x)
  let ?new = "srv_ID (cp_Server p)"
  obtain r where r: "subscriptions (w_db w') = subscriptions (w_db w) @ [r]"
      "servers (w_db w') = map (\<lambda>x. if s_id x = ?new then inc_load x else x) (servers (w_db w))"
      "persisted_sub p r" "\<not> has_key sub_id (sub_id r) (subscriptions (w_db w))"
    using Persist_InrD [OF assms(2) [unfolded x]] by (fastforce simp: update_where_def)
  have "on_server i r \<longleftrightarrow> ?new = i" for i
    using r(3) by (simp add: persisted_sub_def on_server_def)
  then have cnt: "live_count i (subscriptions (w_db w')) =
      live_count i (subscriptions (w_db w)) + (if ?new = i then 1 else 0)" for i
    by (simp add: live_count_def r(1))
  show ?thesis
    using assms(1) r(2)
  proof (rule load_ok_update)
    show "distinct (map sub_id (subscriptions (w_db w')))"
      using assms(1) r(1,4) by (auto simp: load_ok_def has_key_iff)
  qed (auto simp: cnt)
qed

lemma load_ok_SoftDelete:
  assumes "load_ok (w_db w)" "SoftDelete u i w = (Inr x, w')"
  shows "load_ok (w_db w')"
proof -
  let ?del = "\<lambda>s. s\<lparr>sub_status := ''deleted''\<rparr>"
  obtain s where s: "live_sub u i (w_db w) = Some s"
      "subscriptions (w_db w') = update_where (\<lambda>x. sub_id x = i) ?del (subscriptions (w_db w))"
      "servers (w_db w') =
        map (\<lambda>x. if s_id x = sub_server_id s then dec_load x else x) (servers (w_db w))"
    using SoftDelete_InrD [OF assms(2)] by (fastforce simp: update_where_def)
  note s' = live_sub_SomeD [OF s(1)]
  have cnt: "live_count j (subscriptions (w_db w)) =
      live_count j (subscriptions (w_db w')) + (if sub_server_id s = j then 1 else 0)" for j
    using live_count_update [of "subscriptions (w_db w)" s j ?del] assms(1) s'
    by (simp add: s(2) load_ok_def on_server_def)
  show ?thesis
    using assms(1) s(3)
  proof (rule load_ok_update)
    show "distinct (map sub_id (subscriptions (w_db w')))"
      using assms(1) by (simp add: load_ok_def s(2) distinct_map_update)
  qed (auto simp: cnt)
qed

text \<open>A subscription that is live on a server, which the migration loop reads before it moves it.\<close>

definition lives_on :: "uuid \<Rightarrow> uuid \<Rightarrow> db \<Rightarrow> bool" where
  "lives_on subID server d \<longleftrightarrow>
     list_ex (\<lambda>s. sub_id s = subID \<and> on_server server s) (subscriptions d)"

lemma load_ok_Reassign:
  assumes "load_ok (w_db w)" "lives_on subID old (w_db w)" "srv_ID (cp_Server p) \<noteq> old"
    and "Reassign p c subID old reason w = (Inr x, w')"
  shows "load_ok (w_db w')"
proof -
  let ?new = "srv_ID (cp_Server p)"
  let ?f = "\<lambda>s. s\<lparr>sub_server_id := ?new, sub_status := ''active''\<rparr>"
  obtain s where s: "s \<in> set (subscriptions (w_db w))" "sub_id s = subID" "on_server old s"
    using assms(2) by (auto simp: lives_on_def list_ex_iff)
  have w': "subscriptions (w_db w') = update_where (\<lambda>s. sub_id s = subID) ?f (subscriptions (w_db w))"
      "servers (w_db w') = map (\<lambda>x. let y = if s_id x = ?new then inc_load x else x in
         if s_id y = old then dec_load y else y) (servers (w_db w))"
    using Reassign_InrD [OF assms(4)] by (fastforce simp: update_where_def comp_def Let_def)+
  have cnt: "live_count j (subscriptions (w_db w')) + (if old = j then 1 else 0) =
      live_count j (subscriptions (w_db w)) + (if ?new = j then 1 else 0)" for j
    using live_count_update [of "subscriptions (w_db w)" s j ?f] assms(1) s
    by (simp add: w'(1) load_ok_def on_server_def)
  show ?thesis
    using assms(1) w'(2)
  proof (rule load_ok_update)
    show "distinct (map sub_id (subscriptions (w_db w')))"
      using assms(1) by (simp add: load_ok_def w'(1) distinct_map_update)
    fix x :: server_row
    assume "s_client_count x = int (live_count (s_id x) (subscriptions (w_db w)))"
    then show "s_client_count (let y = if s_id x = ?new then inc_load x else x in
          if s_id y = old then dec_load y else y) =
        int (live_count (s_id x) (subscriptions (w_db w')))"
      using cnt [of "s_id x"] assms(3) by (auto simp: Let_def)
  qed (auto simp: Let_def)
qed

lemma tx_errors:
  "Persist p c w = (Inl e, w') \<Longrightarrow> w_db w' = w_db w"
  "SoftDelete u i w = (Inl e, w') \<Longrightarrow> w_db w' = w_db w"
  "Reassign p c i old reason w = (Inl e, w') \<Longrightarrow> w_db w' = w_db w"
  unfolding Persist_def SoftDelete_def Reassign_def by (erule transaction_error_db)+

text \<open>
  The client count of every server stays the number of its subscriptions that are not deleted,
  through every creation and deletion, whether the transaction commits or fails at any statement.
\<close>

theorem client_count_exact:
  "keeps (on_db load_ok) (Persist p c) \<and> keeps (on_db load_ok) (SoftDelete u i)"
  by (intro conjI keeps_atomic)
    (blast intro: load_ok_Persist load_ok_SoftDelete tx_errors)+

text \<open>
  Moving a subscription that is live on a server to another server keeps every client count
  exact, on both servers, and leaves the tables alone when the transaction fails.
\<close>

theorem client_count_exact_migration:
  assumes "load_ok (w_db w)" "lives_on subID old (w_db w)" "srv_ID (cp_Server p) \<noteq> old"
  shows "load_ok (w_db (snd (Reassign p c subID old reason w)))"
proof -
  obtain r w' where m: "Reassign p c subID old reason w = (r, w')" by fastforce
  then show ?thesis
    using assms(1) load_ok_Reassign [OF assms] tx_errors(3) by (cases r) auto
qed

section \<open>Addresses\<close>

text \<open>No two active keys of a server have the same address.\<close>

definition ip_clash :: "key_row \<Rightarrow> key_row \<Rightarrow> bool" where
  "ip_clash a b \<longleftrightarrow> k_server_id a = k_server_id b \<and> k_assigned_ip a = k_assigned_ip b \<and>
     k_assigned_ip a \<noteq> None \<and> k_status a = ''active'' \<and> k_status b = ''active''"

definition ips_ok :: "db \<Rightarrow> bool" where
  "ips_ok d \<longleftrightarrow> sorted_wrt (\<lambda>a b. \<not> ip_clash a b) (vpn_keys d)"

lemma sorted_wrt_update:
  assumes "sorted_wrt R xs" "\<And>x y. R x y \<Longrightarrow> R (g x) (g y)"
  shows "sorted_wrt R (map g xs)"
  using assms by (induction xs) auto

lemma ips_ok_insert:
  assumes "sorted_wrt (\<lambda>a b. \<not> ip_clash a b) ks" "persisted_key p c k"
    "\<not> ip_taken (srv_ID (cp_Server p)) (k_assigned_ip k) ks"
  shows "sorted_wrt (\<lambda>a b. \<not> ip_clash a b) (ks @ [k])"
  using assms
  by (auto simp: sorted_wrt_append ip_taken_def list_ex_iff ip_clash_def persisted_key_def)

lemma ips_ok_revoke:
  assumes "sorted_wrt (\<lambda>a b. \<not> ip_clash a b) ks"
  shows "sorted_wrt (\<lambda>a b. \<not> ip_clash a b)
    (update_where P (\<lambda>k. k\<lparr>k_status := ''revoked''\<rparr>) ks)"
  unfolding update_where_def using assms by (rule sorted_wrt_update) (auto simp: ip_clash_def)

lemma Persist_ips_ok: "keeps (on_db ips_ok) (Persist p c)"
proof (rule keeps_atomic; (erule tx_errors)?)
  show "ips_ok (w_db w')" if "ips_ok (w_db w)" "Persist p c w = (Inr x, w')" for w x w'
  proof -
    obtain s cf where x: "x = (s, cf)" by (cases x)
    from Persist_InrD [OF that(2) [unfolded x]] that(1) ips_ok_insert show ?thesis
      by (fastforce simp: ips_ok_def)
  qed
qed

lemma SoftDelete_ips_ok: "keeps (on_db ips_ok) (SoftDelete u i)"
proof (rule keeps_atomic; (erule tx_errors)?)
  show "ips_ok (w_db w')" if "ips_ok (w_db w)" "SoftDelete u i w = (Inr x, w')" for w x w'
    using SoftDelete_InrD [OF that(2)] that(1) by (auto simp: ips_ok_def ips_ok_revoke)
qed

lemma Reassign_ips_ok: "keeps (on_db ips_ok) (Reassign p c i old reason)"
proof (rule keeps_atomic; (erule tx_errors)?)
  fix w x w' assume I: "ips_ok (w_db w)" and m: "Reassign p c i old reason w = (Inr x, w')"
  let ?ks = "update_where (\<lambda>k. k_vpn_config_id k \<in> set (config_ids i (w_db w)))
    (\<lambda>k. k\<lparr>k_status := ''revoked''\<rparr>) (vpn_keys (w_db w))"
  obtain k where k: "vpn_keys (w_db w') = ?ks @ [k]" "persisted_key p c k"
      "\<not> ip_taken (srv_ID (cp_Server p)) (k_assigned_ip k) ?ks"
    using Reassign_InrD [OF m] by fastforce
  have "sorted_wrt (\<lambda>a b. \<not> ip_clash a b) ?ks"
    using I unfolding ips_ok_def by (rule ips_ok_revoke)
  with k show "ips_ok (w_db w')" by (simp add: ips_ok_def ips_ok_insert)
qed

text \<open>
  No two active keys of a server ever have the same WireGuard address: every creation,
  deletion and migration keeps it, committed or failed.
\<close>

theorem addresses_unique:
  "keeps (on_db ips_ok) (Persist p c) \<and> keeps (on_db ips_ok) (SoftDelete u i) \<and>
   keeps (on_db ips_ok) (Reassign p c i old reason)"
  by (intro conjI Persist_ips_ok SoftDelete_ips_ok Reassign_ips_ok)

end
