(* ===== verification/NodeProvisioner.thy ===== *)
theory NodeProvisioner
  imports VPNModel
begin

text \<open>
  The provisioner interface (\<open>internal/vpn/provisioner.go\<close>) with its two implementations, and the
  object store (\<open>internal/platform/storage/minio.go\<close>).  A node call is a POST that may fail or be
  answered with an error status; what reached a node is the trace \<open>w_nodes\<close>.  The locale
  \<open>provisioner\<close> is what the VPN service relies on: node operations touch nothing but the nodes.
\<close>

section \<open>The interface\<close>

record Provisioner =
  pv_AddWireGuardPeer :: "Server \<Rightarrow> string \<Rightarrow> string \<Rightarrow> string \<Rightarrow> unit go"
  pv_RemoveWireGuardPeer :: "Server \<Rightarrow> string \<Rightarrow> unit go"
  pv_AddVLESSClient :: "Server \<Rightarrow> string \<Rightarrow> unit go"
  pv_RemoveVLESSClient :: "Server \<Rightarrow> string \<Rightarrow> unit go"
  pv_AddShadowsocksClient :: "Server \<Rightarrow> string \<Rightarrow> string \<Rightarrow> unit go"
  pv_RemoveShadowsocksClient :: "Server \<Rightarrow> string \<Rightarrow> unit go"
  pv_AddTrojanClient :: "Server \<Rightarrow> string \<Rightarrow> string \<Rightarrow> unit go"
  pv_RemoveTrojanClient :: "Server \<Rightarrow> string \<Rightarrow> unit go"

section \<open>The implementations\<close>

text \<open>The development provisioner only logs.\<close>

definition noopProvisioner :: Provisioner where
  "noopProvisioner = \<lparr>
     pv_AddWireGuardPeer = \<lambda>srv publicKey psk allowedIP. return (),
     pv_RemoveWireGuardPeer = \<lambda>srv publicKey. return (),
     pv_AddVLESSClient = \<lambda>srv clientUUID. return (),
     pv_RemoveVLESSClient = \<lambda>srv clientUUID. return (),
     pv_AddShadowsocksClient = \<lambda>srv userKey email. return (),
     pv_RemoveShadowsocksClient = \<lambda>srv email. return (),
     pv_AddTrojanClient = \<lambda>srv password email. return (),
     pv_RemoveTrojanClient = \<lambda>srv email. return ()\<rparr>"

text \<open>The HTTP exchange: it fails, or reaches the agent and is answered with a status code.\<close>

definition http_post :: "string \<Rightarrow> string \<Rightarrow> (string \<times> string) list \<Rightarrow> int go" where
  "http_post url token body w =
     (if env_fault (w_env w) (w_tick w) then (Inl Fault, step_tick w)
      else (Inr (env_http_status (w_env w) (w_tick w)),
            (step_tick w)\<lparr>w_nodes := w_nodes w @ [NodeCall url token body]\<rparr>))"

definition agent_post ::
    "string \<Rightarrow> Server \<Rightarrow> string \<Rightarrow> (string \<times> string) list \<Rightarrow> unit go" where
  "agent_post token srv path payload =
     (case srv_AgentURL srv of
       None \<Rightarrow> throw (Errorf ''server has no agent_url'')
     | Some url \<Rightarrow>
         if url = '''' then throw (Errorf ''server has no agent_url'')
         else
           bind (wrap ''call agent'' (http_post (url @ path) token payload)) (\<lambda>status.
           if status \<ge> 300 then throw (Errorf ''agent returned error status'') else return ()))"

definition agentProvisioner :: "string \<Rightarrow> Provisioner" where
  "agentProvisioner token = \<lparr>
     pv_AddWireGuardPeer = \<lambda>srv publicKey psk allowedIP. agent_post token srv ''/wg/peers''
       [(''public_key'', publicKey), (''preshared_key'', psk), (''allowed_ip'', allowedIP)],
     pv_RemoveWireGuardPeer = \<lambda>srv publicKey. agent_post token srv ''/wg/peers/remove''
       [(''public_key'', publicKey)],
     pv_AddVLESSClient = \<lambda>srv clientUUID. agent_post token srv ''/vless/clients''
       [(''uuid'', clientUUID)],
     pv_RemoveVLESSClient = \<lambda>srv clientUUID. agent_post token srv ''/vless/clients/remove''
       [(''uuid'', clientUUID)],
     pv_AddShadowsocksClient = \<lambda>srv userKey email. agent_post token srv ''/ss/clients''
       [(''password'', userKey), (''email'', email)],
     pv_RemoveShadowsocksClient = \<lambda>srv email. agent_post token srv ''/ss/clients/remove''
       [(''email'', email)],
     pv_AddTrojanClient = \<lambda>srv password email. agent_post token srv ''/trojan/clients''
       [(''password'', password), (''email'', email)],
     pv_RemoveTrojanClient = \<lambda>srv email. agent_post token srv ''/trojan/clients/remove''
       [(''email'', email)]\<rparr>"

definition NewProvisioner :: "string \<Rightarrow> string \<Rightarrow> Provisioner" where
  "NewProvisioner mode agentToken =
     (if mode = ''agent'' then agentProvisioner agentToken else noopProvisioner)"

section \<open>The object store\<close>

definition store_put :: "string \<Rightarrow> string \<Rightarrow> (string \<times> string) list \<Rightarrow> (string \<times> string) list" where
  "store_put key data st = (key, data) # filter (\<lambda>(k, _). k \<noteq> key) st"

definition store_remove :: "string \<Rightarrow> (string \<times> string) list \<Rightarrow> (string \<times> string) list" where
  "store_remove key st = filter (\<lambda>(k, _). k \<noteq> key) st"

definition Store_Put :: "string \<Rightarrow> string \<Rightarrow> unit go" where
  "Store_Put key data w =
     (if env_fault (w_env w) (w_tick w) then (Inl (Wrap ''storage: put'' Fault), step_tick w)
      else (Inr (), (step_tick w)\<lparr>w_store := store_put key data (w_store w)\<rparr>))"

definition Store_Get :: "string \<Rightarrow> string go" where
  "Store_Get key w =
     (if env_fault (w_env w) (w_tick w) then (Inl (Wrap ''storage: get'' Fault), step_tick w)
      else (case map_of (w_store w) key of
          None \<Rightarrow> (Inl (Wrap ''storage: read'' (Errorf ''The specified key does not exist.'')),
                   step_tick w)
        | Some data \<Rightarrow> (Inr data, step_tick w)))"

text \<open>A missing object is not an error.\<close>

definition Store_Remove :: "string \<Rightarrow> unit go" where
  "Store_Remove key w =
     (if env_fault (w_env w) (w_tick w) then (Inl (Wrap ''storage: remove'' Fault), step_tick w)
      else (Inr (), (step_tick w)\<lparr>w_store := store_remove key (w_store w)\<rparr>))"

lemma map_of_store_put: "map_of (store_put key data st) = (map_of st)(key \<mapsto> data)"
proof
  fix k
  show "map_of (store_put key data st) k = ((map_of st)(key \<mapsto> data)) k"
    by (induction st) (auto simp: store_put_def)
qed

lemma map_of_store_remove: "map_of (store_remove key st) = (map_of st)(key := None)"
proof
  fix k
  show "map_of (store_remove key st) k = ((map_of st)(key := None)) k"
    by (induction st) (auto simp: store_remove_def)
qed

section \<open>What the service relies on\<close>

lemma quiet_http_post [quiet_intro]: "quiet (http_post url token body)"
  by (simp add: quiet_def http_post_def same_state_def)

lemma quiet_agent_post [quiet_intro]: "quiet (agent_post token srv path payload)"
  by (auto simp: agent_post_def intro!: quiet_intro split: option.split)

text \<open>
  The contract of a provisioner, and what follows for its clients: running any of its operations
  on whatever conditions, errors kept or dropped, leaves the stored state alone.
\<close>

locale provisioner =
  fixes pv :: Provisioner
  assumes add_wg: "quiet (pv_AddWireGuardPeer pv srv k psk ip)"
    and remove_wg: "quiet (pv_RemoveWireGuardPeer pv srv k)"
    and add_vless: "quiet (pv_AddVLESSClient pv srv u)"
    and remove_vless: "quiet (pv_RemoveVLESSClient pv srv u)"
    and add_ss: "quiet (pv_AddShadowsocksClient pv srv k u)"
    and remove_ss: "quiet (pv_RemoveShadowsocksClient pv srv u)"
    and add_trojan: "quiet (pv_AddTrojanClient pv srv k u)"
    and remove_trojan: "quiet (pv_RemoveTrojanClient pv srv u)"
begin

lemmas ops = add_wg remove_wg add_vless remove_vless add_ss remove_ss add_trojan remove_trojan

end

interpretation noop: provisioner noopProvisioner
  by unfold_locales (simp_all add: noopProvisioner_def quiet_intro)

interpretation agent: provisioner "agentProvisioner token" for token
  by unfold_locales (simp_all add: agentProvisioner_def quiet_intro)

interpretation selected: provisioner "NewProvisioner mode token" for mode token
  by unfold_locales (auto simp: NewProvisioner_def noop.ops agent.ops)

end
