(* ===== verification/VPNService.thy ===== *)
theory VPNService
  imports VPNRepoCorrect NodeProvisioner
begin

text \<open>
  The VPN service (\<open>internal/vpn/service.go\<close>): creating, reading, deleting and migrating VPNs.
  The service record holds what the Go struct holds: the cipher, the provisioner and, for the
  embedded list of Russian networks, its text.
\<close>

record VPNService =
  vs_cipher :: Cipher
  vs_provisioner :: Provisioner
  vs_ruCIDRs :: string

record CreateInput =
  ci_UserID :: uuid
  ci_CountryID :: uuid
  ci_Protocol :: Protocol
  ci_PlanID :: "uuid option"
  ci_Label :: "string option"
  ci_Routing :: RoutingMode

section \<open>Generating\<close>

definition sha256hex :: "string \<Rightarrow> string go" where
  "sha256hex s = ask (\<lambda>e. hex_EncodeToString (env_sha256 e s))"

definition derefStr :: "string option \<Rightarrow> string" where
  "derefStr p = (case p of None \<Rightarrow> '''' | Some s \<Rightarrow> s)"

definition generateTrojan :: "Server \<Rightarrow> string \<Rightarrow> generated go" where
  "generateTrojan srv label =
     (case (srv_TrojanPort srv, srv_RealityPublicKey srv, srv_RealitySNI srv) of
       (Some port, Some pbk, Some sni) \<Rightarrow>
         bind NewUUID (\<lambda>password.
         bind NewUUID (\<lambda>email.
         let uri = renderTrojanURI \<lparr>tj_Password = password, tj_Host = srv_PublicHost srv,
               tj_Port = port, tj_SNI = sni, tj_PublicKey = pbk,
               tj_ShortID = derefStr (srv_RealityShortID srv), tj_Label = label\<rparr> in
         bind (sha256hex uri) (\<lambda>hash.
         return (generated0\<lparr>g_uri := uri, g_configText := uri, g_hash := hash,
           g_clientUUID := Some email, g_ssUserKey := Some password\<rparr>))))
     | _ \<Rightarrow> throw ErrServerNotConfigured)"

definition generateShadowsocks :: "Server \<Rightarrow> string \<Rightarrow> generated go" where
  "generateShadowsocks srv label =
     (case (srv_SSPort srv, srv_SSMethod srv, srv_SSServerKey srv) of
       (Some port, Some meth, Some skey) \<Rightarrow>
         bind GenerateShadowsocksKey (\<lambda>userKey.
         bind NewUUID (\<lambda>email.
         let uri = renderShadowsocksURI \<lparr>ss_Method = meth, ss_ServerKey = skey,
               ss_UserKey = userKey, ss_Host = srv_PublicHost srv, ss_Port = port,
               ss_Label = label\<rparr> in
         bind (sha256hex uri) (\<lambda>hash.
         return (generated0\<lparr>g_uri := uri, g_configText := uri, g_hash := hash,
           g_clientUUID := Some email, g_ssUserKey := Some userKey\<rparr>))))
     | _ \<Rightarrow> throw ErrServerNotConfigured)"

text \<open>A panic of \<open>allowedIPsFor\<close> (which cannot happen, see split routing) would end the request.\<close>

definition allowed_ips :: "VPNService \<Rightarrow> RoutingMode \<Rightarrow> string go" where
  "allowed_ips s routing =
     (case allowedIPsFor (vs_ruCIDRs s) routing of
       None \<Rightarrow> throw (Errorf ''panic: index out of range'')
     | Some v \<Rightarrow> return v)"

definition generateWireGuard :: "VPNService \<Rightarrow> Server \<Rightarrow> RoutingMode \<Rightarrow> generated go" where
  "generateWireGuard s srv routing =
     (case (srv_WGPublicKey srv, srv_WGSubnet srv, srv_WGPort srv) of
       (Some spub, Some subnet, Some port) \<Rightarrow>
         bind GenerateWireGuardKeypair (\<lambda>(priv, pub).
         bind GeneratePresharedKey (\<lambda>psk.
         bind (ListUsedIPs (srv_ID srv)) (\<lambda>used.
         bind (of_sum (allocateWireGuardIP subnet used)) (\<lambda>ip.
         let dns = (case srv_WGDNS srv of None \<Rightarrow> ''1.1.1.1'' | Some d \<Rightarrow> d) in
         bind (allowed_ips s routing) (\<lambda>allowed.
         let conf = renderWireGuardConfig \<lparr>wg_ClientPrivateKey = priv, wg_ClientAddress = ip,
               wg_DNS = dns, wg_ServerPublicKey = spub, wg_PresharedKey = psk,
               wg_Endpoint = host_port (srv_PublicHost srv) port, wg_AllowedIPs = allowed\<rparr>;
             ipHost = TrimSuffix ip ''/32'' in
         bind (sha256hex conf) (\<lambda>hash.
         return (generated0\<lparr>g_uri := '''', g_configText := conf, g_hash := hash,
           g_privateKey := Some priv, g_publicKey := Some pub, g_psk := Some psk,
           g_assignedIP := Some ipHost\<rparr>)))))))
     | _ \<Rightarrow> throw ErrServerNotConfigured)"

definition generateReality :: "Server \<Rightarrow> string \<Rightarrow> generated go" where
  "generateReality srv label =
     (case (srv_RealityPublicKey srv, srv_RealityPort srv, srv_RealitySNI srv) of
       (Some pbk, Some port, Some sni) \<Rightarrow>
         bind NewUUID (\<lambda>clientUUID.
         let uri = renderRealityURI \<lparr>rl_UUID = clientUUID, rl_Host = srv_PublicHost srv,
               rl_Port = port, rl_SNI = sni, rl_PublicKey = pbk,
               rl_ShortID = derefStr (srv_RealityShortID srv), rl_Label = label\<rparr> in
         bind (sha256hex uri) (\<lambda>hash.
         return (generated0\<lparr>g_uri := uri, g_configText := uri, g_hash := hash,
           g_clientUUID := Some clientUUID\<rparr>)))
     | _ \<Rightarrow> throw ErrServerNotConfigured)"

definition generate ::
    "VPNService \<Rightarrow> Server \<Rightarrow> Protocol \<Rightarrow> string \<Rightarrow> RoutingMode \<Rightarrow> generated go" where
  "generate s srv protocol label routing =
     (if protocol = ProtocolWireGuard then generateWireGuard s srv routing
      else if protocol = ProtocolVLESSReality then generateReality srv label
      else if protocol = ProtocolShadowsocks then generateShadowsocks srv label
      else if protocol = ProtocolTrojan then generateTrojan srv label
      else throw ErrUnsupportedProtocol)"

section \<open>Provisioning and storing\<close>

definition provision :: "VPNService \<Rightarrow> Server \<Rightarrow> Protocol \<Rightarrow> generated \<Rightarrow> unit go" where
  "provision s srv protocol gen =
     (let pv = vs_provisioner s in
      if protocol = ProtocolWireGuard then
        (let allowed = (case g_assignedIP gen of None \<Rightarrow> '''' | Some ip \<Rightarrow> ip @ ''/32'');
             psk = derefStr (g_psk gen)
         in pv_AddWireGuardPeer pv srv (derefStr (g_publicKey gen)) psk allowed)
      else if protocol = ProtocolVLESSReality
      then pv_AddVLESSClient pv srv (derefStr (g_clientUUID gen))
      else if protocol = ProtocolShadowsocks
      then pv_AddShadowsocksClient pv srv (derefStr (g_ssUserKey gen)) (derefStr (g_clientUUID gen))
      else if protocol = ProtocolTrojan
      then pv_AddTrojanClient pv srv (derefStr (g_ssUserKey gen)) (derefStr (g_clientUUID gen))
      else throw ErrUnsupportedProtocol)"

definition renderQRPNG :: "string \<Rightarrow> int \<Rightarrow> (error + string) go" where
  "renderQRPNG content px =
     ask (\<lambda>e. case env_qr_png e content px of
        None \<Rightarrow> Inl (Wrap ''encode qr'' (Errorf ''content too long to encode''))
      | Some png \<Rightarrow> Inr png)"

definition storeConfig :: "VPNService \<Rightarrow> uuid \<Rightarrow> generated \<Rightarrow> (string \<times> string) go" where
  "storeConfig s configID gen =
     (let cfgKey = ''cfg/'' @ uuid_String configID in
      bind (Encrypt (vs_cipher s) (g_configText gen)) (\<lambda>encConfig.
      bind (Store_Put cfgKey encConfig) (\<lambda>_.
      let qrContent = (if g_uri gen = '''' then g_configText gen else g_uri gen) in
      bind (renderQRPNG qrContent 512) (\<lambda>r.
      case r of
        Inr png \<Rightarrow>
          (let qrKey = ''qr/'' @ uuid_String configID @ ''.png'' in
           bind (Store_Put qrKey png) (\<lambda>_. return (cfgKey, qrKey)))
      | Inl e \<Rightarrow> return (cfgKey, '''')))))"

definition enc_opt :: "VPNService \<Rightarrow> string option \<Rightarrow> string option go" where
  "enc_opt s p = (case p of
     None \<Rightarrow> return None
   | Some v \<Rightarrow> bind (Encrypt (vs_cipher s) v) (\<lambda>c. return (Some c)))"

definition applyEncryptedKeys ::
    "VPNService \<Rightarrow> generated \<Rightarrow> CreateParams \<Rightarrow> CreateParams go" where
  "applyEncryptedKeys s gen params =
     bind (enc_opt s (g_privateKey gen)) (\<lambda>pk.
     bind (enc_opt s (g_psk gen)) (\<lambda>psk.
     let params1 = params\<lparr>cp_PrivateKeyEnc := pk, cp_PSKEnc := psk\<rparr> in
     case g_ssUserKey gen of
       None \<Rightarrow> return params1
     | Some k \<Rightarrow>
         bind (enc_opt s (Some k)) (\<lambda>c. return (params1\<lparr>cp_PrivateKeyEnc := c\<rparr>))))"

section \<open>Creating\<close>

text \<open>\<open>time.Duration(days) * 24 * time.Hour\<close>, in 64-bit arithmetic.\<close>

definition int64 :: "int \<Rightarrow> int" where
  "int64 i = signed_take_bit 63 i"

definition days_Duration :: "int \<Rightarrow> int" where
  "days_Duration days = int64 (int64 (days * 24) * 3600000000000)"

definition label_or_VPN :: "string option \<Rightarrow> string" where
  "label_or_VPN l = (case l of None \<Rightarrow> ''VPN'' | Some s \<Rightarrow> if s \<noteq> '''' then s else ''VPN'')"

definition plan_terms :: "uuid option \<Rightarrow> (int \<times> int) go" where
  "plan_terms planID = (case planID of
     None \<Rightarrow> return (30, 1)
   | Some i \<Rightarrow> bind (GetPlan i) (\<lambda>plan. return (plan_Days plan, plan_MaxDevices plan)))"

text \<open>The parameters of \<open>Persist\<close> before the keys are encrypted into them.\<close>

definition create_params :: "CreateInput \<Rightarrow> Server \<Rightarrow> int \<Rightarrow> timestamp \<Rightarrow> generated \<Rightarrow>
    string \<Rightarrow> string \<Rightarrow> CreateParams" where
  "create_params inp srv maxDevices expires gen cfgKey qrKey =
     \<lparr>cp_UserID = ci_UserID inp, cp_Server = srv, cp_CountryID = ci_CountryID inp,
      cp_PlanID = ci_PlanID inp, cp_Protocol = ci_Protocol inp, cp_Label = ci_Label inp,
      cp_MaxDevices = maxDevices, cp_ExpiresAt = expires, cp_URI = g_uri gen,
      cp_ConfigObjectKey = cfgKey, cp_QRObjectKey = qrKey, cp_Hash = g_hash gen,
      cp_PrivateKeyEnc = None, cp_PublicKey = g_publicKey gen, cp_PSKEnc = None,
      cp_ClientUUID = g_clientUUID gen, cp_AssignedIP = g_assignedIP gen\<rparr>"

definition Create :: "VPNService \<Rightarrow> CreateInput \<Rightarrow> VPNView go" where
  "Create s inp =
     (if \<not> Protocol_Valid (ci_Protocol inp) then throw ErrUnsupportedProtocol
      else
        bind (plan_terms (ci_PlanID inp)) (\<lambda>(days, maxDevices).
        bind (SelectServer (ci_CountryID inp) (ci_Protocol inp)) (\<lambda>srv.
        bind uuid_New (\<lambda>configID.
        bind (generate s srv (ci_Protocol inp) (label_or_VPN (ci_Label inp)) (ci_Routing inp))
          (\<lambda>gen.
        bind (wrap ''provision node'' (provision s srv (ci_Protocol inp) gen)) (\<lambda>_.
        bind (storeConfig s configID gen) (\<lambda>(cfgKey, qrKey).
        bind time_Now (\<lambda>now.
        bind (applyEncryptedKeys s gen
               (create_params inp srv maxDevices (now + days_Duration days) gen cfgKey qrKey))
          (\<lambda>params.
        bind (Persist params configID) (\<lambda>(sub, cfg).
        return \<lparr>vw_Subscription = sub, vw_Config = cfg, vw_Country = '''',
          vw_Host = srv_PublicHost srv\<rparr>))))))))))"

section \<open>Reading\<close>

definition VPN_List :: "uuid \<Rightarrow> VPNView list go" where
  "VPN_List userID = ListUserVPNs userID"

definition FetchConfig :: "VPNService \<Rightarrow> uuid \<Rightarrow> uuid \<Rightarrow> (string \<times> string) go" where
  "FetchConfig s userID subID =
     bind (GetArtifactForUser userID subID) (\<lambda>art.
     bind (Store_Get (ca_ConfigObjectKey art)) (\<lambda>enc.
     bind (Decrypt (vs_cipher s) enc) (\<lambda>plain.
     return (plain, ''text/plain; charset=utf-8''))))"

definition FetchQR :: "uuid \<Rightarrow> uuid \<Rightarrow> string go" where
  "FetchQR userID subID =
     bind (GetArtifactForUser userID subID) (\<lambda>art.
     if ca_QRObjectKey art = '''' then throw VPN_ErrNotFound
     else Store_Get (ca_QRObjectKey art))"

definition Countries :: "CountryRef list go" where "Countries = ListCountries"
definition Plans :: "PlanRef list go" where "Plans = ListPlans"

section \<open>Deleting\<close>

text \<open>The errors of the node and of the store are logged only.\<close>

definition ignore :: "unit go \<Rightarrow> unit go" where
  "ignore m = bind (attempt m) (\<lambda>_. return ())"

definition remove_client ::
    "Provisioner \<Rightarrow> Server \<Rightarrow> Protocol \<Rightarrow> string option \<Rightarrow> string option \<Rightarrow> unit go" where
  "remove_client pv srv protocol pub clientUUID =
     (let on = (\<lambda>key rm. case key of None \<Rightarrow> return () | Some k \<Rightarrow> ignore (rm k)) in
      if protocol = ProtocolWireGuard then on pub (pv_RemoveWireGuardPeer pv srv)
      else if protocol = ProtocolVLESSReality then on clientUUID (pv_RemoveVLESSClient pv srv)
      else if protocol = ProtocolShadowsocks then on clientUUID (pv_RemoveShadowsocksClient pv srv)
      else if protocol = ProtocolTrojan then on clientUUID (pv_RemoveTrojanClient pv srv)
      else return ())"

definition Delete :: "VPNService \<Rightarrow> uuid \<Rightarrow> uuid \<Rightarrow> unit go" where
  "Delete s userID subID =
     bind (SoftDelete userID subID) (\<lambda>del.
     bind (remove_client (vs_provisioner s) (dl_Server del) (dl_Protocol del) (dl_PublicKey del)
             (dl_ClientUUID del)) (\<lambda>_.
     for_each (\<lambda>key. ignore (Store_Remove key)) (dl_ObjectKeys del)))"

section \<open>Migrating\<close>

record MigrationResult =
  mr_UserID :: uuid
  mr_TelegramID :: "int option"
  mr_Country :: string
  mr_SubID :: uuid

definition deprovisionOld ::
    "VPNService \<Rightarrow> Server option \<Rightarrow> Protocol \<Rightarrow> string option \<Rightarrow> string option \<Rightarrow> unit go" where
  "deprovisionOld s oldServer protocol pub clientUUID =
     (case oldServer of
       None \<Rightarrow> return ()
     | Some srv \<Rightarrow>
         if srv_ID srv = uuid_Nil then return ()
         else remove_client (vs_provisioner s) srv protocol pub clientUUID)"

text \<open>
  One subscription of the loop: any error skips it (the code logs and continues), so the body
  yields whether it was migrated.
\<close>

definition migrate_one ::
    "VPNService \<Rightarrow> uuid \<Rightarrow> string \<Rightarrow> Server option \<Rightarrow> MigrationSub \<Rightarrow> unit go" where
  "migrate_one s fromID reason oldServer sub =
     bind (SelectReserveServer (ms_CountryID sub) (ms_Protocol sub) fromID) (\<lambda>reserve.
     bind (attempt (OldKeyForSub (ms_SubID sub))) (\<lambda>old.
     let (oldPub, oldUUID) = (case old of Inl e \<Rightarrow> (None, None) | Inr p \<Rightarrow> p) in
     bind (generate s reserve (ms_Protocol sub) (label_or_VPN (ms_Label sub)) RoutingFull) (\<lambda>gen.
     bind (provision s reserve (ms_Protocol sub) gen) (\<lambda>_.
     bind uuid_New (\<lambda>configID.
     bind (storeConfig s configID gen) (\<lambda>(cfgKey, qrKey).
     bind (applyEncryptedKeys s gen
             \<lparr>cp_UserID = ms_UserID sub, cp_Server = reserve, cp_CountryID = uuid_Nil,
              cp_PlanID = None, cp_Protocol = ms_Protocol sub, cp_Label = None,
              cp_MaxDevices = 0, cp_ExpiresAt = 0, cp_URI = g_uri gen,
              cp_ConfigObjectKey = cfgKey, cp_QRObjectKey = qrKey, cp_Hash = g_hash gen,
              cp_PrivateKeyEnc = None, cp_PublicKey = g_publicKey gen, cp_PSKEnc = None,
              cp_ClientUUID = g_clientUUID gen, cp_AssignedIP = g_assignedIP gen\<rparr>) (\<lambda>params.
     bind (Reassign params configID (ms_SubID sub) fromID reason) (\<lambda>_.
     deprovisionOld s oldServer (ms_Protocol sub) oldPub oldUUID))))))))"

fun migrate_loop ::
    "VPNService \<Rightarrow> uuid \<Rightarrow> string \<Rightarrow> Server option \<Rightarrow> MigrationSub list \<Rightarrow>
     MigrationResult list go" where
  "migrate_loop s fromID reason oldServer [] = return []"
| "migrate_loop s fromID reason oldServer (sub # subs) =
     bind (attempt (migrate_one s fromID reason oldServer sub)) (\<lambda>r.
     bind (migrate_loop s fromID reason oldServer subs) (\<lambda>results.
     return (case r of
        Inl e \<Rightarrow> results
      | Inr u \<Rightarrow> \<lparr>mr_UserID = ms_UserID sub, mr_TelegramID = ms_TelegramID sub,
          mr_Country = ms_Country sub, mr_SubID = ms_SubID sub\<rparr> # results)))"

definition MigrateServer :: "VPNService \<Rightarrow> uuid \<Rightarrow> string \<Rightarrow> MigrationResult list go" where
  "MigrateServer s fromID reason =
     bind (ActiveSubsOnServer fromID) (\<lambda>subs.
     bind (attempt (GetServerByID fromID)) (\<lambda>r.
     let oldServer = (case r of Inl e \<Rightarrow> None | Inr srv \<Rightarrow> Some srv) in
     migrate_loop s fromID reason oldServer subs))"

end
