(* ===== verification/BillingRepo.thy ===== *)
theory BillingRepo
  imports VPNService Float64
begin

text \<open>
  The data of the billing package (\<open>internal/billing/model.go\<close>) and its repository
  (\<open>internal/billing/repository.go\<close>).  Amounts are floats in Go and whole cents in the NUMERIC
  columns; a column that cannot hold a value is the database's error 22003.  A day is 24 hours,
  as in a session whose time zone is UTC.
\<close>

section \<open>Data\<close>

type_synonym OrderStatus = string
type_synonym PaymentStatus = string

definition OrderNew :: OrderStatus where "OrderNew = ''new''"
definition OrderWaitPayment :: OrderStatus where "OrderWaitPayment = ''wait_payment''"
definition OrderProcessing :: OrderStatus where "OrderProcessing = ''processing''"
definition OrderPaid :: OrderStatus where "OrderPaid = ''paid''"
definition OrderFailed :: OrderStatus where "OrderFailed = ''failed''"

lemmas order_status_defs = OrderNew_def OrderWaitPayment_def OrderProcessing_def OrderPaid_def
  OrderFailed_def

definition PaymentCreated :: PaymentStatus where "PaymentCreated = ''created''"
definition PaymentPending :: PaymentStatus where "PaymentPending = ''pending''"
definition PaymentSuccess :: PaymentStatus where "PaymentSuccess = ''success''"
definition PaymentFailed :: PaymentStatus where "PaymentFailed = ''failed''"

lemmas payment_status_defs = PaymentCreated_def PaymentPending_def PaymentSuccess_def
  PaymentFailed_def

text \<open>The values of the enum types \<open>order_status\<close>, \<open>payment_status\<close>.\<close>

definition payment_status_enum :: "string list" where
  "payment_status_enum =
     [''created'', ''pending'', ''success'', ''failed'', ''expired'', ''refunded'']"

record Order =
  or_ID :: uuid
  or_UserID :: uuid
  or_PlanID :: uuid
  or_CountryID :: uuid
  or_Protocol :: Protocol
  or_Amount :: float64
  or_Discount :: float64
  or_Currency :: string
  or_Gateway :: string
  or_Status :: OrderStatus
  or_SubscriptionID :: "uuid option"
  or_CreatedAt :: timestamp
  or_PaidAt :: "timestamp option"

record Payment =
  py_ID :: uuid
  py_OrderID :: uuid
  py_Gateway :: string
  py_ExternalID :: string
  py_Status :: PaymentStatus
  py_Amount :: float64
  py_Currency :: string
  py_PaymentURL :: string
  py_CreatedAt :: timestamp

record PlanPricing =
  pp_Price :: float64
  pp_Currency :: string
  pp_Days :: int

record Promo =
  pc_ID :: uuid
  pc_Type :: string
  pc_Discount :: float64
  pc_ExpiresAt :: "timestamp option"
  pc_Active :: bool

section \<open>Prices and promo codes\<close>

definition GetPlanPricing :: "uuid \<Rightarrow> PlanPricing go" where
  "GetPlanPricing planID =
     no_rows ErrPlanNotFound ''get plan pricing''
       (sql (select_row (\<lambda>d. case by_key pl_id planID (plans d) of
          None \<Rightarrow> None
        | Some p \<Rightarrow>
            if pl_active p
            then Some \<lparr>pp_Price = cents (pl_price p), pp_Currency = pl_currency p,
                   pp_Days = pl_days p\<rparr>
            else None)))"

text \<open>Equality of CITEXT values, on the letters of ASCII.\<close>

definition citext_eq :: "string \<Rightarrow> string \<Rightarrow> bool" where
  "citext_eq s t \<longleftrightarrow> map ascii_lower s = map ascii_lower t"

definition promo_of_row :: "promo_row \<Rightarrow> Promo" where
  "promo_of_row p = \<lparr>pc_ID = pm_id p, pc_Type = pm_type p, pc_Discount = cents (pm_discount p),
     pc_ExpiresAt = pm_expires_at p, pc_Active = pm_active p\<rparr>"

definition GetPromoByCode :: "string \<Rightarrow> Promo go" where
  "GetPromoByCode code =
     no_rows ErrPromoInvalid ''get promo''
       (sql (select_row (\<lambda>d.
          map_option promo_of_row (find_first (\<lambda>p. citext_eq (pm_code p) code) (promocodes d)))))"

definition is_pending :: "uuid \<Rightarrow> timestamp \<Rightarrow> order_row \<Rightarrow> bool" where
  "is_pending userID since o1 \<longleftrightarrow>
     o_user_id o1 = userID \<and> o_status o1 \<in> {''new'', ''wait_payment''} \<and> o_created_at o1 > since"

definition CountRecentPendingOrders :: "uuid \<Rightarrow> timestamp \<Rightarrow> nat go" where
  "CountRecentPendingOrders userID since =
     wrap ''count pending orders''
       (sql (select (\<lambda>d. count_where (is_pending userID (pg_time since)) (orders d))))"

section \<open>Creating orders\<close>

record NewOrder =
  no_UserID :: uuid
  no_PlanID :: uuid
  no_CountryID :: uuid
  no_Protocol :: Protocol
  no_Amount :: float64
  no_Discount :: float64
  no_Currency :: string
  no_Gateway :: string
  no_PromoID :: "uuid option"
  no_Label :: "string option"
  no_RenewSubscriptionID :: "uuid option"
  no_Routing :: string

text \<open>A float in a NUMERIC(p,2) column, for a bound in cents.\<close>

definition numeric_in :: "int \<Rightarrow> float64 \<Rightarrow> int option" where
  "numeric_in bound v = (let k = numeric2 v in if \<bar>k\<bar> < bound then Some k else None)"

definition numeric_overflow :: error where "numeric_overflow = SQLState ''22003''"

definition order_of_row :: "order_row \<Rightarrow> Order" where
  "order_of_row r = \<lparr>or_ID = o_id r, or_UserID = o_user_id r, or_PlanID = o_plan_id r,
     or_CountryID = o_country_id r, or_Protocol = o_protocol r, or_Amount = cents (o_amount r),
     or_Discount = cents (o_discount r), or_Currency = o_currency r, or_Gateway = o_gateway r,
     or_Status = o_status r, or_SubscriptionID = o_subscription_id r,
     or_CreatedAt = o_created_at r, or_PaidAt = o_paid_at r\<rparr>"

definition insert_order :: "NewOrder \<Rightarrow> order_row statement" where
  "insert_order n now fresh d =
     (if \<not> Protocol_Valid (no_Protocol n) then Inl enum_violation
      else case (numeric_in (10 ^ 10) (no_Amount n), numeric_in (10 ^ 10) (no_Discount n)) of
        (Some amount, Some discount) \<Rightarrow>
          if has_key o_id fresh (orders d) then Inl unique_violation
          else if \<not> (fk_ok u_id (no_UserID n) (users d) \<and> fk_ok pl_id (no_PlanID n) (plans d) \<and>
                     fk_ok c_id (no_CountryID n) (countries d) \<and>
                     fk_null_ok pm_id (no_PromoID n) (promocodes d) \<and>
                     fk_null_ok sub_id (no_RenewSubscriptionID n) (subscriptions d))
          then Inl foreign_key_violation
          else
            (let r = \<lparr>o_id = fresh, o_user_id = no_UserID n, o_plan_id = no_PlanID n,
                   o_country_id = no_CountryID n, o_protocol = no_Protocol n, o_amount = amount,
                   o_discount = discount, o_currency = no_Currency n, o_promo_id = no_PromoID n,
                   o_gateway = no_Gateway n, o_status = OrderWaitPayment,
                   o_subscription_id = None, o_label = no_Label n,
                   o_renew_subscription_id = no_RenewSubscriptionID n, o_routing = no_Routing n,
                   o_created_at = now, o_paid_at = None\<rparr>
             in Inr (r, d\<lparr>orders := orders d @ [r]\<rparr>))
      | _ \<Rightarrow> Inl numeric_overflow)"

definition redeemable :: "promo_row \<Rightarrow> bool" where
  "redeemable p \<longleftrightarrow>
     pm_active p \<and> (case pm_max_uses p of None \<Rightarrow> True | Some m \<Rightarrow> pm_used_count p < m)"

definition use_promo :: "uuid \<Rightarrow> uuid statement" where
  "use_promo promoID now fresh d =
     (let hit = (\<lambda>p. pm_id p = promoID \<and> redeemable p) in
      case find_first hit (promocodes d) of
        None \<Rightarrow> Inl ErrNoRows
      | Some p \<Rightarrow> Inr (pm_id p, d\<lparr>promocodes :=
          update_where hit (\<lambda>p. p\<lparr>pm_used_count := pm_used_count p + 1\<rparr>) (promocodes d)\<rparr>))"

definition insert_redemption :: "uuid \<Rightarrow> uuid \<Rightarrow> uuid \<Rightarrow> nat statement" where
  "insert_redemption promoID userID orderID now fresh d =
     (if list_ex (\<lambda>r. rd_promo_id r = promoID \<and> rd_user_id r = userID) (promo_redemptions d)
      then Inr (0, d)
      else if has_key rd_id fresh (promo_redemptions d) then Inl unique_violation
      else if \<not> (fk_ok pm_id promoID (promocodes d) \<and> fk_ok u_id userID (users d) \<and>
                 fk_ok o_id orderID (orders d))
      then Inl foreign_key_violation
      else Inr (1, d\<lparr>promo_redemptions := promo_redemptions d @
        [\<lparr>rd_id = fresh, rd_promo_id = promoID, rd_user_id = userID, rd_order_id = orderID\<rparr>]\<rparr>))"

definition redeem :: "uuid \<Rightarrow> uuid \<Rightarrow> uuid \<Rightarrow> unit go" where
  "redeem promoID userID orderID =
     bind (no_rows ErrPromoInvalid ''redeem promo'' (sql (use_promo promoID))) (\<lambda>_.
     bind (wrap ''insert redemption'' (sql (insert_redemption promoID userID orderID))) (\<lambda>affected.
     if affected = 0 then throw ErrPromoUsed else return ()))"

definition CreateOrder :: "NewOrder \<Rightarrow> Order go" where
  "CreateOrder inp =
     (let routing = (if no_Routing inp = '''' then ''full'' else no_Routing inp) in
      transaction (Wrap ''commit'')
        (bind (wrap ''insert order'' (sql (insert_order (inp\<lparr>no_Routing := routing\<rparr>)))) (\<lambda>r.
         bind (case no_PromoID inp of
                 None \<Rightarrow> return ()
               | Some promoID \<Rightarrow> redeem promoID (no_UserID inp) (o_id r)) (\<lambda>_.
         return (order_of_row r)))))"

section \<open>Payments\<close>

definition payment_of_row :: "payment_row \<Rightarrow> Payment" where
  "payment_of_row r = \<lparr>py_ID = pay_id r, py_OrderID = pay_order_id r, py_Gateway = pay_gateway r,
     py_ExternalID = from_option '''' (pay_external_id r), py_Status = pay_status r,
     py_Amount = cents (pay_amount r), py_Currency = pay_currency r,
     py_PaymentURL = from_option '''' (pay_payment_url r), py_CreatedAt = pay_created_at r\<rparr>"

definition insert_payment ::
    "uuid \<Rightarrow> string \<Rightarrow> string \<Rightarrow> PaymentStatus \<Rightarrow> float64 \<Rightarrow> string \<Rightarrow> string \<Rightarrow>
     payment_row statement" where
  "insert_payment orderID gateway externalID status amount currency url now fresh d =
     (if status \<notin> set payment_status_enum then Inl enum_violation
      else case numeric_in (10 ^ 10) amount of
        None \<Rightarrow> Inl numeric_overflow
      | Some k \<Rightarrow>
          if has_key pay_id fresh (payments d) \<or>
             list_ex (\<lambda>p. pay_gateway p = gateway \<and> pay_external_id p = Some externalID) (payments d)
          then Inl unique_violation
          else if \<not> fk_ok o_id orderID (orders d) then Inl foreign_key_violation
          else
            (let r = \<lparr>pay_id = fresh, pay_order_id = orderID, pay_gateway = gateway,
                   pay_external_id = Some externalID, pay_status = status, pay_amount = k,
                   pay_currency = currency, pay_payment_url = Some url, pay_created_at = now\<rparr>
             in Inr (r, d\<lparr>payments := payments d @ [r]\<rparr>)))"

definition CreatePayment ::
    "uuid \<Rightarrow> string \<Rightarrow> string \<Rightarrow> PaymentStatus \<Rightarrow> float64 \<Rightarrow> string \<Rightarrow> string \<Rightarrow> Payment go" where
  "CreatePayment orderID gateway externalID status amount currency url =
     bind (wrap ''insert payment''
             (sql (insert_payment orderID gateway externalID status amount currency url)))
       (\<lambda>r. return (payment_of_row r))"

section \<open>Loading an order\<close>

record OrderForProvision =
  op_ID :: uuid
  op_UserID :: uuid
  op_PlanID :: uuid
  op_CountryID :: uuid
  op_Protocol :: Protocol
  op_Status :: OrderStatus
  op_Label :: "string option"
  op_RenewSubID :: "uuid option"
  op_Routing :: string

definition provision_of_row :: "order_row \<Rightarrow> OrderForProvision" where
  "provision_of_row r = \<lparr>op_ID = o_id r, op_UserID = o_user_id r, op_PlanID = o_plan_id r,
     op_CountryID = o_country_id r, op_Protocol = o_protocol r, op_Status = o_status r,
     op_Label = o_label r, op_RenewSubID = o_renew_subscription_id r, op_Routing = o_routing r\<rparr>"

definition scanProvision :: "(db \<Rightarrow> order_row option) \<Rightarrow> OrderForProvision go" where
  "scanProvision q =
     no_rows ErrOrderNotFound ''get order'' (sql (select_row (\<lambda>d. map_option provision_of_row (q d))))"

definition GetOrderByExternalPayment :: "string \<Rightarrow> string \<Rightarrow> OrderForProvision go" where
  "GetOrderByExternalPayment gateway externalID =
     scanProvision (\<lambda>d. first_row
       [o1. o1 \<leftarrow> orders d, p \<leftarrow> payments d,
            pay_order_id p = o_id o1 \<and> pay_gateway p = gateway \<and> pay_external_id p = Some externalID])"

definition GetOrderForProvision :: "uuid \<Rightarrow> OrderForProvision go" where
  "GetOrderForProvision orderID = scanProvision (\<lambda>d. by_key o_id orderID (orders d))"

section \<open>Fulfilling\<close>

definition day_ns :: int where "day_ns = 86400 * 10 ^ 9"

definition extend_sub :: "uuid \<Rightarrow> int \<Rightarrow> nat statement" where
  "extend_sub subID days now fresh d =
     (let hit = (\<lambda>s. sub_id s = subID \<and> sub_status s \<noteq> ''deleted'') in
      Inr (count_where hit (subscriptions d),
        d\<lparr>subscriptions := update_where hit
          (\<lambda>s. s\<lparr>sub_expires_at := max (sub_expires_at s) now + days * day_ns,
               sub_status := ''active''\<rparr>) (subscriptions d)\<rparr>))"

definition ExtendSubscription :: "uuid \<Rightarrow> int \<Rightarrow> unit go" where
  "ExtendSubscription subID days =
     bind (wrap ''extend subscription'' (sql (extend_sub subID days))) (\<lambda>affected.
     if affected = 0 then throw ErrOrderNotFound else return ())"

text \<open>An update of the orders with a key and a status, returning the first updated row.\<close>

definition update_order ::
    "uuid \<Rightarrow> string list \<Rightarrow> (timestamp \<Rightarrow> order_row \<Rightarrow> order_row) \<Rightarrow> order_row statement" where
  "update_order orderID statuses f now fresh d =
     (let hit = (\<lambda>o1. o_id o1 = orderID \<and> o_status o1 \<in> set statuses) in
      case find_first hit (orders d) of
        None \<Rightarrow> Inl ErrNoRows
      | Some r \<Rightarrow> Inr (f now r, d\<lparr>orders := update_where hit (f now) (orders d)\<rparr>))"

definition claim_order :: "uuid \<Rightarrow> order_row statement" where
  "claim_order orderID =
     update_order orderID [''wait_payment''] (\<lambda>now r. r\<lparr>o_status := ''processing''\<rparr>)"

definition ClaimForProvisioning :: "uuid \<Rightarrow> bool go" where
  "ClaimForProvisioning orderID =
     catch (bind (sql (claim_order orderID)) (\<lambda>_. return True))
       (\<lambda>e. if errors_Is e ErrNoRows then return False else throw (Wrap ''claim order'' e))"

definition mark_paid :: "uuid \<Rightarrow> uuid \<Rightarrow> order_row statement" where
  "mark_paid orderID subID now fresh d =
     (if has_key o_id orderID (filter (\<lambda>o1. o_status o1 \<in> {''wait_payment'', ''processing''}) (orders d)) \<and>
         \<not> fk_ok sub_id subID (subscriptions d)
      then Inl foreign_key_violation
      else update_order orderID [''wait_payment'', ''processing'']
             (\<lambda>now r. r\<lparr>o_status := ''paid'', o_paid_at := Some now,
                o_subscription_id := Some subID\<rparr>) now fresh d)"

definition set_payments :: "uuid \<Rightarrow> PaymentStatus \<Rightarrow> unit statement" where
  "set_payments orderID status = modify (\<lambda>d. d\<lparr>payments :=
     update_where (\<lambda>p. pay_order_id p = orderID) (\<lambda>p. p\<lparr>pay_status := status\<rparr>) (payments d)\<rparr>)"

section \<open>The ledger\<close>

text \<open>The format verb for two decimals, correctly rounded, ties to even.\<close>

definition pad2 :: "nat \<Rightarrow> string" where
  "pad2 n = (if n < 10 then ''0'' @ show_nat n else show_nat n)"

definition fmt_2f :: "float64 \<Rightarrow> string" where
  "fmt_2f v =
     (let k = nat \<bar>round_even (v * 100)\<bar>
      in (if v < 0 then ''-'' else []) @ show_nat (k div 100) @ ''.'' @ pad2 (k mod 100))"

definition ledger_payload ::
    "string \<Rightarrow> string \<Rightarrow> float64 \<Rightarrow> string \<Rightarrow> string \<Rightarrow> uuid \<Rightarrow> uuid \<Rightarrow> string" where
  "ledger_payload prevHash ltype amount currency refType refID userID =
     Join [prevHash, ltype, fmt_2f amount, currency, refType, uuid_String refID,
       uuid_String userID] ''|''"

definition last_entry :: "uuid \<Rightarrow> ledger_row list \<Rightarrow> ledger_row option" where
  "last_entry userID ls =
     first_row (sort_key (\<lambda>l. (- l_created_at l, - uint (l_id l)))
       (filter (\<lambda>l. l_user_id l = userID) ls))"

definition insert_ledger ::
    "uuid \<Rightarrow> string \<Rightarrow> float64 \<Rightarrow> string \<Rightarrow> string \<Rightarrow> uuid \<Rightarrow> string \<Rightarrow> string \<Rightarrow> unit statement" where
  "insert_ledger userID ltype amount currency refType refID prevHash hash now fresh d =
     (case numeric_in (10 ^ 14) amount of
       None \<Rightarrow> Inl numeric_overflow
     | Some k \<Rightarrow>
         if has_key l_id fresh (ledger d) then Inl unique_violation
         else if \<not> fk_ok u_id userID (users d) then Inl foreign_key_violation
         else Inr ((), d\<lparr>ledger := ledger d @
           [\<lparr>l_id = fresh, l_user_id = userID, l_type = ltype, l_amount = k,
             l_currency = currency, l_ref_type = Some refType, l_ref_id = Some refID,
             l_prev_hash = nullif_empty prevHash, l_hash = hash, l_created_at = now\<rparr>]\<rparr>))"

definition appendLedger ::
    "uuid \<Rightarrow> string \<Rightarrow> float64 \<Rightarrow> string \<Rightarrow> string \<Rightarrow> uuid \<Rightarrow> unit go" where
  "appendLedger userID ltype amount currency refType refID =
     bind (catch (sql (select_row (\<lambda>d. map_option l_hash (last_entry userID (ledger d)))))
             (\<lambda>e. if errors_Is e ErrNoRows then return [] else throw (Wrap ''read prev ledger'' e)))
       (\<lambda>prevHash.
     bind (sha256hex (ledger_payload prevHash ltype amount currency refType refID userID)) (\<lambda>hash.
     wrap ''insert ledger''
       (sql (insert_ledger userID ltype amount currency refType refID prevHash hash))))"

definition FinalizePaid :: "uuid \<Rightarrow> uuid \<Rightarrow> unit go" where
  "FinalizePaid orderID subscriptionID =
     transaction (Wrap ''commit'')
       (bind (no_rows ErrOrderNotFound ''mark order paid'' (sql (mark_paid orderID subscriptionID)))
         (\<lambda>r.
        bind (wrap ''mark payment success'' (sql (set_payments orderID ''success''))) (\<lambda>_.
        appendLedger (o_user_id r) ''charge'' (cents (o_amount r)) (o_currency r) ''order'' orderID)))"

definition fail_order :: "uuid \<Rightarrow> unit statement" where
  "fail_order orderID = modify (\<lambda>d. d\<lparr>orders :=
     update_where (\<lambda>o1. o_id o1 = orderID \<and> o_status o1 \<in> {''wait_payment'', ''processing''})
       (\<lambda>r. r\<lparr>o_status := ''failed''\<rparr>) (orders d)\<rparr>)"

definition MarkFailed :: "uuid \<Rightarrow> unit go" where
  "MarkFailed orderID =
     transaction (\<lambda>e. e)
       (bind (wrap ''mark order failed'' (sql (fail_order orderID))) (\<lambda>_.
        wrap ''mark payment failed'' (sql (set_payments orderID ''failed''))))"

section \<open>Webhook records\<close>

definition upsert_webhook :: "string \<Rightarrow> string \<Rightarrow> string \<Rightarrow> string \<Rightarrow> unit statement" where
  "upsert_webhook gateway externalID status payload now fresh d =
     (let hit = (\<lambda>x. wh_gateway x = gateway \<and> wh_external_id x = externalID) in
      if list_ex hit (webhook_events d)
      then Inr ((), d\<lparr>webhook_events := update_where hit
        (\<lambda>x. x\<lparr>wh_status := Some status, wh_payload := payload, wh_received_at := now\<rparr>)
        (webhook_events d)\<rparr>)
      else if has_key wh_id fresh (webhook_events d) then Inl unique_violation
      else Inr ((), d\<lparr>webhook_events := webhook_events d @
        [\<lparr>wh_id = fresh, wh_gateway = gateway, wh_external_id = externalID,
          wh_status = Some status, wh_payload = payload, wh_received_at = now,
          wh_processed_at = None\<rparr>]\<rparr>))"

definition RecordWebhook :: "string \<Rightarrow> string \<Rightarrow> string \<Rightarrow> string \<Rightarrow> unit go" where
  "RecordWebhook gateway externalID status payload =
     wrap ''record webhook'' (sql (upsert_webhook gateway externalID status payload))"

definition stamp_webhook :: "string \<Rightarrow> string \<Rightarrow> unit statement" where
  "stamp_webhook gateway externalID now fresh d = Inr ((), d\<lparr>webhook_events :=
     update_where (\<lambda>x. wh_gateway x = gateway \<and> wh_external_id x = externalID)
       (\<lambda>x. x\<lparr>wh_processed_at := Some now\<rparr>) (webhook_events d)\<rparr>)"

definition MarkWebhookProcessed :: "string \<Rightarrow> string \<Rightarrow> unit go" where
  "MarkWebhookProcessed gateway externalID = sql (stamp_webhook gateway externalID)"

section \<open>Reading\<close>

definition OrderSubscriptionID :: "uuid \<Rightarrow> uuid go" where
  "OrderSubscriptionID orderID =
     no_rows ErrOrderNotFound ''get order subscription''
       (bind (sql (select_row (\<lambda>d. map_option o_subscription_id (by_key o_id orderID (orders d)))))
         (\<lambda>s. return (from_option uuid_Nil s)))"

definition ListOrders :: "uuid \<Rightarrow> Order list go" where
  "ListOrders userID =
     wrap ''list orders'' (sql (select (\<lambda>d.
       map order_of_row (sort_key (\<lambda>o1. - o_created_at o1)
         (filter (\<lambda>o1. o_user_id o1 = userID) (orders d))))))"

end
