(* ===== verification/AuthRepo.thy ===== *)
theory AuthRepo
  imports AuthCrypto Redis BillingRepo
begin

text \<open>
  The data of the auth package (\<open>internal/auth/model.go\<close>) and its repository
  (\<open>repository.go\<close>).  The \<open>updated_at\<close> of a user is left out, as in the tables.
\<close>

section \<open>Data\<close>

type_synonym Role = string
type_synonym Status = string

definition RoleUser :: Role where "RoleUser = ''user''"
definition RoleSupport :: Role where "RoleSupport = ''support''"
definition RoleAdmin :: Role where "RoleAdmin = ''admin''"
definition RoleSuperAdmin :: Role where "RoleSuperAdmin = ''superadmin''"

definition StatusActive :: Status where "StatusActive = ''active''"
definition StatusBlocked :: Status where "StatusBlocked = ''blocked''"

record User =
  us_ID :: uuid
  us_Email :: "string option"
  us_Phone :: "string option"
  us_TelegramID :: "int option"
  us_Role :: Role
  us_Status :: Status
  us_Language :: string
  us_Timezone :: string
  us_Currency :: string
  us_Country :: "string option"
  us_CreatedAt :: timestamp

record TokenPair =
  tp_AccessToken :: string
  tp_RefreshToken :: string
  tp_TokenType :: string
  tp_ExpiresAt :: timestamp

record Session =
  ss_ID :: uuid
  ss_UserID :: uuid
  ss_ExpiresAt :: timestamp
  ss_RevokedAt :: "timestamp option"

record AuthRecord =
  ar_User :: User
  ar_PasswordHash :: string
  ar_TOTPSecret :: string
  ar_TOTPEnabled :: bool

definition scanUser :: "user_row \<Rightarrow> User" where
  "scanUser r = \<lparr>us_ID = u_id r, us_Email = u_email r, us_Phone = u_phone r,
     us_TelegramID = u_telegram_id r, us_Role = u_role r, us_Status = u_status r,
     us_Language = u_language r, us_Timezone = u_timezone r, us_Currency = u_currency r,
     us_Country = u_country r, us_CreatedAt = u_created_at r\<rparr>"

section \<open>Addresses\<close>

text \<open>
  \<open>IP.String\<close>: an IPv4 address, also a mapped one, in dotted form; else groups in
  hexadecimal, the first longest run of at least two zero groups as two colons.
\<close>

fun hex_of_nat :: "nat \<Rightarrow> string" where
  "hex_of_nat n = (if n < 16 then [hex_digit n] else hex_of_nat (n div 16) @ [hex_digit (n mod 16)])"

declare hex_of_nat.simps [simp del]

definition zero_run :: "nat list \<Rightarrow> nat \<Rightarrow> nat" where
  "zero_run gs i = length (takeWhile (\<lambda>g. g = 0) (drop i gs))"

definition longest_run :: "nat list \<Rightarrow> nat \<times> nat" where
  "longest_run gs = foldl (\<lambda>(i, n) j. if zero_run gs j > n then (j, zero_run gs j) else (i, n))
     (0, 0) [0..<length gs]"

definition show_ipv6 :: "128 word \<Rightarrow> string" where
  "show_ipv6 a =
     (let gs = digits_in 65536 8 (unat a); (i, n) = longest_run gs; txt = map hex_of_nat gs
      in if n < 2 then Join txt '':''
         else Join (take i txt) '':'' @ ''::'' @ Join (drop (i + n) txt) '':'')"

definition show_ip :: "ip \<Rightarrow> string" where
  "show_ip a = (case To4 a of Some b \<Rightarrow> show_ipv4 b | None \<Rightarrow>
     (case a of IPv4 b \<Rightarrow> show_ipv4 b | IPv6 b \<Rightarrow> show_ipv6 b))"

section \<open>Accounts\<close>

text \<open>A new row with the defaults of the table, and its keys.\<close>

definition new_user :: "timestamp \<Rightarrow> uuid \<Rightarrow> user_row" where
  "new_user now fresh = \<lparr>u_id = fresh, u_email = None, u_phone = None, u_telegram_id = None,
     u_password_hash = None, u_role = ''user'', u_status = ''active'', u_language = ''en'',
     u_timezone = ''UTC'', u_currency = ''USD'', u_country = None, u_created_at = now,
     u_totp_secret = None, u_totp_enabled = False\<rparr>"

definition same_email :: "string option \<Rightarrow> string option \<Rightarrow> bool" where
  "same_email a b = (case (a, b) of (Some s, Some t) \<Rightarrow> citext_eq s t | _ \<Rightarrow> False)"

definition clashes :: "user_row \<Rightarrow> user_row \<Rightarrow> bool" where
  "clashes r r' \<longleftrightarrow> u_id r = u_id r' \<or> same_email (u_email r) (u_email r') \<or>
     (u_phone r \<noteq> None \<and> u_phone r = u_phone r') \<or>
     (u_telegram_id r \<noteq> None \<and> u_telegram_id r = u_telegram_id r')"

definition insert_user :: "(user_row \<Rightarrow> user_row) \<Rightarrow> user_row statement" where
  "insert_user f now fresh d =
     (let r = f (new_user now fresh) in
      if list_ex (clashes r) (users d) then Inl unique_violation
      else Inr (r, d\<lparr>users := users d @ [r]\<rparr>))"

definition insert_profile :: "uuid \<Rightarrow> string option \<Rightarrow> string option \<Rightarrow> unit statement" where
  "insert_profile userID firstName lastName now fresh d =
     (if has_key pr_user_id userID (user_profiles d) then Inl unique_violation
      else if \<not> fk_ok u_id userID (users d) then Inl foreign_key_violation
      else Inr ((), d\<lparr>user_profiles := user_profiles d @
        [\<lparr>pr_user_id = userID, pr_first_name = firstName, pr_last_name = lastName, pr_avatar = None,
          pr_city = None, pr_country = None\<rparr>]\<rparr>))"

definition CreateUserWithPassword ::
    "string \<Rightarrow> string \<Rightarrow> string \<Rightarrow> string option \<Rightarrow> User go" where
  "CreateUserWithPassword email passwordHash language country =
     transaction (Wrap ''commit'')
       (bind (catch (sql (insert_user (\<lambda>r. r\<lparr>u_email := Some email,
                u_password_hash := Some passwordHash,
                u_language := from_option ''en'' (nullif_empty language), u_country := country\<rparr>)))
              (\<lambda>e. if isUniqueViolation e then throw ErrEmailTaken
                    else throw (Wrap ''insert user'' e))) (\<lambda>r.
        bind (wrap ''insert profile'' (sql (insert_profile (u_id r) None None))) (\<lambda>_.
        return (scanUser r))))"

text \<open>The unused parameter for the user name is kept.\<close>

definition CreateTelegramUser :: "int \<Rightarrow> string \<Rightarrow> string \<Rightarrow> string \<Rightarrow> User go" where
  "CreateTelegramUser tgID firstName lastName username =
     transaction (Wrap ''commit'')
       (bind (wrap ''insert telegram user''
               (sql (insert_user (\<lambda>r. r\<lparr>u_telegram_id := Some tgID\<rparr>)))) (\<lambda>r.
        bind (wrap ''insert profile'' (sql (insert_profile (u_id r) (nullif_empty firstName)
               (nullif_empty lastName)))) (\<lambda>_.
        return (scanUser r))))"

definition auth_record :: "user_row \<Rightarrow> AuthRecord" where
  "auth_record r = \<lparr>ar_User = scanUser r, ar_PasswordHash = from_option '''' (u_password_hash r),
     ar_TOTPSecret = from_option '''' (u_totp_secret r), ar_TOTPEnabled = u_totp_enabled r\<rparr>"

definition GetAuthByEmail :: "string \<Rightarrow> AuthRecord go" where
  "GetAuthByEmail email =
     no_rows ErrInvalidCredentials ''get user by email''
       (sql (select_row (\<lambda>d. map_option auth_record
          (find_first (\<lambda>r. same_email (u_email r) (Some email)) (users d)))))"

definition GetUserByID :: "uuid \<Rightarrow> User go" where
  "GetUserByID i =
     no_rows Auth_ErrNotFound ''get user by id''
       (sql (select_row (\<lambda>d. map_option scanUser (by_key u_id i (users d)))))"

definition GetUserByTelegramID :: "int \<Rightarrow> User go" where
  "GetUserByTelegramID tgID =
     no_rows Auth_ErrNotFound ''get user by telegram id''
       (sql (select_row (\<lambda>d. map_option scanUser
          (find_first (\<lambda>r. u_telegram_id r = Some tgID) (users d)))))"

section \<open>Two-factor state\<close>

definition set_user :: "(user_row \<Rightarrow> bool) \<Rightarrow> (user_row \<Rightarrow> user_row) \<Rightarrow> unit statement" where
  "set_user P f = modify (\<lambda>d. d\<lparr>users := update_where P f (users d)\<rparr>)"

definition SetTOTPSecret :: "uuid \<Rightarrow> string \<Rightarrow> unit go" where
  "SetTOTPSecret userID secret = sql (set_user (\<lambda>r. u_id r = userID)
     (\<lambda>r. r\<lparr>u_totp_secret := Some secret, u_totp_enabled := False\<rparr>))"

definition EnableTOTP :: "uuid \<Rightarrow> unit go" where
  "EnableTOTP userID = sql (set_user (\<lambda>r. u_id r = userID \<and> u_totp_secret r \<noteq> None)
     (\<lambda>r. r\<lparr>u_totp_enabled := True\<rparr>))"

definition DisableTOTP :: "uuid \<Rightarrow> unit go" where
  "DisableTOTP userID = sql (set_user (\<lambda>r. u_id r = userID)
     (\<lambda>r. r\<lparr>u_totp_secret := None, u_totp_enabled := False\<rparr>))"

definition GetTOTP :: "uuid \<Rightarrow> (string \<times> bool) go" where
  "GetTOTP userID =
     catch (sql (select_row (\<lambda>d. map_option
         (\<lambda>r. (from_option '''' (u_totp_secret r), u_totp_enabled r)) (by_key u_id userID (users d)))))
       (\<lambda>e. if errors_Is e ErrNoRows then throw Auth_ErrNotFound else throw e)"

section \<open>Sessions\<close>

definition insert_session ::
    "uuid \<Rightarrow> string \<Rightarrow> string \<Rightarrow> string option \<Rightarrow> timestamp \<Rightarrow> uuid statement" where
  "insert_session userID tokenHash userAgent ip expiresAt now fresh d =
     (if has_key se_id fresh (user_sessions d) \<or> has_key se_token_hash tokenHash (user_sessions d)
      then Inl unique_violation
      else if \<not> fk_ok u_id userID (users d) then Inl foreign_key_violation
      else Inr (fresh, d\<lparr>user_sessions := user_sessions d @
        [\<lparr>se_id = fresh, se_user_id = userID, se_token_hash = tokenHash,
          se_user_agent = nullif_empty userAgent, se_ip = ip, se_expires_at = pg_time expiresAt,
          se_revoked_at = None, se_created_at = now\<rparr>]\<rparr>))"

definition CreateSession ::
    "uuid \<Rightarrow> string \<Rightarrow> string \<Rightarrow> ip option \<Rightarrow> timestamp \<Rightarrow> uuid go" where
  "CreateSession userID tokenHash userAgent ip expiresAt =
     wrap ''create session''
       (sql (insert_session userID tokenHash userAgent (map_option show_ip ip) expiresAt))"

definition GetSessionByHash :: "string \<Rightarrow> Session go" where
  "GetSessionByHash tokenHash =
     no_rows ErrSessionRevoked ''get session''
       (sql (select_row (\<lambda>d. map_option (\<lambda>r. \<lparr>ss_ID = se_id r, ss_UserID = se_user_id r,
          ss_ExpiresAt = se_expires_at r, ss_RevokedAt = se_revoked_at r\<rparr>)
          (by_key se_token_hash tokenHash (user_sessions d)))))"

definition revoke_where :: "(session_row \<Rightarrow> bool) \<Rightarrow> unit statement" where
  "revoke_where P now fresh d =
     Inr ((), d\<lparr>user_sessions := update_where (\<lambda>r. P r \<and> se_revoked_at r = None)
       (\<lambda>r. r\<lparr>se_revoked_at := Some now\<rparr>) (user_sessions d)\<rparr>)"

definition RevokeSession :: "uuid \<Rightarrow> unit go" where
  "RevokeSession i = wrap ''revoke session'' (sql (revoke_where (\<lambda>r. se_id r = i)))"

definition RevokeAllUserSessions :: "uuid \<Rightarrow> unit go" where
  "RevokeAllUserSessions userID =
     wrap ''revoke user sessions'' (sql (revoke_where (\<lambda>r. se_user_id r = userID)))"

end
