(* ===== verification/AuthService.thy ===== *)
theory AuthService
  imports AuthRepo
begin

text \<open>
  The operations of the authentication service (\<open>internal/auth/service.go\<close>): registration, login
  with an optional second factor, the Telegram login, refresh tokens with rotation, logout with
  the blacklist in Redis.
\<close>

section \<open>State\<close>

record AuthService =
  as_tokens :: TokenManager
  as_botToken :: string

record LoginMeta =
  lm_UserAgent :: string
  lm_IP :: "ip option"

section \<open>Tokens\<close>

definition issueTokens :: "AuthService \<Rightarrow> User \<Rightarrow> LoginMeta \<Rightarrow> TokenPair go" where
  "issueTokens s u meta =
     bind (IssueAccess (as_tokens s) (us_ID u) (us_Role u)) (\<lambda>(access, _, expiresAt).
     bind (NewRefreshToken (as_tokens s)) (\<lambda>(refresh, refreshHash).
     bind time_Now (\<lambda>now.
     bind (CreateSession (us_ID u) refreshHash (lm_UserAgent meta) (lm_IP meta)
             (now + tm_refreshTTL (as_tokens s))) (\<lambda>_.
     return \<lparr>tp_AccessToken = access, tp_RefreshToken = refresh, tp_TokenType = ''Bearer'',
       tp_ExpiresAt = expiresAt\<rparr>))))"

definition blacklistKey :: "string \<Rightarrow> string" where
  "blacklistKey jti = ''auth:bl:'' @ jti"

text \<open>A refused step ends an operation with its error.\<close>

definition deny_if :: "bool \<Rightarrow> error \<Rightarrow> 'a go \<Rightarrow> 'a go" where
  "deny_if b e m = (if b then throw e else m)"

section \<open>Registration and login\<close>

definition Register ::
    "AuthService \<Rightarrow> string \<Rightarrow> string \<Rightarrow> string \<Rightarrow> string option \<Rightarrow> LoginMeta \<Rightarrow> (User \<times> TokenPair) go" where
  "Register s email password language country meta =
     bind (ask (\<lambda>e. ValidatePassword e password)) (\<lambda>verr.
     case verr of Some e \<Rightarrow> throw e | None \<Rightarrow>
       bind (HashPassword password) (\<lambda>hash.
       bind (CreateUserWithPassword email hash language country) (\<lambda>u.
       bind (issueTokens s u meta) (\<lambda>pair. return (u, pair)))))"

text \<open>The second factor, asked for when it is enabled.\<close>

definition check_second_factor :: "AuthRecord \<Rightarrow> string \<Rightarrow> unit go" where
  "check_second_factor rec totp =
     (if \<not> ar_TOTPEnabled rec then return ()
      else deny_if (totp = '''') Err2FARequired
        (bind (ValidateTOTP (ar_TOTPSecret rec) totp) (\<lambda>ok.
         deny_if (\<not> ok) ErrInvalidTOTP (return ()))))"

definition Login ::
    "AuthService \<Rightarrow> string \<Rightarrow> string \<Rightarrow> string \<Rightarrow> LoginMeta \<Rightarrow> (User \<times> TokenPair) go" where
  "Login s email password totp meta =
     bind (GetAuthByEmail email) (\<lambda>rec.
     deny_if (ar_PasswordHash rec = '''') ErrInvalidCredentials
       (bind (CheckPassword (ar_PasswordHash rec) password) (\<lambda>ok.
        deny_if (\<not> ok) ErrInvalidCredentials
          (deny_if (us_Status (ar_User rec) = StatusBlocked) ErrUserBlocked
            (bind (check_second_factor rec totp) (\<lambda>_.
             bind (issueTokens s (ar_User rec) meta) (\<lambda>pair.
             return (ar_User rec, pair))))))))"

section \<open>Two-factor management\<close>

definition Setup2FA :: "uuid \<Rightarrow> (string \<times> string) go" where
  "Setup2FA userID =
     bind (GetUserByID userID) (\<lambda>u.
     bind GenerateTOTPSecret (\<lambda>secret.
     bind (SetTOTPSecret userID secret) (\<lambda>_.
     let account = from_option (uuid_String userID) (us_Email u)
     in return (secret, TOTPURI secret account))))"

definition Enable2FA :: "uuid \<Rightarrow> string \<Rightarrow> unit go" where
  "Enable2FA userID code =
     bind (GetTOTP userID) (\<lambda>(secret, _).
     deny_if (secret = '''') ErrTOTPNotSetup
       (bind (ValidateTOTP secret code) (\<lambda>ok.
        deny_if (\<not> ok) ErrInvalidTOTP (EnableTOTP userID))))"

definition Disable2FA :: "uuid \<Rightarrow> string \<Rightarrow> unit go" where
  "Disable2FA userID code =
     bind (GetTOTP userID) (\<lambda>(secret, enabled).
     deny_if (\<not> enabled \<or> secret = '''') ErrTOTPNotSetup
       (bind (ValidateTOTP secret code) (\<lambda>ok.
        deny_if (\<not> ok) ErrInvalidTOTP (DisableTOTP userID))))"

section \<open>Telegram\<close>

definition EnsureTelegramUser :: "int \<Rightarrow> string \<Rightarrow> string \<Rightarrow> string \<Rightarrow> User go" where
  "EnsureTelegramUser tgID firstName lastName username =
     catch (GetUserByTelegramID tgID) (\<lambda>e.
       if errors_Is e Auth_ErrNotFound then CreateTelegramUser tgID firstName lastName username
       else throw e)"

definition TelegramLogin :: "AuthService \<Rightarrow> TelegramAuth \<Rightarrow> LoginMeta \<Rightarrow> (User \<times> TokenPair) go" where
  "TelegramLogin s a meta =
     bind (VerifyTelegramAuth (as_botToken s) a) (\<lambda>_.
     bind (catch (GetUserByTelegramID (ta_ID a)) (\<lambda>e.
         if errors_Is e Auth_ErrNotFound
         then CreateTelegramUser (ta_ID a) (ta_FirstName a) (ta_LastName a) (ta_Username a)
         else throw e)) (\<lambda>u.
     deny_if (us_Status u = StatusBlocked) ErrUserBlocked
       (bind (issueTokens s u meta) (\<lambda>pair. return (u, pair)))))"

section \<open>Rotation and logout\<close>

definition Refresh :: "AuthService \<Rightarrow> string \<Rightarrow> LoginMeta \<Rightarrow> TokenPair go" where
  "Refresh s refreshToken meta =
     bind (HashRefreshToken refreshToken) (\<lambda>hash.
     bind (GetSessionByHash hash) (\<lambda>sess.
     if ss_RevokedAt sess \<noteq> None
     then bind (attempt (RevokeAllUserSessions (ss_UserID sess))) (\<lambda>_. throw ErrSessionRevoked)
     else
       bind time_Now (\<lambda>now.
       deny_if (now > ss_ExpiresAt sess) ErrSessionRevoked
         (bind (RevokeSession (ss_ID sess)) (\<lambda>_.
          bind (GetUserByID (ss_UserID sess)) (\<lambda>u.
          deny_if (us_Status u = StatusBlocked) ErrUserBlocked (issueTokens s u meta)))))))"

text \<open>\<open>time.Until\<close> saturates at the ends of a 64-bit count of nanoseconds.\<close>

definition time_Until :: "timestamp \<Rightarrow> int go" where
  "time_Until t = bind time_Now (\<lambda>now. return (max (- (2 ^ 63)) (min (2 ^ 63 - 1) (t - now))))"

definition revoke_quietly :: "string \<Rightarrow> unit go" where
  "revoke_quietly refreshToken =
     bind (HashRefreshToken refreshToken) (\<lambda>hash.
     bind (attempt (GetSessionByHash hash)) (\<lambda>r.
     case r of Inl _ \<Rightarrow> return ()
     | Inr sess \<Rightarrow> bind (attempt (RevokeSession (ss_ID sess))) (\<lambda>_. return ())))"

definition Logout :: "string \<Rightarrow> timestamp \<Rightarrow> string \<Rightarrow> unit go" where
  "Logout jti accessExpiry refreshToken =
     bind (time_Until accessExpiry) (\<lambda>ttl.
     bind (run_if (ttl > 0) (wrap ''blacklist token'' (redis_Set (blacklistKey jti) ''1'' ttl))) (\<lambda>_.
     run_if (refreshToken \<noteq> '''') (revoke_quietly refreshToken)))"

definition IsBlacklisted :: "string \<Rightarrow> bool go" where
  "IsBlacklisted jti =
     bind (wrap ''check blacklist'' (redis_Exists (blacklistKey jti))) (\<lambda>n. return (n > 0))"

definition UserByID :: "uuid \<Rightarrow> User go" where
  "UserByID i = GetUserByID i"

end
