(* ===== verification/AuthHandler.thy ===== *)
theory AuthHandler
  imports Http AuthService
begin

text \<open>
  The authorization middleware (\<open>internal/auth/middleware.go\<close>) and the auth endpoints
  (\<open>internal/auth/handler.go\<close>).
\<close>

section \<open>Middleware\<close>

text \<open>The first seven bytes are compared without case; the rest is the token.\<close>

definition bearerToken :: "request \<Rightarrow> string" where
  "bearerToken r =
     (let h = Header_Get r ''Authorization'' in
      if length h > 7 \<and> map ascii_lower (take 7 h) = ''bearer '' then TrimSpace (drop 7 h) else '''')"

text \<open>The zero time, for a token without an expiry.\<close>

definition zero_time :: timestamp where "zero_time = - 62135596800 * 10 ^ 9"

definition principal_of :: "uuid \<Rightarrow> jwt_claims \<Rightarrow> Principal" where
  "principal_of uid c = \<lparr>pn_UserID = uid, pn_Role = jc_Role c, pn_JTI = jc_ID c,
     pn_ExpiresAt = (case jc_ExpiresAt c of None \<Rightarrow> zero_time | Some t \<Rightarrow> t * 10 ^ 9)\<rparr>"

definition Authenticate :: "AuthService \<Rightarrow> handler \<Rightarrow> handler" where
  "Authenticate s next r =
     (let raw = bearerToken r in
      if raw = '''' then writeError 401 ''missing bearer token''
      else
        on_result (ParseAccess (as_tokens s) raw) (\<lambda>_. writeError 401 ''invalid token'') (\<lambda>claims.
        on_result (IsBlacklisted (jc_ID claims)) (\<lambda>_. writeError 503 ''auth backend unavailable'')
          (\<lambda>blacklisted.
        if blacklisted then writeError 401 ''token revoked''
        else
          case uuid_Parse (jc_Subject claims) of
            None \<Rightarrow> writeError 401 ''invalid subject''
          | Some uid \<Rightarrow> next (r\<lparr>rq_Principal := Some (principal_of uid claims)\<rparr>))))"

definition RequireRole :: "Role list \<Rightarrow> handler \<Rightarrow> handler" where
  "RequireRole roles next r =
     (case rq_Principal r of
       None \<Rightarrow> writeError 401 ''unauthenticated''
     | Some p \<Rightarrow>
         if pn_Role p \<notin> set roles then writeError 403 ''insufficient role'' else next r)"

text \<open>A handler that reads the principal and ignores whether there is one.\<close>

definition zero_principal :: Principal where
  "zero_principal = \<lparr>pn_UserID = uuid_Nil, pn_Role = '''', pn_JTI = '''', pn_ExpiresAt = zero_time\<rparr>"

definition principal :: "request \<Rightarrow> Principal" where
  "principal r = from_option zero_principal (rq_Principal r)"

section \<open>Replies\<close>

definition opt_member :: "string \<Rightarrow> ('a \<Rightarrow> out) \<Rightarrow> 'a option \<Rightarrow> (string \<times> out) list" where
  "opt_member k f v = (case v of None \<Rightarrow> [] | Some x \<Rightarrow> [(k, f x)])"

definition User_out :: "User \<Rightarrow> out" where
  "User_out u = O_obj ([(''id'', O_uuid (us_ID u))] @ opt_member ''email'' O_str (us_Email u) @
     opt_member ''phone'' O_str (us_Phone u) @ opt_member ''telegram_id'' O_int (us_TelegramID u) @
     [(''role'', O_str (us_Role u)), (''status'', O_str (us_Status u)),
      (''language'', O_str (us_Language u)), (''timezone'', O_str (us_Timezone u)),
      (''currency'', O_str (us_Currency u))] @
     opt_member ''country'' O_str (us_Country u) @ [(''created_at'', O_time (us_CreatedAt u))])"

definition TokenPair_out :: "TokenPair \<Rightarrow> out" where
  "TokenPair_out p = O_obj [(''access_token'', O_str (tp_AccessToken p)),
     (''refresh_token'', O_str (tp_RefreshToken p)), (''token_type'', O_str (tp_TokenType p)),
     (''expires_at'', O_time (tp_ExpiresAt p))]"

definition authResponse :: "User \<times> TokenPair \<Rightarrow> out" where
  "authResponse = (\<lambda>(u, p). O_obj [(''user'', User_out u), (''tokens'', TokenPair_out p)])"

definition writeDomainError :: "error \<Rightarrow> serve" where
  "writeDomainError e =
     writeErr (if errors_Is e ErrEmailTaken then 409
       else if errors_Is e ErrInvalidCredentials then 401
       else if errors_Is e ErrUserBlocked then 403
       else if errors_Is e ErrSessionRevoked \<or> errors_Is e ErrInvalidToken then 401
       else if errors_Is e ErrTelegramSignature then 401
       else if errors_Is e Err2FARequired \<or> errors_Is e ErrInvalidTOTP then 401
       else if errors_Is e ErrTOTPNotSetup then 400
       else if errors_Is e Auth_ErrNotFound then 404
       else 400) e"

section \<open>Reading a request\<close>

definition clientIP :: "request \<Rightarrow> ip option" where
  "clientIP r =
     (let xff = Header_Get r ''X-Forwarded-For'' in
      if xff \<noteq> '''' then
        (case Cut xff (CHR '','') of
          Some (addr, _) \<Rightarrow> ParseIP (TrimSpace addr)
        | None \<Rightarrow> ParseIP (TrimSpace xff))
      else
        (case SplitHost (rq_RemoteAddr r) of
          None \<Rightarrow> ParseIP (rq_RemoteAddr r)
        | Some host \<Rightarrow> ParseIP host))"

definition metaFromRequest :: "request \<Rightarrow> LoginMeta" where
  "metaFromRequest r = \<lparr>lm_UserAgent = Header_Get r ''User-Agent'', lm_IP = clientIP r\<rparr>"

definition validEmail :: "string \<Rightarrow> bool" where
  "validEmail email0 =
     (let email = TrimSpace email0 in
      case IndexByte email (CHR ''@'') of
        None \<Rightarrow> False
      | Some i \<Rightarrow>
          if i = 0 \<or> Suc i = length email then False
          else (case IndexByte (drop (Suc i) email) (CHR ''.'') of None \<Rightarrow> False | Some j \<Rightarrow> j > 0))"

section \<open>Endpoints\<close>

definition register_handler :: "AuthService \<Rightarrow> handler" where
  "register_handler s r =
     decode [''email'', ''password'', ''language'', ''country'']
       (\<lambda>ms. Option.bind (string_field ''email'' ms) (\<lambda>email.
         Option.bind (string_field ''password'' ms) (\<lambda>password.
         Option.bind (string_field ''language'' ms) (\<lambda>language.
         map_option (\<lambda>country. (email, password, language, country))
           (string_opt_field ''country'' ms))))) r
       (\<lambda>(email, password, language, country).
         if \<not> validEmail email then writeError 400 ''invalid email''
         else on_result (Register s (TrimSpace email) password language country (metaFromRequest r))
           writeDomainError (\<lambda>x. writeJSON 201 (authResponse x)))"

definition login_handler :: "AuthService \<Rightarrow> handler" where
  "login_handler s r =
     decode [''email'', ''password'', ''totp'']
       (\<lambda>ms. Option.bind (string_field ''email'' ms) (\<lambda>email.
         Option.bind (string_field ''password'' ms) (\<lambda>password.
         map_option (\<lambda>totp. (email, password, totp)) (string_field ''totp'' ms)))) r
       (\<lambda>(email, password, totp).
         on_result (Login s (TrimSpace email) password totp (metaFromRequest r))
           writeDomainError (\<lambda>x. writeJSON 200 (authResponse x)))"

definition refresh_handler :: "AuthService \<Rightarrow> handler" where
  "refresh_handler s r =
     decode [''refresh_token''] (string_field ''refresh_token'') r (\<lambda>token.
       if token = '''' then writeError 400 ''refresh_token is required''
       else on_result (Refresh s token (metaFromRequest r)) writeDomainError
         (\<lambda>p. writeJSON 200 (O_obj [(''tokens'', TokenPair_out p)])))"

definition telegram_fields :: "(string \<times> json) list \<Rightarrow> TelegramAuth option" where
  "telegram_fields ms =
     Option.bind (int_field ''id'' ms) (\<lambda>i.
     Option.bind (string_field ''first_name'' ms) (\<lambda>firstName.
     Option.bind (string_field ''last_name'' ms) (\<lambda>lastName.
     Option.bind (string_field ''username'' ms) (\<lambda>username.
     Option.bind (string_field ''photo_url'' ms) (\<lambda>photo.
     Option.bind (int_field ''auth_date'' ms) (\<lambda>date.
     map_option (\<lambda>hash. \<lparr>ta_ID = i, ta_FirstName = firstName, ta_LastName = lastName,
       ta_Username = username, ta_PhotoURL = photo, ta_AuthDate = date, ta_Hash = hash\<rparr>)
       (string_field ''hash'' ms)))))))"

definition telegram_handler :: "AuthService \<Rightarrow> handler" where
  "telegram_handler s r =
     decode [''id'', ''first_name'', ''last_name'', ''username'', ''photo_url'', ''auth_date'', ''hash'']
       telegram_fields r (\<lambda>a.
         on_result (TelegramLogin s a (metaFromRequest r)) writeDomainError
           (\<lambda>x. writeJSON 200 (authResponse x)))"

text \<open>
  The body of a logout is optional: its errors are dropped.  Text that is not JSON sets nothing; a
  member of the wrong type leaves the field as it is.
\<close>

fun last_good_string :: "string \<Rightarrow> json list \<Rightarrow> string" where
  "last_good_string d [] = d"
| "last_good_string d (JStr s # vs) = last_good_string s vs"
| "last_good_string d (_ # vs) = last_good_string d vs"

definition logout_token :: "string \<Rightarrow> string" where
  "logout_token body =
     (case Option.bind (json_Decode body) struct_members of
       None \<Rightarrow> ''''
     | Some ms \<Rightarrow> last_good_string '''' (field_values ''refresh_token'' ms))"

definition logout_handler :: handler where
  "logout_handler r =
     (case rq_Principal r of
       None \<Rightarrow> writeError 401 ''unauthenticated''
     | Some p \<Rightarrow>
         on_result (Logout (pn_JTI p) (pn_ExpiresAt p) (logout_token (rq_Body r)))
           (\<lambda>_. writeError 500 ''logout failed'') (\<lambda>_. status_reply 200 ''logged_out''))"

definition twoFASetup :: handler where
  "twoFASetup r =
     on_result (Setup2FA (pn_UserID (principal r))) writeDomainError (\<lambda>(secret, uri).
       writeJSON 200 (O_obj [(''otpauth_uri'', O_str uri), (''secret'', O_str secret)]))"

definition twoFAOp :: "(uuid \<Rightarrow> string \<Rightarrow> unit go) \<Rightarrow> string \<Rightarrow> handler" where
  "twoFAOp oper okStatus r =
     decode [''code''] (string_field ''code'') r (\<lambda>code.
       on_result (oper (pn_UserID (principal r)) code) writeDomainError
         (\<lambda>_. status_reply 200 okStatus))"

definition auth_routes :: "AuthService \<Rightarrow> (handler \<Rightarrow> handler) \<Rightarrow> route list" where
  "auth_routes s loginLimit =
     (let pat = (\<lambda>p. map Lit ([''api'', ''v1'', ''auth''] @ p)) in
      [(''POST'', pat [''register''], loginLimit (register_handler s)),
       (''POST'', pat [''login''], loginLimit (login_handler s)),
       (''POST'', pat [''telegram''], loginLimit (telegram_handler s)),
       (''POST'', pat [''refresh''], refresh_handler s),
       (''POST'', pat [''logout''], Authenticate s logout_handler),
       (''POST'', pat [''2fa'', ''setup''], Authenticate s twoFASetup),
       (''POST'', pat [''2fa'', ''enable''], Authenticate s (twoFAOp Enable2FA ''enabled'')),
       (''POST'', pat [''2fa'', ''disable''], Authenticate s (twoFAOp Disable2FA ''disabled''))])"

end
