(* ===== verification/BillingProviders.thy ===== *)
theory BillingProviders
  imports BillingRepo JsonCorrect
begin

text \<open>
  The payment gateways: the interface of \<open>internal/billing/model.go\<close> and its three
  implementations (\<open>provider_mock.go\<close>, \<open>provider_cryptomus.go\<close>, \<open>provider_stars.go\<close>).  The
  Cryptomus API answers at the tape's position; its documented signature is MD5 over the
  base64 text of the body and the key.  The locale \<open>payment_provider\<close> is what the billing
  service relies on.
\<close>

section \<open>The interface\<close>

record CreatePaymentInput =
  ip_OrderID :: uuid
  ip_Amount :: float64
  ip_Currency :: string
  ip_Description :: string
  ip_CallbackURL :: string
  ip_ReturnURL :: string

record CreatePaymentResult =
  rs_ExternalID :: string
  rs_PaymentURL :: string
  rs_Status :: PaymentStatus

record WebhookResult =
  wr_ExternalID :: string
  wr_OrderID :: uuid
  wr_Status :: PaymentStatus

type_synonym headers = "(string \<times> string) list"

record Provider =
  pv_Name :: string
  pv_CreatePayment :: "CreatePaymentInput \<Rightarrow> CreatePaymentResult go"
  pv_ParseWebhook :: "headers \<Rightarrow> string \<Rightarrow> WebhookResult go"

definition syntax_error :: error where "syntax_error = Errorf ''invalid character''"

section \<open>The mock gateway\<close>

definition mapMockStatus :: "string \<Rightarrow> PaymentStatus" where
  "mapMockStatus s =
     (if s \<in> {''success'', ''paid''} then PaymentSuccess
      else if s \<in> {''failed'', ''fail'', ''cancel''} then PaymentFailed
      else PaymentPending)"

definition mock_CreatePayment :: "string \<Rightarrow> CreatePaymentInput \<Rightarrow> CreatePaymentResult go" where
  "mock_CreatePayment baseURL inp =
     return \<lparr>rs_ExternalID = ''mock-'' @ uuid_String (ip_OrderID inp),
       rs_PaymentURL = baseURL @ ''/billing/dev/pay/'' @ uuid_String (ip_OrderID inp),
       rs_Status = PaymentCreated\<rparr>"

text \<open>The three string fields of the mock body; a member of another type is an error.\<close>

definition mock_fields :: "string \<Rightarrow> (string \<times> string \<times> string) option" where
  "mock_fields body =
     (case json_Unmarshal body of
       None \<Rightarrow> None
     | Some j \<Rightarrow>
        (case struct_members j of
          None \<Rightarrow> None
        | Some ms \<Rightarrow>
           (case (string_field ''external_id'' ms, string_field ''order_id'' ms,
                  string_field ''status'' ms) of
             (Some e, Some i, Some s) \<Rightarrow> Some (e, i, s)
           | _ \<Rightarrow> None)))"

definition mock_ParseWebhook :: "headers \<Rightarrow> string \<Rightarrow> WebhookResult go" where
  "mock_ParseWebhook hs body =
     (case mock_fields body of
       None \<Rightarrow> throw syntax_error
     | Some (externalID, orderID, status) \<Rightarrow>
         return \<lparr>wr_ExternalID = externalID,
           wr_OrderID = (if orderID = '''' then uuid_Nil
             else from_option uuid_Nil (uuid_Parse orderID)),
           wr_Status = mapMockStatus status\<rparr>)"

definition MockProvider :: "string \<Rightarrow> Provider" where
  "MockProvider baseURL = \<lparr>pv_Name = ''mock'', pv_CreatePayment = mock_CreatePayment baseURL,
     pv_ParseWebhook = mock_ParseWebhook\<rparr>"

section \<open>Telegram Stars\<close>

definition GatewayTelegramStars :: string where "GatewayTelegramStars = ''telegram_stars''"

definition stars_CreatePayment :: "CreatePaymentInput \<Rightarrow> CreatePaymentResult go" where
  "stars_CreatePayment inp =
     return \<lparr>rs_ExternalID = ''stars-'' @ uuid_String (ip_OrderID inp), rs_PaymentURL = '''',
       rs_Status = PaymentPending\<rparr>"

definition stars_ParseWebhook :: "headers \<Rightarrow> string \<Rightarrow> WebhookResult go" where
  "stars_ParseWebhook hs body = throw ErrUnknownGateway"

definition StarsProvider :: Provider where
  "StarsProvider = \<lparr>pv_Name = GatewayTelegramStars, pv_CreatePayment = stars_CreatePayment,
     pv_ParseWebhook = stars_ParseWebhook\<rparr>"

section \<open>Cryptomus\<close>

record CryptomusProvider =
  cm_merchant :: string
  cm_apiKey :: string

definition cryptomus_sign :: "CryptomusProvider \<Rightarrow> string \<Rightarrow> string go" where
  "cryptomus_sign c body =
     ask (\<lambda>e. hex_EncodeToString (env_md5 e (StdEncoding_EncodeToString body @ cm_apiKey c)))"

text \<open>The request body: a marshalled map, so its members are sorted.\<close>

definition cryptomus_request :: "CreatePaymentInput \<Rightarrow> string" where
  "cryptomus_request inp = json_Marshal (JObj (map_of_members
     [(''amount'', JStr (fmt_2f (ip_Amount inp))), (''currency'', JStr (ip_Currency inp)),
      (''order_id'', JStr (uuid_String (ip_OrderID inp))),
      (''url_callback'', JStr (ip_CallbackURL inp)), (''url_return'', JStr (ip_ReturnURL inp))]))"

definition api_post :: "string \<Rightarrow> headers \<Rightarrow> string \<Rightarrow> string go" where
  "api_post url hs body w =
     (if env_fault (w_env w) (w_tick w) then (Inl Fault, step_tick w)
      else (Inr (env_http_body (w_env w) (w_tick w)),
            (step_tick w)\<lparr>w_nodes := w_nodes w @ [ApiCall url hs body]\<rparr>))"

text \<open>The nested fields \<open>result.uuid\<close> and \<open>result.url\<close> of the answer.\<close>

definition cryptomus_answer :: "string \<Rightarrow> (string \<times> string) option" where
  "cryptomus_answer body =
     (case Option.bind (json_Decode body) struct_members of
       None \<Rightarrow> None
     | Some ms \<Rightarrow>
        (case map struct_members (field_values ''result'' ms) of
          [] \<Rightarrow> Some ([], [])
        | rs \<Rightarrow>
           (if None \<in> set rs then None
            else let inner = concat (map the rs) in
              (case (string_field ''uuid'' inner, string_field ''url'' inner) of
                (Some u, Some l) \<Rightarrow> Some (u, l)
              | _ \<Rightarrow> None))))"

definition cryptomus_CreatePayment ::
    "CryptomusProvider \<Rightarrow> CreatePaymentInput \<Rightarrow> CreatePaymentResult go" where
  "cryptomus_CreatePayment c inp =
     (let reqBody = cryptomus_request inp in
      bind (cryptomus_sign c reqBody) (\<lambda>sign.
      bind (wrap ''cryptomus request''
              (api_post ''https://api.cryptomus.com/v1/payment''
                [(''Content-Type'', ''application/json''), (''merchant'', cm_merchant c),
                 (''sign'', sign)] reqBody)) (\<lambda>resp.
      case cryptomus_answer resp of
        None \<Rightarrow> throw (Wrap ''cryptomus decode'' syntax_error)
      | Some (u, l) \<Rightarrow>
          if u = '''' then throw (Errorf ''cryptomus: empty payment id'')
          else return \<lparr>rs_ExternalID = u, rs_PaymentURL = l, rs_Status = PaymentPending\<rparr>)))"

definition mapCryptomusStatus :: "string \<Rightarrow> PaymentStatus" where
  "mapCryptomusStatus s =
     (if s \<in> {''paid'', ''paid_over''} then PaymentSuccess
      else if s \<in> {''fail'', ''cancel'', ''system_fail'', ''wrong_amount''} then PaymentFailed
      else PaymentPending)"

text \<open>A member of a decoded map as a string, empty when it is missing or not a string.\<close>

definition map_string :: "string \<Rightarrow> (string \<times> json) list \<Rightarrow> string option" where
  "map_string k raw = (case map_of raw k of Some (JStr s) \<Rightarrow> Some s | _ \<Rightarrow> None)"

definition cryptomus_ParseWebhook ::
    "CryptomusProvider \<Rightarrow> headers \<Rightarrow> string \<Rightarrow> WebhookResult go" where
  "cryptomus_ParseWebhook c hs body =
     (case Unmarshal_map body of
       None \<Rightarrow> throw syntax_error
     | Some raw \<Rightarrow>
         (let sign = from_option '''' (map_string ''sign'' raw);
              rest = filter (\<lambda>(k, _). k \<noteq> ''sign'') raw in
          bind (cryptomus_sign c (json_Marshal (JObj rest))) (\<lambda>expected.
          if sign = '''' \<or> sign \<noteq> expected then throw ErrInvalidSignature
          else return \<lparr>wr_ExternalID = from_option '''' (map_string ''uuid'' rest),
            wr_OrderID = uuid_Nil,
            wr_Status = (case map_string ''status'' rest of
                None \<Rightarrow> PaymentPending | Some s \<Rightarrow> mapCryptomusStatus s)\<rparr>)))"

definition Cryptomus :: "CryptomusProvider \<Rightarrow> Provider" where
  "Cryptomus c = \<lparr>pv_Name = ''cryptomus'', pv_CreatePayment = cryptomus_CreatePayment c,
     pv_ParseWebhook = cryptomus_ParseWebhook c\<rparr>"

section \<open>What the billing service relies on\<close>

text \<open>
  A provider changes nothing that is stored, never reports a payment as successful when it is
  only registered, and normalises a callback to pending, success or failed.
\<close>

locale payment_provider =
  fixes p :: Provider
  assumes create_quiet: "quiet (pv_CreatePayment p inp)"
    and parse_quiet: "quiet (pv_ParseWebhook p hs body)"
    and create_status: "pv_CreatePayment p inp w = (Inr res, w') \<Longrightarrow>
      rs_Status res \<in> {PaymentCreated, PaymentPending}"
    and parse_status: "pv_ParseWebhook p hs body w = (Inr wr, w') \<Longrightarrow>
      wr_Status wr \<in> {PaymentPending, PaymentSuccess, PaymentFailed}"
begin

text \<open>So the status a registered payment starts with is one the table accepts.\<close>

lemma create_status_enum:
  "pv_CreatePayment p inp w = (Inr res, w') \<Longrightarrow>
    rs_Status res \<in> set payment_status_enum \<and> rs_Status res \<noteq> PaymentSuccess"
  using create_status
  by (fastforce simp: payment_status_enum_def payment_status_defs)

end

lemma mapped_status:
  "mapMockStatus s \<in> {PaymentPending, PaymentSuccess, PaymentFailed}"
  "mapCryptomusStatus s \<in> {PaymentPending, PaymentSuccess, PaymentFailed}"
  unfolding mapMockStatus_def mapCryptomusStatus_def by (simp_all split: if_split)

lemma quiet_api_post [quiet_intro]: "quiet (api_post url hs body)"
  by (simp add: quiet_def api_post_def same_state_def)

lemma quiet_cryptomus_sign [quiet_intro]: "quiet (cryptomus_sign c body)"
  unfolding cryptomus_sign_def by (intro quiet_intro)

interpretation mock: payment_provider "MockProvider baseURL" for baseURL
proof unfold_locales
  show "quiet (pv_CreatePayment (MockProvider baseURL) inp)" for inp
    unfolding MockProvider_def mock_CreatePayment_def by (simp add: quiet_return)
  show "quiet (pv_ParseWebhook (MockProvider baseURL) hs body)" for hs body
    unfolding MockProvider_def mock_ParseWebhook_def
    by (simp only: Provider.simps) (intro quiet_intro)
  show "rs_Status res \<in> {PaymentCreated, PaymentPending}"
    if "pv_CreatePayment (MockProvider baseURL) inp w = (Inr res, w')" for inp w res w'
    using that by (auto simp: MockProvider_def mock_CreatePayment_def dest!: return_InrD)
  show "wr_Status wr \<in> {PaymentPending, PaymentSuccess, PaymentFailed}"
    if "pv_ParseWebhook (MockProvider baseURL) hs body w = (Inr wr, w')" for hs body w wr w'
  proof -
    have "\<exists>s. wr_Status wr = mapMockStatus s"
      using that unfolding MockProvider_def mock_ParseWebhook_def Provider.simps
      by (auto dest!: return_InrD throw_InrD split: option.splits)
    then show ?thesis using mapped_status(1) by metis
  qed
qed

interpretation stars: payment_provider StarsProvider
  by unfold_locales (auto simp: StarsProvider_def stars_CreatePayment_def stars_ParseWebhook_def
      quiet_return quiet_throw dest!: return_InrD throw_InrD)

interpretation cryptomus: payment_provider "Cryptomus c" for c
proof unfold_locales
  show "quiet (pv_CreatePayment (Cryptomus c) inp)" for inp
    unfolding Cryptomus_def cryptomus_CreatePayment_def Let_def
    by (simp only: Provider.simps) (intro quiet_intro)
  show "quiet (pv_ParseWebhook (Cryptomus c) hs body)" for hs body
    unfolding Cryptomus_def cryptomus_ParseWebhook_def Let_def
    by (simp only: Provider.simps) (intro quiet_intro)
  show "rs_Status res \<in> {PaymentCreated, PaymentPending}"
    if "pv_CreatePayment (Cryptomus c) inp w = (Inr res, w')" for inp w res w'
    using that unfolding Cryptomus_def cryptomus_CreatePayment_def Let_def Provider.simps
    by (auto elim!: bind_InrD dest!: return_InrD throw_InrD split: option.splits if_splits)
  show "wr_Status wr \<in> {PaymentPending, PaymentSuccess, PaymentFailed}"
    if "pv_ParseWebhook (Cryptomus c) hs body w = (Inr wr, w')" for hs body w wr w'
  proof -
    have "wr_Status wr \<in> insert PaymentPending (range mapCryptomusStatus)"
      using that unfolding Cryptomus_def cryptomus_ParseWebhook_def Let_def Provider.simps
      by (auto elim!: bind_InrD dest!: return_InrD throw_InrD split: option.splits if_splits)
    then show ?thesis using mapped_status(2) by (metis imageE insertE insertI1)
  qed
qed

end
