(* ===== verification/BillingService.thy ===== *)
theory BillingService
  imports BillingProviders
begin

text \<open>
  The billing service (\<open>internal/billing/service.go\<close>) and the background expirer
  (\<open>expirer.go\<close>).  The service record holds what the Go struct holds: the enabled providers by
  name, the issuer of VPNs and the callback base URL.  Log lines are not modelled.
\<close>

definition pendingWindow :: int where "pendingWindow = 10 * 60 * 10 ^ 9"
definition maxPendingOrder :: nat where "maxPendingOrder = 5"

record BillingService =
  bs_providers :: "(string \<times> Provider) list"
  bs_issuer :: "CreateInput \<Rightarrow> VPNView go"
  bs_callbackURL :: string

definition NewBillingService ::
    "(CreateInput \<Rightarrow> VPNView go) \<Rightarrow> (string \<times> Provider) list \<Rightarrow> string \<Rightarrow> BillingService" where
  "NewBillingService issuer providers callbackBaseURL =
     \<lparr>bs_providers = providers, bs_issuer = issuer,
      bs_callbackURL = TrimRight callbackBaseURL (CHR ''/'')\<rparr>"

section \<open>Buying\<close>

record BuyInput =
  bi_UserID :: uuid
  bi_PlanID :: uuid
  bi_CountryID :: uuid
  bi_Protocol :: Protocol
  bi_Gateway :: string
  bi_PromoCode :: string
  bi_Label :: "string option"
  bi_RenewSubscriptionID :: "uuid option"
  bi_Routing :: RoutingMode

text \<open>The discount of a valid promo code; an unknown type of code leaves it at zero.\<close>

definition promo_discount :: "Promo \<Rightarrow> PlanPricing \<Rightarrow> float64" where
  "promo_discount promo plan =
     (if pc_Type promo = ''percent'' then fl (fl (pp_Price plan * pc_Discount promo) / 100)
      else if pc_Type promo = ''fixed'' then pc_Discount promo else 0)"

definition resolvePromo :: "string \<Rightarrow> PlanPricing \<Rightarrow> (float64 \<times> uuid option) go" where
  "resolvePromo code0 plan =
     (let code = TrimSpace code0 in
      if code = '''' then return (0, None)
      else
        bind (GetPromoByCode code) (\<lambda>promo.
        bind (if pc_Active promo
              then (case pc_ExpiresAt promo of
                  None \<Rightarrow> return True | Some t \<Rightarrow> bind time_Now (\<lambda>now. return (\<not> t < now)))
              else return False) (\<lambda>ok.
        if \<not> ok then throw ErrPromoInvalid
        else return (round2 (promo_discount promo plan), Some (pc_ID promo)))))"

text \<open>What is charged: the price less the discount, never below zero.\<close>

definition charge :: "float64 \<Rightarrow> float64 \<Rightarrow> float64" where
  "charge price discount = round2 (max 0 (fl (price - discount)))"

definition Buy :: "BillingService \<Rightarrow> BuyInput \<Rightarrow> (Order \<times> Payment) go" where
  "Buy s inp =
     (if \<not> Protocol_Valid (bi_Protocol inp) then throw ErrBadProtocol
      else case map_of (bs_providers s) (bi_Gateway inp) of
        None \<Rightarrow> throw ErrUnknownGateway
      | Some provider \<Rightarrow>
          bind (GetPlanPricing (bi_PlanID inp)) (\<lambda>plan.
          bind (resolvePromo (bi_PromoCode inp) plan) (\<lambda>(discount, promoID).
          let amount = charge (pp_Price plan) discount in
          bind time_Now (\<lambda>now.
          bind (CountRecentPendingOrders (bi_UserID inp) (now - pendingWindow)) (\<lambda>pending.
          if pending \<ge> maxPendingOrder then throw ErrTooManyPending
          else
            bind (CreateOrder \<lparr>no_UserID = bi_UserID inp, no_PlanID = bi_PlanID inp,
                no_CountryID = bi_CountryID inp, no_Protocol = bi_Protocol inp,
                no_Amount = amount, no_Discount = round2 discount,
                no_Currency = pp_Currency plan, no_Gateway = bi_Gateway inp,
                no_PromoID = promoID, no_Label = bi_Label inp,
                no_RenewSubscriptionID = bi_RenewSubscriptionID inp,
                no_Routing = bi_Routing inp\<rparr>) (\<lambda>order.
            bind (catch (pv_CreatePayment provider \<lparr>ip_OrderID = or_ID order, ip_Amount = amount,
                ip_Currency = pp_Currency plan, ip_Description = ''VPN subscription'',
                ip_CallbackURL = bs_callbackURL s @ ''/api/v1/billing/webhook/'' @ bi_Gateway inp,
                ip_ReturnURL = bs_callbackURL s\<rparr>)
              (\<lambda>e. bind (attempt (MarkFailed (or_ID order)))
                 (\<lambda>_. throw (Wrap ''create payment'' e)))) (\<lambda>res.
            bind (CreatePayment (or_ID order) (bi_Gateway inp) (rs_ExternalID res) (rs_Status res)
                amount (pp_Currency plan) (rs_PaymentURL res)) (\<lambda>payment.
            return (order, payment)))))))))"

section \<open>Fulfilling an order\<close>

text \<open>What a successful claim does: renew the subscription, or have a VPN issued.\<close>

definition provision_order :: "BillingService \<Rightarrow> OrderForProvision \<Rightarrow> uuid go" where
  "provision_order s order =
     (case op_RenewSubID order of
       Some subID \<Rightarrow>
         bind (GetPlanPricing (op_PlanID order)) (\<lambda>plan.
         bind (wrap ''extend subscription'' (ExtendSubscription subID (pp_Days plan))) (\<lambda>_.
         bind (wrap ''finalize renewal'' (FinalizePaid (op_ID order) subID)) (\<lambda>_.
         return subID)))
     | None \<Rightarrow>
         bind (wrap ''provision vpn'' (bs_issuer s
           \<lparr>ci_UserID = op_UserID order, ci_CountryID = op_CountryID order,
            ci_Protocol = op_Protocol order, ci_PlanID = Some (op_PlanID order),
            ci_Label = op_Label order, ci_Routing = op_Routing order\<rparr>)) (\<lambda>view.
         bind (wrap ''finalize order''
           (FinalizePaid (op_ID order) (sb_ID (vw_Subscription view)))) (\<lambda>_.
         return (sb_ID (vw_Subscription view)))))"

definition fulfill :: "BillingService \<Rightarrow> OrderForProvision \<Rightarrow> uuid go" where
  "fulfill s order =
     bind (ClaimForProvisioning (op_ID order)) (\<lambda>claimed.
     if \<not> claimed then OrderSubscriptionID (op_ID order) else provision_order s order)"

definition FulfillOrder :: "BillingService \<Rightarrow> uuid \<Rightarrow> uuid go" where
  "FulfillOrder s orderID = bind (GetOrderForProvision orderID) (fulfill s)"

section \<open>Webhooks\<close>

definition resolveOrder :: "string \<Rightarrow> WebhookResult \<Rightarrow> OrderForProvision go" where
  "resolveOrder gateway res =
     (if wr_OrderID res \<noteq> uuid_Nil then GetOrderForProvision (wr_OrderID res)
      else GetOrderByExternalPayment gateway (wr_ExternalID res))"

definition HandleWebhook :: "BillingService \<Rightarrow> string \<Rightarrow> headers \<Rightarrow> string \<Rightarrow> unit go" where
  "HandleWebhook s gateway hs body =
     (case map_of (bs_providers s) gateway of
       None \<Rightarrow> throw ErrUnknownGateway
     | Some provider \<Rightarrow>
         bind (pv_ParseWebhook provider hs body) (\<lambda>res.
         bind (RecordWebhook gateway (wr_ExternalID res) (wr_Status res) body) (\<lambda>_.
         bind (resolveOrder gateway res) (\<lambda>order.
         let finish = bind (attempt (MarkWebhookProcessed gateway (wr_ExternalID res)))
                       (\<lambda>_. return ()) in
         if wr_Status res = PaymentSuccess then bind (fulfill s order) (\<lambda>_. finish)
         else if wr_Status res = PaymentFailed then bind (MarkFailed (op_ID order)) (\<lambda>_. finish)
         else return ()))))"

text \<open>The body \<open>ConfirmMock\<close> writes by hand.\<close>

definition mock_body :: "uuid \<Rightarrow> string" where
  "mock_body orderID =
     (let q = (\<lambda>s. [quote_char] @ s @ [quote_char]) in
      ''{'' @ q ''external_id'' @ '':'' @ q (''mock-'' @ uuid_String orderID) @ '','' @
      q ''order_id'' @ '':'' @ q (uuid_String orderID) @ '','' @
      q ''status'' @ '':'' @ q ''success'' @ ''}'')"

definition ConfirmMock :: "BillingService \<Rightarrow> uuid \<Rightarrow> unit go" where
  "ConfirmMock s orderID =
     (case map_of (bs_providers s) ''mock'' of
       None \<Rightarrow> throw ErrUnknownGateway
     | Some _ \<Rightarrow> HandleWebhook s ''mock'' [] (mock_body orderID))"

section \<open>Reading\<close>

definition Billing_ListOrders :: "uuid \<Rightarrow> Order list go" where
  "Billing_ListOrders userID = ListOrders userID"

definition PromoPreview :: "string \<Rightarrow> uuid \<Rightarrow> (float64 \<times> float64) go" where
  "PromoPreview code planID =
     bind (GetPlanPricing planID) (\<lambda>plan.
     bind (resolvePromo code plan) (\<lambda>(discount, _).
     return (round2 discount, charge (pp_Price plan) discount)))"

text \<open>The names in no particular order: Go iterates over a map.\<close>

definition Gateways :: "BillingService \<Rightarrow> string list" where
  "Gateways s = map fst (bs_providers s)"

section \<open>The expirer\<close>

definition overdue :: "timestamp \<Rightarrow> int \<Rightarrow> subscription_row \<Rightarrow> bool" where
  "overdue now grace r \<longleftrightarrow> sub_status r = ''active'' \<and> sub_expires_at r < now - grace"

definition expire_subs :: "int \<Rightarrow> nat statement" where
  "expire_subs grace now fresh d =
     Inr (count_where (overdue now grace) (subscriptions d),
       d\<lparr>subscriptions := update_where (overdue now grace)
         (\<lambda>r. r\<lparr>sub_status := ''expired''\<rparr>) (subscriptions d)\<rparr>)"

text \<open>One sweep; its error is logged only.  \<open>make_interval(secs)\<close> keeps microseconds.\<close>

definition Expirer_sweep :: "int \<Rightarrow> unit go" where
  "Expirer_sweep grace =
     bind (attempt (sql (expire_subs (pg_time grace)))) (\<lambda>_. return ())"

text \<open>The loop, for the ticks before the context is cancelled.\<close>

fun Expirer_Run :: "int \<Rightarrow> nat \<Rightarrow> unit go" where
  "Expirer_Run grace 0 = Expirer_sweep grace"
| "Expirer_Run grace (Suc ticks) = bind (Expirer_sweep grace) (\<lambda>_. Expirer_Run grace ticks)"

end
