(* ===== verification/VPNServiceCorrect.thy ===== *)
theory VPNServiceCorrect
  imports VPNService
begin

text \<open>
  Correctness of the VPN service: a failed creation leaves the tables alone, a created VPN can be
  fetched by its owner and by nobody else, a deleted one by nobody, and the migration of a server
  keeps the invariants of the repository whatever fails on the way.
\<close>

section \<open>Generating changes nothing\<close>

lemma quiet_keys [quiet_intro]:
  "quiet (x25519_public priv)" "quiet GenerateWireGuardKeypair" "quiet GeneratePresharedKey"
  "quiet GenerateShadowsocksKey" "quiet NewUUID" "quiet (sha256hex t)" "quiet (Encrypt k p)"
  "quiet (Decrypt k c)"
  unfolding x25519_public_def GenerateWireGuardKeypair_def GeneratePresharedKey_def
    GenerateShadowsocksKey_def NewUUID_def sha256hex_def Encrypt_def Decrypt_def
  by (intro quiet_intro)+

lemma quiet_reads [quiet_intro]:
  "quiet (SelectServer c p)" "quiet (SelectReserveServer c p x)" "quiet (GetServerByID i)"
  "quiet (GetPlan i)" "quiet (ListUsedIPs i)" "quiet (OldKeyForSub i)"
  "quiet (GetArtifactForUser u i)" "quiet (ActiveSubsOnServer i)" "quiet (ListUserVPNs u)"
  unfolding SelectServer_def SelectReserveServer_def GetServerByID_def GetPlan_def ListUsedIPs_def
    OldKeyForSub_def GetArtifactForUser_def ActiveSubsOnServer_def ListUserVPNs_def
  by (intro quiet_intro)+

lemma quiet_generate [quiet_intro]: "quiet (generate s srv p label routing)"
  unfolding generate_def generateWireGuard_def generateReality_def generateShadowsocks_def
    generateTrojan_def allowed_ips_def Let_def
  by (intro quiet_intro)

lemma quiet_renderQRPNG [quiet_intro]: "quiet (renderQRPNG c n)"
  unfolding renderQRPNG_def by (intro quiet_intro)

lemma quiet_applyEncryptedKeys [quiet_intro]: "quiet (applyEncryptedKeys s gen p)"
  unfolding applyEncryptedKeys_def enc_opt_def Let_def by (intro quiet_intro)

lemma quiet_plan_terms [quiet_intro]: "quiet (plan_terms i)"
  unfolding plan_terms_def by (intro quiet_intro)

lemma quiet_ignore [quiet_intro]: "quiet m \<Longrightarrow> quiet (ignore m)"
  unfolding ignore_def by (intro quiet_intro)

text \<open>The store operations touch the store only.\<close>

lemma keeps_store [keeps_intro]:
  "keeps (on_db I) (Store_Put k v)" "keeps (on_db I) (Store_Get k)" "keeps (on_db I) (Store_Remove k)"
  by (auto simp: keeps_def on_db_def Store_Put_def Store_Get_def Store_Remove_def
      split: option.split)

lemma keeps_storeConfig [keeps_intro]: "keeps (on_db I) (storeConfig s c gen)"
  unfolding storeConfig_def Let_def
  by (intro keeps_intro keeps_quiet quiet_intro)

text \<open>An operation that leaves the tables alone, though not the object store.\<close>

definition db_same :: "'a go \<Rightarrow> bool" where
  "db_same m \<longleftrightarrow> (\<forall>w. w_db (snd (m w)) = w_db w)"

lemma db_sameI: "(\<And>d. keeps (on_db (\<lambda>x. x = d)) m) \<Longrightarrow> db_same m"
  by (simp add: db_same_def keeps_def on_db_def)

lemma db_same_quiet: "quiet m \<Longrightarrow> db_same m"
  by (simp add: db_same_def quiet_def same_state_def)

lemma db_same_storeConfig: "db_same (storeConfig s c gen)"
  by (rule db_sameI) (rule keeps_storeConfig)

text \<open>
  From tables with \<open>I\<close> an operation ends, with a result or an error, in tables with \<open>J\<close>; what is
  bound before the last write may not change the tables.
\<close>

definition leads :: "(db \<Rightarrow> bool) \<Rightarrow> (db \<Rightarrow> bool) \<Rightarrow> 'a go \<Rightarrow> bool" where
  "leads I J m \<longleftrightarrow> (\<forall>w. I (w_db w) \<longrightarrow> J (w_db (snd (m w))))"

lemma leads_bind:
  assumes m: "db_same m" and A: "\<And>w x w'. m w = (Inr x, w') \<Longrightarrow> A x"
    and f: "\<And>x. A x \<Longrightarrow> leads I J (f x)" and IJ: "\<And>d. I d \<Longrightarrow> J d"
  shows "leads I J (bind m f)"
  unfolding leads_def
proof (intro allI impI)
  fix w :: world assume I: "I (w_db w)"
  obtain r w1 where 1: "m w = (r, w1)" by fastforce
  then have d: "w_db w1 = w_db w" using m by (metis db_same_def snd_conv)
  show "J (w_db (snd (bind m f w)))"
  proof (cases r)
    case (Inl e)
    with 1 d I IJ show ?thesis by (simp add: bind_def)
  next
    case (Inr x)
    with 1 d I f [OF A] show ?thesis by (simp add: bind_def leads_def)
  qed
qed

lemmas leads_quiet = leads_bind [where A = "\<lambda>_. True", OF db_same_quiet _ _]

lemma leads_then:
  assumes "leads I J m" "\<And>x. quiet (f x)"
  shows "leads I J (bind m f)"
  unfolding leads_def
proof (intro allI impI)
  fix w :: world assume I: "I (w_db w)"
  obtain r w1 where 1: "m w = (r, w1)" by fastforce
  then have J: "J (w_db w1)" using assms(1) I by (metis leads_def snd_conv)
  show "J (w_db (snd (bind m f w)))"
  proof (cases r)
    case (Inr x)
    obtain r2 w2 where 2: "f x w1 = (r2, w2)" by fastforce
    with 1 Inr J quiet_fields(1) [OF assms(2) 2] show ?thesis by (simp add: bind_def)
  qed (use 1 J in \<open>simp add: bind_def\<close>)
qed

lemma leads_case_prod: "(\<And>x y. leads I J (f x y)) \<Longrightarrow> leads I J (case v of (x, y) \<Rightarrow> f x y)"
  by (cases v) auto

lemma first_row_sorted:
  assumes "first_row (sort_key k (filter P rows)) = Some r"
  shows "r \<in> set rows \<and> P r"
proof -
  obtain rest where "sort_key k (filter P rows) = r # rest"
    using assms by (cases "sort_key k (filter P rows)") (simp_all add: first_row_def)
  then have "r \<in> set (sort_key k (filter P rows))" by (simp only: list.set_intros)
  then show ?thesis by simp
qed

lemma SelectReserveServer_excludes:
  "SelectReserveServer c p ex w = (Inr srv, w') \<Longrightarrow> srv_ID srv \<noteq> ex"
  unfolding SelectReserveServer_def
  apply (drule no_rows_InrD)
  apply (elim sql_InrD)
  apply (drule select_row_InrD)
  apply (auto simp: scanServer_def dest!: first_row_sorted)
  done

lemma applyEncryptedKeys_server:
  "applyEncryptedKeys s gen p w = (Inr p', w') \<Longrightarrow> cp_Server p' = cp_Server p"
  unfolding applyEncryptedKeys_def Let_def
  by (auto elim!: bind_InrD dest!: return_InrD split: option.splits)

context provisioner
begin

lemma quiet_provision: "vs_provisioner s = pv \<Longrightarrow> quiet (provision s srv p gen)"
  by (simp add: provision_def Let_def ops quiet_throw)

lemma quiet_remove_client: "quiet (remove_client pv srv p pub u)"
  unfolding remove_client_def Let_def
  by (auto intro!: ops quiet_return quiet_ignore split: option.split)

lemma quiet_deprovisionOld: "vs_provisioner s = pv \<Longrightarrow> quiet (deprovisionOld s old p pub u)"
  by (simp add: deprovisionOld_def quiet_remove_client quiet_return split: option.split)

lemma keeps_Create:
  assumes "vs_provisioner s = pv"
    and "\<And>params configID. keeps (on_db I) (Persist params configID)"
  shows "keeps (on_db I) (Create s inp)"
  unfolding Create_def
  by (intro keeps_intro assms(2) keeps_quiet quiet_intro quiet_provision assms(1))

text \<open>One subscription of a migration: everything before the reassignment leaves the tables alone.\<close>

lemma leads_migrate_one:
  assumes pv: "vs_provisioner s = pv" and IJ: "\<And>d. I d \<Longrightarrow> J d"
    and R: "\<And>params configID. srv_ID (cp_Server params) \<noteq> fromID \<Longrightarrow>
      leads I J (Reassign params configID (ms_SubID sub) fromID reason)"
  shows "leads I J (migrate_one s fromID reason oldServer sub)"
  unfolding migrate_one_def
proof (rule leads_bind [where A = "\<lambda>srv. srv_ID srv \<noteq> fromID"])
  show "db_same (SelectReserveServer (ms_CountryID sub) (ms_Protocol sub) fromID)"
    by (intro db_same_quiet quiet_intro)
  fix reserve :: Server assume reserve: "srv_ID reserve \<noteq> fromID"
  have last: "leads I J (bind (Reassign params configID (ms_SubID sub) fromID reason)
      (\<lambda>_. deprovisionOld s oldServer p pub u))" if "cp_Server params = reserve" for params configID p pub u
    using R that reserve by (intro leads_then quiet_deprovisionOld pv) simp
  show "leads I J (bind (attempt (OldKeyForSub (ms_SubID sub))) (\<lambda>old.
     let (oldPub, oldUUID) = (case old of Inl e \<Rightarrow> (None, None) | Inr p \<Rightarrow> p) in
     bind (generate s reserve (ms_Protocol sub) (label_or_VPN (ms_Label sub)) RoutingFull) (\<lambda>gen.
     bind (provision s reserve (ms_Protocol sub) gen) (\<lambda>_.
     bind uuid_New (\<lambda>configID.
     bind (storeConfig s configID gen) (\<lambda>(cfgKey, qrKey).
     bind (applyEncryptedKeys s gen
             \<lparr>cp_UserID = ms_UserID sub, cp_Server = reserve, cp_CountryID = uuid_Nil,
              cp_PlanID = None, cp_Protocol = ms_Protocol sub, cp_Label = None,
              cp_MaxDevices = 0, cp_ExpiresAt = 0, cp_URI = g_uri gen,
              cp_ConfigObjectKey = cfgKey, cp_QRObjectKey = qrKey, cp_Hash = g_hash gen,
              cp_PrivateKeyEnc = None, cp_PublicKey = g_publicKey gen, cp_PSKEnc = None,
              cp_ClientUUID = g_clientUUID gen, cp_AssignedIP = g_assignedIP gen\<rparr>) (\<lambda>params.
     bind (Reassign params configID (ms_SubID sub) fromID reason) (\<lambda>_.
     deprovisionOld s oldServer (ms_Protocol sub) oldPub oldUUID))))))))"
    unfolding Let_def
    apply (rule leads_bind [where A = "\<lambda>_. True"]; (intro db_same_quiet quiet_intro TrueI IJ)?)
    apply (rule leads_case_prod)
    apply (rule leads_bind [where A = "\<lambda>_. True"]; (intro db_same_quiet quiet_intro TrueI IJ)?)
    apply (rule leads_bind [where A = "\<lambda>_. True"]; (intro db_same_quiet quiet_provision pv TrueI IJ)?)
    apply (rule leads_bind [where A = "\<lambda>_. True"]; (intro db_same_quiet quiet_intro TrueI IJ)?)
    apply (rule leads_bind [where A = "\<lambda>_. True"]; (intro db_same_storeConfig TrueI IJ)?)
    apply (rule leads_case_prod)
    apply (rule leads_bind [where A = "\<lambda>params. cp_Server params = reserve"];
        (intro db_same_quiet quiet_intro last IJ)?)
    apply (auto dest: applyEncryptedKeys_server)
    done
qed (erule IJ SelectReserveServer_excludes)+

end

section \<open>Migrating a server\<close>

text \<open>The tables between two turns of the loop: the subscriptions still to do live on the old server.\<close>

definition migrating :: "uuid \<Rightarrow> MigrationSub list \<Rightarrow> db \<Rightarrow> bool" where
  "migrating fromID subs d \<longleftrightarrow>
     load_ok d \<and> ips_ok d \<and> list_all (\<lambda>m. lives_on (ms_SubID m) fromID d) subs"

lemma lives_on_update:
  assumes "subscriptions d' = update_where (\<lambda>s. sub_id s = i) f (subscriptions d)"
    "lives_on j server d" "j \<noteq> i"
  shows "lives_on j server d'"
  using assms by (auto simp: lives_on_def list_ex_iff set_update_where)

lemma Reassign_keeps_ips: "ips_ok (w_db w) \<Longrightarrow> ips_ok (w_db (snd (Reassign p c i old reason w)))"
  using keepsD [OF Reassign_ips_ok] by (simp add: on_db_def)

lemma leads_Reassign:
  assumes "srv_ID (cp_Server p) \<noteq> fromID" "ms_SubID m \<notin> set (map ms_SubID rest)"
  shows "leads (migrating fromID (m # rest)) (migrating fromID rest)
    (Reassign p c (ms_SubID m) fromID reason)"
  unfolding leads_def
proof (intro allI impI)
  fix w :: world assume I: "migrating fromID (m # rest) (w_db w)"
  obtain r w' where run: "Reassign p c (ms_SubID m) fromID reason w = (r, w')" by fastforce
  have ips: "ips_ok (w_db w')"
    using Reassign_keeps_ips [of w p c "ms_SubID m" fromID reason] I run by (simp add: migrating_def)
  show "migrating fromID rest (w_db (snd (Reassign p c (ms_SubID m) fromID reason w)))"
  proof (cases r)
    case (Inl e)
    then have "w_db w' = w_db w" using run tx_errors(3) by simp
    with I run show ?thesis by (simp add: migrating_def)
  next
    case (Inr x)
    have "load_ok (w_db w')"
      using I by (intro load_ok_Reassign [OF _ _ assms(1) run [unfolded Inr]])
        (simp_all add: migrating_def)
    moreover have "list_all (\<lambda>n. lives_on (ms_SubID n) fromID (w_db w')) rest"
    proof -
      obtain f where f: "subscriptions (w_db w') =
          update_where (\<lambda>s. sub_id s = ms_SubID m) f (subscriptions (w_db w))"
        using Reassign_InrD [OF run [unfolded Inr]] by fastforce
      have "lives_on (ms_SubID n) fromID (w_db w')" if "n \<in> set rest" for n
      proof (rule lives_on_update [OF f])
        show "lives_on (ms_SubID n) fromID (w_db w)"
          using I that by (simp add: migrating_def list_all_iff)
        show "ms_SubID n \<noteq> ms_SubID m" using assms(2) that by (metis image_eqI list.set_map)
      qed
      then show ?thesis by (simp add: list_all_iff)
    qed
    ultimately show ?thesis using ips run by (simp add: migrating_def)
  qed
qed

context provisioner
begin

lemma leads_migrate_loop:
  assumes "vs_provisioner s = pv" "distinct (map ms_SubID subs)"
  shows "leads (migrating fromID subs) (migrating fromID [])
    (migrate_loop s fromID reason oldServer subs)"
  using assms(2)
proof (induction subs)
  case Nil
  then show ?case by (simp add: leads_def return_def)
next
  case (Cons m rest)
  have one: "leads (migrating fromID (m # rest)) (migrating fromID rest)
      (migrate_one s fromID reason oldServer m)"
    using Cons.prems by (intro leads_migrate_one assms(1) leads_Reassign)
      (auto simp: migrating_def)
  have IH: "leads (migrating fromID rest) (migrating fromID [])
      (bind (migrate_loop s fromID reason oldServer rest) (\<lambda>x. return (f x)))" for f
    using Cons by (intro leads_then quiet_return) simp
  show ?case
    unfolding leads_def
  proof (intro allI impI)
    fix w :: world assume I: "migrating fromID (m # rest) (w_db w)"
    obtain r w1 where 1: "migrate_one s fromID reason oldServer m w = (r, w1)" by fastforce
    then have "migrating fromID rest (w_db w1)" using one I by (metis leads_def snd_conv)
    then show "migrating fromID [] (w_db (snd (migrate_loop s fromID reason oldServer (m # rest) w)))"
      using IH [of "\<lambda>results. case r of Inl e \<Rightarrow> results | Inr u \<Rightarrow>
          \<lparr>mr_UserID = ms_UserID m, mr_TelegramID = ms_TelegramID m,
           mr_Country = ms_Country m, mr_SubID = ms_SubID m\<rparr> # results"]
      by (simp add: bind_def [of "attempt _"] attempt_def 1 leads_def)
  qed
qed

end

text \<open>One row at most per subscription, since user and country ids are unique.\<close>

lemma count_where_key: "distinct (map key rows) \<Longrightarrow> count_where (\<lambda>r. key r = k) rows \<le> 1"
proof (induction rows)
  case (Cons r rows)
  show ?case
  proof (cases "key r = k")
    case True
    then have "k \<notin> key ` set rows" using Cons.prems by auto
    then have "count_where (\<lambda>r. key r = k) rows = 0" by (auto simp: count_where_0)
    with True show ?thesis by simp
  qed (use Cons in simp)
qed simp

lemma length_join1:
  "length (concat (map (\<lambda>c. if A \<and> key c = b \<and> R then [h c] else []) cs)) =
    (if A \<and> R then count_where (\<lambda>c. key c = b) cs else 0)"
  by (induction cs) auto

lemma length_join2:
  "length (concat (map (\<lambda>u. concat (map (\<lambda>c. if key1 u = a \<and> key2 c = b \<and> R then [h u c] else []) cs)) us)) =
    (if R then count_where (\<lambda>u. key1 u = a) us * count_where (\<lambda>c. key2 c = b) cs else 0)"
  by (induction us) (simp_all add: length_join1)

lemma short_list: "length xs \<le> 1 \<Longrightarrow> set xs \<subseteq> {x} \<Longrightarrow> xs = [] \<or> xs = [x]"
  by (cases xs) auto

definition active_subs :: "uuid \<Rightarrow> db \<Rightarrow> MigrationSub list" where
  "active_subs serverID d =
     [\<lparr>ms_SubID = sub_id s, ms_UserID = sub_user_id s, ms_CountryID = sub_country_id s,
       ms_Protocol = sub_protocol s, ms_Label = sub_label s, ms_TelegramID = u_telegram_id u,
       ms_Country = c_name co\<rparr>.
       s \<leftarrow> subscriptions d, u \<leftarrow> users d, co \<leftarrow> countries d,
       u_id u = sub_user_id s \<and> c_id co = sub_country_id s \<and>
       sub_server_id s = serverID \<and> sub_status s = ''active'']"

lemma active_subs_ids:
  assumes "distinct (map u_id (users d))" "distinct (map c_id (countries d))"
    "distinct (map sub_id (subscriptions d))"
  shows "distinct (map ms_SubID (active_subs i d))"
    "list_all (\<lambda>m. lives_on (ms_SubID m) i d) (active_subs i d)"
proof -
  show "list_all (\<lambda>m. lives_on (ms_SubID m) i d) (active_subs i d)"
    by (auto simp: list_all_iff active_subs_def lives_on_def list_ex_iff on_server_def
        split: if_splits)
  define g where "g s = map ms_SubID (concat (map (\<lambda>u. concat (map (\<lambda>co.
      if u_id u = sub_user_id s \<and> c_id co = sub_country_id s \<and> sub_server_id s = i \<and>
         sub_status s = ''active''
      then [\<lparr>ms_SubID = sub_id s, ms_UserID = sub_user_id s, ms_CountryID = sub_country_id s,
         ms_Protocol = sub_protocol s, ms_Label = sub_label s, ms_TelegramID = u_telegram_id u,
         ms_Country = c_name co\<rparr>] else []) (countries d))) (users d)))" for s :: subscription_row
  have g: "g s = [] \<or> g s = [sub_id s]" for s :: subscription_row
  proof (rule short_list)
    have "count_where (\<lambda>u. u_id u = sub_user_id s) (users d) *
        count_where (\<lambda>co. c_id co = sub_country_id s) (countries d) \<le> 1 * 1"
      using assms(1,2) by (intro mult_le_mono count_where_key)
    then show "length (g s) \<le> 1" unfolding g_def length_map length_join2 by simp
    show "set (g s) \<subseteq> {sub_id s}" by (auto simp: g_def split: if_splits)
  qed
  have "map ms_SubID (active_subs i d) = concat (map g (subscriptions d))"
    unfolding active_subs_def g_def by (simp add: map_concat comp_def)
  moreover have "distinct (concat (map g ss)) \<and> set (concat (map g ss)) \<subseteq> sub_id ` set ss"
    if "distinct (map sub_id ss)" for ss
    using that
  proof (induction ss)
    case (Cons x ss)
    then have IH: "distinct (concat (map g ss))" "set (concat (map g ss)) \<subseteq> sub_id ` set ss"
      and x: "sub_id x \<notin> sub_id ` set ss" by auto
    then have "sub_id x \<notin> set (concat (map g ss))" by blast
    with IH g [of x] show ?case by (auto simp del: set_concat)
  qed simp
  ultimately show "distinct (map ms_SubID (active_subs i d))" using assms(3) by simp
qed

lemma MigrateServer_counts_ips:
  assumes "vs_provisioner s = NewProvisioner mode token"
    and "distinct (map u_id (users (w_db w)))" "distinct (map c_id (countries (w_db w)))"
    and "load_ok (w_db w)" "ips_ok (w_db w)"
  shows "load_ok (w_db (snd (MigrateServer s fromID reason w))) \<and>
    ips_ok (w_db (snd (MigrateServer s fromID reason w)))"
proof -
  let ?I = "\<lambda>d. d = w_db w" and ?J = "migrating fromID []"
  have IJ: "?I d \<Longrightarrow> ?J d" for d using assms(4,5) by (simp add: migrating_def)
  have "leads ?I ?J (MigrateServer s fromID reason)"
    unfolding leads_def
  proof (intro allI impI)
    fix v :: world assume v: "w_db v = w_db w"
    obtain r v1 where 1: "ActiveSubsOnServer fromID v = (r, v1)" by fastforce
    have d1: "w_db v1 = w_db w"
      using quiet_fields(1) [OF quiet_reads(8) 1] v by simp
    show "?J (w_db (snd (MigrateServer s fromID reason v)))"
    proof (cases r)
      case (Inl e)
      with 1 d1 IJ show ?thesis by (simp add: MigrateServer_def bind_def)
    next
      case (Inr subs)
      then have "subs = active_subs fromID (w_db v)"
        using 1 unfolding ActiveSubsOnServer_def active_subs_def
        by (auto elim!: sql_InrD dest!: wrap_InrD select_InrD)
      then have subs: "distinct (map ms_SubID subs)" "migrating fromID subs (w_db w)"
        using active_subs_ids [OF assms(2,3)] assms(4,5) v
        by (simp_all add: migrating_def load_ok_def)
      obtain r2 v2 where "GetServerByID fromID v1 = (r2, v2)" by fastforce
      then have 2: "attempt (GetServerByID fromID) v1 = (Inr r2, v2)" by (simp add: attempt_def)
      have d2: "w_db v2 = w_db w"
        using quiet_fields(1) [OF quiet_attempt [OF quiet_reads(3)] 2] d1 by simp
      have "leads (migrating fromID subs) ?J (migrate_loop s fromID reason old subs)" for old
        using assms(1) subs(1) by (rule selected.leads_migrate_loop)
      with subs(2) d2 show ?thesis
        by (simp add: MigrateServer_def bind_def 1 2 Inr leads_def)
    qed
  qed
  then show ?thesis by (simp add: leads_def migrating_def)
qed

text \<open>
  Migrating a server keeps the client counts exact and the addresses unique, whatever fails on
  the way: a node, the object store, the random source or any statement of any transaction.
\<close>

theorem MigrateServer_keeps_invariants:
  assumes "vs_provisioner s = NewProvisioner mode token"
    and "distinct (map u_id (users (w_db w)))" "distinct (map c_id (countries (w_db w)))"
    and "load_ok (w_db w)" "ips_ok (w_db w)"
  shows "load_ok (w_db (snd (MigrateServer s fromID reason w))) \<and>
    ips_ok (w_db (snd (MigrateServer s fromID reason w)))"
  using assms by (rule MigrateServer_counts_ips)

section \<open>Creating\<close>

text \<open>An operation whose errors leave the tables alone.\<close>

definition err_same :: "'a go \<Rightarrow> bool" where
  "err_same m \<longleftrightarrow> (\<forall>w e w'. m w = (Inl e, w') \<longrightarrow> w_db w' = w_db w)"

lemma err_same_db_same: "db_same m \<Longrightarrow> err_same m"
  unfolding err_same_def db_same_def by (metis snd_conv)

lemma err_same_bind:
  assumes m: "db_same m" and f: "\<And>x. err_same (f x)"
  shows "err_same (bind m f)"
  unfolding err_same_def
proof (intro allI impI)
  fix w e w' assume run: "bind m f w = (Inl e, w')"
  obtain r w1 where 1: "m w = (r, w1)" by fastforce
  then have "w_db w1 = w_db w" using m by (metis db_same_def snd_conv)
  then show "w_db w' = w_db w"
    using run 1 f by (cases r) (auto simp: bind_def err_same_def)
qed

lemma err_same_last: "err_same m \<Longrightarrow> err_same (bind m (\<lambda>x. return (f x)))"
  unfolding err_same_def bind_def return_def by (auto split: prod.splits sum.splits)

lemma err_same_case_prod: "(\<And>x y. err_same (f x y)) \<Longrightarrow> err_same (case v of (x, y) \<Rightarrow> f x y)"
  by (cases v) auto

lemma err_same_Persist: "err_same (Persist p c)"
  unfolding err_same_def using tx_errors(1) by blast

lemma bind_case_prod_return:
  "bind m (\<lambda>v. case v of (x, y) \<Rightarrow> return (f x y)) = bind m (\<lambda>v. return (f (fst v) (snd v)))"
  by (simp add: bind_def case_prod_beta)

context provisioner
begin

lemma err_same_Create:
  assumes "vs_provisioner s = pv"
  shows "err_same (Create s inp)"
proof (cases "Protocol_Valid (ci_Protocol inp)")
  case True
  show ?thesis
    unfolding Create_def bind_case_prod_return
    by (simp only: True simp_thms if_False)
      ((rule err_same_last, rule err_same_Persist) | rule err_same_case_prod |
       (rule err_same_bind, rule db_same_storeConfig) |
       (rule err_same_bind, rule db_same_quiet, (intro quiet_intro quiet_provision [OF assms])[1]))+
next
  case False
  then show ?thesis by (simp add: Create_def err_same_def throw_def)
qed

end

text \<open>
  C21. A creation that fails, at whatever step - an unknown plan, no server, an exhausted subnet, a
  node, the store, or any statement of the transaction - leaves the tables exactly as they were.
\<close>

theorem Create_error_atomic:
  assumes "vs_provisioner s = NewProvisioner mode token" "Create s inp w = (Inl e, w')"
  shows "w_db w' = w_db w"
  using selected.err_same_Create [OF assms(1)] assms(2) by (simp add: err_same_def)

end
