(* ===== verification/Samples.thy ===== *)
theory Samples
  imports World
begin

text \<open>
  A small concrete world on which the properties are exercised: nothing fails, identifiers count
  up from 256, the clock advances a millisecond per call, one user, one country, one plan and two
  servers.  The cryptographic functions are concrete functions with the laws the code relies on.
\<close>

definition sample_env :: env where
  "sample_env = \<lparr>env_fault = \<lambda>n. False, env_uuid = \<lambda>n. of_nat (256 + n),
     env_clock = \<lambda>n. 1700000000000000000 + 1000000 * int n,
     env_rand = \<lambda>n k. replicate k (char_of (n mod 256)),
     env_http_status = \<lambda>n. 200, env_sha256 = \<lambda>s. take 32 (s @ replicate 32 (CHR 0x00)),
     env_x25519_base = \<lambda>s. Some (rev s), env_seal = \<lambda>k n p. p, env_unseal = \<lambda>k n c. Some c,
     env_qr_png = \<lambda>c n. Some (''PNG'' @ c), env_http_body = \<lambda>n. ''{}'',
     env_md5 = \<lambda>s. take 16 (s @ replicate 16 (CHR 0x00)),
     env_sha1 = \<lambda>s. take 20 (s @ replicate 20 (CHR 0x00)),
     env_bcrypt_hash = \<lambda>n pw. Some (''$2a$'' @ pw),
     env_bcrypt_check = \<lambda>h pw. h = ''$2a$'' @ pw,
     env_jwt_sign = \<lambda>k c. Some (jc_ID c),
     env_jwt_parse = \<lambda>k t s. None, env_unicode = \<lambda>r. Rune_Other\<rparr>"

definition sample_user :: user_row where
  "sample_user = \<lparr>u_id = 1, u_email = Some ''a@example.com'', u_phone = None,
     u_telegram_id = Some 42, u_password_hash = None, u_role = ''user'', u_status = ''active'',
     u_language = ''en'', u_timezone = ''UTC'', u_currency = ''USD'', u_country = None,
     u_created_at = 0, u_totp_secret = None, u_totp_enabled = False\<rparr>"

definition sample_server :: "uuid \<Rightarrow> bool \<Rightarrow> server_row" where
  "sample_server i reserve = \<lparr>s_id = i, s_country_id = 2, s_hostname = ''node'',
     s_public_host = ''node.example.com'', s_agent_url = Some ''http://agent'',
     s_status = ''active'', s_reserve = reserve, s_priority = 100, s_capacity = 1000,
     s_client_count = 0, s_wg_port = Some 51820, s_wg_public_key = Some ''spub'',
     s_wg_subnet = Some ''10.7.0.0/24'', s_wg_dns = Some ''1.1.1.1'',
     s_reality_port = Some 443, s_reality_public_key = Some ''pbk'', s_reality_sni = Some ''sni'',
     s_reality_short_id = Some ''ab'', s_reality_dest = None, s_ss_port = Some 8388,
     s_ss_method = Some ''2022-blake3-aes-128-gcm'', s_ss_server_key = Some ''skey'',
     s_trojan_port = Some 8443, s_health_score = 100, s_last_seen = None\<rparr>"

definition sample_plan :: plan_row where
  "sample_plan = \<lparr>pl_id = 3, pl_name = ''Month'', pl_price = 999, pl_currency = ''USD'',
     pl_days = 30, pl_max_devices = 2, pl_active = True\<rparr>"

definition sample_country :: country_row where
  "sample_country = \<lparr>c_id = 2, c_iso = ''NL'', c_name = ''Netherlands'', c_flag = None,
     c_enabled = True, c_priority = 100\<rparr>"

definition sample_db :: db where
  "sample_db = empty_db\<lparr>users := [sample_user], countries := [sample_country],
     plans := [sample_plan], servers := [sample_server 4 False, sample_server 5 True]\<rparr>"

definition sample_world :: world where
  "sample_world = \<lparr>w_env = sample_env, w_tick = 0, w_tx_now = None, w_db = sample_db,
     w_store = [], w_redis = [], w_nodes = []\<rparr>"

text \<open>The fields, so that the constants stay folded when an operation runs.\<close>

lemma sample_env_simps [simp]:
  "env_fault sample_env n = False" "env_uuid sample_env n = of_nat (256 + n)"
  "env_clock sample_env n = 1700000000000000000 + 1000000 * int n"
  "env_rand sample_env n k = replicate k (char_of (n mod 256))"
  "env_http_status sample_env n = 200"
  "env_sha256 sample_env s = take 32 (s @ replicate 32 (CHR 0x00))"
  "env_x25519_base sample_env s = Some (rev s)" "env_seal sample_env key nn p = p"
  "env_unseal sample_env key nn c = Some c"
  "env_qr_png sample_env c i = Some (''PNG'' @ c)" "env_http_body sample_env n = ''{}''"
  "env_md5 sample_env s = take 16 (s @ replicate 16 (CHR 0x00))"
  "env_sha1 sample_env s = take 20 (s @ replicate 20 (CHR 0x00))"
  "env_bcrypt_hash sample_env n pw = Some (''$2a$'' @ pw)"
  "env_bcrypt_check sample_env h pw \<longleftrightarrow> h = ''$2a$'' @ pw"
  "env_jwt_sign sample_env secret claims = Some (jc_ID claims)"
  "env_jwt_parse sample_env secret t s = None" "env_unicode sample_env r = Rune_Other"
  by (simp_all add: sample_env_def)

lemma sample_world_simps [simp]:
  "w_env sample_world = sample_env" "w_tick sample_world = 0" "w_tx_now sample_world = None"
  "w_db sample_world = sample_db" "w_store sample_world = []" "w_redis sample_world = []"
  "w_nodes sample_world = []"
  by (simp_all add: sample_world_def)

lemma sample_db_simps [simp]:
  "users sample_db = [sample_user]" "countries sample_db = [sample_country]"
  "plans sample_db = [sample_plan]"
  "servers sample_db = [sample_server 4 False, sample_server 5 True]"
  "subscriptions sample_db = []" "vpn_configs sample_db = []" "vpn_keys sample_db = []"
  "promocodes sample_db = []" "orders sample_db = []" "payments sample_db = []"
  "promo_redemptions sample_db = []" "ledger sample_db = []" "webhook_events sample_db = []"
  "user_sessions sample_db = []" "devices sample_db = []" "user_profiles sample_db = []"
  "migrations sample_db = []" "audit_log sample_db = []" "server_health sample_db = []"
  by (simp_all add: sample_db_def empty_db_def)

lemma sample_row_simps [simp]:
  "u_id sample_user = 1" "c_id sample_country = 2" "c_enabled sample_country"
  "pl_id sample_plan = 3" "pl_active sample_plan" "pl_days sample_plan = 30"
  "pl_max_devices sample_plan = 2" "pl_name sample_plan = ''Month''" "pl_price sample_plan = 999"
  "pl_currency sample_plan = ''USD''"
  by (simp_all add: sample_user_def sample_country_def sample_plan_def)

lemma sample_server_simps [simp]:
  "s_id (sample_server i r) = i" "s_country_id (sample_server i r) = 2"
  "s_status (sample_server i r) = ''active''" "s_reserve (sample_server i r) = r"
  "s_priority (sample_server i r) = 100" "s_client_count (sample_server i r) = 0"
  "s_public_host (sample_server i r) = ''node.example.com''"
  "s_agent_url (sample_server i r) = Some ''http://agent''"
  "s_wg_port (sample_server i r) = Some 51820" "s_wg_public_key (sample_server i r) = Some ''spub''"
  "s_wg_subnet (sample_server i r) = Some ''10.7.0.0/24''"
  "s_wg_dns (sample_server i r) = Some ''1.1.1.1''"
  "s_reality_port (sample_server i r) = Some 443"
  "s_reality_public_key (sample_server i r) = Some ''pbk''"
  "s_reality_sni (sample_server i r) = Some ''sni''"
  "s_reality_short_id (sample_server i r) = Some ''ab''"
  "s_ss_port (sample_server i r) = Some 8388"
  "s_ss_method (sample_server i r) = Some ''2022-blake3-aes-128-gcm''"
  "s_ss_server_key (sample_server i r) = Some ''skey''"
  "s_trojan_port (sample_server i r) = Some 8443"
  by (simp_all add: sample_server_def)

section \<open>Running operations by simplification\<close>

text \<open>
  The definitions of the combinators, and congruences that keep the simplifier out of the
  continuation of a call until the call has its result.
\<close>

lemma bind_cong_weak: "m = m' \<Longrightarrow> bind m f = bind m' f" by simp

lemma catch_cong_weak: "m = m' \<Longrightarrow> catch m h = catch m' h" by simp

lemmas monad_defs = bind_def catch_def return_def throw_def wrap_def no_rows_def attempt_def
  of_sum_def ask_def sql_def time_Now_def uuid_New_def rand_Read_def transaction_def Let_def
  select_def select_row_def modify_def now_of_def pg_time_def by_key_def

end
