(* ===== verification/VPNAccess.thy ===== *)
theory VPNAccess
  imports VPNServiceCorrect Samples
begin

text \<open>
  Who can read what: the configuration a creation stored is the one its owner fetches, and a VPN of
  another user, or one that was deleted, is not found by any operation.
\<close>

section \<open>The hash of a generated configuration\<close>

text \<open>What a successful quiet operation yields, given the environment it runs in.\<close>

definition yields :: "(env \<Rightarrow> 'a \<Rightarrow> bool) \<Rightarrow> 'a go \<Rightarrow> bool" where
  "yields Q m \<longleftrightarrow> (\<forall>w x w'. m w = (Inr x, w') \<longrightarrow> Q (w_env w) x)"

named_theorems yields_intro \<open>what operations yield\<close>

lemma yieldsD: "yields Q m \<Longrightarrow> m w = (Inr x, w') \<Longrightarrow> Q (w_env w) x"
  by (simp add: yields_def)

lemma yields_bind [yields_intro]: "quiet m \<Longrightarrow> (\<And>x. yields Q (f x)) \<Longrightarrow> yields Q (bind m f)"
  unfolding yields_def by (metis bind_InrD quiet_fields(4))

lemma yields_throw [yields_intro]: "yields Q (throw e)"
  by (simp add: yields_def throw_def)

lemma yields_case_prod [yields_intro]:
  "(\<And>x y. yields Q (f x y)) \<Longrightarrow> yields Q (case v of (x, y) \<Rightarrow> f x y)"
  by (cases v) auto

lemma yields_case_option [yields_intro]:
  "yields Q m \<Longrightarrow> (\<And>x. yields Q (f x)) \<Longrightarrow> yields Q (case v of None \<Rightarrow> m | Some x \<Rightarrow> f x)"
  by (cases v) auto

lemma yields_if [yields_intro]: "yields Q m \<Longrightarrow> yields Q n \<Longrightarrow> yields Q (if b then m else n)"
  by simp

lemma yields_hash [yields_intro]:
  "(\<And>e. Q e (f (hex_EncodeToString (env_sha256 e t)))) \<Longrightarrow>
    yields Q (bind (sha256hex t) (\<lambda>h. return (f h)))"
  by (simp add: yields_def bind_def sha256hex_def ask_def return_def)

definition hashed :: "env \<Rightarrow> generated \<Rightarrow> bool" where
  "hashed e gen \<longleftrightarrow> g_hash gen = hex_EncodeToString (env_sha256 e (g_configText gen))"

lemma quiet_allowed_ips [quiet_intro]: "quiet (allowed_ips s r)"
  unfolding allowed_ips_def by (intro quiet_intro)

lemma generate_hashed: "yields hashed (generate s srv p label routing)"
  unfolding generate_def generateWireGuard_def generateReality_def generateShadowsocks_def
    generateTrojan_def Let_def
  by (intro yields_hash yields_bind yields_throw yields_case_prod yields_case_option yields_if
      quiet_intro) (simp_all add: hashed_def)

section \<open>What a successful creation did\<close>

lemma env_storeConfig: "storeConfig s c gen w = (r, w') \<Longrightarrow> w_env w' = w_env w"
proof -
  have k: "keeps (\<lambda>x. w_env x = e) (Encrypt k t)" "keeps (\<lambda>x. w_env x = e) (Store_Put k t)"
      "keeps (\<lambda>x. w_env x = e) (renderQRPNG t n)" for e k t n
    using quiet_keys(7) quiet_renderQRPNG
    by (auto simp: keeps_def quiet_def same_state_def Store_Put_def)
  have "keeps (\<lambda>x. w_env x = e) (storeConfig s c gen)" for e
    unfolding storeConfig_def Let_def by (intro keeps_intro k)
  then show "storeConfig s c gen w = (r, w') \<Longrightarrow> w_env w' = w_env w"
    by (metis (mono_tags, lifting) keeps_def snd_conv)
qed

lemma qr_key_differs: "''qr/'' @ x \<noteq> ''cfg/'' @ y"
  by simp

lemma storeConfig_InrD:
  assumes "storeConfig s c gen w = (Inr (cfgKey, qrKey), w')"
  shows "cfgKey = ''cfg/'' @ uuid_String c \<and>
    (\<exists>nonce. length nonce = NonceSize \<and> map_of (w_store w') cfgKey =
      Some (StdEncoding_EncodeToString
        (nonce @ env_seal (w_env w) (vs_cipher s) nonce (g_configText gen))))"
proof -
  let ?key = "''cfg/'' @ uuid_String c"
  have "\<exists>enc w1. Encrypt (vs_cipher s) (g_configText gen) w = (Inr enc, w1) \<and>
      cfgKey = ?key \<and> map_of (w_store w') ?key = Some enc"
    using assms unfolding storeConfig_def Let_def
    by (auto elim!: bind_InrD dest!: return_InrD split: sum.splits if_splits
        simp: Store_Put_def map_of_store_put renderQRPNG_def ask_def)
  then obtain enc w1 where 1: "Encrypt (vs_cipher s) (g_configText gen) w = (Inr enc, w1)"
      and r: "cfgKey = ?key" "map_of (w_store w') ?key = Some enc"
    by auto
  obtain nonce where "length nonce = NonceSize" "enc = StdEncoding_EncodeToString
      (nonce @ env_seal (w_env w) (vs_cipher s) nonce (g_configText gen))"
    using 1 by (rule Encrypt_InrD)
  with r show ?thesis by auto
qed

text \<open>
  What a creation leaves behind: the row it wrote last belongs to the user, and its object key
  holds the sealed text whose hash the row has.
\<close>

definition created :: "VPNService \<Rightarrow> CreateInput \<Rightarrow> world \<Rightarrow> VPNView \<Rightarrow> world \<Rightarrow> bool" where
  "created s inp w v w' \<longleftrightarrow>
     (\<exists>params configID w2 nonce plain.
        Persist params configID w2 = (Inr (vw_Subscription v, vw_Config v), w') \<and>
        w_db w2 = w_db w \<and> w_env w2 = w_env w \<and> cp_UserID params = ci_UserID inp \<and>
        cp_Hash params = hex_EncodeToString (env_sha256 (w_env w) plain) \<and>
        length nonce = NonceSize \<and>
        map_of (w_store w2) (cp_ConfigObjectKey params) =
          Some (StdEncoding_EncodeToString (nonce @ env_seal (w_env w) (vs_cipher s) nonce plain)))"

lemma applyEncryptedKeys_InrD:
  assumes "applyEncryptedKeys s gen p w = (Inr p', w')"
  shows "cp_UserID p' = cp_UserID p \<and> cp_Hash p' = cp_Hash p \<and>
    cp_ConfigObjectKey p' = cp_ConfigObjectKey p"
  using assms unfolding applyEncryptedKeys_def Let_def
  by (auto elim!: bind_InrD dest!: return_InrD split: option.splits)

context provisioner
begin

lemma Create_created:
  assumes pv: "vs_provisioner s = pv" and run: "Create s inp w = (Inr v, w')"
  shows "created s inp w v w'"
proof -
  have valid: "Protocol_Valid (ci_Protocol inp)"
    using run by (auto simp: Create_def throw_def split: if_splits)
  obtain days maxd w1 srv w2 c w3 gen w4 w5 cfgKey qrKey w6 now w7 params w8 sub cfg where
    1: "plan_terms (ci_PlanID inp) w = (Inr (days, maxd), w1)"
    and 2: "SelectServer (ci_CountryID inp) (ci_Protocol inp) w1 = (Inr srv, w2)"
    and 3: "uuid_New w2 = (Inr c, w3)"
    and 4: "generate s srv (ci_Protocol inp) (label_or_VPN (ci_Label inp)) (ci_Routing inp) w3 =
      (Inr gen, w4)"
    and 5: "wrap ''provision node'' (provision s srv (ci_Protocol inp) gen) w4 = (Inr (), w5)"
    and 6: "storeConfig s c gen w5 = (Inr (cfgKey, qrKey), w6)"
    and 7: "time_Now w6 = (Inr now, w7)"
    and 8: "applyEncryptedKeys s gen
      (create_params inp srv maxd (now + days_Duration days) gen cfgKey qrKey) w7 = (Inr params, w8)"
    and 9: "Persist params c w8 = (Inr (sub, cfg), w')"
    and v: "v = \<lparr>vw_Subscription = sub, vw_Config = cfg, vw_Country = '''',
      vw_Host = srv_PublicHost srv\<rparr>"
    using run valid unfolding Create_def
    by (auto elim!: bind_InrD dest!: return_InrD)
  note q = quiet_fields [OF quiet_plan_terms 1] quiet_fields [OF quiet_reads(1) 2]
    quiet_fields [OF quiet_calls(2) 3] quiet_fields [OF quiet_generate 4]
    quiet_fields [OF quiet_wrap [OF quiet_provision [OF pv]] 5] quiet_fields [OF quiet_calls(1) 7]
    quiet_fields [OF quiet_applyEncryptedKeys 8]
  have env6: "w_env w6 = w_env w5" using 6 by (rule env_storeConfig)
  have db6: "w_db w6 = w_db w5" using db_same_storeConfig 6 by (metis db_same_def snd_conv)
  obtain nonce where n: "length nonce = NonceSize"
      "cfgKey = ''cfg/'' @ uuid_String c"
      "map_of (w_store w6) cfgKey = Some (StdEncoding_EncodeToString
        (nonce @ env_seal (w_env w5) (vs_cipher s) nonce (g_configText gen)))"
    using storeConfig_InrD [OF 6] by auto
  have "hashed (w_env w3) gen" using generate_hashed 4 by (rule yieldsD)
  then have "cp_Hash params = hex_EncodeToString (env_sha256 (w_env w) (g_configText gen))"
    using applyEncryptedKeys_InrD [OF 8] q by (simp add: create_params_def hashed_def)
  moreover have "cp_UserID params = ci_UserID inp" "cp_ConfigObjectKey params = cfgKey"
    using applyEncryptedKeys_InrD [OF 8] by (simp_all add: create_params_def)
  ultimately show ?thesis
    unfolding created_def using 9 n q env6 db6 v
    by (intro exI [of _ params] exI [of _ c] exI [of _ w8] exI [of _ nonce]
        exI [of _ "g_configText gen"]) simp
qed

end

section \<open>Reading back\<close>

text \<open>Every configuration belongs to a subscription, as the foreign key requires.\<close>

definition configs_fk :: "db \<Rightarrow> bool" where
  "configs_fk d \<longleftrightarrow>
     list_all (\<lambda>c. has_key sub_id (vc_subscription_id c) (subscriptions d)) (vpn_configs d)"

lemma artifact_of_new:
  assumes "\<not> has_key sub_id (sub_id r) (subscriptions d)" "configs_fk d"
    "sub_status r \<noteq> ''deleted''" "vc_subscription_id c = sub_id r"
    "subscriptions d' = subscriptions d @ [r]" "vpn_configs d' = vpn_configs d @ [c]"
  shows "artifact_row (sub_user_id r) (sub_id r) d' = Some c"
proof -
  have none: "find_first (\<lambda>s. sub_id s = sub_id r \<and> sub_user_id s = sub_user_id r \<and>
      sub_status s \<noteq> ''deleted'') (subscriptions d) = None"
    using assms(1) by (auto simp: has_key_iff)
  then have "live_sub (sub_user_id r) (sub_id r) d' = Some r"
    unfolding live_sub_def assms(5) find_first_append none using assms(3) by simp
  moreover have "filter (\<lambda>c. vc_subscription_id c = sub_id r) (vpn_configs d) = []"
    using assms(1,2) by (auto simp: configs_fk_def list_all_iff filter_empty_conv)
  then have "latest_config (sub_id r) d' = Some c"
    using assms(4) by (simp add: latest_config_def assms(6) first_row_def)
  ultimately show ?thesis by (simp add: artifact_row_def)
qed

lemma created_readable:
  assumes "created s inp w v w'" "aead_law (w_env w)" "configs_fk (w_db w)"
    "\<And>n. w_tick w' \<le> n \<Longrightarrow> \<not> env_fault (w_env w) n"
  shows "\<exists>plain w''. FetchConfig s (ci_UserID inp) (sb_ID (vw_Subscription v)) w' =
      (Inr (plain, ''text/plain; charset=utf-8''), w'') \<and>
    hex_EncodeToString (env_sha256 (w_env w) plain) = cf_Hash (vw_Config v)"
proof -
  obtain params c w2 nonce plain where p:
    "Persist params c w2 = (Inr (vw_Subscription v, vw_Config v), w')"
    "w_db w2 = w_db w" "w_env w2 = w_env w" "cp_UserID params = ci_UserID inp"
    "cp_Hash params = hex_EncodeToString (env_sha256 (w_env w) plain)" "length nonce = NonceSize"
    "map_of (w_store w2) (cp_ConfigObjectKey params) =
      Some (StdEncoding_EncodeToString (nonce @ env_seal (w_env w) (vs_cipher s) nonce plain))"
    using assms(1) unfolding created_def by blast
  obtain r cr where rc: "subscriptions (w_db w') = subscriptions (w_db w) @ [r]"
      "vpn_configs (w_db w') = vpn_configs (w_db w) @ [cr]" "persisted_sub params r"
      "persisted_config params c (sub_id r) 1 cr" "vw_Subscription v = sub_of_row r"
      "cfg_of_row cr = Some (vw_Config v)" "\<not> has_key sub_id (sub_id r) (subscriptions (w_db w))"
      "w_store w' = w_store w2" "w_env w' = w_env w2"
    using Persist_InrD [OF p(1)] unfolding p(2) by fastforce
  have art: "artifact_row (ci_UserID inp) (sub_id r) (w_db w') = Some cr"
    using artifact_of_new [OF rc(7) assms(3) _ _ rc(1,2)] rc(3,4) p(4)
    by (simp add: persisted_sub_def persisted_config_def)
  have ok: "\<not> env_fault (w_env w') n" if "w_tick w' \<le> n" for n
    using assms(4) that rc(9) p(3) by simp
  define w1 where "w1 = step_tick w'"
  have 1: "GetArtifactForUser (ci_UserID inp) (sub_id r) w' = (Inr
      \<lparr>ca_ConfigObjectKey = cp_ConfigObjectKey params, ca_QRObjectKey = cp_QRObjectKey params,
       ca_Protocol = cp_Protocol params, ca_URI = cp_URI params\<rparr>, w1)"
    using rc(4) ok by (simp add: GetArtifactForUser_def no_rows_def catch_def bind_def sql_def
        select_row_def art persisted_config_def return_def w1_def Let_def)
  have 2: "Store_Get (cp_ConfigObjectKey params) w1 = (Inr (StdEncoding_EncodeToString
      (nonce @ env_seal (w_env w) (vs_cipher s) nonce plain)), step_tick w1)"
    using ok p(7) rc(8) by (simp add: Store_Get_def w1_def)
  have e: "w_env (step_tick w1) = w_env w" using rc(9) p(3) by (simp add: w1_def)
  have 3: "Decrypt (vs_cipher s) (StdEncoding_EncodeToString
      (nonce @ env_seal (w_env w) (vs_cipher s) nonce plain)) (step_tick w1) = (Inr plain, step_tick w1)"
    using Decrypt_sealed [of "step_tick w1" nonce "vs_cipher s" plain] assms(2) p(6)
    by (simp only: e)
  have "Some (vw_Config v) = cfg_of_row cr" using rc(6) by simp
  then have "cf_Hash (vw_Config v) = cp_Hash params"
    using rc(4) by (simp add: cfg_of_row_def persisted_config_def)
  then show ?thesis
    using 1 2 3 p(5) rc(5) by (simp add: FetchConfig_def bind_def return_def sub_of_row_def)
qed

text \<open>
  C22. A created VPN can be read by its owner: right after a successful creation, the owner's
  request for the configuration returns a text whose SHA-256 is the hash the creation reported,
  decrypted from the object store, provided the calls of the request themselves do not fail and
  the AEAD opens what it sealed.
\<close>

theorem created_config_readable:
  assumes "vs_provisioner s = NewProvisioner mode token" "aead_law (w_env w)"
    "configs_fk (w_db w)" "Create s inp w = (Inr v, w')"
    "\<And>n. w_tick w' \<le> n \<Longrightarrow> \<not> env_fault (w_env w) n"
  shows "\<exists>plain w''. FetchConfig s (ci_UserID inp) (sb_ID (vw_Subscription v)) w' =
      (Inr (plain, ''text/plain; charset=utf-8''), w'') \<and>
    hex_EncodeToString (env_sha256 (w_env w) plain) = cf_Hash (vw_Config v)"
  using selected.Create_created [OF assms(1,4)] assms(2,3,5) by (rule created_readable)

lemmas create_run_defs = monad_defs protocol_defs Protocol_Valid_def plan_terms_def GetPlan_def
  SelectServer_def first_row_def eligible_def protocolAvailabilityClause_def load_order_def
  generate_def generateReality_def scanServer_def NewUUID_def sha256hex_def label_or_VPN_def
  generated0_def provision_def NewProvisioner_def noopProvisioner_def storeConfig_def Encrypt_def
  Store_Put_def renderQRPNG_def applyEncryptedKeys_def enc_opt_def create_params_def Persist_def
  insert_subscription_def insert_config_def insert_key_def fk_ok_def fk_null_ok_def inet_in_def
  ip_taken_def set_server_def Create_def

definition sample_service :: VPNService where
  "sample_service = \<lparr>vs_cipher = ''key'', vs_provisioner = NewProvisioner ''noop'' '''',
     vs_ruCIDRs = ''''\<rparr>"

definition sample_input :: CreateInput where
  "sample_input = \<lparr>ci_UserID = 1, ci_CountryID = 2, ci_Protocol = ''vless_reality'',
     ci_PlanID = Some 3, ci_Label = None, ci_Routing = RoutingFull\<rparr>"

lemma sample_create: "\<exists>v w'. Create sample_service sample_input sample_world = (Inr v, w')"
proof -
  have "\<not> isl (fst (Create sample_service sample_input sample_world))"
    by (simp add: create_run_defs sample_service_def sample_input_def
        cong: bind_cong_weak catch_cong_weak)
  then show ?thesis
    by (cases "Create sample_service sample_input sample_world"; cases "fst (Create sample_service sample_input sample_world)") auto
qed

theorem created_config_readable_witness:
  "\<exists>v w' plain w''. Create sample_service sample_input sample_world = (Inr v, w') \<and>
    FetchConfig sample_service 1 (sb_ID (vw_Subscription v)) w' =
      (Inr (plain, ''text/plain; charset=utf-8''), w'')"
proof -
  obtain v w' where run: "Create sample_service sample_input sample_world = (Inr v, w')"
    using sample_create by blast
  have "vs_provisioner sample_service = NewProvisioner ''noop'' ''''"
    "aead_law (w_env sample_world)" "configs_fk (w_db sample_world)"
    "\<And>n. \<not> env_fault (w_env sample_world) n" "ci_UserID sample_input = 1"
    by (simp_all add: sample_service_def sample_input_def aead_law_def configs_fk_def)
  with created_config_readable [OF _ _ _ run] show ?thesis using run by metis
qed

section \<open>Nobody else\<close>

lemma update_whereD:
  "x \<in> set (update_where P f xs) \<Longrightarrow> (\<exists>y \<in> set xs. P y \<and> x = f y) \<or> x \<in> set xs \<and> \<not> P x"
  by (auto simp: set_update_where)

text \<open>The errors of a read that found nothing: the row is missing, or the query failed.\<close>

definition not_found :: "error \<Rightarrow> bool" where
  "not_found e \<longleftrightarrow> e = VPN_ErrNotFound \<or> (\<exists>s. e = Wrap s Fault)"

lemma live_sub_foreign:
  assumes "distinct (map sub_id (subscriptions d))" "r \<in> set (subscriptions d)" "sub_id r = i"
    "sub_user_id r \<noteq> u \<or> sub_status r = ''deleted''"
  shows "live_sub u i d = None"
proof (cases "live_sub u i d")
  case (Some s)
  then have s: "s \<in> set (subscriptions d)" "sub_id s = i" "sub_user_id s = u"
      "sub_status s \<noteq> ''deleted''" using live_sub_SomeD by blast+
  then have "s = r" using assms(1-3) by (metis distinct_map inj_onD)
  with s assms(4) show ?thesis by simp
qed

lemma GetArtifact_missing:
  assumes "live_sub u i (w_db w) = None"
  shows "\<exists>e w'. GetArtifactForUser u i w = (Inl e, w') \<and> not_found e"
  using assms
  by (auto simp: GetArtifactForUser_def artifact_row_def no_rows_def catch_def bind_def sql_def
      select_row_def throw_def not_found_def Let_def)

lemma SoftDelete_missing:
  assumes "live_sub u i (w_db w) = None"
  shows "\<exists>e w'. SoftDelete u i w = (Inl e, w') \<and> not_found e \<and> w_db w' = w_db w \<and>
    w_store w' = w_store w \<and> w_nodes w' = w_nodes w"
  using assms
  by (auto simp: SoftDelete_def transaction_def no_rows_def catch_def bind_def sql_def
      select_row_def throw_def not_found_def Let_def)


section \<open>Deleting\<close>

text \<open>
  C24. After a successful deletion the VPN is gone for its owner too: the row is marked deleted,
  every key of its configurations is revoked, and every later read of it in that state fails.
\<close>

theorem Delete_effective:
  assumes "vs_provisioner s = NewProvisioner mode token"
    and "distinct (map sub_id (subscriptions (w_db w)))"
    and "Delete s u i w = (Inr (), w')"
  shows "(\<exists>e w''. FetchConfig s u i w' = (Inl e, w'') \<and> not_found e) \<and>
    list_all (\<lambda>(c, k). k_status k = ''revoked'') (key_rows i (w_db w')) \<and>
    list_ex (\<lambda>r. sub_id r = i \<and> sub_user_id r = u \<and> sub_status r = ''deleted'')
      (subscriptions (w_db w'))"
proof -
  obtain del w1 where 1: "SoftDelete u i w = (Inr del, w1)"
    and rest: "bind (remove_client (vs_provisioner s) (dl_Server del) (dl_Protocol del)
        (dl_PublicKey del) (dl_ClientUUID del)) (\<lambda>_.
      for_each (\<lambda>key. ignore (Store_Remove key)) (dl_ObjectKeys del)) w1 = (Inr (), w')"
    using assms(3) unfolding Delete_def by (rule bind_InrD)
  have same: "db_same (bind (remove_client (vs_provisioner s) (dl_Server del) (dl_Protocol del)
        (dl_PublicKey del) (dl_ClientUUID del)) (\<lambda>_.
      for_each (\<lambda>key. ignore (Store_Remove key)) (dl_ObjectKeys del)))"
    unfolding assms(1) ignore_def
    by (rule db_sameI) (intro keeps_intro keeps_quiet selected.quiet_remove_client)
  then have db: "w_db w' = w_db w1" using rest by (metis db_same_def snd_conv)
  obtain r where r: "live_sub u i (w_db w) = Some r"
    and w1: "w_db w1 = (w_db w)\<lparr>
        vpn_keys := update_where (\<lambda>k. k_vpn_config_id k \<in> set (config_ids i (w_db w)))
          (\<lambda>k. k\<lparr>k_status := ''revoked''\<rparr>) (vpn_keys (w_db w)),
        subscriptions := update_where (\<lambda>s. sub_id s = i)
          (\<lambda>s. s\<lparr>sub_status := ''deleted''\<rparr>) (subscriptions (w_db w)),
        servers := update_where (\<lambda>x. s_id x = sub_server_id r) dec_load (servers (w_db w))\<rparr>"
    using SoftDelete_InrD [OF 1] by blast
  note r' = live_sub_SomeD [OF r]
  have gone: "list_ex (\<lambda>r. sub_id r = i \<and> sub_user_id r = u \<and> sub_status r = ''deleted'')
      (subscriptions (w_db w'))"
  proof -
    have "r\<lparr>sub_status := ''deleted''\<rparr> \<in> set (subscriptions (w_db w'))"
      using r' by (auto simp: db w1 set_update_where intro!: image_eqI [of _ _ r])
    then show ?thesis
      using r' by (auto simp: list_ex_iff intro!: bexI [of _ "r\<lparr>sub_status := ''deleted''\<rparr>"])
  qed
  have keys: "list_all (\<lambda>(c, k). k_status k = ''revoked'') (key_rows i (w_db w'))"
    by (auto simp: db w1 key_rows_def list_all_iff set_update_where config_ids_def
        split: if_splits)
  have "live_sub u i (w_db w') = None"
  proof (cases "live_sub u i (w_db w')")
    case (Some x)
    note x = live_sub_SomeD [OF Some]
    have "subscriptions (w_db w') = update_where (\<lambda>s. sub_id s = i)
        (\<lambda>s. s\<lparr>sub_status := ''deleted''\<rparr>) (subscriptions (w_db w))"
      by (simp add: db w1)
    with x have "x \<in> set (update_where (\<lambda>s. sub_id s = i)
        (\<lambda>s. s\<lparr>sub_status := ''deleted''\<rparr>) (subscriptions (w_db w)))" by simp
    from update_whereD [OF this] x show ?thesis by auto
  qed simp
  then obtain e w'' where "GetArtifactForUser u i w' = (Inl e, w'')" "not_found e"
    using GetArtifact_missing by blast
  with gone keys show ?thesis by (simp add: FetchConfig_def bind_def)
qed

end
