(* ===== verification/BillingInvariants.thy ===== *)
theory BillingInvariants
  imports BillingService VPNAccess
begin

text \<open>
  What every billing operation keeps: the life cycle of an order, the caps of promo codes, and the
  agreement of the ledger with the paid orders.  The client of the VPN issuer is the locale
  \<open>vpn_issuer\<close>, interpreted on the VPN service.
\<close>

lemma keeps_transaction_body [keeps_intro]:
  "keeps (on_db I) body \<Longrightarrow> keeps (on_db I) (transaction ce body)"
  by (rule keeps_transaction) (fastforce simp: keeps_def on_db_def)

lemma keeps_case_eq:
  "(v = None \<Longrightarrow> keeps I m) \<Longrightarrow> (\<And>x. v = Some x \<Longrightarrow> keeps I (f x)) \<Longrightarrow>
    keeps I (case v of None \<Rightarrow> m | Some x \<Rightarrow> f x)"
  by (cases v) auto

section \<open>The life cycle of an order\<close>

text \<open>The status changes the code makes; paid and failed orders are final.\<close>

definition status_step :: "string \<Rightarrow> string \<Rightarrow> bool" where
  "status_step s t \<longleftrightarrow> s = t \<or> s = ''wait_payment'' \<and> t \<in> {''processing'', ''paid'', ''failed''} \<or>
     s = ''processing'' \<and> t \<in> {''paid'', ''failed''}"

definition row_evolves :: "order_row \<Rightarrow> order_row \<Rightarrow> bool" where
  "row_evolves r r' \<longleftrightarrow> status_step (o_status r) (o_status r') \<and>
     r' = r\<lparr>o_status := o_status r', o_subscription_id := o_subscription_id r',
            o_paid_at := o_paid_at r'\<rparr> \<and>
     (o_status r' = o_status r \<or> o_status r' \<noteq> ''paid'' \<longrightarrow>
        o_subscription_id r' = o_subscription_id r \<and> o_paid_at r' = o_paid_at r)"

definition orders_evolve :: "order_row list \<Rightarrow> order_row list \<Rightarrow> bool" where
  "orders_evolve os os' \<longleftrightarrow> length os \<le> length os' \<and> (\<forall>i < length os. row_evolves (os ! i) (os' ! i))"

lemma row_evolves_refl [simp]: "row_evolves r r"
  by (simp add: row_evolves_def status_step_def)

lemma row_evolves_trans: "row_evolves r1 r2 \<Longrightarrow> row_evolves r2 r3 \<Longrightarrow> row_evolves r1 r3"
  by (cases r1; cases r2; cases r3) (auto simp: row_evolves_def status_step_def)

lemma orders_evolve_refl [simp]: "orders_evolve os os"
  by (simp add: orders_evolve_def)

lemma orders_evolve_trans:
  "orders_evolve a b \<Longrightarrow> orders_evolve b c \<Longrightarrow> orders_evolve a c"
  unfolding orders_evolve_def by (meson less_le_trans le_trans row_evolves_trans)

lemma orders_evolve_update:
  assumes "\<And>r. P r \<Longrightarrow> row_evolves r (f r)"
  shows "orders_evolve os (update_where P f os)"
  using assms by (simp add: orders_evolve_def update_where_def)

lemma orders_evolve_append: "orders_evolve os (os @ new)"
  by (simp add: orders_evolve_def nth_append)

text \<open>The invariant for a fixed start, so that it is one of \<open>keeps\<close>.\<close>

definition since :: "db \<Rightarrow> db \<Rightarrow> bool" where
  "since d0 d \<longleftrightarrow> orders_evolve (orders d0) (orders d)"

lemma since_refl [simp]: "since d d"
  by (simp add: since_def)

lemma stmt_keeps_since:
  "(\<And>now fresh d x d'. st now fresh d = Inr (x, d') \<Longrightarrow> orders_evolve (orders d) (orders d')) \<Longrightarrow>
    stmt_keeps (since d0) st"
  unfolding stmt_keeps_def since_def by (meson orders_evolve_trans)

lemma evolve_update_order:
  assumes "\<And>now r. o_status r \<in> set sts \<Longrightarrow> row_evolves r (f now r)"
  shows "stmt_keeps (since d0) (update_order i sts f)"
  using assms
  by (intro stmt_keeps_since)
    (auto simp: update_order_def Let_def split: option.splits intro!: orders_evolve_update)

lemma since_statements [keeps_intro]:
  "stmt_keeps (since d0) (insert_order n)"
  "stmt_keeps (since d0) (use_promo p)"
  "stmt_keeps (since d0) (insert_redemption p u i)"
  "stmt_keeps (since d0) (insert_payment i g x st a c l)"
  "stmt_keeps (since d0) (extend_sub sid days)"
  "stmt_keeps (since d0) (set_payments i st)"
  "stmt_keeps (since d0) (insert_ledger u t a c rt ri ph h)"
  "stmt_keeps (since d0) (upsert_webhook g x st pl)"
  "stmt_keeps (since d0) (stamp_webhook g x)"
  by (rule stmt_keeps_since;
      auto simp: insert_order_def use_promo_def insert_redemption_def insert_payment_def
        extend_sub_def set_payments_def modify_def insert_ledger_def upsert_webhook_def
        stamp_webhook_def Let_def orders_evolve_append split: option.splits if_splits)+

lemma since_claim [keeps_intro]: "stmt_keeps (since d0) (claim_order i)"
  unfolding claim_order_def
  by (rule evolve_update_order) (auto simp: row_evolves_def status_step_def)

lemma since_mark_paid [keeps_intro]: "stmt_keeps (since d0) (mark_paid i sid)"
proof -
  have "stmt_keeps (since d0) (update_order i [''wait_payment'', ''processing'']
      (\<lambda>now r. r\<lparr>o_status := ''paid'', o_paid_at := Some now, o_subscription_id := Some sid\<rparr>))"
    by (rule evolve_update_order) (auto simp: row_evolves_def status_step_def)
  then show ?thesis by (auto simp: stmt_keeps_def mark_paid_def split: if_splits)
qed

lemma since_fail [keeps_intro]: "stmt_keeps (since d0) (fail_order i)"
  by (rule stmt_keeps_since) (auto simp: fail_order_def modify_def row_evolves_def status_step_def
      intro!: orders_evolve_update)

text \<open>The repository operations.\<close>

lemma keeps_sha256hex [keeps_intro]: "keeps I (sha256hex t)"
  unfolding sha256hex_def by (rule keeps_ask)

lemma since_repo [keeps_intro]:
  "keeps (on_db (since d0)) (GetPlanPricing i)" "keeps (on_db (since d0)) (GetPromoByCode code)"
  "keeps (on_db (since d0)) (CountRecentPendingOrders i t)"
  "keeps (on_db (since d0)) (CreateOrder n)"
  "keeps (on_db (since d0)) (CreatePayment i g x st a c l)"
  "keeps (on_db (since d0)) (GetOrderByExternalPayment g x)"
  "keeps (on_db (since d0)) (GetOrderForProvision i)"
  "keeps (on_db (since d0)) (ExtendSubscription i days)"
  "keeps (on_db (since d0)) (ClaimForProvisioning i)" "keeps (on_db (since d0)) (FinalizePaid i sid)"
  "keeps (on_db (since d0)) (MarkFailed i)" "keeps (on_db (since d0)) (RecordWebhook g x st b)"
  "keeps (on_db (since d0)) (MarkWebhookProcessed g x)"
  "keeps (on_db (since d0)) (OrderSubscriptionID i)"
  unfolding GetPlanPricing_def GetPromoByCode_def CountRecentPendingOrders_def CreateOrder_def
    redeem_def CreatePayment_def GetOrderByExternalPayment_def GetOrderForProvision_def
    scanProvision_def ExtendSubscription_def ClaimForProvisioning_def FinalizePaid_def
    appendLedger_def MarkFailed_def RecordWebhook_def MarkWebhookProcessed_def
    OrderSubscriptionID_def Let_def
  by (intro keeps_intro)+

section \<open>The interface to the VPN service\<close>

text \<open>The tables that belong to billing, and the catalogue it reads.\<close>

definition billing_tables :: "db \<Rightarrow> order_row list \<times> payment_row list \<times> promo_row list \<times>
    redemption_row list \<times> ledger_row list \<times> webhook_row list \<times> plan_row list" where
  "billing_tables d = (orders d, payments d, promocodes d, promo_redemptions d, ledger d,
     webhook_events d, plans d)"

definition billing_is :: "db \<Rightarrow> db \<Rightarrow> bool" where
  "billing_is d0 d \<longleftrightarrow> billing_tables d = billing_tables d0"

text \<open>
  An issuer leaves the tables of billing alone, and a VPN it issued is a subscription that exists.
\<close>

locale vpn_issuer =
  fixes issue :: "CreateInput \<Rightarrow> VPNView go"
  assumes issue_billing: "keeps (on_db (billing_is d0)) (issue inp)"
    and issue_exists: "issue inp w = (Inr v, w') \<Longrightarrow>
      has_key sub_id (sb_ID (vw_Subscription v)) (subscriptions (w_db w'))"
begin

lemma issue_keeps:
  assumes "\<And>d d'. billing_is d d' \<Longrightarrow> I d = I d'"
  shows "keeps (on_db I) (issue inp)"
proof (unfold keeps_def on_db_def, intro allI impI)
  fix w :: world assume "I (w_db w)"
  moreover have "billing_is (w_db w) (w_db (snd (issue inp w)))"
    using keepsD [OF issue_billing, of "w_db w" w] by (simp add: on_db_def billing_is_def)
  ultimately show "I (w_db (snd (issue inp w)))" using assms by blast
qed

lemma issue_since [keeps_intro]: "keeps (on_db (since d0)) (issue inp)"
  by (rule issue_keeps) (simp add: billing_is_def billing_tables_def since_def)

end

text \<open>The VPN service as the API wires it: \<open>NewService\<close> with the selected provisioner.\<close>

definition NewVPNService :: "Cipher \<Rightarrow> string \<Rightarrow> string \<Rightarrow> string \<Rightarrow> VPNService" where
  "NewVPNService cipher mode agentToken ruCIDRs =
     \<lparr>vs_cipher = cipher, vs_provisioner = NewProvisioner mode agentToken, vs_ruCIDRs = ruCIDRs\<rparr>"

lemma vpn_stmts_billing [keeps_intro]:
  "stmt_keeps (billing_is d0) (insert_subscription p)"
  "stmt_keeps (billing_is d0) (insert_config p c i v)"
  "stmt_keeps (billing_is d0) (insert_key p c)"
  "stmt_keeps (billing_is d0) (set_server i f)"
  by (auto simp: stmt_keeps_def insert_subscription_def insert_config_def insert_key_def
      set_server_def modify_def billing_is_def billing_tables_def Let_def
      split: if_splits option.splits sum.splits)

lemma Persist_billing [keeps_intro]: "keeps (on_db (billing_is d0)) (Persist p c)"
  unfolding Persist_def by (intro keeps_intro)+

interpretation issued: vpn_issuer "Create (NewVPNService cipher mode token cidrs)"
  for cipher mode token cidrs
proof
  have pv: "vs_provisioner (NewVPNService cipher mode token cidrs) = NewProvisioner mode token"
    by (simp add: NewVPNService_def)
  show "keeps (on_db (billing_is d0)) (Create (NewVPNService cipher mode token cidrs) inp)"
    for d0 inp
    using pv by (rule selected.keeps_Create) (rule Persist_billing)
  show "has_key sub_id (sb_ID (vw_Subscription v)) (subscriptions (w_db w'))"
    if run: "Create (NewVPNService cipher mode token cidrs) inp w = (Inr v, w')" for inp w v w'
  proof -
    from selected.Create_created [OF pv run] obtain params configID w2 where
      "Persist params configID w2 = (Inr (vw_Subscription v, vw_Config v), w')"
      unfolding created_def by blast
    from Persist_InrD [OF this] show ?thesis
      by (force simp: sub_of_row_def)
  qed
qed

section \<open>The wired service\<close>

text \<open>
  What the billing service is given: providers that keep the contract of gateways, and an issuer
  of VPNs.  Its operations then keep the life cycle of every order.
\<close>

locale billing_wiring =
  fixes s :: BillingService
  assumes providers: "(g, p) \<in> set (bs_providers s) \<Longrightarrow> payment_provider p"
    and issuer: "vpn_issuer (bs_issuer s)"
begin

lemma quiet_provider:
  assumes "map_of (bs_providers s) g = Some p"
  shows "quiet (pv_CreatePayment p inp)" "quiet (pv_ParseWebhook p hs body)"
  using providers [OF map_of_SomeD [OF assms]]
  by (simp_all add: payment_provider.create_quiet payment_provider.parse_quiet)

text \<open>
  An invariant of the tables that every statement of the repository keeps, and that reads only
  tables the issuer leaves alone, is kept by every operation.
\<close>

lemma keeps_operations:
  assumes issue: "\<And>inp. keeps (on_db I) (bs_issuer s inp)"
    and repo: "\<And>i. keeps (on_db I) (GetPlanPricing i)" "\<And>i. keeps (on_db I) (GetPromoByCode i)"
      "\<And>i t. keeps (on_db I) (CountRecentPendingOrders i t)" "\<And>n. keeps (on_db I) (CreateOrder n)"
      "\<And>i g x st a c l. keeps (on_db I) (CreatePayment i g x st a c l)"
      "\<And>g x. keeps (on_db I) (GetOrderByExternalPayment g x)"
      "\<And>i. keeps (on_db I) (GetOrderForProvision i)"
      "\<And>i k. keeps (on_db I) (ExtendSubscription i k)"
      "\<And>i. keeps (on_db I) (ClaimForProvisioning i)"
      "\<And>i j. keeps (on_db I) (FinalizePaid i j)" "\<And>i. keeps (on_db I) (MarkFailed i)"
      "\<And>g x st b. keeps (on_db I) (RecordWebhook g x st b)"
      "\<And>g x. keeps (on_db I) (MarkWebhookProcessed g x)"
      "\<And>i. keeps (on_db I) (OrderSubscriptionID i)"
  shows "keeps (on_db I) (Buy s buy)" "keeps (on_db I) (fulfill s ord)"
    "keeps (on_db I) (FulfillOrder s i)" "keeps (on_db I) (HandleWebhook s g hs body)"
    "keeps (on_db I) (ConfirmMock s i)"
proof -
  have promo: "keeps (on_db I) (resolvePromo code plan)" for code plan
    unfolding resolvePromo_def Let_def by (intro keeps_intro repo)
  have create: "keeps (on_db I) (pv_CreatePayment p inp)"
    and parse: "keeps (on_db I) (pv_ParseWebhook p hs body)"
    if "map_of (bs_providers s) g = Some p" for g p inp hs body
    using quiet_provider [OF that] by (blast intro: keeps_quiet)+
  show "keeps (on_db I) (Buy s buy)"
    unfolding Buy_def Let_def
    by (intro keeps_if keeps_throw keeps_case_eq)
      ((intro keeps_intro repo promo create)+, assumption)
  show ful: "keeps (on_db I) (fulfill s ord)" for ord
    unfolding fulfill_def provision_order_def by (intro keeps_intro repo issue)
  then show "keeps (on_db I) (FulfillOrder s i)"
    unfolding FulfillOrder_def by (intro keeps_intro repo)
  show hook: "keeps (on_db I) (HandleWebhook s g hs body)" for g hs body
    unfolding HandleWebhook_def resolveOrder_def Let_def
    by (intro keeps_throw keeps_case_eq) ((intro keeps_intro repo ful parse)+, assumption)
  show "keeps (on_db I) (ConfirmMock s i)"
    unfolding ConfirmMock_def by (intro keeps_intro hook)
qed

lemma operations_since:
  "keeps (on_db (since d0)) (Buy s buy)" "keeps (on_db (since d0)) (fulfill s ord)"
  "keeps (on_db (since d0)) (FulfillOrder s i)" "keeps (on_db (since d0)) (HandleWebhook s g hs body)"
  "keeps (on_db (since d0)) (ConfirmMock s i)"
  by (rule keeps_operations; rule since_repo vpn_issuer.issue_since [OF issuer])+

end

end
