(* ===== verification/AppConfig.thy ===== *)
theory AppConfig
  imports Json Errors
begin

text \<open>
  The configuration of the API server (\<open>internal/platform/config/config.go\<close>): \<open>Load\<close> as a
  function of the process environment, with the parsers of the standard library it uses.
  Durations are nanoseconds.  A missing variable is the empty string, as in \<open>os.Getenv\<close>.
\<close>

section \<open>Durations\<close>

text \<open>\<open>time.ParseDuration\<close>: numbers with units; the sums are those of \<open>uint64\<close>.\<close>

fun leadingInt :: "nat \<Rightarrow> string \<Rightarrow> (nat \<times> string) option" where
  "leadingInt x [] = Some (x, [])"
| "leadingInt x (c # s) =
     (if \<not> is_digit c then Some (x, c # s)
      else if x > 2 ^ 63 div 10 then None
      else if 10 * x + digit_val c > 2 ^ 63 then None
      else leadingInt (10 * x + digit_val c) s)"

fun leadingFraction :: "nat \<Rightarrow> float64 \<Rightarrow> bool \<Rightarrow> string \<Rightarrow> nat \<times> float64 \<times> string" where
  "leadingFraction x scale over [] = (x, scale, [])"
| "leadingFraction x scale over (c # s) =
     (if \<not> is_digit c then (x, scale, c # s)
      else if over \<or> x > (2 ^ 63 - 1) div 10 \<or> 10 * x + digit_val c > 2 ^ 63
      then leadingFraction x scale True s
      else leadingFraction (10 * x + digit_val c) (fl (scale * 10)) False s)"

definition duration_unit :: "string \<Rightarrow> nat option" where
  "duration_unit u = map_of
     [(''ns'', 1), (''us'', 10 ^ 3), (map char_of [194, 181, 115 :: nat], 10 ^ 3),
      (map char_of [206, 188, 115 :: nat], 10 ^ 3), (''ms'', 10 ^ 6), (''s'', 10 ^ 9),
      (''m'', 60 * 10 ^ 9), (''h'', 3600 * 10 ^ 9)] u"

definition not_number :: "char \<Rightarrow> bool" where
  "not_number c \<longleftrightarrow> c \<noteq> CHR ''.'' \<and> \<not> is_digit c"

definition fraction_part :: "string \<Rightarrow> nat \<times> float64 \<times> string" where
  "fraction_part s1 =
     (if take 1 s1 = ''.'' then leadingFraction 0 1 False (drop 1 s1) else (0, 1, s1))"

text \<open>One number with its unit: the nanoseconds and the rest of the text.\<close>

definition duration_item :: "string \<Rightarrow> (nat \<times> string) option" where
  "duration_item s =
     (case leadingInt 0 s of
       None \<Rightarrow> None
     | Some (v, s1) \<Rightarrow>
        (let (f, scale, s2) = fraction_part s1;
             pre = length s1 \<noteq> length s;
             post = take 1 s1 = ''.'' \<and> length s2 \<noteq> length (drop 1 s1);
             u = takeWhile not_number s2
         in if \<not> (pre \<or> post) \<or> u = [] then None
            else (case duration_unit u of
                None \<Rightarrow> None
              | Some unit \<Rightarrow>
                  if v > 2 ^ 63 div unit then None
                  else
                    (let w = v * unit + (if f > 0
                           then nat \<lfloor>fl (fl (of_nat f) * fl (of_nat unit / scale))\<rfloor> else 0)
                     in if w > 2 ^ 63 then None else Some (w, drop (length u) s2)))))"

lemma leadingInt_length: "leadingInt x s = Some (v, r) \<Longrightarrow> length r \<le> length s"
  by (induction x s arbitrary: v r rule: leadingInt.induct) (fastforce split: if_splits)+

lemma leadingFraction_length: "leadingFraction x sc b s = (f, sc', r) \<Longrightarrow> length r \<le> length s"
  by (induction x sc b s arbitrary: f sc' r rule: leadingFraction.induct)
    (fastforce split: if_splits)+

lemma duration_item_shorter:
  assumes "duration_item s = Some (w, r)"
  shows "length r < length s"
proof -
  obtain v s1 where 1: "leadingInt 0 s = Some (v, s1)"
    using assms by (auto simp: duration_item_def split: option.splits)
  obtain f scale s2 where 2: "fraction_part s1 = (f, scale, s2)" by (metis prod_cases3)
  have "length s2 \<le> length s1"
    using 2 leadingFraction_length [of 0 1 False "drop 1 s1" f scale s2]
    by (auto simp: fraction_part_def split: if_splits)
  moreover have "takeWhile not_number s2 \<noteq> []" "r = drop (length (takeWhile not_number s2)) s2"
    using assms by (auto simp: duration_item_def 1 2 Let_def split: option.splits if_splits)
  then have "length r < length s2"
    by (metis length_drop length_greater_0_conv diff_less takeWhile.simps(1))
  ultimately show ?thesis using leadingInt_length [OF 1] by simp
qed

function duration_loop :: "nat \<Rightarrow> string \<Rightarrow> nat option" where
  "duration_loop d s =
     (if s = [] then Some d
      else case duration_item s of
        None \<Rightarrow> None
      | Some (v, r) \<Rightarrow>
          (let d' = (d + v) mod 2 ^ 64 in if d' > 2 ^ 63 then None else duration_loop d' r))"
  by pat_completeness auto
termination
  by (relation "measure (\<lambda>(d, s). length s)") (auto simp: duration_item_shorter)

declare duration_loop.simps [simp del]

definition ParseDuration :: "string \<Rightarrow> int option" where
  "ParseDuration s0 =
     (let signed = take 1 s0 = ''-'' \<or> take 1 s0 = ''+'';
          neg = take 1 s0 = ''-'';
          s = (if signed then drop 1 s0 else s0)
      in if s = ''0'' then Some 0
         else if s = [] then None
         else case duration_loop 0 s of
           None \<Rightarrow> None
         | Some d \<Rightarrow>
             if neg then Some (- int d) else if d > 2 ^ 63 - 1 then None else Some (int d))"

section \<open>Numbers and truth values\<close>

text \<open>\<open>strconv.ParseFloat\<close> on decimal spellings; a value out of range is an error.\<close>

definition ParseFloat :: "string \<Rightarrow> float64 option" where
  "ParseFloat s0 =
     (let s = (if take 1 s0 = ''-'' \<or> take 1 s0 = ''+'' then drop 1 s0 else s0);
          i = takeWhile is_digit s; r1 = dropWhile is_digit s;
          f = (if take 1 r1 = ''.'' then takeWhile is_digit (drop 1 r1) else []);
          r2 = (if take 1 r1 = ''.'' then dropWhile is_digit (drop 1 r1) else r1);
          e = drop 1 r2;
          ed = (if take 1 e = ''-'' \<or> take 1 e = ''+'' then drop 1 e else e)
      in if i @ f = [] \<or>
            (r2 \<noteq> [] \<and> (ascii_lower (hd r2) \<noteq> CHR ''e'' \<or> parse_dec ed = None)) then None
         else
           (let v = fl (of_nat (dec_val (i @ f)) *
                  pow10 ((if r2 = [] then 0 else signed_val e) - int (length f)))
            in if v \<ge> 2 ^ 1024 then None else Some (if take 1 s0 = ''-'' then - v else v)))"

definition ParseBool :: "string \<Rightarrow> bool option" where
  "ParseBool s =
     (if s \<in> {''1'', ''t'', ''T'', ''TRUE'', ''true'', ''True''} then Some True
      else if s \<in> {''0'', ''f'', ''F'', ''FALSE'', ''false'', ''False''} then Some False
      else None)"

section \<open>The configuration\<close>

record AppConfig =
  cfg_Env :: string
  cfg_HTTPAddr :: string
  cfg_ShutdownTimeout :: int
  cfg_DatabaseURL :: string
  cfg_RedisURL :: string
  cfg_LogLevel :: string
  cfg_JWTSecret :: string
  cfg_AccessTokenTTL :: int
  cfg_RefreshTokenTTL :: int
  cfg_TelegramBotToken :: string
  cfg_MinioEndpoint :: string
  cfg_MinioAccessKey :: string
  cfg_MinioSecretKey :: string
  cfg_MinioBucket :: string
  cfg_MinioUseSSL :: bool
  cfg_VPNConfigKeyHex :: string
  cfg_ProvisionerMode :: string
  cfg_ProvisionerAgentToken :: string
  cfg_PublicBaseURL :: string
  cfg_CryptomusMerchant :: string
  cfg_CryptomusAPIKey :: string
  cfg_GracePeriod :: int
  cfg_StarsPerUSD :: float64

type_synonym environment = "string \<Rightarrow> string"

definition getenv :: "environment \<Rightarrow> string \<Rightarrow> string \<Rightarrow> string" where
  "getenv os key fallback = (if os key \<noteq> '''' then os key else fallback)"

text \<open>A parsed variable, or the fallback when it is empty or malformed.\<close>

definition getparsed :: "(string \<Rightarrow> 'a option) \<Rightarrow> environment \<Rightarrow> string \<Rightarrow> 'a \<Rightarrow> 'a" where
  "getparsed parse os key fallback =
     (if os key \<noteq> '''' then from_option fallback (parse (os key)) else fallback)"

definition getdur :: "environment \<Rightarrow> string \<Rightarrow> int \<Rightarrow> int" where
  "getdur = getparsed ParseDuration"

definition getfloat :: "environment \<Rightarrow> string \<Rightarrow> float64 \<Rightarrow> float64" where
  "getfloat = getparsed ParseFloat"

definition getbool :: "environment \<Rightarrow> string \<Rightarrow> bool \<Rightarrow> bool" where
  "getbool = getparsed ParseBool"

definition second_ns :: int where "second_ns = 10 ^ 9"

definition read_config :: "environment \<Rightarrow> AppConfig" where
  "read_config os = \<lparr>
     cfg_Env = getenv os ''APP_ENV'' ''development'',
     cfg_HTTPAddr = getenv os ''HTTP_ADDR'' '':8080'',
     cfg_ShutdownTimeout = getdur os ''SHUTDOWN_TIMEOUT'' (15 * second_ns),
     cfg_DatabaseURL = os ''DATABASE_URL'', cfg_RedisURL = os ''REDIS_URL'',
     cfg_LogLevel = getenv os ''LOG_LEVEL'' ''info'', cfg_JWTSecret = os ''JWT_SECRET'',
     cfg_AccessTokenTTL = getdur os ''JWT_ACCESS_TTL'' (15 * 60 * second_ns),
     cfg_RefreshTokenTTL = getdur os ''JWT_REFRESH_TTL'' (30 * 24 * 3600 * second_ns),
     cfg_TelegramBotToken = os ''TELEGRAM_BOT_TOKEN'',
     cfg_MinioEndpoint = getenv os ''MINIO_ENDPOINT'' ''minio:9000'',
     cfg_MinioAccessKey = getenv os ''MINIO_ACCESS_KEY'' (getenv os ''MINIO_ROOT_USER'' ''minioadmin''),
     cfg_MinioSecretKey =
       getenv os ''MINIO_SECRET_KEY'' (getenv os ''MINIO_ROOT_PASSWORD'' ''minioadmin''),
     cfg_MinioBucket = getenv os ''MINIO_BUCKET'' ''vpn-configs'',
     cfg_MinioUseSSL = getbool os ''MINIO_USE_SSL'' False,
     cfg_VPNConfigKeyHex = getenv os ''VPN_CONFIG_KEY''
       ''00112233445566778899aabbccddeeff00112233445566778899aabbccddeeff'',
     cfg_ProvisionerMode = getenv os ''PROVISIONER_MODE'' ''noop'',
     cfg_ProvisionerAgentToken = os ''PROVISIONER_AGENT_TOKEN'',
     cfg_PublicBaseURL = getenv os ''PUBLIC_BASE_URL'' ''http://localhost:8080'',
     cfg_CryptomusMerchant = os ''CRYPTOMUS_MERCHANT'',
     cfg_CryptomusAPIKey = os ''CRYPTOMUS_API_KEY'',
     cfg_GracePeriod = getdur os ''GRACE_PERIOD'' (72 * 3600 * second_ns),
     cfg_StarsPerUSD = getfloat os ''STARS_PER_USD'' 1\<rparr>"

definition Load :: "environment \<Rightarrow> error + AppConfig" where
  "Load os =
     (let cfg = read_config os in
      if cfg_DatabaseURL cfg = '''' then Inl (Errorf ''config: DATABASE_URL is required'')
      else if cfg_RedisURL cfg = '''' then Inl (Errorf ''config: REDIS_URL is required'')
      else if cfg_JWTSecret cfg = '''' then Inl (Errorf ''config: JWT_SECRET is required'')
      else Inr cfg)"

definition IsProduction :: "AppConfig \<Rightarrow> bool" where
  "IsProduction c \<longleftrightarrow> cfg_Env c = ''production''"

section \<open>Properties\<close>

lemma duration_loop_bound: "duration_loop d s = Some r \<Longrightarrow> d \<le> 2 ^ 63 \<Longrightarrow> r \<le> 2 ^ 63"
proof (induction d s arbitrary: r rule: duration_loop.induct)
  case (1 d s)
  from 1(2,3) 1(1) show ?case
    by (subst (asm) duration_loop.simps)
      (auto simp: Let_def split: if_splits option.splits prod.splits)
qed

text \<open>A parsed duration is a value of \<open>time.Duration\<close>.\<close>

lemma ParseDuration_bounds:
  "case ParseDuration s of None \<Rightarrow> True | Some d \<Rightarrow> - (2 ^ 63) \<le> d \<and> d < 2 ^ 63"
  using duration_loop_bound [of 0]
  by (fastforce simp: ParseDuration_def Let_def split: option.split)

lemma leadingInt_digits:
  assumes "list_all is_digit ds" "x \<le> 2 ^ 63" "r = [] \<or> \<not> is_digit (hd r)"
  shows "leadingInt x (ds @ r) =
    (let v = foldl (\<lambda>v c. 10 * v + digit_val c) x ds in if v \<le> 2 ^ 63 then Some (v, r) else None)"
  using assms
proof (induction ds arbitrary: x)
  case Nil
  then show ?case by (cases r) auto
next
  case (Cons c ds)
  have grow: "v \<le> foldl (\<lambda>v c. 10 * v + digit_val c) v cs" for v cs
    by (induction cs rule: rev_induct) auto
  show ?case
  proof (cases "10 * x + digit_val c \<le> 2 ^ 63")
    case True
    with Cons show ?thesis by simp
  next
    case False
    with grow [of "10 * x + digit_val c" ds] Cons.prems(1) show ?thesis by (simp add: Let_def)
  qed
qed

lemma duration_item_ns:
  "duration_item (show_nat n @ ''ns'') = (if n \<le> 2 ^ 63 then Some (n, []) else None)"
proof -
  have "leadingInt 0 (show_nat n @ ''ns'') = (if n \<le> 2 ^ 63 then Some (n, ''ns'') else None)"
    using leadingInt_digits [of "show_nat n" 0 "''ns''"] show_nat_digits [of n]
      dec_val_show_nat [of n]
    by (simp add: dec_val_def is_digit_def Let_def)
  moreover have "fraction_part ''ns'' = (0, 1, ''ns'')" by (simp add: fraction_part_def)
  moreover have "takeWhile not_number ''ns'' = ''ns''" by (simp add: not_number_def is_digit_def)
  moreover have "duration_unit ''ns'' = Some 1" by (simp add: duration_unit_def)
  ultimately show ?thesis by (simp add: duration_item_def)
qed

lemma ParseDuration_ns:
  "ParseDuration (show_nat n @ ''ns'') = (if n < 2 ^ 63 then Some (int n) else None)"
proof -
  obtain c cs where c: "show_nat n = c # cs" "is_digit c"
    using show_nat_digits [of n] show_nat_nonempty [of n] by (cases "show_nat n") auto
  then have "c \<noteq> CHR ''-''" "c \<noteq> CHR ''+''" by (auto simp: is_digit_def)
  moreover have "duration_loop 0 (show_nat n @ ''ns'') = (if n \<le> 2 ^ 63 then Some n else None)"
    by (subst duration_loop.simps)
      (simp add: duration_item_ns Let_def duration_loop.simps [of _ "[]"])
  ultimately show ?thesis using c by (simp add: ParseDuration_def Let_def)
qed

text \<open>
  A duration given as a number of nanoseconds is read as it is below the limit of
  a Go duration; from there on the variable counts as malformed and the default is used.
\<close>

theorem getdur_nanoseconds:
  "getdur (os(key := show_nat n @ ''ns'')) key fallback = (if n < 2 ^ 63 then int n else fallback)"
  by (simp add: getdur_def getparsed_def ParseDuration_ns)

end
