(* ===== verification/BillingWiring.thy ===== *)
theory BillingWiring
  imports BillingInvariants AppConfig
begin

text \<open>
  The billing service as \<open>run\<close> of \<open>cmd/api/main.go\<close> wires it: the providers the configuration
  enables and the VPN service as the issuer.  Its runs are a step relation: any order of its
  operations and of its background expirer, and of anything else in the program that leaves the
  tables of billing alone.
\<close>

section \<open>Wiring\<close>

definition api_providers :: "AppConfig \<Rightarrow> (string \<times> Provider) list" where
  "api_providers cfg =
     (if \<not> IsProduction cfg then [(''mock'', MockProvider (cfg_PublicBaseURL cfg))] else []) @
     (if cfg_CryptomusMerchant cfg \<noteq> '''' \<and> cfg_CryptomusAPIKey cfg \<noteq> ''''
      then [(''cryptomus'', Cryptomus \<lparr>cm_merchant = cfg_CryptomusMerchant cfg,
          cm_apiKey = cfg_CryptomusAPIKey cfg\<rparr>)] else []) @
     (if cfg_TelegramBotToken cfg \<noteq> '''' then [(GatewayTelegramStars, StarsProvider)] else [])"

definition api_vpn :: "AppConfig \<Rightarrow> Cipher \<Rightarrow> string \<Rightarrow> VPNService" where
  "api_vpn cfg cipher ruCIDRs =
     NewVPNService cipher (cfg_ProvisionerMode cfg) (cfg_ProvisionerAgentToken cfg) ruCIDRs"

definition api_billing :: "AppConfig \<Rightarrow> Cipher \<Rightarrow> string \<Rightarrow> BillingService" where
  "api_billing cfg cipher ruCIDRs =
     NewBillingService (Create (api_vpn cfg cipher ruCIDRs)) (api_providers cfg)
       (cfg_PublicBaseURL cfg)"

lemma api_billing_simps [simp]:
  "bs_providers (api_billing cfg cipher cidrs) = api_providers cfg"
  "bs_issuer (api_billing cfg cipher cidrs) = Create (api_vpn cfg cipher cidrs)"
  by (simp_all add: api_billing_def NewBillingService_def)

interpretation api: billing_wiring "api_billing cfg cipher cidrs" for cfg cipher cidrs
proof (rule billing_wiring.intro)
  show "payment_provider p" if "(g, p) \<in> set (bs_providers (api_billing cfg cipher cidrs))" for g p
    using that mock.payment_provider_axioms stars.payment_provider_axioms
      cryptomus.payment_provider_axioms
    by (auto simp: api_providers_def split: if_splits)
  show "vpn_issuer (bs_issuer (api_billing cfg cipher cidrs))"
    by (simp add: api_vpn_def issued.vpn_issuer_axioms)
qed

section \<open>Runs\<close>

inductive billing_step :: "BillingService \<Rightarrow> world \<Rightarrow> world \<Rightarrow> bool" for s where
  step_Buy: "billing_step s w (snd (Buy s inp w))"
| step_HandleWebhook: "billing_step s w (snd (HandleWebhook s gateway hs body w))"
| step_FulfillOrder: "billing_step s w (snd (FulfillOrder s i w))"
| step_ConfirmMock: "billing_step s w (snd (ConfirmMock s i w))"
| step_sweep: "billing_step s w (snd (Expirer_sweep grace w))"
| step_elsewhere: "billing_is (w_db w) (w_db w') \<Longrightarrow> billing_step s w w'"

inductive billing_run :: "BillingService \<Rightarrow> world \<Rightarrow> world \<Rightarrow> bool" for s where
  run_start: "billing_run s w w"
| run_step: "billing_run s w w1 \<Longrightarrow> billing_step s w1 w2 \<Longrightarrow> billing_run s w w2"

inductive_cases billing_stepE: "billing_step s w w'"

lemma billing_is_refl [simp]: "billing_is d d"
  by (simp add: billing_is_def)

lemma sweep_billing: "keeps (on_db (billing_is d0)) (Expirer_sweep grace)"
  unfolding Expirer_sweep_def
  by (intro keeps_intro)
    (auto simp: stmt_keeps_def expire_subs_def billing_is_def billing_tables_def)

lemma extend_billing: "extend_sub i k now fresh d = Inr (x, d') \<Longrightarrow> billing_is d d'"
  by (auto simp: extend_sub_def Let_def billing_is_def billing_tables_def)

context billing_wiring
begin

text \<open>
  Invariants of the billing tables by induction over a run: what every statement of the
  repository keeps, every run keeps.
\<close>

lemma run_keeps:
  assumes local: "\<And>d d'. billing_is d d' \<Longrightarrow> I d = I d'"
    and repo: "\<And>n. keeps (on_db I) (CreateOrder n)"
      "\<And>i g x st a c l. keeps (on_db I) (CreatePayment i g x st a c l)"
      "\<And>i. keeps (on_db I) (ClaimForProvisioning i)"
      "\<And>i j. keeps (on_db I) (FinalizePaid i j)" "\<And>i. keeps (on_db I) (MarkFailed i)"
      "\<And>g x st b. keeps (on_db I) (RecordWebhook g x st b)"
      "\<And>g x. keeps (on_db I) (MarkWebhookProcessed g x)"
    and run: "billing_run s w w'" and I: "I (w_db w)"
  shows "I (w_db w')"
proof -
  have reads: "keeps (on_db I) (GetPlanPricing i)" "keeps (on_db I) (GetPromoByCode code)"
    "keeps (on_db I) (CountRecentPendingOrders i t)"
    "keeps (on_db I) (GetOrderByExternalPayment g x)" "keeps (on_db I) (GetOrderForProvision i)"
    "keeps (on_db I) (OrderSubscriptionID i)" for i code t g x
    unfolding GetPlanPricing_def GetPromoByCode_def CountRecentPendingOrders_def
      GetOrderByExternalPayment_def GetOrderForProvision_def scanProvision_def
      OrderSubscriptionID_def
    by (intro keeps_intro)+
  have "stmt_keeps I (extend_sub i k)" for i k
    unfolding stmt_keeps_def using extend_billing local by blast
  then have extend: "keeps (on_db I) (ExtendSubscription i k)" for i k
    unfolding ExtendSubscription_def by (intro keeps_intro)
  have issue: "keeps (on_db I) (bs_issuer s inp)" for inp
    by (rule vpn_issuer.issue_keeps [OF issuer local])
  note ops = keeps_operations [OF issue reads(1-3) repo(1,2) reads(4,5) extend repo(3-7) reads(6)]
  have "I (w_db w2)" if "billing_step s w1 w2" "I (w_db w1)" for w1 w2
    using that
  proof (cases rule: billing_step.cases)
    case (step_sweep grace)
    have "billing_is (w_db w1) (w_db w2)"
      using keepsD [OF sweep_billing, of "w_db w1" w1] step_sweep by (simp add: on_db_def)
    then show ?thesis using local that(2) by blast
  next
    case step_elsewhere
    then show ?thesis using local that(2) by blast
  qed (use that(2) ops in \<open>auto simp: keeps_def on_db_def\<close>)
  with run I show ?thesis by (induction rule: billing_run.induct) blast+
qed

text \<open>Over any run the orders only evolve along their life cycle.\<close>

lemma run_since: "billing_run s w w' \<Longrightarrow> since (w_db w) (w_db w')"
  by (rule run_keeps [where I = "since (w_db w)"])
    (auto simp: since_repo since_def billing_is_def billing_tables_def)

end

end
