(* ===== verification/ApiHandlers.thy ===== *)
theory ApiHandlers
  imports AuthHandler BillingWiring
begin

text \<open>
  The endpoints of the VPN and billing packages (\<open>internal/vpn/handler.go\<close>,
  \<open>internal/billing/handler.go\<close>) and the health checks (\<open>internal/platform/health\<close>).
\<close>

section \<open>Replies\<close>

definition Subscription_out :: "Subscription \<Rightarrow> out" where
  "Subscription_out s = O_obj ([(''id'', O_uuid (sb_ID s)), (''user_id'', O_uuid (sb_UserID s)),
     (''server_id'', O_uuid (sb_ServerID s)), (''country_id'', O_uuid (sb_CountryID s)),
     (''protocol'', O_str (sb_Protocol s)), (''status'', O_str (sb_Status s))] @
     opt_member ''label'' O_str (sb_Label s) @
     [(''expires_at'', O_time (sb_ExpiresAt s)), (''created_at'', O_time (sb_CreatedAt s))])"

definition Config_out :: "Config \<Rightarrow> out" where
  "Config_out c = O_obj [(''id'', O_uuid (cf_ID c)), (''protocol'', O_str (cf_Protocol c)),
     (''uri'', O_str (cf_URI c)), (''hash'', O_str (cf_Hash c)), (''version'', O_int (cf_Version c)),
     (''created_at'', O_time (cf_CreatedAt c))]"

definition VPNView_out :: "VPNView \<Rightarrow> out" where
  "VPNView_out v = O_obj [(''subscription'', Subscription_out (vw_Subscription v)),
     (''config'', Config_out (vw_Config v)), (''country'', O_str (vw_Country v)),
     (''host'', O_str (vw_Host v))]"

definition Country_out :: "CountryRef \<Rightarrow> out" where
  "Country_out c = O_obj ([(''id'', O_uuid (cr_ID c)), (''iso'', O_str (cr_ISO c)),
     (''name'', O_str (cr_Name c))] @ opt_member ''flag'' O_str (cr_Flag c) @
     [(''servers'', O_int (int (cr_Servers c)))])"

definition Plan_out :: "PlanRef \<Rightarrow> out" where
  "Plan_out p = O_obj [(''id'', O_uuid (PlanRef.pf_ID p)), (''name'', O_str (pf_Name p)),
     (''price'', O_float (cents (pf_Price p))), (''currency'', O_str (pf_Currency p)),
     (''days'', O_int (pf_Days p)), (''max_devices'', O_int (pf_MaxDevices p))]"

definition Order_out :: "Order \<Rightarrow> out" where
  "Order_out x = O_obj ([(''id'', O_uuid (or_ID x)), (''user_id'', O_uuid (or_UserID x)),
     (''plan_id'', O_uuid (or_PlanID x)), (''country_id'', O_uuid (or_CountryID x)),
     (''protocol'', O_str (or_Protocol x)), (''amount'', O_float (or_Amount x)),
     (''discount'', O_float (or_Discount x)), (''currency'', O_str (or_Currency x)),
     (''gateway'', O_str (or_Gateway x)), (''status'', O_str (or_Status x))] @
     opt_member ''subscription_id'' O_uuid (or_SubscriptionID x) @
     [(''created_at'', O_time (or_CreatedAt x))] @ opt_member ''paid_at'' O_time (or_PaidAt x))"

definition Payment_out :: "Payment \<Rightarrow> out" where
  "Payment_out p = O_obj [(''id'', O_uuid (py_ID p)), (''order_id'', O_uuid (py_OrderID p)),
     (''gateway'', O_str (py_Gateway p)), (''external_id'', O_str (py_ExternalID p)),
     (''status'', O_str (py_Status p)), (''amount'', O_float (py_Amount p)),
     (''currency'', O_str (py_Currency p)), (''payment_url'', O_str (py_PaymentURL p)),
     (''created_at'', O_time (py_CreatedAt p))]"

definition internal_error :: "error \<Rightarrow> serve" where
  "internal_error e = writeError 500 ''internal error''"

section \<open>VPN\<close>

definition writeVPNError :: "error \<Rightarrow> serve" where
  "writeVPNError e =
     (if errors_Is e VPN_ErrNotFound then writeErr 404 e
      else if errors_Is e ErrUnsupportedProtocol then writeErr 400 e
      else if errors_Is e ErrNoServerAvailable \<or> errors_Is e ErrServerNotConfigured \<or>
        errors_Is e ErrSubnetExhausted then writeErr 503 e
      else writeError 500 ''internal error'')"

definition countries_handler :: handler where
  "countries_handler r = on_result Countries internal_error
     (\<lambda>cs. writeJSON 200 (O_obj [(''countries'', O_list (map Country_out cs))]))"

definition plans_handler :: handler where
  "plans_handler r = on_result Plans internal_error
     (\<lambda>ps. writeJSON 200 (O_obj [(''plans'', O_list (map Plan_out ps))]))"

text \<open>An id of a body or a path, or the reply that it is invalid.\<close>

definition parse_or :: "string \<Rightarrow> string \<Rightarrow> (uuid \<Rightarrow> serve) \<Rightarrow> serve" where
  "parse_or s msg k = (case uuid_Parse s of None \<Rightarrow> writeError 400 msg | Some i \<Rightarrow> k i)"

definition create_fields ::
    "(string \<times> json) list \<Rightarrow> (string \<times> string \<times> string option \<times> string option \<times> string) option" where
  "create_fields ms =
     Option.bind (string_field ''country_id'' ms) (\<lambda>c.
     Option.bind (string_field ''protocol'' ms) (\<lambda>p.
     Option.bind (string_opt_field ''plan_id'' ms) (\<lambda>pl.
     Option.bind (string_opt_field ''label'' ms) (\<lambda>l.
     map_option (\<lambda>rt. (c, p, pl, l, rt)) (string_field ''routing'' ms)))))"

definition create_handler :: "VPNService \<Rightarrow> handler" where
  "create_handler v r =
     decode [''country_id'', ''protocol'', ''plan_id'', ''label'', ''routing''] create_fields r
       (\<lambda>(country, protocol, plan, label, routing0).
     parse_or country ''invalid country_id'' (\<lambda>countryID.
     let routing = (if RoutingMode_Valid routing0 then routing0 else RoutingFull);
         run = (\<lambda>planID. on_result (Create v \<lparr>ci_UserID = pn_UserID (principal r),
             ci_CountryID = countryID, ci_Protocol = protocol, ci_PlanID = planID,
             ci_Label = label, ci_Routing = routing\<rparr>)
           writeVPNError (\<lambda>view. writeJSON 201 (VPNView_out view)))
     in case plan of None \<Rightarrow> run None | Some p \<Rightarrow> parse_or p ''invalid plan_id'' (\<lambda>i. run (Some i))))"

definition list_handler :: handler where
  "list_handler r = on_result (VPN_List (pn_UserID (principal r))) internal_error
     (\<lambda>vs. writeJSON 200 (O_obj [(''vpns'', O_list (map VPNView_out vs))]))"

definition write_bytes :: "string \<Rightarrow> serve" where
  "write_bytes data rw w = (Write (O_bytes data) rw, w)"

definition config_handler :: "VPNService \<Rightarrow> handler" where
  "config_handler v r = parse_or (PathValue r ''id'') ''invalid id'' (\<lambda>i.
     on_result (FetchConfig v (pn_UserID (principal r)) i) writeVPNError (\<lambda>(data, contentType) rw.
       write_bytes data (set_header ''Content-Disposition''
         (''attachment; filename='' @ [quote_char] @ ''vpn.conf'' @ [quote_char])
         (set_header ''Content-Type'' contentType rw))))"

definition qr_handler :: handler where
  "qr_handler r = parse_or (PathValue r ''id'') ''invalid id'' (\<lambda>i.
     on_result (FetchQR (pn_UserID (principal r)) i) writeVPNError (\<lambda>png rw.
       write_bytes png (set_header ''Content-Type'' ''image/png'' rw)))"

definition delete_handler :: "VPNService \<Rightarrow> handler" where
  "delete_handler v r = parse_or (PathValue r ''id'') ''invalid id'' (\<lambda>i.
     on_result (Delete v (pn_UserID (principal r)) i) writeVPNError
       (\<lambda>_. status_reply 200 ''deleted''))"

definition api_path :: "string list \<Rightarrow> segment list" where
  "api_path p = map Lit ([''api'', ''v1''] @ p)"

definition vpn_routes :: "AuthService \<Rightarrow> VPNService \<Rightarrow> route list" where
  "vpn_routes s v =
     [(''GET'', api_path [''countries''], countries_handler),
      (''GET'', api_path [''plans''], plans_handler),
      (''POST'', api_path [''vpn'', ''create''], Authenticate s (create_handler v)),
      (''GET'', api_path [''vpn'', ''list''], Authenticate s list_handler),
      (''GET'', api_path [''vpn''] @ [Wild ''id'', Lit ''config''], Authenticate s (config_handler v)),
      (''GET'', api_path [''vpn''] @ [Wild ''id'', Lit ''qr''], Authenticate s qr_handler),
      (''DELETE'', api_path [''vpn''] @ [Wild ''id''], Authenticate s (delete_handler v))]"

section \<open>Billing\<close>

definition writeBillingError :: "error \<Rightarrow> serve" where
  "writeBillingError e =
     (if errors_Is e ErrPlanNotFound \<or> errors_Is e ErrOrderNotFound then writeErr 404 e
      else if errors_Is e ErrUnknownGateway \<or> errors_Is e ErrBadProtocol \<or>
        errors_Is e ErrPromoInvalid \<or> errors_Is e ErrPromoUsed then writeErr 400 e
      else if errors_Is e ErrTooManyPending then writeErr 429 e
      else writeError 500 ''internal error'')"

definition gateways_handler :: "BillingService \<Rightarrow> handler" where
  "gateways_handler b r =
     writeJSON 200 (O_obj [(''gateways'', O_list (map O_str (Gateways b)))])"

definition buy_fields :: "(string \<times> json) list \<Rightarrow>
    (string \<times> string \<times> string \<times> string \<times> string \<times> string option \<times> string) option" where
  "buy_fields ms =
     Option.bind (string_field ''plan_id'' ms) (\<lambda>pl.
     Option.bind (string_field ''country_id'' ms) (\<lambda>c.
     Option.bind (string_field ''protocol'' ms) (\<lambda>p.
     Option.bind (string_field ''gateway'' ms) (\<lambda>g.
     Option.bind (string_field ''promo_code'' ms) (\<lambda>pc.
     Option.bind (string_opt_field ''label'' ms) (\<lambda>l.
     map_option (\<lambda>rt. (pl, c, p, g, pc, l, rt)) (string_field ''routing'' ms)))))))"

definition buy_handler :: "BillingService \<Rightarrow> handler" where
  "buy_handler b r =
     decode [''plan_id'', ''country_id'', ''protocol'', ''gateway'', ''promo_code'', ''label'', ''routing'']
       buy_fields r (\<lambda>(plan, country, protocol, gateway, promo, label, routing).
     parse_or plan ''invalid plan_id'' (\<lambda>planID.
     parse_or country ''invalid country_id'' (\<lambda>countryID.
     on_result (Buy b \<lparr>bi_UserID = pn_UserID (principal r), bi_PlanID = planID,
         bi_CountryID = countryID, bi_Protocol = protocol, bi_Gateway = gateway,
         bi_PromoCode = promo, bi_Label = label, bi_RenewSubscriptionID = None,
         bi_Routing = routing\<rparr>)
       writeBillingError (\<lambda>(order, payment). writeJSON 201
         (O_obj [(''order'', Order_out order), (''payment'', Payment_out payment)])))))"

definition webhook_handler :: "BillingService \<Rightarrow> handler" where
  "webhook_handler b r =
     (if length (rq_Body r) > 2 ^ 20 then writeError 400 ''cannot read body''
      else on_result (HandleWebhook b (PathValue r ''gateway'') (rq_Header r) (rq_Body r))
        (\<lambda>e. if errors_Is e ErrUnknownGateway \<or> errors_Is e ErrInvalidSignature then writeErr 400 e
             else if errors_Is e ErrOrderNotFound then status_reply 200 ''ignored''
             else writeError 500 ''processing error'')
        (\<lambda>_. status_reply 200 ''ok''))"

definition orders_handler :: handler where
  "orders_handler r = on_result (Billing_ListOrders (pn_UserID (principal r))) internal_error
     (\<lambda>xs. writeJSON 200 (O_obj [(''orders'', O_list (map Order_out xs))]))"

definition promoCheck :: handler where
  "promoCheck r =
     decode [''code'', ''plan_id''] (\<lambda>ms. Option.bind (string_field ''code'' ms) (\<lambda>c.
       map_option (Pair c) (string_field ''plan_id'' ms))) r (\<lambda>(code, plan).
     parse_or plan ''invalid plan_id'' (\<lambda>planID.
     on_result (PromoPreview code planID) writeBillingError (\<lambda>(discount, rest). writeJSON 200
       (O_obj [(''discount'', O_float discount), (''total'', O_float rest)]))))"

definition devConfirm :: "BillingService \<Rightarrow> handler" where
  "devConfirm b r =
     decode [''order_id''] (string_field ''order_id'') r (\<lambda>order.
     parse_or order ''invalid order_id'' (\<lambda>orderID.
     on_result (ConfirmMock b orderID) writeBillingError (\<lambda>_. status_reply 200 ''confirmed'')))"

definition billing_routes :: "AuthService \<Rightarrow> BillingService \<Rightarrow> bool \<Rightarrow> route list" where
  "billing_routes s b devMode =
     [(''GET'', api_path [''billing'', ''gateways''], gateways_handler b),
      (''POST'', api_path [''billing'', ''webhook''] @ [Wild ''gateway''], webhook_handler b),
      (''POST'', api_path [''billing'', ''buy''], Authenticate s (buy_handler b)),
      (''GET'', api_path [''billing'', ''orders''], Authenticate s orders_handler),
      (''POST'', api_path [''billing'', ''promo'', ''check''], Authenticate s promoCheck)] @
     (if devMode
      then [(''POST'', api_path [''billing'', ''dev'', ''confirm''], Authenticate s (devConfirm b))]
      else [])"

section \<open>Health\<close>

definition Live :: handler where
  "Live r = status_reply 200 ''ok''"

text \<open>A ping fails or not, by the tape's position.\<close>

definition ping :: "unit go" where
  "ping w = ((if env_fault (w_env w) (w_tick w) then Inl Fault else Inr ()), step_tick w)"

definition check_out :: "error + unit \<Rightarrow> out" where
  "check_out r = (case r of Inl e \<Rightarrow> O_list [O_str ''down: '', O_error e] | Inr _ \<Rightarrow> O_str ''ok'')"

definition Ready :: handler where
  "Ready r = on_result (bind (attempt ping) (\<lambda>pg. bind (attempt ping) (\<lambda>rd. return (pg, rd))))
     internal_error (\<lambda>(pg, rd).
       let ok = (\<not> isl pg \<and> \<not> isl rd) in
       writeJSON (if ok then 200 else 503)
         (O_obj [(''status'', O_str (if ok then ''ok'' else ''degraded'')),
           (''checks'', O_obj [(''postgres'', check_out pg), (''redis'', check_out rd)])]))"

end
