(* ===== verification/AdminModule.thy ===== *)
theory AdminModule
  imports ApiHandlers
begin

text \<open>
  The administration backend (\<open>internal/admin\<close>: \<open>repository.go\<close>, \<open>handler.go\<close>): listings, the
  status and role of users, the status of servers, promo codes, and the audit trail.  Every route
  is behind \<open>guard\<close>.
\<close>

section \<open>Listings\<close>

record Dashboard =
  db_Users :: nat
  db_ActiveSubscriptions :: nat
  db_ServersActive :: nat
  db_ServersTotal :: nat
  db_PaidOrders :: nat
  db_OrdersToday :: nat
  db_RevenueTotal :: int

text \<open>\<open>date_trunc('day', now())\<close> in the session's zone, which is UTC.\<close>

definition day_start :: "timestamp \<Rightarrow> timestamp" where
  "day_start t = t - t mod (86400 * 10 ^ 9)"

definition dashboard_stmt :: "Dashboard statement" where
  "dashboard_stmt now fresh d = Inr (\<lparr>db_Users = length (users d),
     db_ActiveSubscriptions = count_where (\<lambda>r. sub_status r = ''active'') (subscriptions d),
     db_ServersActive = count_where (\<lambda>r. s_status r = ''active'') (servers d),
     db_ServersTotal = length (servers d),
     db_PaidOrders = count_where (\<lambda>r. o_status r = ''paid'') (orders d),
     db_OrdersToday = count_where (\<lambda>r. o_created_at r \<ge> day_start now) (orders d),
     db_RevenueTotal = sum_list (map o_amount (filter (\<lambda>r. o_status r = ''paid'') (orders d)))\<rparr>, d)"

definition Admin_Dashboard :: "Dashboard go" where
  "Admin_Dashboard = wrap ''dashboard'' (sql dashboard_stmt)"

text \<open>\<open>ILIKE\<close>: a percent sign is any text, an underscore one character, a backslash quotes.\<close>

function ilike :: "string \<Rightarrow> string \<Rightarrow> bool" where
  "ilike [] s = (s = [])"
| "ilike (p # ps) s =
     (if p = CHR ''%'' then (if s = [] then ilike ps [] else ilike ps s \<or> ilike (p # ps) (tl s))
      else if p = CHR ''_'' then s \<noteq> [] \<and> ilike ps (drop (max 1 (utf8_len s)) s)
      else if p = backslash then ps \<noteq> [] \<and> s \<noteq> [] \<and> ascii_lower (hd ps) = ascii_lower (hd s) \<and>
        ilike (tl ps) (tl s)
      else s \<noteq> [] \<and> ascii_lower p = ascii_lower (hd s) \<and> ilike ps (tl s))"
  by pat_completeness auto
termination by (relation "measure (\<lambda>(p, s). length p + length s)") auto

definition user_matches :: "string \<Rightarrow> user_row \<Rightarrow> bool" where
  "user_matches q u \<longleftrightarrow> q = '''' \<or>
     (let hit = (\<lambda>v. case v of None \<Rightarrow> False | Some s \<Rightarrow> ilike (''%'' @ q @ ''%'') s)
      in hit (u_email u) \<or> hit (u_phone u))"

definition page :: "nat \<Rightarrow> nat \<Rightarrow> 'a list \<Rightarrow> 'a list" where
  "page limit offset xs = take limit (drop offset xs)"

definition ListUsers :: "string \<Rightarrow> nat \<Rightarrow> nat \<Rightarrow> (user_row \<times> nat) list go" where
  "ListUsers q limit offset = wrap ''list users'' (sql (select (\<lambda>d.
     map (\<lambda>u. (u, count_where (\<lambda>s. sub_user_id s = u_id u \<and> sub_status s \<noteq> ''deleted'') (subscriptions d)))
       (page limit offset (sort_key (\<lambda>u. - u_created_at u) (filter (user_matches q) (users d)))))))"

definition ListServers :: "(server_row \<times> string) list go" where
  "ListServers = wrap ''list servers'' (sql (select (\<lambda>d.
     sort_key (\<lambda>(s, co). (co, s_hostname s)) (concat (map (\<lambda>s. map (\<lambda>co. (s, c_name co))
       (filter (\<lambda>co. c_id co = s_country_id s) (countries d))) (servers d))))))"

definition Admin_ListOrders :: "nat \<Rightarrow> nat \<Rightarrow> (order_row \<times> string option) list go" where
  "Admin_ListOrders limit offset = wrap ''list orders'' (sql (select (\<lambda>d.
     page limit offset (sort_key (\<lambda>(r, _). - o_created_at r) (concat (map (\<lambda>r. map (\<lambda>u. (r, u_email u))
       (filter (\<lambda>u. u_id u = o_user_id r) (users d))) (orders d)))))))"

definition ListPayments :: "nat \<Rightarrow> payment_row list go" where
  "ListPayments limit = wrap ''list payments'' (sql (select (\<lambda>d.
     take limit (sort_key (\<lambda>r. - pay_created_at r) (payments d)))))"

definition ListPromos :: "promo_row list go" where
  "ListPromos = wrap ''list promos'' (sql (select (\<lambda>d.
     sort_key (\<lambda>r. - pm_created_at r) (promocodes d))))"

definition ListAudit :: "nat \<Rightarrow> (audit_row \<times> string option) list go" where
  "ListAudit limit = wrap ''list audit'' (sql (select (\<lambda>d.
     take limit (map (\<lambda>a. (a, coalesce (a_actor_email a)
         (Option.bind (a_actor_id a) (\<lambda>i. Option.bind (by_key u_id i (users d)) u_email))))
       (sort_key (\<lambda>a. - a_created_at a) (audit_log d))))))"

section \<open>Changes\<close>

text \<open>An update that must affect a row; the enum of the column refuses other values.\<close>

definition user_role_enum :: "string list" where
  "user_role_enum = [''user'', ''vip'', ''partner'', ''reseller'', ''support'', ''moderator'',
     ''admin'', ''superadmin'']"

definition user_status_enum :: "string list" where
  "user_status_enum = [''active'', ''pending'', ''blocked'', ''deleted'']"

definition server_status_enum :: "string list" where
  "server_status_enum = [''provisioning'', ''active'', ''drain'', ''offline'', ''archived'']"

definition exec_users :: "bool \<Rightarrow> uuid \<Rightarrow> (user_row \<Rightarrow> user_row) \<Rightarrow> nat statement" where
  "exec_users ok i f now fresh d =
     (if \<not> ok then Inl enum_violation
      else Inr (count_where (\<lambda>u. u_id u = i) (users d),
        d\<lparr>users := update_where (\<lambda>u. u_id u = i) f (users d)\<rparr>))"

definition exec_servers :: "bool \<Rightarrow> uuid \<Rightarrow> (server_row \<Rightarrow> server_row) \<Rightarrow> nat statement" where
  "exec_servers ok i f now fresh d =
     (if \<not> ok then Inl enum_violation
      else Inr (count_where (\<lambda>s. s_id s = i) (servers d),
        d\<lparr>servers := update_where (\<lambda>s. s_id s = i) f (servers d)\<rparr>))"

definition execAffect :: "nat statement \<Rightarrow> unit go" where
  "execAffect st = bind (wrap ''exec'' (sql st)) (\<lambda>n.
     if n = 0 then throw Admin_ErrNotFound else return ())"

definition SetUserStatus :: "uuid \<Rightarrow> string \<Rightarrow> unit go" where
  "SetUserStatus i status = execAffect (exec_users (status \<in> set user_status_enum) i
     (\<lambda>u. u\<lparr>u_status := status\<rparr>))"

definition SetUserRole :: "uuid \<Rightarrow> string \<Rightarrow> unit go" where
  "SetUserRole i role = execAffect (exec_users (role \<in> set user_role_enum) i
     (\<lambda>u. u\<lparr>u_role := role\<rparr>))"

definition SetServerStatus :: "uuid \<Rightarrow> string \<Rightarrow> unit go" where
  "SetServerStatus i status = execAffect (exec_servers (status \<in> set server_status_enum) i
     (\<lambda>s. s\<lparr>s_status := status\<rparr>))"

definition insert_promo ::
    "string \<Rightarrow> string \<Rightarrow> float64 \<Rightarrow> int option \<Rightarrow> promo_row statement" where
  "insert_promo code ptype discount maxUses now fresh d =
     (if ptype \<notin> {''percent'', ''fixed''} then Inl enum_violation
      else case numeric_in (10 ^ 10) discount of
        None \<Rightarrow> Inl numeric_overflow
      | Some k \<Rightarrow>
          if (case maxUses of None \<Rightarrow> False | Some n \<Rightarrow> n < - (2 ^ 31) \<or> n \<ge> 2 ^ 31)
          then Inl numeric_overflow
          else if has_key pm_id fresh (promocodes d) \<or>
            list_ex (\<lambda>p. citext_eq (pm_code p) code) (promocodes d) then Inl unique_violation
          else let p = \<lparr>pm_id = fresh, pm_code = code, pm_type = ptype, pm_discount = k,
              pm_currency = None, pm_max_uses = maxUses, pm_used_count = 0, pm_expires_at = None,
              pm_active = True, pm_created_at = now\<rparr>
            in Inr (p, d\<lparr>promocodes := promocodes d @ [p]\<rparr>))"

definition CreatePromo :: "string \<Rightarrow> string \<Rightarrow> float64 \<Rightarrow> int option \<Rightarrow> promo_row go" where
  "CreatePromo code ptype discount maxUses =
     wrap ''create promo'' (sql (insert_promo code ptype discount maxUses))"

definition insert_audit :: "uuid \<Rightarrow> string \<Rightarrow> string \<Rightarrow> string \<Rightarrow> unit statement" where
  "insert_audit actorID action objType objID now fresh d =
     (if has_key a_id fresh (audit_log d) then Inl unique_violation
      else if \<not> fk_ok u_id actorID (users d) then Inl foreign_key_violation
      else Inr ((), d\<lparr>audit_log := audit_log d @ [\<lparr>a_id = fresh, a_actor_id = Some actorID,
        a_actor_email = None, a_action = action, a_object_type = nullif_empty objType,
        a_object_id = nullif_empty objID, a_payload = ''{}'', a_ip = None, a_created_at = now\<rparr>]\<rparr>))"

definition InsertAudit :: "uuid \<Rightarrow> string \<Rightarrow> string \<Rightarrow> string \<Rightarrow> unit go" where
  "InsertAudit actorID action objType objID =
     wrap ''insert audit'' (sql (insert_audit actorID action objType objID))"

section \<open>Handlers\<close>

text \<open>A query parameter that is a number within bounds, or the default.\<close>

definition Atoi :: "string \<Rightarrow> int option" where
  "Atoi s = (let t = (if take 1 s = ''+'' then drop 1 s else s)
     in if take 2 s = ''+-'' then None else case parse_int t of
       None \<Rightarrow> None | Some n \<Rightarrow> if - (2 ^ 63) \<le> n \<and> n < 2 ^ 63 then Some n else None)"

definition pagination :: "request \<Rightarrow> nat \<times> nat" where
  "pagination r =
     (let limit = (case Atoi (get_first ''limit'' (rq_Query r)) of
            None \<Rightarrow> 50 | Some v \<Rightarrow> if v > 0 \<and> v \<le> 500 then nat v else 50);
          offset = (case Atoi (get_first ''offset'' (rq_Query r)) of
            None \<Rightarrow> 0 | Some v \<Rightarrow> if v \<ge> 0 then nat v else 0)
      in (limit, offset))"

definition admin_writeRepoError :: "error \<Rightarrow> serve" where
  "admin_writeRepoError e =
     (if errors_Is e Admin_ErrNotFound then writeError 404 ''not found''
      else writeError 500 ''internal error'')"

definition listing :: "string \<Rightarrow> ('a \<Rightarrow> out) \<Rightarrow> 'a list go \<Rightarrow> serve" where
  "listing name f m = on_result m internal_error
     (\<lambda>xs. writeJSON 200 (O_obj [(name, O_list (map f xs))]))"

definition dashboard_handler :: handler where
  "dashboard_handler r = on_result Admin_Dashboard internal_error (\<lambda>x. writeJSON 200
     (O_obj [(''users'', O_int (int (db_Users x))),
       (''active_subscriptions'', O_int (int (db_ActiveSubscriptions x))),
       (''servers_active'', O_int (int (db_ServersActive x))),
       (''servers_total'', O_int (int (db_ServersTotal x))),
       (''paid_orders'', O_int (int (db_PaidOrders x))),
       (''orders_today'', O_int (int (db_OrdersToday x))),
       (''revenue_total'', O_float (cents (db_RevenueTotal x)))]))"

definition UserRow_out :: "user_row \<times> nat \<Rightarrow> out" where
  "UserRow_out = (\<lambda>(u, n). O_obj ([(''id'', O_uuid (u_id u))] @ opt_member ''email'' O_str (u_email u) @
     opt_member ''phone'' O_str (u_phone u) @ opt_member ''telegram_id'' O_int (u_telegram_id u) @
     [(''role'', O_str (u_role u)), (''status'', O_str (u_status u)),
      (''subscriptions'', O_int (int n)), (''created_at'', O_time (u_created_at u))]))"

definition users_handler :: handler where
  "users_handler r = (case pagination r of (limit, offset) \<Rightarrow>
     listing ''users'' UserRow_out (ListUsers (get_first ''q'' (rq_Query r)) limit offset))"

definition ServerRow_out :: "server_row \<times> string \<Rightarrow> out" where
  "ServerRow_out = (\<lambda>(s, co). O_obj [(''id'', O_uuid (s_id s)), (''country'', O_str co),
     (''hostname'', O_str (s_hostname s)), (''public_host'', O_str (s_public_host s)),
     (''status'', O_str (s_status s)), (''client_count'', O_int (s_client_count s)),
     (''capacity'', O_int (s_capacity s)), (''priority'', O_int (s_priority s)),
     (''reserve'', O_bool (s_reserve s)), (''health_score'', O_int (s_health_score s))])"

definition servers_handler :: handler where
  "servers_handler r = listing ''servers'' ServerRow_out ListServers"

definition OrderRow_out :: "order_row \<times> string option \<Rightarrow> out" where
  "OrderRow_out = (\<lambda>(x, email). O_obj ([(''id'', O_uuid (o_id x))] @ opt_member ''user_email'' O_str email @
     [(''amount'', O_float (cents (o_amount x))), (''currency'', O_str (o_currency x)),
      (''status'', O_str (o_status x)), (''gateway'', O_str (o_gateway x)),
      (''protocol'', O_str (o_protocol x)), (''created_at'', O_time (o_created_at x))] @
     opt_member ''paid_at'' O_time (o_paid_at x)))"

definition admin_orders_handler :: handler where
  "admin_orders_handler r = (case pagination r of (limit, offset) \<Rightarrow>
     listing ''orders'' OrderRow_out (Admin_ListOrders limit offset))"

definition PaymentRow_out :: "payment_row \<Rightarrow> out" where
  "PaymentRow_out p = O_obj [(''id'', O_uuid (pay_id p)), (''order_id'', O_uuid (pay_order_id p)),
     (''gateway'', O_str (pay_gateway p)), (''status'', O_str (pay_status p)),
     (''amount'', O_float (cents (pay_amount p))), (''currency'', O_str (pay_currency p)),
     (''created_at'', O_time (pay_created_at p))]"

definition payments_handler :: handler where
  "payments_handler r = listing ''payments'' PaymentRow_out (ListPayments (fst (pagination r)))"

definition PromoRow_out :: "promo_row \<Rightarrow> out" where
  "PromoRow_out p = O_obj ([(''id'', O_uuid (pm_id p)), (''code'', O_str (pm_code p)),
     (''type'', O_str (pm_type p)), (''discount'', O_float (cents (pm_discount p))),
     (''used_count'', O_int (pm_used_count p))] @ opt_member ''max_uses'' O_int (pm_max_uses p) @
     [(''active'', O_bool (pm_active p))] @ opt_member ''expires_at'' O_time (pm_expires_at p))"

definition promos_handler :: handler where
  "promos_handler r = listing ''promocodes'' PromoRow_out ListPromos"

definition AuditRow_out :: "audit_row \<times> string option \<Rightarrow> out" where
  "AuditRow_out = (\<lambda>(a, email). O_obj ([(''id'', O_uuid (a_id a))] @ opt_member ''actor_email'' O_str email @
     [(''action'', O_str (a_action a))] @ opt_member ''object_type'' O_str (a_object_type a) @
     opt_member ''object_id'' O_str (a_object_id a) @ [(''created_at'', O_time (a_created_at a))]))"

definition audit_handler :: handler where
  "audit_handler r = listing ''audit'' AuditRow_out (ListAudit (fst (pagination r)))"

text \<open>An entry of the audit trail; its error is dropped.\<close>

definition audited :: "request \<Rightarrow> string \<Rightarrow> string \<Rightarrow> string \<Rightarrow> unit go" where
  "audited r action objType objID =
     (case rq_Principal r of
       None \<Rightarrow> return ()
     | Some p \<Rightarrow> ignore (InsertAudit (pn_UserID p) action objType objID))"

text \<open>A change of one field of a record, by an allowed value, with its audit entry.\<close>

definition set_field :: "string \<Rightarrow> string list \<Rightarrow> (uuid \<Rightarrow> string \<Rightarrow> unit go) \<Rightarrow> string \<Rightarrow> string \<Rightarrow> handler" where
  "set_field name allowed change action objType r =
     parse_or (PathValue r ''id'') ''invalid id'' (\<lambda>i.
     decode [name] (string_field name) r (\<lambda>v.
     if v \<notin> set allowed then writeError 400 (''invalid '' @ name)
     else on_result (change i v) admin_writeRepoError (\<lambda>_.
       on_result (audited r action objType (uuid_String i)) internal_error
         (\<lambda>_. status_reply 200 ''ok''))))"

definition allowedUserStatus :: "string list" where
  "allowedUserStatus = [''active'', ''blocked'', ''pending'']"

definition allowedUserRole :: "string list" where
  "allowedUserRole = [''user'', ''vip'', ''partner'', ''reseller'', ''support'', ''moderator'',
     ''admin'', ''superadmin'']"

definition allowedServerStatus :: "string list" where
  "allowedServerStatus = [''active'', ''drain'', ''offline'', ''archived'', ''provisioning'']"

definition userStatus :: handler where
  "userStatus = set_field ''status'' allowedUserStatus SetUserStatus ''user.status'' ''user''"

definition userRole :: handler where
  "userRole = set_field ''role'' allowedUserRole SetUserRole ''user.role'' ''user''"

definition serverStatus :: handler where
  "serverStatus = set_field ''status'' allowedServerStatus SetServerStatus ''server.status'' ''server''"

definition promo_fields ::
    "(string \<times> json) list \<Rightarrow> (string \<times> string \<times> float64 \<times> int option) option" where
  "promo_fields ms =
     Option.bind (string_field ''code'' ms) (\<lambda>c.
     Option.bind (string_field ''type'' ms) (\<lambda>t.
     Option.bind (float_field ''discount'' ms) (\<lambda>x.
     map_option (\<lambda>m. (c, t, x, m)) (int_opt_field ''max_uses'' ms))))"

definition createPromo :: handler where
  "createPromo r =
     decode [''code'', ''type'', ''discount'', ''max_uses''] promo_fields r
       (\<lambda>(code, ptype, discount, maxUses).
     if code = '''' \<or> (ptype \<noteq> ''percent'' \<and> ptype \<noteq> ''fixed'')
     then writeError 400 ''code and type (percent|fixed) are required''
     else on_result (CreatePromo code ptype discount maxUses)
       (\<lambda>_. writeError 409 ''could not create promo (duplicate code?)'') (\<lambda>p.
       on_result (audited r ''promo.create'' ''promo'' (uuid_String (pm_id p))) internal_error
         (\<lambda>_. writeJSON 201 (PromoRow_out p))))"

section \<open>Routes\<close>

definition guard :: "AuthService \<Rightarrow> handler \<Rightarrow> handler" where
  "guard s fn = Authenticate s (RequireRole [RoleAdmin, RoleSuperAdmin] fn)"

definition admin_routes :: "AuthService \<Rightarrow> route list" where
  "admin_routes s =
     (let pat = (\<lambda>p. api_path (''admin'' # p)) in
      [(''GET'', pat [''dashboard''], guard s dashboard_handler),
       (''GET'', pat [''users''], guard s users_handler),
       (''POST'', pat [''users''] @ [Wild ''id'', Lit ''status''], guard s userStatus),
       (''POST'', pat [''users''] @ [Wild ''id'', Lit ''role''], guard s userRole),
       (''GET'', pat [''servers''], guard s servers_handler),
       (''POST'', pat [''servers''] @ [Wild ''id'', Lit ''status''], guard s serverStatus),
       (''GET'', pat [''orders''], guard s admin_orders_handler),
       (''GET'', pat [''payments''], guard s payments_handler),
       (''GET'', pat [''promocodes''], guard s promos_handler),
       (''POST'', pat [''promocodes''], guard s createPromo),
       (''GET'', pat [''audit''], guard s audit_handler)])"

end
