(* ===== verification/UserModule.thy ===== *)
theory UserModule
  imports AuthHandler
begin

text \<open>
  Profiles and devices (\<open>internal/user\<close>: \<open>repository.go\<close>, \<open>handler.go\<close>).  The code never writes
  the settings of a profile, so they are the empty object.
\<close>

section \<open>Profiles\<close>

record Profile =
  pf_FirstName :: "string option"
  pf_LastName :: "string option"
  pf_Avatar :: "string option"
  pf_City :: "string option"
  pf_Country :: "string option"

record Me =
  me_ID :: uuid
  me_Email :: "string option"
  me_Phone :: "string option"
  me_Role :: string
  me_Status :: string
  me_Language :: string
  me_Timezone :: string
  me_Currency :: string
  me_Profile :: Profile
  me_CreatedAt :: timestamp

definition me_profile :: "uuid \<Rightarrow> db \<Rightarrow> Profile" where
  "me_profile userID d = (case by_key pr_user_id userID (user_profiles d) of
     None \<Rightarrow> \<lparr>pf_FirstName = None, pf_LastName = None, pf_Avatar = None, pf_City = None,
       pf_Country = None\<rparr>
   | Some p \<Rightarrow> \<lparr>pf_FirstName = pr_first_name p, pf_LastName = pr_last_name p,
       pf_Avatar = pr_avatar p, pf_City = pr_city p, pf_Country = pr_country p\<rparr>)"

definition GetMe :: "uuid \<Rightarrow> Me go" where
  "GetMe userID = no_rows User_ErrNotFound ''get me'' (sql (select_row (\<lambda>d.
     map_option (\<lambda>u. \<lparr>me_ID = u_id u, me_Email = u_email u, me_Phone = u_phone u, me_Role = u_role u,
         me_Status = u_status u, me_Language = u_language u, me_Timezone = u_timezone u,
         me_Currency = u_currency u, me_Profile = me_profile userID d, me_CreatedAt = u_created_at u\<rparr>)
       (by_key u_id userID (users d)))))"

record ProfileUpdate =
  pu_FirstName :: "string option"
  pu_LastName :: "string option"
  pu_City :: "string option"
  pu_Country :: "string option"
  pu_Avatar :: "string option"
  pu_Language :: "string option"
  pu_Timezone :: "string option"

definition update_profile_row :: "ProfileUpdate \<Rightarrow> profile_row \<Rightarrow> profile_row" where
  "update_profile_row u p = p\<lparr>pr_first_name := coalesce (pu_FirstName u) (pr_first_name p),
     pr_last_name := coalesce (pu_LastName u) (pr_last_name p),
     pr_city := coalesce (pu_City u) (pr_city p),
     pr_country := coalesce (pu_Country u) (pr_country p),
     pr_avatar := coalesce (pu_Avatar u) (pr_avatar p)\<rparr>"

definition set_profile :: "uuid \<Rightarrow> ProfileUpdate \<Rightarrow> unit statement" where
  "set_profile userID u = modify (\<lambda>d. d\<lparr>user_profiles :=
     update_where (\<lambda>p. pr_user_id p = userID) (update_profile_row u) (user_profiles d)\<rparr>)"

definition set_locale :: "ProfileUpdate \<Rightarrow> user_row \<Rightarrow> user_row" where
  "set_locale u r = r\<lparr>u_language := from_option (u_language r) (pu_Language u),
     u_timezone := from_option (u_timezone r) (pu_Timezone u)\<rparr>"

definition UpdateProfile :: "uuid \<Rightarrow> ProfileUpdate \<Rightarrow> unit go" where
  "UpdateProfile userID u =
     transaction (Wrap ''commit'')
       (bind (wrap ''update profile'' (sql (set_profile userID u))) (\<lambda>_.
        run_if (pu_Language u \<noteq> None \<or> pu_Timezone u \<noteq> None)
          (wrap ''update user'' (sql (set_user (\<lambda>r. u_id r = userID) (set_locale u))))))"

section \<open>Devices\<close>

definition ListDevices :: "uuid \<Rightarrow> device_row list go" where
  "ListDevices userID = wrap ''list devices'' (sql (select (\<lambda>d.
     sort_key (\<lambda>r. - d_created_at r) (filter (\<lambda>r. d_user_id r = userID) (devices d)))))"

record DeviceUpsert =
  du_DeviceUUID :: string
  du_Name :: "string option"
  du_Platform :: "string option"
  du_OS :: "string option"
  du_Version :: "string option"

definition refresh_device :: "DeviceUpsert \<Rightarrow> timestamp \<Rightarrow> device_row \<Rightarrow> device_row" where
  "refresh_device u now r = r\<lparr>d_name := coalesce (du_Name u) (d_name r),
     d_platform := coalesce (du_Platform u) (d_platform r), d_os := coalesce (du_OS u) (d_os r),
     d_version := coalesce (du_Version u) (d_version r), d_last_online := Some now\<rparr>"

definition is_device :: "uuid \<Rightarrow> string \<Rightarrow> device_row \<Rightarrow> bool" where
  "is_device userID du r \<longleftrightarrow> d_user_id r = userID \<and> d_device_uuid r = du"

definition upsert_device :: "uuid \<Rightarrow> DeviceUpsert \<Rightarrow> device_row statement" where
  "upsert_device userID u now fresh d =
     (case find_first (is_device userID (du_DeviceUUID u)) (devices d) of
       Some r \<Rightarrow> Inr (refresh_device u now r, d\<lparr>devices :=
         update_where (is_device userID (du_DeviceUUID u)) (refresh_device u now) (devices d)\<rparr>)
     | None \<Rightarrow>
         if has_key d_id fresh (devices d) then Inl unique_violation
         else if \<not> fk_ok u_id userID (users d) then Inl foreign_key_violation
         else let r = \<lparr>d_id = fresh, d_user_id = userID, d_device_uuid = du_DeviceUUID u,
             d_name = du_Name u, d_platform = du_Platform u, d_os = du_OS u,
             d_version = du_Version u, d_last_online = Some now, d_created_at = now\<rparr>
           in Inr (r, d\<lparr>devices := devices d @ [r]\<rparr>))"

definition UpsertDevice :: "uuid \<Rightarrow> DeviceUpsert \<Rightarrow> device_row go" where
  "UpsertDevice userID u = wrap ''upsert device'' (sql (upsert_device userID u))"

definition delete_device :: "uuid \<Rightarrow> uuid \<Rightarrow> nat statement" where
  "delete_device userID deviceID now fresh d =
     (let gone = (\<lambda>r. d_id r = deviceID \<and> d_user_id r = userID)
      in Inr (count_where gone (devices d), d\<lparr>devices := filter (\<lambda>r. \<not> gone r) (devices d)\<rparr>))"

definition DeleteDevice :: "uuid \<Rightarrow> uuid \<Rightarrow> unit go" where
  "DeleteDevice userID deviceID =
     bind (wrap ''delete device'' (sql (delete_device userID deviceID))) (\<lambda>n.
     if n = 0 then throw User_ErrNotFound else return ())"

section \<open>Handlers\<close>

definition opt_str :: "string option \<Rightarrow> out" where
  "opt_str s = (case s of None \<Rightarrow> O_null | Some t \<Rightarrow> O_str t)"

definition Me_out :: "Me \<Rightarrow> out" where
  "Me_out m = O_obj ([(''id'', O_uuid (me_ID m))] @ opt_member ''email'' O_str (me_Email m) @
     opt_member ''phone'' O_str (me_Phone m) @
     [(''role'', O_str (me_Role m)), (''status'', O_str (me_Status m)),
      (''language'', O_str (me_Language m)), (''timezone'', O_str (me_Timezone m)),
      (''currency'', O_str (me_Currency m)),
      (''profile'', O_obj [(''first_name'', opt_str (pf_FirstName (me_Profile m))),
         (''last_name'', opt_str (pf_LastName (me_Profile m))),
         (''avatar'', opt_str (pf_Avatar (me_Profile m))),
         (''city'', opt_str (pf_City (me_Profile m))),
         (''country'', opt_str (pf_Country (me_Profile m))), (''settings'', O_obj [])]),
      (''created_at'', O_time (me_CreatedAt m))])"

definition Device_out :: "device_row \<Rightarrow> out" where
  "Device_out r = O_obj [(''id'', O_uuid (d_id r)), (''device_uuid'', O_str (d_device_uuid r)),
     (''name'', opt_str (d_name r)), (''platform'', opt_str (d_platform r)), (''os'', opt_str (d_os r)),
     (''version'', opt_str (d_version r)),
     (''last_online'', case d_last_online r of None \<Rightarrow> O_null | Some t \<Rightarrow> O_time t),
     (''created_at'', O_time (d_created_at r))]"

definition user_writeRepoError :: "error \<Rightarrow> serve" where
  "user_writeRepoError e =
     (if errors_Is e User_ErrNotFound then writeErr 404 e else writeError 500 ''internal error'')"

definition getMe :: handler where
  "getMe r = on_result (GetMe (pn_UserID (principal r))) user_writeRepoError
     (\<lambda>m. writeJSON 200 (Me_out m))"

definition profile_fields :: "(string \<times> json) list \<Rightarrow> ProfileUpdate option" where
  "profile_fields ms =
     Option.bind (string_opt_field ''first_name'' ms) (\<lambda>f.
     Option.bind (string_opt_field ''last_name'' ms) (\<lambda>l.
     Option.bind (string_opt_field ''city'' ms) (\<lambda>c.
     Option.bind (string_opt_field ''country'' ms) (\<lambda>co.
     Option.bind (string_opt_field ''avatar'' ms) (\<lambda>a.
     Option.bind (string_opt_field ''language'' ms) (\<lambda>la.
     map_option (\<lambda>t. \<lparr>pu_FirstName = f, pu_LastName = l, pu_City = c, pu_Country = co,
       pu_Avatar = a, pu_Language = la, pu_Timezone = t\<rparr>) (string_opt_field ''timezone'' ms)))))))"

definition updateMe :: handler where
  "updateMe r =
     decode [''first_name'', ''last_name'', ''city'', ''country'', ''avatar'', ''language'', ''timezone'']
       profile_fields r (\<lambda>u.
     on_result (bind (UpdateProfile (pn_UserID (principal r)) u) (\<lambda>_. GetMe (pn_UserID (principal r))))
       user_writeRepoError (\<lambda>m. writeJSON 200 (Me_out m)))"

definition listDevices :: handler where
  "listDevices r = on_result (ListDevices (pn_UserID (principal r))) user_writeRepoError
     (\<lambda>ds. writeJSON 200 (O_obj [(''devices'', O_list (map Device_out ds))]))"

definition device_fields :: "(string \<times> json) list \<Rightarrow> DeviceUpsert option" where
  "device_fields ms =
     Option.bind (string_field ''device_uuid'' ms) (\<lambda>u.
     Option.bind (string_opt_field ''name'' ms) (\<lambda>n.
     Option.bind (string_opt_field ''platform'' ms) (\<lambda>p.
     Option.bind (string_opt_field ''os'' ms) (\<lambda>os.
     map_option (\<lambda>v. \<lparr>du_DeviceUUID = u, du_Name = n, du_Platform = p, du_OS = os, du_Version = v\<rparr>)
       (string_opt_field ''version'' ms)))))"

definition upsertDevice :: handler where
  "upsertDevice r =
     decode [''device_uuid'', ''name'', ''platform'', ''os'', ''version''] device_fields r (\<lambda>u.
     if du_DeviceUUID u = '''' then writeError 400 ''device_uuid is required''
     else on_result (UpsertDevice (pn_UserID (principal r)) u) user_writeRepoError
       (\<lambda>d. writeJSON 200 (Device_out d)))"

definition deleteDevice :: handler where
  "deleteDevice r =
     (case uuid_Parse (PathValue r ''id'') of
       None \<Rightarrow> writeError 400 ''invalid device id''
     | Some i \<Rightarrow> on_result (DeleteDevice (pn_UserID (principal r)) i) user_writeRepoError
         (\<lambda>_. status_reply 200 ''deleted''))"

definition user_routes :: "AuthService \<Rightarrow> route list" where
  "user_routes s =
     (let me = [Lit ''api'', Lit ''v1'', Lit ''users'', Lit ''me''] in
      [(''GET'', me, Authenticate s getMe),
       (''PUT'', me, Authenticate s updateMe),
       (''GET'', me @ [Lit ''devices''], Authenticate s listDevices),
       (''POST'', me @ [Lit ''devices''], Authenticate s upsertDevice),
       (''DELETE'', me @ [Lit ''devices'', Wild ''id''], Authenticate s deleteDevice)])"

end
