(* ===== verification/TelegramApi.thy ===== *)
theory TelegramApi
  imports Http BillingProviders VPNService
begin

text \<open>
  The Bot API client of \<open>internal/telegram/api.go\<close>: the events it decodes and the methods it
  calls.  A call is a request to the API, answered with a code and a body by the tape's position.
\<close>

section \<open>Events\<close>

record TgUser =
  tu_ID :: int
  tu_FirstName :: string
  tu_LastName :: string
  tu_Username :: string

record SuccessfulPayment =
  sp_Currency :: string
  sp_TotalAmount :: int
  sp_InvoicePayload :: string
  sp_TelegramPaymentChargeID :: string

record Message =
  msg_MessageID :: int
  msg_From :: "TgUser option"
  msg_ChatID :: int
  msg_Text :: string
  msg_SuccessfulPayment :: "SuccessfulPayment option"

record CallbackQuery =
  cq_ID :: string
  cq_From :: TgUser
  cq_Message :: "Message option"
  cq_Data :: string

record PreCheckoutQuery =
  pq_ID :: string
  pq_From :: TgUser
  pq_Currency :: string
  pq_TotalAmount :: int
  pq_InvoicePayload :: string

record Update =
  up_UpdateID :: int
  up_Message :: "Message option"
  up_CallbackQuery :: "CallbackQuery option"
  up_PreCheckoutQuery :: "PreCheckoutQuery option"

section \<open>Decoding\<close>

text \<open>
  The members a nested struct is read from: objects add up, null changes nothing.  A pointer is
  nil until an object comes, and null makes it nil again.
\<close>

definition all_values :: "string \<Rightarrow> (string \<times> json) list \<Rightarrow> json list" where
  "all_values name ms = map snd (filter (\<lambda>(k, v). fold_eq k name) ms)"

fun nested_from :: "(string \<times> json) list \<Rightarrow> json list \<Rightarrow> (string \<times> json) list option" where
  "nested_from acc [] = Some acc"
| "nested_from acc (JNull # vs) = nested_from acc vs"
| "nested_from acc (JObj ms # vs) = nested_from (acc @ ms) vs"
| "nested_from acc (_ # vs) = None"

fun pointer_from ::
    "(string \<times> json) list option \<Rightarrow> json list \<Rightarrow> (string \<times> json) list option option" where
  "pointer_from acc [] = Some acc"
| "pointer_from acc (JNull # vs) = pointer_from None vs"
| "pointer_from acc (JObj ms # vs) = pointer_from (Some (from_option [] acc @ ms)) vs"
| "pointer_from acc (_ # vs) = None"

definition nested ::
    "string \<Rightarrow> ((string \<times> json) list \<Rightarrow> 'a option) \<Rightarrow> (string \<times> json) list \<Rightarrow> 'a option" where
  "nested name read ms = Option.bind (nested_from [] (all_values name ms)) read"

definition pointer ::
    "string \<Rightarrow> ((string \<times> json) list \<Rightarrow> 'a option) \<Rightarrow> (string \<times> json) list \<Rightarrow> 'a option option" where
  "pointer name read ms = Option.bind (pointer_from None (all_values name ms)) (\<lambda>p.
     case p of None \<Rightarrow> Some None | Some inner \<Rightarrow> map_option Some (read inner))"

definition read_user :: "(string \<times> json) list \<Rightarrow> TgUser option" where
  "read_user ms =
     Option.bind (int_field ''id'' ms) (\<lambda>i.
     Option.bind (string_field ''first_name'' ms) (\<lambda>f.
     Option.bind (string_field ''last_name'' ms) (\<lambda>l.
     map_option (\<lambda>u. \<lparr>tu_ID = i, tu_FirstName = f, tu_LastName = l, tu_Username = u\<rparr>)
       (string_field ''username'' ms))))"

definition read_payment :: "(string \<times> json) list \<Rightarrow> SuccessfulPayment option" where
  "read_payment ms =
     Option.bind (string_field ''currency'' ms) (\<lambda>c.
     Option.bind (int_field ''total_amount'' ms) (\<lambda>t.
     Option.bind (string_field ''invoice_payload'' ms) (\<lambda>p.
     map_option (\<lambda>i. \<lparr>sp_Currency = c, sp_TotalAmount = t, sp_InvoicePayload = p,
         sp_TelegramPaymentChargeID = i\<rparr>) (string_field ''telegram_payment_charge_id'' ms))))"

definition read_message :: "(string \<times> json) list \<Rightarrow> Message option" where
  "read_message ms =
     Option.bind (int_field ''message_id'' ms) (\<lambda>i.
     Option.bind (pointer ''from'' read_user ms) (\<lambda>f.
     Option.bind (nested ''chat'' (int_field ''id'') ms) (\<lambda>c.
     Option.bind (string_field ''text'' ms) (\<lambda>t.
     map_option (\<lambda>p. \<lparr>msg_MessageID = i, msg_From = f, msg_ChatID = c, msg_Text = t,
         msg_SuccessfulPayment = p\<rparr>) (pointer ''successful_payment'' read_payment ms)))))"

definition read_callback :: "(string \<times> json) list \<Rightarrow> CallbackQuery option" where
  "read_callback ms =
     Option.bind (string_field ''id'' ms) (\<lambda>i.
     Option.bind (nested ''from'' read_user ms) (\<lambda>f.
     Option.bind (pointer ''message'' read_message ms) (\<lambda>m.
     map_option (\<lambda>d. \<lparr>cq_ID = i, cq_From = f, cq_Message = m, cq_Data = d\<rparr>)
       (string_field ''data'' ms))))"

definition read_precheckout :: "(string \<times> json) list \<Rightarrow> PreCheckoutQuery option" where
  "read_precheckout ms =
     Option.bind (string_field ''id'' ms) (\<lambda>i.
     Option.bind (nested ''from'' read_user ms) (\<lambda>f.
     Option.bind (string_field ''currency'' ms) (\<lambda>c.
     Option.bind (int_field ''total_amount'' ms) (\<lambda>t.
     map_option (\<lambda>p. \<lparr>pq_ID = i, pq_From = f, pq_Currency = c, pq_TotalAmount = t,
         pq_InvoicePayload = p\<rparr>) (string_field ''invoice_payload'' ms)))))"

definition read_update :: "(string \<times> json) list \<Rightarrow> Update option" where
  "read_update ms =
     Option.bind (int_field ''update_id'' ms) (\<lambda>i.
     Option.bind (pointer ''message'' read_message ms) (\<lambda>m.
     Option.bind (pointer ''callback_query'' read_callback ms) (\<lambda>c.
     map_option (\<lambda>p. \<lparr>up_UpdateID = i, up_Message = m, up_CallbackQuery = c,
         up_PreCheckoutQuery = p\<rparr>) (pointer ''pre_checkout_query'' read_precheckout ms))))"

fun read_updates :: "json list \<Rightarrow> Update list option" where
  "read_updates [] = Some []"
| "read_updates (v # vs) =
     Option.bind (Option.bind (struct_members v) read_update) (\<lambda>u.
     map_option ((#) u) (read_updates vs))"

section \<open>Keyboards\<close>

record InlineKeyboardButton =
  kb_Text :: string
  kb_CallbackData :: string

type_synonym InlineKeyboardMarkup = "InlineKeyboardButton list list"

text \<open>The flag for pay buttons is never set, and is left out when it is not.\<close>

definition button_json :: "InlineKeyboardButton \<Rightarrow> json" where
  "button_json b = JObj ((''text'', JStr (kb_Text b)) #
     (if kb_CallbackData b = '''' then [] else [(''callback_data'', JStr (kb_CallbackData b))]))"

definition markup_json :: "InlineKeyboardMarkup \<Rightarrow> json" where
  "markup_json rows = JObj [(''inline_keyboard'', JArr (map (\<lambda>r. JArr (map button_json r)) rows))]"

section \<open>Methods\<close>

definition tg_url :: "string \<Rightarrow> string \<Rightarrow> string" where
  "tg_url token meth = ''https://api.telegram.org/bot'' @ token @ ''/'' @ meth"

text \<open>The envelope of an answer: whether it is a success, and the raw result if there is one.\<close>

definition tg_envelope :: "string \<Rightarrow> (bool \<times> json option) option" where
  "tg_envelope body =
     Option.bind (Option.bind (json_Decode body) struct_members) (\<lambda>ms.
     Option.bind (string_field ''description'' ms) (\<lambda>_.
     (let rs = all_values ''result'' ms; oks = field_values ''ok'' ms
      in if list_all (\<lambda>v. v = JBool True \<or> v = JBool False) oks
         then Some (oks \<noteq> [] \<and> last oks = JBool True, if rs = [] then None else Some (last rs))
         else None)))"

definition tg_call :: "string \<Rightarrow> string \<Rightarrow> (string \<times> json) list \<Rightarrow> json option go" where
  "tg_call token meth payload =
     bind (wrap (''call '' @ meth) (api_post (tg_url token meth)
       [(''Content-Type'', ''application/json'')] (json_Marshal (JObj (map_of_members payload))))) (\<lambda>body.
     case tg_envelope body of
       None \<Rightarrow> throw (Wrap (''decode '' @ meth) syntax_error)
     | Some (ok, r) \<Rightarrow> if \<not> ok then throw (Errorf (''telegram '' @ meth)) else return r)"

text \<open>A method whose result is not read.\<close>

definition tg_do :: "string \<Rightarrow> string \<Rightarrow> (string \<times> json) list \<Rightarrow> unit go" where
  "tg_do token meth payload = bind (tg_call token meth payload) (\<lambda>_. return ())"

definition json_int :: "int \<Rightarrow> json" where "json_int i = JNum (show_int i)"

definition GetUpdates :: "string \<Rightarrow> int \<Rightarrow> int \<Rightarrow> Update list go" where
  "GetUpdates token offset timeout =
     bind (tg_call token ''getUpdates'' [(''offset'', json_int offset), (''timeout'', json_int timeout),
       (''allowed_updates'', JArr [JStr ''message'', JStr ''callback_query'', JStr ''pre_checkout_query''])])
       (\<lambda>r.
     case r of
       Some (JArr vs) \<Rightarrow> (case read_updates vs of None \<Rightarrow> throw syntax_error | Some us \<Rightarrow> return us)
     | Some JNull \<Rightarrow> return []
     | _ \<Rightarrow> throw syntax_error)"

definition text_payload :: "int \<Rightarrow> string \<Rightarrow> InlineKeyboardMarkup option \<Rightarrow> (string \<times> json) list" where
  "text_payload chatID body kb =
     [(''chat_id'', json_int chatID), (''text'', JStr body), (''parse_mode'', JStr ''HTML''),
      (''disable_web_page_preview'', JBool True)] @
     (case kb of None \<Rightarrow> [] | Some k \<Rightarrow> [(''reply_markup'', markup_json k)])"

definition SendMessage :: "string \<Rightarrow> int \<Rightarrow> string \<Rightarrow> InlineKeyboardMarkup option \<Rightarrow> unit go" where
  "SendMessage token chatID body kb = tg_do token ''sendMessage'' (text_payload chatID body kb)"

definition EditMessageText ::
    "string \<Rightarrow> int \<Rightarrow> int \<Rightarrow> string \<Rightarrow> InlineKeyboardMarkup option \<Rightarrow> unit go" where
  "EditMessageText token chatID messageID body kb =
     tg_do token ''editMessageText'' ((''message_id'', json_int messageID) # text_payload chatID body kb)"

definition AnswerCallbackQuery :: "string \<Rightarrow> string \<Rightarrow> string \<Rightarrow> unit go" where
  "AnswerCallbackQuery token i body = tg_do token ''answerCallbackQuery''
     [(''callback_query_id'', JStr i), (''text'', JStr body)]"

definition SendInvoice ::
    "string \<Rightarrow> int \<Rightarrow> string \<Rightarrow> string \<Rightarrow> string \<Rightarrow> (string \<times> int) list \<Rightarrow> unit go" where
  "SendInvoice token chatID title description payload prices = tg_do token ''sendInvoice''
     [(''chat_id'', json_int chatID), (''title'', JStr title), (''description'', JStr description),
      (''payload'', JStr payload), (''provider_token'', JStr ''''), (''currency'', JStr ''XTR''),
      (''prices'', JArr (map (\<lambda>(l, a). JObj [(''label'', JStr l), (''amount'', json_int a)]) prices))]"

definition AnswerPreCheckoutQuery :: "string \<Rightarrow> string \<Rightarrow> bool \<Rightarrow> string \<Rightarrow> unit go" where
  "AnswerPreCheckoutQuery token i ok errMsg = tg_do token ''answerPreCheckoutQuery''
     ([(''pre_checkout_query_id'', JStr i), (''ok'', JBool ok)] @
      (if \<not> ok then [(''error_message'', JStr errMsg)] else []))"

section \<open>Uploads\<close>

text \<open>A multipart form, with the boundary that the writer draws.\<close>

definition crlf :: string where "crlf = [CHR 0x0D, CHR 0x0A]"

definition quoted :: "string \<Rightarrow> string" where "quoted s = [quote_char] @ s @ [quote_char]"

definition form_field :: "string \<Rightarrow> string \<Rightarrow> string \<Rightarrow> string" where
  "form_field boundary name val =
     ''--'' @ boundary @ crlf @ ''Content-Disposition: form-data; name='' @ quoted name @ crlf @ crlf @
     val @ crlf"

definition form_file :: "string \<Rightarrow> string \<Rightarrow> string \<Rightarrow> string \<Rightarrow> string" where
  "form_file boundary field name data =
     ''--'' @ boundary @ crlf @ ''Content-Disposition: form-data; name='' @ quoted field @
     ''; filename='' @ quoted name @ crlf @ ''Content-Type: application/octet-stream'' @ crlf @ crlf @
     data @ crlf"

definition api_upload :: "string \<Rightarrow> headers \<Rightarrow> string \<Rightarrow> int go" where
  "api_upload url hs body w =
     (if env_fault (w_env w) (w_tick w) then (Inl Fault, step_tick w)
      else (Inr (env_http_status (w_env w) (w_tick w)),
            (step_tick w)\<lparr>w_nodes := w_nodes w @ [ApiCall url hs body]\<rparr>))"

definition tg_upload ::
    "string \<Rightarrow> string \<Rightarrow> int \<Rightarrow> string \<Rightarrow> string \<Rightarrow> string \<Rightarrow> string \<Rightarrow> unit go" where
  "tg_upload token meth chatID field name data caption =
     bind (rand_Read 30) (\<lambda>b.
     let boundary = hex_EncodeToString b;
         parts = form_field boundary ''chat_id'' (show_int chatID) @
           (if caption \<noteq> '''' then form_field boundary ''caption'' caption @
              form_field boundary ''parse_mode'' ''HTML'' else []) @
           form_file boundary field name data @
           ''--'' @ boundary @ ''--'' @ crlf
     in bind (wrap (''upload '' @ meth) (api_upload (tg_url token meth)
          [(''Content-Type'', ''multipart/form-data; boundary='' @ boundary)] parts)) (\<lambda>code.
        if code \<ge> 300 then throw (Errorf (''upload '' @ meth @ '': status '' @ show_int code))
        else return ()))"

definition SendPhoto :: "string \<Rightarrow> int \<Rightarrow> string \<Rightarrow> string \<Rightarrow> string \<Rightarrow> unit go" where
  "SendPhoto token chatID name data caption =
     tg_upload token ''sendPhoto'' chatID ''photo'' name data caption"

definition SendDocument :: "string \<Rightarrow> int \<Rightarrow> string \<Rightarrow> string \<Rightarrow> string \<Rightarrow> unit go" where
  "SendDocument token chatID name data caption =
     tg_upload token ''sendDocument'' chatID ''document'' name data caption"

end
