(* ===== verification/JsonIndent.thy ===== *)
theory JsonIndent
  imports JsonCorrect
begin

text \<open>
  \<open>json.MarshalIndent\<close> with two blanks, which the node agent writes its configuration with, and
  the proof that what it writes is read back: white space between tokens changes nothing.
\<close>

section \<open>Printing with indentation\<close>

definition new_line :: "nat \<Rightarrow> string" where
  "new_line d = CHR 0x0A # replicate (2 * d) (CHR '' '')"

fun indent_json :: "nat \<Rightarrow> json \<Rightarrow> string" where
  "indent_json d (JArr vs) =
     (if vs = [] then ''[]''
      else ''['' @ new_line (Suc d) @
        Join (map (indent_json (Suc d)) vs) ('','' @ new_line (Suc d)) @ new_line d @ '']'')"
| "indent_json d (JObj ms) =
     (if ms = [] then ''{}''
      else ''{'' @ new_line (Suc d) @
        Join (map (\<lambda>(k, v). quote k @ '': '' @ indent_json (Suc d) v) ms) ('','' @ new_line (Suc d)) @
        new_line d @ ''}'')"
| "indent_json d v = json_Marshal v"

definition json_MarshalIndent :: "json \<Rightarrow> string" where
  "json_MarshalIndent v = indent_json 0 v"

section \<open>White space\<close>

definition blank :: "string \<Rightarrow> bool" where
  "blank s \<longleftrightarrow> list_all is_ws s"

lemma blank_new_line [simp]: "blank (new_line d)"
  by (simp add: blank_def new_line_def is_ws_def list_all_iff)

lemma skip_ws_blank [simp]: "blank w \<Longrightarrow> skip_ws (w @ s) = skip_ws s"
  by (induction w) (simp_all add: blank_def skip_ws_def)

lemma parse_value_blank: "blank w \<Longrightarrow> parse_value (w @ s) = parse_value s"
  by (simp add: parse_value.simps [of "w @ s"] parse_value.simps [of s])

lemma delim_blank: "blank u \<Longrightarrow> delim s \<Longrightarrow> delim (u @ s)"
  by (cases u) (auto simp: blank_def delim_def is_ws_def is_digit_def)

lemma delim_closing [simp]: "delim (CHR '']'' # r)" "delim (CHR ''}'' # r)" "delim (CHR '','' # r)"
  by (simp_all add: delim_def is_digit_def)

lemma skip_ws_marks [simp]:
  "skip_ws (CHR '']'' # r) = CHR '']'' # r" "skip_ws (CHR ''}'' # r) = CHR ''}'' # r"
  "skip_ws (CHR '','' # r) = CHR '','' # r" "skip_ws (CHR '':'' # r) = CHR '':'' # r"
  "skip_ws (quote_char # r) = quote_char # r"
  by (simp_all add: skip_ws_def is_ws_def quote_char_def)

section \<open>Reading back\<close>

lemma indent_json_hd:
  assumes "wf_json v"
  shows "indent_json d v \<noteq> [] \<and> \<not> is_ws (hd (indent_json d v)) \<and> hd (indent_json d v) \<noteq> CHR '']''"
  using assms json_Marshal_hd [OF assms] by (cases v) (auto simp: is_ws_def)

lemma Join_Cons: "vs \<noteq> [] \<Longrightarrow> Join (s # vs) sep = s @ sep @ Join vs sep"
  by (cases vs) simp_all

lemma parse_elems_spaced:
  assumes "\<And>v r. v \<in> set vs \<Longrightarrow> delim r \<Longrightarrow> parse_value (g v @ r) = Some (v, r)"
    and "vs \<noteq> []" "\<And>v. v \<in> set vs \<Longrightarrow> g v \<noteq> []" "blank w" "blank u"
  shows "parse_elems (w @ Join (map g vs) ('','' @ w) @ u @ '']'' @ r) = Some (vs, r)"
  using assms(1-3)
proof (induction vs)
  case (Cons v vs)
  have read: "parse_value (w @ g v @ t) = Some (v, t)" if "delim t" for t
    using Cons.prems(1) [of v t] that assms(4) by (simp add: parse_value_blank)
  show ?case
  proof (cases "vs = []")
    case True
    have "delim (u @ '']'' @ r)" by (rule delim_blank [OF assms(5)]) simp
    from read [OF this] show ?thesis
      using True assms(5) Cons.prems(3) [of v] by (simp add: parse_elems.simps)
  next
    case False
    let ?t = "w @ Join (map g vs) ('','' @ w) @ u @ '']'' @ r"
    have "parse_value (w @ g v @ '','' @ ?t) = Some (v, '','' @ ?t)" by (rule read) simp
    moreover have "parse_elems ?t = Some (vs, r)" using Cons False by simp
    ultimately show ?thesis
      using False Cons.prems(3) [of v]
      by (subst parse_elems.simps) (simp add: Join_Cons)
  qed
qed simp

lemma parse_members_spaced:
  assumes "\<And>k v r. (k, v) \<in> set ms \<Longrightarrow> delim r \<Longrightarrow> parse_value (g v @ r) = Some (v, r)"
    and "ms \<noteq> []" "\<And>k v. (k, v) \<in> set ms \<Longrightarrow> valid_utf8 k" "blank w" "blank u"
  shows "parse_members (w @ Join (map (\<lambda>(k, v). quote k @ '': '' @ g v) ms) ('','' @ w) @ u @ ''}'' @ r)
    = Some (ms, r)"
  using assms(1-3)
proof (induction ms)
  case (Cons m ms)
  obtain k v where m: "m = (k, v)" by (cases m) auto
  have key: "parse_string (quote_body k @ quote_char # t) = Some (k, t)" for t
    using Cons.prems(3) [of k v] m by (simp add: parse_simps)
  have read: "parse_value (CHR '' '' # g v @ t) = Some (v, t)" if "delim t" for t
    using Cons.prems(1) [of k v t] that m parse_value_blank [of "'' ''" "g v @ t"]
    by (simp add: blank_def is_ws_def)
  show ?case
  proof (cases "ms = []")
    case True
    have "delim (u @ ''}'' @ r)" by (rule delim_blank [OF assms(5)]) simp
    from read [OF this] show ?thesis
      using True assms(4,5) by (subst parse_members.simps) (simp add: m quote_def key)
  next
    case False
    let ?t = "w @ Join (map (\<lambda>(k, v). quote k @ '': '' @ g v) ms) ('','' @ w) @ u @ ''}'' @ r"
    have "parse_value (CHR '' '' # g v @ '','' @ ?t) = Some (v, '','' @ ?t)" by (rule read) simp
    moreover have "parse_members ?t = Some (ms, r)"
    proof (rule Cons.IH)
      show "parse_value (g v' @ r') = Some (v', r')" if "(k', v') \<in> set ms" "delim r'" for k' v' r'
        using Cons.prems(1) [of k' v' r'] that by simp
    qed (use False Cons.prems(3) in auto)
    ultimately show ?thesis
      using False assms(4) by (subst parse_members.simps) (simp add: m quote_def key Join_Cons)
  qed
qed simp

lemma indent_json_read: "wf_json v \<Longrightarrow> delim r \<Longrightarrow> parse_value (indent_json d v @ r) = Some (v, r)"
proof (induction v arbitrary: r d)
  case (JArr vs)
  show ?case
  proof (cases vs)
    case Nil
    then show ?thesis using json_roundtrip [of "JArr []" r] JArr.prems by simp
  next
    case (Cons v ws)
    let ?t = "new_line (Suc d) @ Join (map (indent_json (Suc d)) vs) ('','' @ new_line (Suc d)) @
      new_line d @ '']'' @ r"
    have wf: "\<And>v. v \<in> set vs \<Longrightarrow> wf_json v" using JArr.prems by (simp add: list_all_iff)
    have "parse_elems ?t = Some (vs, r)"
      using JArr.IH wf Cons indent_json_hd by (intro parse_elems_spaced) auto
    moreover have "take 1 (skip_ws ?t) \<noteq> '']''"
    proof -
      note v = indent_json_hd [OF wf [of v], of "Suc d"]
      obtain c cs where "indent_json (Suc d) v = c # cs" "\<not> is_ws c" "c \<noteq> CHR '']''"
        using v Cons by (cases "indent_json (Suc d) v") auto
      then show ?thesis using Cons by (cases ws) (simp_all add: skip_ws_id)
    qed
    ultimately show ?thesis
      using Cons by (subst parse_value.simps)
        (simp add: skip_ws_id [of "CHR ''['' # u" for u] is_ws_def quote_char_def)
  qed
next
  case (JObj ms)
  show ?case
  proof (cases ms)
    case Nil
    then show ?thesis using json_roundtrip [of "JObj []" r] JObj.prems by simp
  next
    case (Cons m ns)
    let ?show = "\<lambda>(k, v). quote k @ '': '' @ indent_json (Suc d) v"
    let ?t = "new_line (Suc d) @ Join (map ?show ms) ('','' @ new_line (Suc d)) @ new_line d @ ''}'' @ r"
    have wf: "\<And>k v. (k, v) \<in> set ms \<Longrightarrow> valid_utf8 k \<and> wf_json v"
      using JObj.prems by (auto simp: list_all_iff)
    have "parse_members ?t = Some (ms, r)"
    proof (rule parse_members_spaced)
      show "parse_value (indent_json (Suc d) v @ r') = Some (v, r')"
        if "(k, v) \<in> set ms" "delim r'" for k v r'
        using that wf by (intro JObj.IH [of "(k, v)"]) auto
    qed (use Cons wf in auto)
    moreover have "take 1 (skip_ws ?t) \<noteq> ''}''"
      using Cons by (cases m; cases ns) (simp_all add: quote_def, simp_all add: quote_char_def)
    ultimately show ?thesis
      using Cons by (subst parse_value.simps)
        (simp add: skip_ws_id [of "CHR ''{'' # u" for u] is_ws_def quote_char_def)
  qed
qed (simp_all only: indent_json.simps json_roundtrip)

lemma json_Unmarshal_MarshalIndent [parse_simps]:
  "wf_json v \<Longrightarrow> json_Unmarshal (json_MarshalIndent v) = Some v"
  using indent_json_read [of v "[]" 0]
  by (simp add: json_Unmarshal_def json_MarshalIndent_def delim_def skip_ws_def)

end
