(* ===== verification/NodeAgent.thy ===== *)
theory NodeAgent
  imports Http AppConfig JsonIndent
begin

text \<open>
  The agent that runs on a VPN node (\<open>cmd/agent/main.go\<close>).  It is a process of its own: its state
  is the files of the node and the commands it has run.  The tools it runs (\<open>wg\<close>, Docker) are not
  modelled; what they print, which calls fail and how the probed sites answer is decided by an
  environment, by position of a tape, as for the server.
\<close>

section \<open>The node\<close>

text \<open>
  A write that fails may have changed nothing, or may have truncated the file and written the
  first bytes.
\<close>

record node_env =
  ne_fault :: "nat \<Rightarrow> bool"
  ne_cut :: "nat \<Rightarrow> nat option"
  ne_output :: "nat \<Rightarrow> string"
  ne_status :: "nat \<Rightarrow> int"
  ne_temp :: "nat \<Rightarrow> string"
  ne_vars :: environment
  ne_cpus :: nat

record node =
  nd_env :: node_env
  nd_tick :: nat
  nd_files :: "string \<Rightarrow> string option"
  nd_commands :: "(string \<times> string list) list"

type_synonym 'a act = "node \<Rightarrow> (error + 'a) \<times> node"

definition act_return :: "'a \<Rightarrow> 'a act" where
  "act_return x n = (Inr x, n)"

definition act_throw :: "error \<Rightarrow> 'a act" where
  "act_throw e n = (Inl e, n)"

definition act_bind :: "'a act \<Rightarrow> ('a \<Rightarrow> 'b act) \<Rightarrow> 'b act" where
  "act_bind m f n = (case m n of (Inl e, n') \<Rightarrow> (Inl e, n') | (Inr x, n') \<Rightarrow> f x n')"

definition act_wrap :: "string \<Rightarrow> 'a act \<Rightarrow> 'a act" where
  "act_wrap s m n = (case m n of (Inl e, n') \<Rightarrow> (Inl (Wrap s e), n') | r \<Rightarrow> r)"

text \<open>The result, or a default when the error is dropped.\<close>

definition act_default :: "'a \<Rightarrow> 'a act \<Rightarrow> 'a act" where
  "act_default d m n = (case m n of (Inl e, n') \<Rightarrow> (Inr d, n') | r \<Rightarrow> r)"

definition nd_step :: "node \<Rightarrow> node" where
  "nd_step n = n\<lparr>nd_tick := Suc (nd_tick n)\<rparr>"

definition nd_faulty :: "node \<Rightarrow> bool" where
  "nd_faulty n = ne_fault (nd_env n) (nd_tick n)"

definition ReadFile :: "string \<Rightarrow> string act" where
  "ReadFile path n =
     (if nd_faulty n then (Inl Fault, nd_step n)
      else case nd_files n path of None \<Rightarrow> (Inl Fault, nd_step n) | Some s \<Rightarrow> (Inr s, nd_step n))"

definition WriteFile :: "string \<Rightarrow> string \<Rightarrow> unit act" where
  "WriteFile path data n =
     (if nd_faulty n then
        (Inl Fault, (nd_step n)\<lparr>nd_files := (case ne_cut (nd_env n) (nd_tick n) of
           None \<Rightarrow> nd_files n | Some k \<Rightarrow> (nd_files n)(path \<mapsto> take k data))\<rparr>)
      else (Inr (), (nd_step n)\<lparr>nd_files := (nd_files n)(path \<mapsto> data)\<rparr>))"

definition CreateTemp :: "string act" where
  "CreateTemp n =
     (let name = ne_temp (nd_env n) (nd_tick n) in
      if nd_faulty n then (Inl Fault, nd_step n)
      else (Inr name, (nd_step n)\<lparr>nd_files := (nd_files n)(name \<mapsto> '''')\<rparr>))"

definition Remove_file :: "string \<Rightarrow> node \<Rightarrow> node" where
  "Remove_file path n = n\<lparr>nd_files := (nd_files n)(path := None)\<rparr>"

text \<open>A command: what it prints, or an error.\<close>

definition exec_command :: "string \<Rightarrow> string list \<Rightarrow> string act" where
  "exec_command name args n =
     (let n1 = (nd_step n)\<lparr>nd_commands := nd_commands n @ [(name, args)]\<rparr>
      in (if nd_faulty n then Inl Fault else Inr (ne_output (nd_env n) (nd_tick n)), n1))"

section \<open>The agent\<close>

record agent =
  ag_token :: string
  ag_wgInterface :: string
  ag_xrayConfig :: string
  ag_xrayTag :: string
  ag_xrayFlow :: string
  ag_xraySSTag :: string
  ag_xrayTrojanTag :: string
  ag_reloadCmd :: string

text \<open>The agent of an environment; without a token it does not start.\<close>

definition agent_main :: "environment \<Rightarrow> agent option" where
  "agent_main os =
     (let a = \<lparr>ag_token = os ''AGENT_TOKEN'',
         ag_wgInterface = getenv os ''WG_INTERFACE'' ''wg0'',
         ag_xrayConfig = getenv os ''XRAY_CONFIG'' ''/opt/vpn-node/xray.json'',
         ag_xrayTag = getenv os ''XRAY_INBOUND_TAG'' ''vless-reality'',
         ag_xrayFlow = getenv os ''XRAY_FLOW'' ''xtls-rprx-vision'',
         ag_xraySSTag = getenv os ''XRAY_SS_INBOUND_TAG'' ''shadowsocks'',
         ag_xrayTrojanTag = getenv os ''XRAY_TROJAN_INBOUND_TAG'' ''trojan'',
         ag_reloadCmd = getenv os ''XRAY_RELOAD_CMD'' ''docker restart vpn-node-xray-1''\<rparr>
      in if ag_token a = '''' then None else Some a)"

text \<open>A handler answers with a status and a body.\<close>

type_synonym answer = "node \<Rightarrow> (nat \<times> out) \<times> node"

definition agent_writeJSON :: "nat \<Rightarrow> out \<Rightarrow> answer" where
  "agent_writeJSON code body n = ((code, body), n)"

definition agent_auth :: "agent \<Rightarrow> (request \<Rightarrow> answer) \<Rightarrow> request \<Rightarrow> answer" where
  "agent_auth a next r =
     (if Header_Get r ''Authorization'' \<noteq> ''Bearer '' @ ag_token a
      then agent_writeJSON 401 (O_obj [(''error'', O_str ''unauthorized'')])
      else next r)"

text \<open>The members of a body, read into the fields of the request.\<close>

definition agent_decode :: "((string \<times> json) list \<Rightarrow> 'a option) \<Rightarrow> request \<Rightarrow> ('a \<Rightarrow> answer) \<Rightarrow> answer" where
  "agent_decode read r k =
     (case Option.bind (Option.bind (json_Decode (rq_Body r)) struct_members) read of
       None \<Rightarrow> agent_writeJSON 400 (O_obj [(''error'', O_str ''invalid body'')])
     | Some x \<Rightarrow> k x)"

definition agent_fail :: "string \<Rightarrow> answer" where
  "agent_fail ctx = agent_writeJSON 500 (O_obj [(''error'', O_str ctx)])"

definition agent_status_reply :: "string \<Rightarrow> answer" where
  "agent_status_reply s = agent_writeJSON 200 (O_obj [(''status'', O_str s)])"

definition on_act :: "'a act \<Rightarrow> answer \<Rightarrow> ('a \<Rightarrow> answer) \<Rightarrow> answer" where
  "on_act m bad good n = (case m n of (Inl e, n') \<Rightarrow> bad n' | (Inr x, n') \<Rightarrow> good x n')"

definition agent_run :: "string \<Rightarrow> string list \<Rightarrow> unit act" where
  "agent_run name args = act_wrap (name @ '' '' @ Join args '' '')
     (act_bind (exec_command name args) (\<lambda>_. act_return ()))"

section \<open>WireGuard\<close>

definition persistWG :: "agent \<Rightarrow> unit act" where
  "persistWG a = act_default () (agent_run ''sh'' [''-c'', ''wg-quick save '' @ ag_wgInterface a])"

text \<open>The reply after the command, whose file is then removed.\<close>

definition set_peer :: "agent \<Rightarrow> string list \<Rightarrow> string \<Rightarrow> string \<Rightarrow> answer" where
  "set_peer a args ctx done =
     on_act (agent_run ''wg'' args) (agent_fail ctx) (\<lambda>_.
     on_act (persistWG a) (agent_fail ctx) (\<lambda>_. agent_status_reply done))"

definition addWGPeer :: "agent \<Rightarrow> request \<Rightarrow> answer" where
  "addWGPeer a r = agent_decode (\<lambda>ms.
       Option.bind (string_field ''public_key'' ms) (\<lambda>pk.
       Option.bind (string_field ''preshared_key'' ms) (\<lambda>psk.
       map_option (\<lambda>ip. (pk, psk, ip)) (string_field ''allowed_ip'' ms)))) r (\<lambda>(pk, psk, ip).
     let args = [''set'', ag_wgInterface a, ''peer'', pk, ''allowed-ips'', ip] in
     if psk \<noteq> '''' then
       on_act CreateTemp (agent_fail ''create psk file'') (\<lambda>f n.
       case on_act (WriteFile f (psk @ [CHR 0x0A])) (agent_fail ''write psk'') (\<lambda>_.
         set_peer a (args @ [''preshared-key'', f]) ''wg set peer'' ''added'') n of
         (reply, n') \<Rightarrow> (reply, Remove_file f n'))
     else set_peer a args ''wg set peer'' ''added'')"

definition removeWGPeer :: "agent \<Rightarrow> request \<Rightarrow> answer" where
  "removeWGPeer a r = agent_decode (string_field ''public_key'') r (\<lambda>pk.
     set_peer a [''set'', ag_wgInterface a, ''peer'', pk, ''remove''] ''wg remove peer'' ''removed'')"

section \<open>Xray\<close>

text \<open>
  \<open>inboundSettings\<close> finds the settings of the first inbound with the tag and makes them an empty
  object when they are not one; the code changes them in place, here the change is an argument.
\<close>

definition is_inbound :: "string \<Rightarrow> json \<Rightarrow> bool" where
  "is_inbound tag ib = (case ib of JObj ms \<Rightarrow> map_of ms ''tag'' = Some (JStr tag) | _ \<Rightarrow> False)"

definition settings_of :: "json \<Rightarrow> (string \<times> json) list" where
  "settings_of ib = (case ib of
     JObj ms \<Rightarrow> (case map_of ms ''settings'' of Some (JObj s) \<Rightarrow> s | _ \<Rightarrow> [])
   | _ \<Rightarrow> [])"

definition set_settings :: "(string \<times> json) list \<Rightarrow> json \<Rightarrow> json" where
  "set_settings s ib = (case ib of
     JObj ms \<Rightarrow> JObj (insert_member ''settings'' (JObj s) ms) | v \<Rightarrow> v)"

fun inboundSettings ::
    "string \<Rightarrow> ((string \<times> json) list \<Rightarrow> (string \<times> json) list) \<Rightarrow> json list \<Rightarrow> json list option" where
  "inboundSettings tag f [] = None"
| "inboundSettings tag f (ib # ibs) =
     (if is_inbound tag ib then Some (set_settings (f (settings_of ib)) ib # ibs)
      else map_option ((#) ib) (inboundSettings tag f ibs))"

text \<open>The clients of the settings after the edit; what is not an array counts as empty.\<close>

definition is_client :: "string \<Rightarrow> string \<Rightarrow> json \<Rightarrow> bool" where
  "is_client field val c = (case c of JObj ms \<Rightarrow> map_of ms field = Some (JStr val) | _ \<Rightarrow> False)"

definition clients_of :: "(string \<times> json) list \<Rightarrow> json list" where
  "clients_of s = (case map_of s ''clients'' of Some (JArr cs) \<Rightarrow> cs | _ \<Rightarrow> [])"

definition edited_clients :: "string \<Rightarrow> string \<Rightarrow> bool \<Rightarrow> (string \<times> json) list \<Rightarrow> json list \<Rightarrow> json list" where
  "edited_clients field val add new clients =
     (case foldl (\<lambda>(filtered, exists) c.
          if is_client field val c then (if \<not> add then (filtered, True) else (filtered @ [c], True))
          else (filtered @ [c], exists)) ([], False) clients of
       (filtered, exists) \<Rightarrow> if add \<and> \<not> exists then filtered @ [JObj new] else filtered)"

definition edit_settings :: "string \<Rightarrow> string \<Rightarrow> bool \<Rightarrow> (string \<times> json) list \<Rightarrow>
    (string \<times> json) list \<Rightarrow> (string \<times> json) list" where
  "edit_settings field val add new s =
     insert_member ''clients'' (JArr (edited_clients field val add new (clients_of s))) s"

definition edit_config :: "string \<Rightarrow> string \<Rightarrow> string \<Rightarrow> bool \<Rightarrow> (string \<times> json) list \<Rightarrow>
    (string \<times> json) list \<Rightarrow> error + (string \<times> json) list" where
  "edit_config tag field val add new cfg =
     (case map_of cfg ''inbounds'' of
       Some (JArr ibs) \<Rightarrow>
         (case inboundSettings tag (edit_settings field val add new) ibs of
           None \<Rightarrow> Inl (Errorf ''inbound with tag not found'')
         | Some ibs' \<Rightarrow> Inr (insert_member ''inbounds'' (JArr ibs') cfg))
     | _ \<Rightarrow> Inl (Errorf ''xray config has no inbounds array''))"

definition editXrayClients ::
    "agent \<Rightarrow> string \<Rightarrow> string \<Rightarrow> string \<Rightarrow> bool \<Rightarrow> (string \<times> json) list \<Rightarrow> unit act" where
  "editXrayClients a tag matchField matchValue add newClient =
     (if matchValue = '''' then act_throw (Errorf (matchField @ '' is required''))
      else
        act_bind (act_wrap ''read xray config'' (ReadFile (ag_xrayConfig a))) (\<lambda>raw.
        case Unmarshal_map raw of
          None \<Rightarrow> act_throw (Wrap ''parse xray config'' (Errorf ''json''))
        | Some cfg \<Rightarrow>
            (case edit_config tag matchField matchValue add (map_of_members newClient) cfg of
              Inl e \<Rightarrow> act_throw e
            | Inr cfg' \<Rightarrow>
                act_bind (act_wrap ''write xray config''
                  (WriteFile (ag_xrayConfig a) (json_MarshalIndent (JObj cfg')))) (\<lambda>_.
                act_wrap ''reload xray'' (agent_run ''sh'' [''-c'', ag_reloadCmd a])))))"

definition editVLESS :: "agent \<Rightarrow> string \<Rightarrow> bool \<Rightarrow> unit act" where
  "editVLESS a u add =
     (if u = '''' then act_throw (Errorf ''uuid is required'')
      else editXrayClients a (ag_xrayTag a) ''id'' u add
        [(''id'', JStr u), (''flow'', JStr (ag_xrayFlow a))])"

definition edit_reply :: "unit act \<Rightarrow> string \<Rightarrow> string \<Rightarrow> answer" where
  "edit_reply m ctx done = on_act m (agent_fail ctx) (\<lambda>_. agent_status_reply done)"

definition addVLESS :: "agent \<Rightarrow> request \<Rightarrow> answer" where
  "addVLESS a r = agent_decode (string_field ''uuid'') r (\<lambda>u.
     edit_reply (editVLESS a u True) ''add vless client'' ''added'')"

definition removeVLESS :: "agent \<Rightarrow> request \<Rightarrow> answer" where
  "removeVLESS a r = agent_decode (string_field ''uuid'') r (\<lambda>u.
     edit_reply (editVLESS a u False) ''remove vless client'' ''removed'')"

definition password_email :: "(string \<times> json) list \<Rightarrow> (string \<times> string) option" where
  "password_email ms = Option.bind (string_field ''password'' ms) (\<lambda>p.
     map_option (Pair p) (string_field ''email'' ms))"

definition addSS :: "agent \<Rightarrow> request \<Rightarrow> answer" where
  "addSS a r = agent_decode password_email r (\<lambda>(password, email).
     edit_reply (editXrayClients a (ag_xraySSTag a) ''email'' email True
       [(''password'', JStr password), (''email'', JStr email)]) ''add ss client'' ''added'')"

definition removeSS :: "agent \<Rightarrow> request \<Rightarrow> answer" where
  "removeSS a r = agent_decode (string_field ''email'') r (\<lambda>email.
     edit_reply (editXrayClients a (ag_xraySSTag a) ''email'' email False []) ''remove ss client'' ''removed'')"

definition addTrojan :: "agent \<Rightarrow> request \<Rightarrow> answer" where
  "addTrojan a r = agent_decode password_email r (\<lambda>(password, email).
     edit_reply (editXrayClients a (ag_xrayTrojanTag a) ''email'' email True
       [(''password'', JStr password), (''email'', JStr email), (''flow'', JStr (ag_xrayFlow a))])
       ''add trojan client'' ''added'')"

definition removeTrojan :: "agent \<Rightarrow> request \<Rightarrow> answer" where
  "removeTrojan a r = agent_decode (string_field ''email'') r (\<lambda>email.
     edit_reply (editXrayClients a (ag_xrayTrojanTag a) ''email'' email False [])
       ''remove trojan client'' ''removed'')"

section \<open>The status of the node\<close>

text \<open>\<open>strings.Fields\<close>, by the word read so far.\<close>

function fields_from :: "string \<Rightarrow> string \<Rightarrow> string list" where
  "fields_from word s =
     (let k = space_prefix space_runes s in
      if s = [] then (if word = [] then [] else [word])
      else if k = 0 then fields_from (word @ [hd s]) (drop 1 s)
      else (if word = [] then [] else [word]) @ fields_from [] (drop k s))"
  by pat_completeness auto
termination by (relation "measure (\<lambda>(word, s). length s)") auto

declare fields_from.simps [simp del]

definition Fields :: "string \<Rightarrow> string list" where
  "Fields s = fields_from [] s"

definition blockTargets :: "environment \<Rightarrow> (string \<times> string) list" where
  "blockTargets os =
     (if os ''BLOCK_CHECK_TARGETS'' \<noteq> '''' then
        foldl (\<lambda>targets pair. case Cut pair (CHR ''='') of
            Some (name, url) \<Rightarrow> insert_member (TrimSpace name) (TrimSpace url) targets
          | None \<Rightarrow> targets) [] (Split (os ''BLOCK_CHECK_TARGETS'') (CHR '',''))
      else [(''cloudflare'', ''https://www.cloudflare.com/cdn-cgi/trace''),
        (''google'', ''https://www.google.com/generate_204''),
        (''telegram'', ''https://api.telegram.org''),
        (''youtube'', ''https://www.youtube.com/favicon.ico'')])"

definition cpuLoad :: "float64 act" where
  "cpuLoad n = act_default 0 (act_bind (ReadFile ''/proc/loadavg'') (\<lambda>b.
     act_return (case Fields b of
       [] \<Rightarrow> 0
     | f # _ \<Rightarrow> (let load = from_option 0 (ParseFloat f); cpus = ne_cpus (nd_env n)
         in fl (load / of_nat (if cpus = 0 then 1 else cpus)))))) n"

fun meminfo :: "string list \<Rightarrow> float64 \<times> float64 \<Rightarrow> float64 \<times> float64" where
  "meminfo [] r = r"
| "meminfo (line # ls) (memTotal, avail) =
     (case Fields line of
       f0 # f1 # _ \<Rightarrow>
         (let v = from_option 0 (ParseFloat f1) in
          if f0 = ''MemTotal:'' then meminfo ls (v, avail)
          else if f0 = ''MemAvailable:'' then meminfo ls (memTotal, v)
          else meminfo ls (memTotal, avail))
     | _ \<Rightarrow> meminfo ls (memTotal, avail))"

definition memUsedPct :: "float64 act" where
  "memUsedPct = act_default 0 (act_bind (ReadFile ''/proc/meminfo'') (\<lambda>b.
     act_return (case meminfo (Split b (CHR 0x0A)) (0, 0) of (memTotal, avail) \<Rightarrow>
       if memTotal = 0 then 0 else fl (fl (1 - fl (avail / memTotal)) * 100))))"

definition wgPeerCount :: "agent \<Rightarrow> int act" where
  "wgPeerCount a = act_default 0
     (act_bind (exec_command ''wg'' [''show'', ag_wgInterface a, ''peers'']) (\<lambda>out.
      act_return (int (length (filter (\<lambda>line. TrimSpace line \<noteq> '''')
        (Split (TrimSpace out) (CHR 0x0A)))))))"

definition xrayUp :: "bool act" where
  "xrayUp = act_default False
     (act_bind (exec_command ''sh''
        [''-c'', ''docker ps --filter name=xray --filter status=running -q'']) (\<lambda>out.
      act_return (TrimSpace out \<noteq> '''')))"

text \<open>The probes run at the same time; they do not depend on each other.\<close>

fun blockCheck :: "(string \<times> string) list \<Rightarrow> (string \<times> bool) list act" where
  "blockCheck [] n = (Inr [], n)"
| "blockCheck ((name, url) # ts) n =
     (let ok = \<not> nd_faulty n \<and> ne_status (nd_env n) (nd_tick n) < 500
      in act_bind (blockCheck ts) (\<lambda>res. act_return (insert_member name ok res)) (nd_step n))"

definition agent_status :: "agent \<Rightarrow> request \<Rightarrow> answer" where
  "agent_status a r n =
     on_act (act_bind cpuLoad (\<lambda>cpu. act_bind memUsedPct (\<lambda>mem. act_bind (wgPeerCount a) (\<lambda>peers.
       act_bind xrayUp (\<lambda>up. act_bind (blockCheck (blockTargets (ne_vars (nd_env n)))) (\<lambda>blocks.
       act_return (cpu, mem, peers, up, blocks))))))) (agent_fail '''')
       (\<lambda>(cpu, mem, peers, up, blocks). agent_writeJSON 200 (O_obj
         [(''cpu_load'', O_float cpu), (''mem_used_pct'', O_float mem), (''wg_peers'', O_int peers),
          (''xray_up'', O_bool up), (''blocks'', O_obj (map (\<lambda>(k, b). (k, O_bool b)) blocks))])) n"

section \<open>Routes\<close>

definition agent_routes :: "agent \<Rightarrow> (string \<times> string list \<times> (request \<Rightarrow> answer)) list" where
  "agent_routes a =
     [(''GET'', [''health''], \<lambda>_. agent_writeJSON 200 (O_obj [(''status'', O_str ''ok'')])),
      (''POST'', [''wg'', ''peers''], agent_auth a (addWGPeer a)),
      (''POST'', [''wg'', ''peers'', ''remove''], agent_auth a (removeWGPeer a)),
      (''POST'', [''vless'', ''clients''], agent_auth a (addVLESS a)),
      (''POST'', [''vless'', ''clients'', ''remove''], agent_auth a (removeVLESS a)),
      (''POST'', [''ss'', ''clients''], agent_auth a (addSS a)),
      (''POST'', [''ss'', ''clients'', ''remove''], agent_auth a (removeSS a)),
      (''POST'', [''trojan'', ''clients''], agent_auth a (addTrojan a)),
      (''POST'', [''trojan'', ''clients'', ''remove''], agent_auth a (removeTrojan a)),
      (''GET'', [''status''], agent_auth a (agent_status a))]"

definition agent_serve :: "agent \<Rightarrow> request \<Rightarrow> answer" where
  "agent_serve a r =
     (case find_first (\<lambda>(m, p, h). p = rq_Path r \<and> method_ok m (rq_Method r)) (agent_routes a) of
       Some (m, p, h) \<Rightarrow> h r
     | None \<Rightarrow>
         (if list_ex (\<lambda>(m, p, h). p = rq_Path r) (agent_routes a)
          then agent_writeJSON 405 (O_bytes ''Method Not Allowed'')
          else agent_writeJSON 404 (O_bytes ''404 page not found'')))"

end
