(* ===== verification/TelegramBot.thy ===== *)
theory TelegramBot
  imports TelegramApi BillingWiring AuthService NodeAgent
begin

text \<open>
  The Telegram bot (\<open>internal/telegram\<close>: \<open>bot.go\<close>, \<open>fsm.go\<close>, \<open>handlers.go\<close>,
  \<open>keyboards.go\<close>, \<open>text.go\<close>): long polling, the purchase dialogue with its draft in Redis,
  payments in Stars, and the notices of migrations.  The texts are UTF-8, written with the code
  points of what is not ASCII.  A panic is an error that the dispatcher drops.
\<close>

section \<open>Texts\<close>

definition runes :: "nat list \<Rightarrow> string" where
  "runes cs = concat (map utf8_encode cs)"

definition textWelcome :: string where
  "textWelcome =
     runes [128075] @ '' <b>VPN '' @ runes [1089, 1077, 1088, 1074, 1080, 1089] @ ''</b>'' @
     runes [10, 10, 1041, 1099, 1089, 1090, 1088, 1099, 1081] @ '' '' @ runes [1080] @ '' '' @
     runes [1073, 1077, 1079, 1086, 1087, 1072, 1089, 1085, 1099, 1081] @ '' '' @
     runes [1076, 1086, 1089, 1090, 1091, 1087] @ '' '' @ runes [1082] @ '' '' @
     runes [1089, 1074, 1086, 1073, 1086, 1076, 1085, 1086, 1084, 1091] @ '' '' @
     runes [1080, 1085, 1090, 1077, 1088, 1085, 1077, 1090, 1091] @ ''.'' @
     runes [10, 1055, 1086, 1082, 1091, 1087, 1082, 1072] @ '' '' @ runes [1080] @ '' '' @
     runes [1074, 1099, 1076, 1072, 1095, 1072] @ '' '' @
     runes [1082, 1086, 1085, 1092, 1080, 1075, 1091, 1088, 1072, 1094, 1080, 1080] @ '' '' @
     runes [8212] @ '' '' @ runes [1087, 1088, 1103, 1084, 1086] @ '' '' @
     runes [1079, 1076, 1077, 1089, 1100] @ '', '' @ runes [1074] @ '' Telegram.'' @
     runes [10, 10, 1042, 1099, 1073, 1077, 1088, 1080, 1090, 1077] @ '' '' @
     runes [1076, 1077, 1081, 1089, 1090, 1074, 1080, 1077] @ '':''"

definition textChooseCountry :: string where
  "textChooseCountry =
     runes [127757] @ '' <b>'' @ runes [1042, 1099, 1073, 1077, 1088, 1080, 1090, 1077] @ '' '' @
     runes [1089, 1090, 1088, 1072, 1085, 1091] @ ''</b>''"

definition textChooseProtocol :: string where
  "textChooseProtocol =
     runes [128272] @ '' <b>'' @ runes [1042, 1099, 1073, 1077, 1088, 1080, 1090, 1077] @ '' '' @
     runes [1087, 1088, 1086, 1090, 1086, 1082, 1086, 1083] @ ''</b>''"

definition textChoosePlan :: string where
  "textChoosePlan =
     runes [128142] @ '' <b>'' @ runes [1042, 1099, 1073, 1077, 1088, 1080, 1090, 1077] @ '' '' @
     runes [1090, 1072, 1088, 1080, 1092] @ ''</b>''"

definition textNoServers :: string where
  "textNoServers =
     runes [128532] @ '' '' @ runes [1057, 1077, 1081, 1095, 1072, 1089] @ '' '' @
     runes [1085, 1077, 1090] @ '' '' @
     runes [1076, 1086, 1089, 1090, 1091, 1087, 1085, 1099, 1093] @ '' '' @
     runes [1089, 1077, 1088, 1074, 1077, 1088, 1086, 1074] @ ''. '' @
     runes [1055, 1086, 1087, 1088, 1086, 1073, 1091, 1081, 1090, 1077] @ '' '' @
     runes [1087, 1086, 1079, 1078, 1077] @ ''.''"

definition textNoVPNs :: string where
  "textNoVPNs =
     runes [1059] @ '' '' @ runes [1074, 1072, 1089] @ '' '' @ runes [1087, 1086, 1082, 1072] @
     '' '' @ runes [1085, 1077, 1090] @ '' '' @
     runes [1072, 1082, 1090, 1080, 1074, 1085, 1099, 1093] @ '' VPN. '' @
     runes [1053, 1072, 1078, 1084, 1080, 1090, 1077] @ '' '' @
     runes [171, 1050, 1091, 1087, 1080, 1090, 1100, 187] @ ''.''"

definition textPayClue :: string where
  "textPayClue =
     runes [1053, 1072, 1078, 1084, 1080, 1090, 1077] @ '' '' @
     runes [1082, 1085, 1086, 1087, 1082, 1091] @ '' '' @
     runes [1086, 1087, 1083, 1072, 1090, 1099] @ '' '' @ runes [1085, 1080, 1078, 1077] @
     ''. '' @ runes [1054, 1087, 1083, 1072, 1090, 1072] @ '' '' @
     runes [1087, 1088, 1086, 1093, 1086, 1076, 1080, 1090] @ '' '' @
     runes [1095, 1077, 1088, 1077, 1079] @ '' Telegram Stars.''"

definition textPaymentOK :: string where
  "textPaymentOK =
     runes [9989] @ '' <b>'' @ runes [1054, 1087, 1083, 1072, 1090, 1072] @ '' '' @
     runes [1087, 1086, 1083, 1091, 1095, 1077, 1085, 1072] @ ''!</b> '' @
     runes [1043, 1086, 1090, 1086, 1074, 1083, 1102] @ '' '' @ runes [1074, 1072, 1096, 1091] @
     '' '' @ runes [1082, 1086, 1085, 1092, 1080, 1075, 1091, 1088, 1072, 1094, 1080, 1102, 8230]"

definition textRenewOK :: string where
  "textRenewOK =
     runes [9989] @ '' <b>'' @ runes [1055, 1086, 1076, 1087, 1080, 1089, 1082, 1072] @ '' '' @
     runes [1087, 1088, 1086, 1076, 1083, 1077, 1085, 1072] @ ''!</b>''"

definition textError :: string where
  "textError =
     runes [9888, 65039] @ '' '' @ runes [1055, 1088, 1086, 1080, 1079, 1086, 1096, 1083, 1072] @
     '' '' @ runes [1086, 1096, 1080, 1073, 1082, 1072] @ ''. '' @
     runes [1055, 1086, 1087, 1088, 1086, 1073, 1091, 1081, 1090, 1077] @ '' '' @
     runes [1077, 1097, 1105] @ '' '' @ runes [1088, 1072, 1079] @ ''.''"

definition textFAQ :: string where
  "textFAQ =
     runes [10067] @ '' <b>FAQ</b>'' @ runes [10, 10] @ ''<b>'' @ runes [1063, 1090, 1086] @
     '' '' @ runes [1090, 1072, 1082, 1086, 1077] @ '' VPN?</b>'' @
     runes [10, 1047, 1072, 1097, 1080, 1097, 1105, 1085, 1085, 1099, 1081] @ '' '' @
     runes [1090, 1091, 1085, 1085, 1077, 1083, 1100] @ '' '' @ runes [1076, 1083, 1103] @
     '' '' @ runes [1074, 1072, 1096, 1077, 1075, 1086] @ '' '' @
     runes [1090, 1088, 1072, 1092, 1080, 1082, 1072] @ ''.'' @ runes [10, 10] @ ''<b>'' @
     runes [1050, 1072, 1082] @ '' '' @
     runes [1087, 1086, 1076, 1082, 1083, 1102, 1095, 1080, 1090, 1100, 1089, 1103] @ ''?</b>'' @
     runes [10] @ ''WireGuard '' @ runes [8212] @ '' '' @
     runes [1080, 1084, 1087, 1086, 1088, 1090, 1080, 1088, 1091, 1081, 1090, 1077] @
     '' .conf '' @ runes [1080, 1083, 1080] @ '' '' @
     runes [1086, 1090, 1089, 1082, 1072, 1085, 1080, 1088, 1091, 1081, 1090, 1077] @ '' QR '' @
     runes [1074] @ '' '' @ runes [1087, 1088, 1080, 1083, 1086, 1078, 1077, 1085, 1080, 1080] @
     '' WireGuard. VLESS '' @ runes [8212] @ '' '' @
     runes [1076, 1086, 1073, 1072, 1074, 1100, 1090, 1077] @ '' '' @
     runes [1089, 1089, 1099, 1083, 1082, 1091] @ '' '' @ runes [1074] @
     '' v2rayNG/Nekoray/Streisand.'' @ runes [10, 10] @ ''<b>'' @ runes [1050, 1072, 1082] @
     '' '' @ runes [1086, 1087, 1083, 1072, 1090, 1080, 1090, 1100] @ ''?</b>'' @
     runes [10, 1063, 1077, 1088, 1077, 1079] @ '' Telegram Stars '' @
     runes [1087, 1088, 1103, 1084, 1086] @ '' '' @ runes [1074] @ '' '' @
     runes [1073, 1086, 1090, 1077] @ ''.'' @ runes [10, 10] @ ''<b>'' @
     runes [1050, 1072, 1082] @ '' '' @ runes [1087, 1088, 1086, 1076, 1083, 1080, 1090, 1100] @
     ''?</b>'' @ runes [10, 1056, 1072, 1079, 1076, 1077, 1083] @ '' '' @
     runes [171, 1052, 1086, 1080] @ '' VPN'' @ runes [187] @ '' '' @ runes [8594] @ '' '' @
     runes [171, 1055, 1088, 1086, 1076, 1083, 1080, 1090, 1100, 187] @ ''.''"

text \<open>\<open>html.EscapeString\<close>.\<close>

definition html_char :: "char \<Rightarrow> string" where
  "html_char c =
     (if c = CHR ''<'' then ''&lt;'' else if c = CHR ''>'' then ''&gt;''
      else if c = CHR ''&'' then ''&amp;'' else if c = CHR 0x27 then ''&#39;''
      else if c = CHR 0x22 then ''&#34;'' else [c])"

definition html_EscapeString :: "string \<Rightarrow> string" where
  "html_EscapeString s = concat (map html_char s)"

text \<open>A date as \<open>2006-01-02\<close>, from the seconds since the epoch in the zone of the server.\<close>

definition civil_date :: "int \<Rightarrow> int \<times> int \<times> int" where
  "civil_date days =
     (let z = days + 719468; era = z div 146097; doe = z mod 146097;
          yoe = (doe - doe div 1460 + doe div 36524 - doe div 146096) div 365;
          doy = doe - (365 * yoe + yoe div 4 - yoe div 100);
          mp = (5 * doy + 2) div 153;
          d = doy - (153 * mp + 2) div 5 + 1;
          m = (if mp < 10 then mp + 3 else mp - 9)
      in (yoe + era * 400 + (if m \<le> 2 then 1 else 0), m, d))"

definition pad_to :: "nat \<Rightarrow> string \<Rightarrow> string" where
  "pad_to k s = replicate (k - length s) (CHR ''0'') @ s"

definition format_date :: "int \<Rightarrow> string" where
  "format_date seconds =
     (case civil_date (seconds div 86400) of (y, m, d) \<Rightarrow>
       (if y < 0 then ''-'' else '''') @ pad_to 4 (show_nat (nat \<bar>y\<bar>)) @ ''-'' @
       pad_to 2 (show_nat (nat m)) @ ''-'' @ pad_to 2 (show_nat (nat d)))"

section \<open>Keyboards\<close>

definition button :: "string \<Rightarrow> string \<Rightarrow> InlineKeyboardButton" where
  "button body data = \<lparr>kb_Text = body, kb_CallbackData = data\<rparr>"

definition mainMenuKeyboard :: InlineKeyboardMarkup where
  "mainMenuKeyboard =
     [[button (runes [128722] @ '' '' @ runes [1050, 1091, 1087, 1080, 1090, 1100] @
       '' VPN'') ''buy''],
      [button (runes [128196] @ '' '' @ runes [1052, 1086, 1080] @ '' VPN'') ''myvpn''],
      [button (runes [10067] @ '' FAQ'') ''faq'']]"

definition backToMenuRow :: "InlineKeyboardButton list" where
  "backToMenuRow = [button (runes [11013, 65039] @ '' '' @ runes [1042] @ '' '' @
    runes [1084, 1077, 1085, 1102]) ''menu'']"

definition countriesKeyboard :: "CountryRef list \<Rightarrow> InlineKeyboardMarkup" where
  "countriesKeyboard cs =
     map (\<lambda>c. [button ((case cr_Flag c of None \<Rightarrow> '''' | Some f \<Rightarrow> f @ '' '') @ cr_Name c)
       (''country:'' @ uuid_String (cr_ID c))]) cs @ [backToMenuRow]"

definition protocolsKeyboard :: InlineKeyboardMarkup where
  "protocolsKeyboard =
     [[button (''WireGuard ('' @ runes [1074, 1077, 1089, 1100] @ '' '' @
       runes [1090, 1088, 1072, 1092, 1080, 1082] @ '')'') ''proto:wireguard''],
      [button (''WireGuard '' @ runes [127479, 127482] @ '' ('' @ runes [1056, 1060] @ ''-'' @
        runes [1088, 1077, 1089, 1091, 1088, 1089, 1099] @ '' '' @
        runes [1085, 1072, 1087, 1088, 1103, 1084, 1091, 1102] @ '')'')
         ''proto:wireguard_split''],
      [button (''VLESS '' @ runes [183] @ '' Reality'') ''proto:vless_reality''],
      [button ''Shadowsocks'' ''proto:shadowsocks''],
      [button (''Trojan '' @ runes [183] @ '' Reality'') ''proto:trojan''],
      backToMenuRow]"

definition plansKeyboard :: "PlanRef list \<Rightarrow> InlineKeyboardMarkup" where
  "plansKeyboard ps =
     map (\<lambda>p. [button (pf_Name p @ '' '' @ runes [8212] @ '' '' @ show_int (pf_Days p) @
         '' '' @ runes [1076, 1085] @ ''. '' @ runes [183] @ '' $'' @ fmt_2f (cents (pf_Price p)))
       (''plan:'' @ uuid_String (pf_ID p))]) ps @ [backToMenuRow]"

definition confirmKeyboard :: "int \<Rightarrow> InlineKeyboardMarkup" where
  "confirmKeyboard n =
     [[button (runes [128179] @ '' '' @
       runes [1054, 1087, 1083, 1072, 1090, 1080, 1090, 1100] @ '' '' @ runes [11088] @ '' '' @
       show_int n)
         ''pay''], backToMenuRow]"

definition myVPNKeyboard :: "VPNView list \<Rightarrow> InlineKeyboardMarkup" where
  "myVPNKeyboard views =
     map (\<lambda>v. let i = uuid_String (sb_ID (vw_Subscription v)) in
       [button (runes [128229] @ '' '' @ vw_Country v @ '' '' @ runes [183] @ '' '' @
         runes [1082, 1086, 1085, 1092, 1080, 1075])
          (''cfg:'' @ i),
        button (runes [128260] @ '' '' @
          runes [1055, 1088, 1086, 1076, 1083, 1080, 1090, 1100]) (''renew:'' @ i)])
       views @ [backToMenuRow]"

section \<open>The bot\<close>

text \<open>The bot with the services it uses; \<open>bt_zone\<close> is the server's offset from UTC, in seconds.\<close>

record Bot =
  bt_api :: string
  bt_vpn :: VPNService
  bt_billing :: BillingService
  bt_starsPerUSD :: float64
  bt_zone :: "timestamp \<Rightarrow> int"

definition NewBot :: "string \<Rightarrow> VPNService \<Rightarrow> BillingService \<Rightarrow> float64 \<Rightarrow> (timestamp \<Rightarrow> int) \<Rightarrow> Bot" where
  "NewBot token v b starsPerUSD zone = \<lparr>bt_api = token, bt_vpn = v, bt_billing = b,
     bt_starsPerUSD = (if starsPerUSD \<le> 0 then 1 else starsPerUSD), bt_zone = zone\<rparr>"

definition NotifyUser :: "Bot \<Rightarrow> int \<Rightarrow> string \<Rightarrow> unit go" where
  "NotifyUser b chatID body = ignore (SendMessage (bt_api b) chatID body None)"

definition ensureUser :: "TgUser \<Rightarrow> User go" where
  "ensureUser from = EnsureTelegramUser (tu_ID from) (tu_FirstName from) (tu_LastName from) (tu_Username from)"

text \<open>A conversion to an integer truncates; the amounts are far from the ends of the range.\<close>

definition stars :: "Bot \<Rightarrow> float64 \<Rightarrow> int" where
  "stars b usd =
     (let x = fl (fl (usd * bt_starsPerUSD b) + 1 / 2); n = (if x \<ge> 0 then \<lfloor>x\<rfloor> else \<lceil>x\<rceil>)
      in if n < 1 then 1 else n)"

section \<open>Drafts\<close>

record draft =
  df_CountryID :: string
  df_Protocol :: string
  df_Routing :: string
  df_PlanID :: string
  df_RenewSubID :: string

definition no_draft :: draft where
  "no_draft = \<lparr>df_CountryID = '''', df_Protocol = '''', df_Routing = '''', df_PlanID = '''',
     df_RenewSubID = ''''\<rparr>"

definition draftTTL :: int where "draftTTL = 3600 * 10 ^ 9"

definition draftKey :: "int \<Rightarrow> string" where
  "draftKey chatID = ''tg:draft:'' @ show_int chatID"

text \<open>Empty fields are left out.\<close>

definition draft_json :: "draft \<Rightarrow> json" where
  "draft_json d = JObj (map (\<lambda>(k, v). (k, JStr v)) (filter (\<lambda>(k, v). v \<noteq> '''')
     [(''country_id'', df_CountryID d), (''protocol'', df_Protocol d), (''routing'', df_Routing d),
      (''plan_id'', df_PlanID d), (''renew_sub_id'', df_RenewSubID d)]))"

text \<open>The error of the decoder is dropped: a member that is no string leaves its field alone.\<close>

fun last_text :: "string \<Rightarrow> json list \<Rightarrow> string" where
  "last_text d [] = d"
| "last_text d (JStr s # vs) = last_text s vs"
| "last_text d (_ # vs) = last_text d vs"

definition draft_of :: "string \<Rightarrow> draft" where
  "draft_of raw =
     (case Option.bind (json_Unmarshal raw) struct_members of
       None \<Rightarrow> no_draft
     | Some ms \<Rightarrow> (let f = (\<lambda>name. last_text '''' (field_values name ms)) in
         \<lparr>df_CountryID = f ''country_id'', df_Protocol = f ''protocol'', df_Routing = f ''routing'',
          df_PlanID = f ''plan_id'', df_RenewSubID = f ''renew_sub_id''\<rparr>))"

definition getDraft :: "int \<Rightarrow> draft go" where
  "getDraft chatID =
     bind (attempt (redis_Get (draftKey chatID))) (\<lambda>r.
     case r of
       Inl e \<Rightarrow> if errors_Is e RedisNil then return no_draft else throw e
     | Inr raw \<Rightarrow> return (draft_of raw))"

definition saveDraft :: "int \<Rightarrow> draft \<Rightarrow> unit go" where
  "saveDraft chatID d = redis_Set (draftKey chatID) (json_Marshal (draft_json d)) draftTTL"

definition clearDraft :: "int \<Rightarrow> unit go" where
  "clearDraft chatID = ignore (redis_Del (draftKey chatID))"

text \<open>\<open>d, _ := getDraft\<close>: an error leaves the empty draft.\<close>

definition current_draft :: "int \<Rightarrow> draft go" where
  "current_draft chatID = catch (getDraft chatID) (\<lambda>_. return no_draft)"

section \<open>Sending\<close>

definition reply :: "Bot \<Rightarrow> int \<Rightarrow> string \<Rightarrow> InlineKeyboardMarkup option \<Rightarrow> unit go" where
  "reply b chatID body kb = ignore (SendMessage (bt_api b) chatID body kb)"

definition editKB :: "Bot \<Rightarrow> int \<Rightarrow> int \<Rightarrow> string \<Rightarrow> InlineKeyboardMarkup option \<Rightarrow> unit go" where
  "editKB b chatID msgID body kb =
     catch (EditMessageText (bt_api b) chatID msgID body kb) (\<lambda>_. reply b chatID body kb)"

definition editOrSend :: "Bot \<Rightarrow> int \<Rightarrow> int \<Rightarrow> string \<Rightarrow> InlineKeyboardMarkup option \<Rightarrow> unit go" where
  "editOrSend b chatID msgID body kb =
     (if msgID = 0 then reply b chatID body kb else editKB b chatID msgID body kb)"

definition withBack :: "InlineKeyboardMarkup option" where
  "withBack = Some [backToMenuRow]"

text \<open>A result, or a reply to the error.\<close>

definition or_reply :: "'a go \<Rightarrow> unit go \<Rightarrow> ('a \<Rightarrow> unit go) \<Rightarrow> unit go" where
  "or_reply m bad good = bind (attempt m) (\<lambda>r. case r of Inl _ \<Rightarrow> bad | Inr x \<Rightarrow> good x)"

section \<open>Views\<close>

definition vpnListText :: "Bot \<Rightarrow> VPNView list \<Rightarrow> string" where
  "vpnListText b views =
     runes [128196] @ '' <b>'' @ runes [1042, 1072, 1096, 1080] @ '' VPN</b>'' @ runes [10] @
     concat (map (\<lambda>v. runes [10, 8226] @ '' '' @ vw_Country v @ '' '' @ runes [183] @
       '' '' @ sb_Protocol (vw_Subscription v) @
       '' '' @ runes [183] @ '' '' @ runes [1076, 1086] @ '' '' @
       (let t = sb_ExpiresAt (vw_Subscription v) in format_date (t div 10 ^ 9 + bt_zone b t))) views)"

definition my_vpn :: "Bot \<Rightarrow> uuid \<Rightarrow> (string \<Rightarrow> InlineKeyboardMarkup option \<Rightarrow> unit go) \<Rightarrow> unit go" where
  "my_vpn b userID send =
     or_reply (VPN_List userID) (send textError (Some mainMenuKeyboard)) (\<lambda>views.
     if views = [] then send textNoVPNs (Some mainMenuKeyboard)
     else send (vpnListText b views) (Some (myVPNKeyboard views)))"

definition showMyVPN :: "Bot \<Rightarrow> int \<Rightarrow> uuid \<Rightarrow> unit go" where
  "showMyVPN b chatID userID = my_vpn b userID (reply b chatID)"

definition editMyVPN :: "Bot \<Rightarrow> int \<Rightarrow> int \<Rightarrow> uuid \<Rightarrow> unit go" where
  "editMyVPN b chatID msgID userID = my_vpn b userID (editKB b chatID msgID)"

definition showCountries :: "Bot \<Rightarrow> int \<Rightarrow> int \<Rightarrow> unit go" where
  "showCountries b chatID msgID =
     or_reply Countries (reply b chatID textNoServers withBack) (\<lambda>cs.
     if cs = [] then reply b chatID textNoServers withBack
     else editOrSend b chatID msgID textChooseCountry (Some (countriesKeyboard cs)))"

definition editPlans :: "Bot \<Rightarrow> int \<Rightarrow> int \<Rightarrow> unit go" where
  "editPlans b chatID msgID =
     or_reply Plans (reply b chatID textError withBack) (\<lambda>ps.
     if ps = [] then reply b chatID textError withBack
     else editKB b chatID msgID textChoosePlan (Some (plansKeyboard ps)))"

definition findPlan :: "string \<Rightarrow> PlanRef go" where
  "findPlan planID = bind Plans (\<lambda>ps.
     case find_first (\<lambda>p. uuid_String (pf_ID p) = planID) ps of
       None \<Rightarrow> throw (Errorf ''plan not found'') | Some p \<Rightarrow> return p)"

section \<open>Choosing\<close>

definition selectPlan :: "Bot \<Rightarrow> int \<Rightarrow> int \<Rightarrow> string \<Rightarrow> unit go" where
  "selectPlan b chatID msgID planID =
     bind (current_draft chatID) (\<lambda>d.
     bind (ignore (saveDraft chatID (d\<lparr>df_PlanID := planID\<rparr>))) (\<lambda>_.
     or_reply (findPlan planID) (editKB b chatID msgID textError withBack) (\<lambda>plan.
     let n = stars b (cents (pf_Price plan));
         summary = runes [129534] @ '' <b>'' @
           runes [1055, 1086, 1076, 1090, 1074, 1077, 1088, 1078, 1076, 1077, 1085, 1080,
           1077] @ ''</b>'' @ runes [10, 10, 1058, 1072, 1088, 1080, 1092] @ '': <b>'' @
           pf_Name plan @ ''</b>'' @ runes [10, 1057, 1088, 1086, 1082] @ '': '' @
             show_int (pf_Days plan) @
           '' '' @ runes [1076, 1085, 1077, 1081, 10, 1062, 1077, 1085, 1072] @ '': $'' @
           fmt_2f (cents (pf_Price plan)) @ '' ('' @ runes [11088] @ '' '' @ show_int n @
             '')'' @ runes [10, 10] @ textPayClue
     in editKB b chatID msgID summary (Some (confirmKeyboard n)))))"

definition startRenew :: "Bot \<Rightarrow> int \<Rightarrow> int \<Rightarrow> uuid \<Rightarrow> string \<Rightarrow> unit go" where
  "startRenew b chatID msgID userID subID =
     or_reply (VPN_List userID) (editKB b chatID msgID textError withBack) (\<lambda>views.
     case find_first (\<lambda>v. uuid_String (sb_ID (vw_Subscription v)) = subID) views of
       None \<Rightarrow> editKB b chatID msgID textError withBack
     | Some v \<Rightarrow>
         bind (ignore (saveDraft chatID (no_draft\<lparr>df_RenewSubID := subID,
           df_CountryID := uuid_String (sb_CountryID (vw_Subscription v)),
           df_Protocol := sb_Protocol (vw_Subscription v)\<rparr>))) (\<lambda>_.
         editPlans b chatID msgID))"

section \<open>Paying\<close>

text \<open>The purchase of a draft, when its ids parse and it names a protocol.\<close>

definition draft_purchase :: "uuid \<Rightarrow> draft \<Rightarrow> BuyInput option" where
  "draft_purchase userID d =
     (case (uuid_Parse (df_PlanID d), uuid_Parse (df_CountryID d)) of
       (Some planID, Some countryID) \<Rightarrow>
         if df_Protocol d = '''' then None
         else Some \<lparr>bi_UserID = userID, bi_PlanID = planID, bi_CountryID = countryID,
           bi_Protocol = df_Protocol d, bi_Gateway = GatewayTelegramStars, bi_PromoCode = '''',
           bi_Label = None,
           bi_RenewSubscriptionID = (if df_RenewSubID d \<noteq> '''' then uuid_Parse (df_RenewSubID d) else None),
           bi_Routing = df_Routing d\<rparr>
     | _ \<Rightarrow> None)"

definition pay :: "Bot \<Rightarrow> int \<Rightarrow> User \<Rightarrow> unit go" where
  "pay b chatID user =
     bind (current_draft chatID) (\<lambda>d.
     case draft_purchase (us_ID user) d of
       None \<Rightarrow> reply b chatID textError (Some mainMenuKeyboard)
     | Some inp \<Rightarrow>
         or_reply (Buy (bt_billing b) inp) (reply b chatID textError (Some mainMenuKeyboard)) (\<lambda>(order, _).
         let title = (if df_RenewSubID d \<noteq> ''''
             then runes [1055, 1088, 1086, 1076, 1083, 1077, 1085, 1080, 1077] @ '' VPN''
             else ''VPN '' @ runes [1087, 1086, 1076, 1087, 1080, 1089, 1082, 1072])
         in catch (SendInvoice (bt_api b) chatID title
              (runes [1044, 1086, 1089, 1090, 1091, 1087] @ '' '' @ runes [1082] @ '' VPN-'' @
                runes [1089, 1077, 1088, 1074, 1080, 1089, 1091])
              (uuid_String (or_ID order)) [(title, stars b (or_Amount order))])
              (\<lambda>_. reply b chatID textError (Some mainMenuKeyboard))))"

definition sendConfig :: "Bot \<Rightarrow> int \<Rightarrow> uuid \<Rightarrow> string \<Rightarrow> unit go" where
  "sendConfig b chatID userID subIDStr =
     (case uuid_Parse subIDStr of
       None \<Rightarrow> reply b chatID textError None
     | Some subID \<Rightarrow>
         or_reply (FetchConfig (bt_vpn b) userID subID)
           (reply b chatID textError (Some mainMenuKeyboard)) (\<lambda>(data, _).
         bind (attempt (FetchQR userID subID)) (\<lambda>qr.
         bind (if HasPrefix data ''[Interface]''
           then ignore (SendDocument (bt_api b) chatID ''vpn.conf'' data
             (runes [128272] @ '' WireGuard '' @
               runes [1082, 1086, 1085, 1092, 1080, 1075, 1091, 1088, 1072, 1094, 1080, 1103]))
           else ignore (SendMessage (bt_api b) chatID
             (runes [128273] @ '' <b>'' @ runes [1057, 1089, 1099, 1083, 1082, 1072] @ '' '' @
               runes [1076, 1083, 1103] @ '' '' @
               runes [1080, 1084, 1087, 1086, 1088, 1090, 1072] @ ''</b>:'' @ runes [10] @
               ''<code>'' @ html_EscapeString data @ ''</code>'') None)) (\<lambda>_.
         bind (case qr of
             Inl _ \<Rightarrow> return ()
           | Inr png \<Rightarrow> ignore (SendPhoto (bt_api b) chatID ''qr.png'' png
               (runes [128247] @ '' QR '' @ runes [1076, 1083, 1103] @ '' '' @
                 runes [1073, 1099, 1089, 1090, 1088, 1086, 1075, 1086] @ '' '' @
                 runes [1080, 1084, 1087, 1086, 1088, 1090, 1072]))) (\<lambda>_.
         reply b chatID
           (runes [1043, 1086, 1090, 1086, 1074, 1086] @ ''! '' @
             runes [1059, 1087, 1088, 1072, 1074, 1083, 1077, 1085, 1080, 1077] @ '' '' @
             runes [8212] @ '' '' @ runes [1074] @ '' '' @ runes [1084, 1077, 1085, 1102] @ ''.'')
           (Some mainMenuKeyboard))))))"

text \<open>A nil pointer: the handler panics.\<close>

definition deref :: "'a option \<Rightarrow> ('a \<Rightarrow> unit go) \<Rightarrow> unit go" where
  "deref p k = (case p of None \<Rightarrow> throw (Errorf ''nil pointer dereference'') | Some x \<Rightarrow> k x)"

definition handlePayment :: "Bot \<Rightarrow> Message \<Rightarrow> SuccessfulPayment \<Rightarrow> unit go" where
  "handlePayment b msg payment = deref (msg_From msg) (\<lambda>from.
     or_reply (ensureUser from) (return ()) (\<lambda>user.
     case uuid_Parse (sp_InvoicePayload payment) of
       None \<Rightarrow> return ()
     | Some orderID \<Rightarrow>
         or_reply (FulfillOrder (bt_billing b) orderID)
           (reply b (msg_ChatID msg) textError (Some mainMenuKeyboard)) (\<lambda>subID.
         bind (clearDraft (msg_ChatID msg)) (\<lambda>_.
         bind (reply b (msg_ChatID msg) textPaymentOK None) (\<lambda>_.
         run_if (subID \<noteq> uuid_Nil)
           (sendConfig b (msg_ChatID msg) (us_ID user) (uuid_String subID)))))))"

section \<open>Handlers\<close>

definition handleCommand :: "Bot \<Rightarrow> Message \<Rightarrow> unit go" where
  "handleCommand b msg = deref (msg_From msg) (\<lambda>from.
     or_reply (ensureUser from) (reply b (msg_ChatID msg) textError None) (\<lambda>user.
     let cmd = hd (Fields (msg_Text msg)) in
     if cmd = ''/myvpn'' then showMyVPN b (msg_ChatID msg) (us_ID user)
     else if cmd = ''/faq'' then reply b (msg_ChatID msg) textFAQ withBack
     else if cmd = ''/buy'' then showCountries b (msg_ChatID msg) 0
     else reply b (msg_ChatID msg) textWelcome (Some mainMenuKeyboard)))"

text \<open>The draft after a country or a protocol is chosen.\<close>

definition choose_country :: "string \<Rightarrow> draft \<Rightarrow> draft" where
  "choose_country c d = d\<lparr>df_CountryID := c, df_RenewSubID := ''''\<rparr>"

definition choose_protocol :: "string \<Rightarrow> draft \<Rightarrow> draft" where
  "choose_protocol p d =
     (if p = ''wireguard_split'' then d\<lparr>df_Protocol := ''wireguard'', df_Routing := RoutingSplitRU\<rparr>
      else d\<lparr>df_Protocol := p, df_Routing := RoutingFull\<rparr>)"

definition update_draft :: "int \<Rightarrow> (draft \<Rightarrow> draft) \<Rightarrow> unit go" where
  "update_draft chatID f = bind (current_draft chatID) (\<lambda>d. ignore (saveDraft chatID (f d)))"

definition callback_action :: "Bot \<Rightarrow> int \<Rightarrow> int \<Rightarrow> User \<Rightarrow> string \<Rightarrow> unit go" where
  "callback_action b chatID msgID user data =
     (if data = ''menu'' then editKB b chatID msgID textWelcome (Some mainMenuKeyboard)
      else if data = ''buy'' then bind (clearDraft chatID) (\<lambda>_. showCountries b chatID msgID)
      else if data = ''faq'' then editKB b chatID msgID textFAQ withBack
      else if data = ''myvpn'' then editMyVPN b chatID msgID (us_ID user)
      else if HasPrefix data ''country:'' then
        bind (update_draft chatID (choose_country (TrimPrefix data ''country:''))) (\<lambda>_.
        editKB b chatID msgID textChooseProtocol (Some protocolsKeyboard))
      else if HasPrefix data ''proto:'' then
        bind (update_draft chatID (choose_protocol (TrimPrefix data ''proto:''))) (\<lambda>_.
        editPlans b chatID msgID)
      else if HasPrefix data ''plan:'' then selectPlan b chatID msgID (TrimPrefix data ''plan:'')
      else if data = ''pay'' then pay b chatID user
      else if HasPrefix data ''renew:'' then
        startRenew b chatID msgID (us_ID user) (TrimPrefix data ''renew:'')
      else if HasPrefix data ''cfg:'' then sendConfig b chatID (us_ID user) (TrimPrefix data ''cfg:'')
      else return ())"

definition handleCallback :: "Bot \<Rightarrow> CallbackQuery \<Rightarrow> unit go" where
  "handleCallback b cq =
     bind (ignore (AnswerCallbackQuery (bt_api b) (cq_ID cq) '''')) (\<lambda>_.
     case cq_Message cq of
       None \<Rightarrow> return ()
     | Some msg \<Rightarrow>
         or_reply (ensureUser (cq_From cq)) (reply b (msg_ChatID msg) textError None) (\<lambda>user.
         callback_action b (msg_ChatID msg) (msg_MessageID msg) user (cq_Data cq)))"

definition dispatch :: "Bot \<Rightarrow> Update \<Rightarrow> unit go" where
  "dispatch b u = ignore
     (case up_PreCheckoutQuery u of
       Some q \<Rightarrow> ignore (AnswerPreCheckoutQuery (bt_api b) (pq_ID q) True '''')
     | None \<Rightarrow>
         (case Option.bind (up_Message u) msg_SuccessfulPayment of
           Some payment \<Rightarrow> handlePayment b (the (up_Message u)) payment
         | None \<Rightarrow>
             if (case up_Message u of None \<Rightarrow> False | Some m \<Rightarrow> HasPrefix (msg_Text m) ''/'')
             then handleCommand b (the (up_Message u))
             else (case up_CallbackQuery u of None \<Rightarrow> return () | Some cq \<Rightarrow> handleCallback b cq)))"

section \<open>Polling\<close>

text \<open>The updates of a poll, and the offset after them.\<close>

fun dispatch_all :: "Bot \<Rightarrow> int \<Rightarrow> Update list \<Rightarrow> int go" where
  "dispatch_all b offset [] = return offset"
| "dispatch_all b offset (u # us) =
     bind (dispatch b u) (\<lambda>_. dispatch_all b (up_UpdateID u + 1) us)"

text \<open>The loop, for a number of polls before the context is cancelled; errors are retried.\<close>

fun Bot_Run :: "Bot \<Rightarrow> nat \<Rightarrow> int \<Rightarrow> unit go" where
  "Bot_Run b 0 offset = return ()"
| "Bot_Run b (Suc polls) offset =
     bind (attempt (GetUpdates (bt_api b) offset 50)) (\<lambda>r.
     case r of
       Inl _ \<Rightarrow> Bot_Run b polls offset
     | Inr us \<Rightarrow> bind (dispatch_all b offset us) (Bot_Run b polls))"

section \<open>Notices of migrations\<close>

definition NotifyMigration :: "Bot \<Rightarrow> int \<Rightarrow> string \<Rightarrow> unit go" where
  "NotifyMigration b telegramID country = NotifyUser b telegramID
     (runes [9851, 65039] @ '' '' @ runes [1042, 1072, 1096] @ '' VPN ('' @ country @
      '') '' @ runes [1087, 1077, 1088, 1077, 1077, 1093, 1072, 1083] @ '' '' @
      runes [1085, 1072] @ '' '' @ runes [1088, 1077, 1079, 1077, 1088, 1074, 1085, 1099, 1081] @
      '' '' @ runes [1089, 1077, 1088, 1074, 1077, 1088] @ '' '' @ runes [1080, 1079] @ ''-'' @
      runes [1079, 1072] @ '' '' @ runes [1089, 1073, 1086, 1103] @ '' '' @
      runes [1080, 1083, 1080] @ '' '' @
      runes [1073, 1083, 1086, 1082, 1080, 1088, 1086, 1074, 1082, 1080] @ ''. '' @
      runes [1050, 1086, 1085, 1092, 1080, 1075, 1091, 1088, 1072, 1094, 1080, 1103] @ '' '' @
      runes [1086, 1073, 1085, 1086, 1074, 1083, 1077, 1085, 1072] @ '' '' @ runes [8212] @
      '' '' @ runes [1086, 1090, 1082, 1088, 1086, 1081, 1090, 1077] @ '' '' @
      runes [171, 1052, 1086, 1080] @ '' VPN'' @ runes [187] @ '' '' @ runes [1080] @ '' '' @
      runes [1087, 1077, 1088, 1077, 1087, 1086, 1076, 1082, 1083, 1102, 1095, 1080, 1090, 1077,
        1089, 1100] @ ''.'')"

end
