(* ===== verification/Monitoring.thy ===== *)
theory Monitoring
  imports BillingWiring Http
begin

text \<open>
  The monitoring engine (\<open>internal/monitoring/engine.go\<close>) and the business metrics
  (\<open>collector.go\<close>).  The engine holds the migrator and the notifier as Go does, as functions;
  the texts of errors are an argument, log lines are left out, and the map of blocked targets is
  iterated in the order of its keys, where Go's order is unspecified.
\<close>

section \<open>The status of a node\<close>

record agentStatus =
  st_CPULoad :: float64
  st_MemUsedPct :: float64
  st_WGPeers :: int
  st_XrayUp :: bool
  st_Blocks :: "(string \<times> bool) list"

record serverRow =
  sw_id :: uuid
  sw_agentURL :: string
  sw_status :: string

text \<open>A field that is a map of truth values; null clears it.\<close>

fun bool_members :: "(string \<times> bool) list \<Rightarrow> (string \<times> json) list \<Rightarrow> (string \<times> bool) list option" where
  "bool_members m [] = Some m"
| "bool_members m ((k, JBool b) # ms) = bool_members (insert_member k b m) ms"
| "bool_members m ((k, JNull) # ms) = bool_members (insert_member k False m) ms"
| "bool_members m (_ # ms) = None"

fun last_bool_map :: "(string \<times> bool) list \<Rightarrow> json list \<Rightarrow> (string \<times> bool) list option" where
  "last_bool_map m [] = Some m"
| "last_bool_map m (JNull # vs) = last_bool_map [] vs"
| "last_bool_map m (JObj ms # vs) =
     (case bool_members m ms of None \<Rightarrow> None | Some m' \<Rightarrow> last_bool_map m' vs)"
| "last_bool_map m (_ # vs) = None"

definition decode_status :: "string \<Rightarrow> agentStatus option" where
  "decode_status body =
     Option.bind (Option.bind (json_Decode body) struct_members) (\<lambda>ms.
     Option.bind (float_field ''cpu_load'' ms) (\<lambda>cpu.
     Option.bind (float_field ''mem_used_pct'' ms) (\<lambda>mem.
     Option.bind (int_field ''wg_peers'' ms) (\<lambda>peers.
     Option.bind (last_bool False (field_values ''xray_up'' ms)) (\<lambda>xray.
     map_option (\<lambda>blocks. \<lparr>st_CPULoad = cpu, st_MemUsedPct = mem, st_WGPeers = peers,
         st_XrayUp = xray, st_Blocks = blocks\<rparr>)
       (last_bool_map [] (map snd (filter (\<lambda>(k, v). fold_eq k ''blocks'') ms))))))))"

text \<open>The same fields as JSON, for the record of a check.\<close>

definition status_json :: "agentStatus \<Rightarrow> json" where
  "status_json st = JObj [(''cpu_load'', JNum (json_float (st_CPULoad st))),
     (''mem_used_pct'', JNum (json_float (st_MemUsedPct st))),
     (''wg_peers'', JNum (show_int (st_WGPeers st))), (''xray_up'', JBool (st_XrayUp st)),
     (''blocks'', JObj (map (\<lambda>(k, b). (k, JBool b)) (st_Blocks st)))]"

section \<open>Scores\<close>

definition scoreHealth :: "agentStatus \<Rightarrow> int \<times> string list" where
  "scoreHealth st =
     (let score = 100 :: int;
          score = (if \<not> st_XrayUp st then score - 40 else score);
          (score, blocked) = foldl (\<lambda>(score, blocked) (name, ok).
            if \<not> ok then (score - 15, blocked @ [name]) else (score, blocked))
            (score, []) (st_Blocks st);
          score = (if st_CPULoad st > fl (9 / 10) then score - 20 else score);
          score = (if st_MemUsedPct st > 90 then score - 15 else score);
          score = (if score < 0 then 0 else score)
      in (score, blocked))"

definition health_label :: "int \<Rightarrow> string" where
  "health_label score =
     (if score \<le> 0 then ''offline'' else if score < 60 then ''degraded'' else ''active'')"

definition block_reason :: "string list \<Rightarrow> string" where
  "block_reason blocked =
     (if blocked \<noteq> [] then ''blocked: '' @ Join blocked '','' else '''')"

section \<open>The engine\<close>

record Engine =
  en_migrator :: "uuid \<Rightarrow> string \<Rightarrow> MigrationResult list go"
  en_notifier :: "(int \<Rightarrow> string \<Rightarrow> unit go) option"
  en_token :: string

text \<open>The GET of a node's status: it fails, or is answered with a code and a body.\<close>

definition http_get :: "string \<Rightarrow> headers \<Rightarrow> (int \<times> string) go" where
  "http_get url hs w =
     (if env_fault (w_env w) (w_tick w) then (Inl Fault, step_tick w)
      else (Inr (env_http_status (w_env w) (w_tick w), env_http_body (w_env w) (w_tick w)),
            (step_tick w)\<lparr>w_nodes := w_nodes w @ [ApiCall url hs '''']\<rparr>))"

definition poll :: "Engine \<Rightarrow> string \<Rightarrow> agentStatus go" where
  "poll e agentURL =
     bind (http_get (TrimRight agentURL (CHR ''/'') @ ''/status'')
       [(''Authorization'', ''Bearer '' @ en_token e)]) (\<lambda>(code, body).
     if code \<ge> 300 then throw (Errorf (''agent status '' @ show_int code))
     else case decode_status body of None \<Rightarrow> throw syntax_error | Some st \<Rightarrow> return st)"

text \<open>The statements of the engine; their errors are logged or dropped.\<close>

definition insert_health :: "uuid \<Rightarrow> int \<Rightarrow> string \<Rightarrow> string \<Rightarrow> string \<Rightarrow> unit statement" where
  "insert_health serverID score status reason payload now fresh d =
     (if has_key hl_id fresh (server_health d) then Inl unique_violation
      else if \<not> fk_ok s_id serverID (servers d) then Inl foreign_key_violation
      else Inr ((), d\<lparr>server_health := server_health d @ [\<lparr>hl_id = fresh, hl_server_id = serverID,
        hl_score = score, hl_status = status, hl_reason = nullif_empty reason,
        hl_payload = payload, hl_created_at = now\<rparr>]\<rparr>))"

definition health_record ::
    "uuid \<Rightarrow> int \<Rightarrow> string \<Rightarrow> string \<Rightarrow> agentStatus option \<Rightarrow> unit go" where
  "health_record serverID score status reason st =
     (let payload = (case st of None \<Rightarrow> ''{}'' | Some s \<Rightarrow> json_Marshal (status_json s))
      in ignore (sql (insert_health serverID score status reason payload)))"

definition update_server :: "(server_row \<Rightarrow> bool) \<Rightarrow> (timestamp \<Rightarrow> server_row \<Rightarrow> server_row) \<Rightarrow> unit statement" where
  "update_server P f now fresh d = Inr ((), d\<lparr>servers := update_where P (f now) (servers d)\<rparr>)"

definition markHealth :: "uuid \<Rightarrow> int \<Rightarrow> unit go" where
  "markHealth serverID score = ignore (sql (update_server (\<lambda>r. s_id r = serverID)
     (\<lambda>now r. r\<lparr>s_health_score := score, s_last_seen := Some now\<rparr>)))"

definition markStatus :: "uuid \<Rightarrow> string \<Rightarrow> unit go" where
  "markStatus serverID status = ignore (sql (update_server
     (\<lambda>r. s_id r = serverID \<and> s_status r \<noteq> status) (\<lambda>now r. r\<lparr>s_status := status\<rparr>)))"

definition migrate :: "Engine \<Rightarrow> uuid \<Rightarrow> string \<Rightarrow> unit go" where
  "migrate e serverID reason =
     bind (attempt (en_migrator e serverID reason)) (\<lambda>r.
     case r of
       Inl _ \<Rightarrow> return ()
     | Inr results \<Rightarrow>
         (case en_notifier e of
           None \<Rightarrow> return ()
         | Some notify \<Rightarrow> for_each (\<lambda>r.
             case mr_TelegramID r of None \<Rightarrow> return () | Some tg \<Rightarrow> notify tg (mr_Country r)) results))"

definition check_unreachable :: "Engine \<Rightarrow> serverRow \<Rightarrow> string \<Rightarrow> unit go" where
  "check_unreachable e s text =
     bind (health_record (sw_id s) 0 ''offline'' (''unreachable: '' @ text) None) (\<lambda>_.
     bind (markStatus (sw_id s) ''offline'') (\<lambda>_.
     run_if (sw_status s = ''active'') (migrate e (sw_id s) ''node unreachable'')))"

definition check_reached :: "Engine \<Rightarrow> serverRow \<Rightarrow> agentStatus \<Rightarrow> unit go" where
  "check_reached e s st =
     (case scoreHealth st of (score, blocked) \<Rightarrow>
       let reason = block_reason blocked in
       bind (health_record (sw_id s) score (health_label score) reason (Some st)) (\<lambda>_.
       bind (markHealth (sw_id s) score) (\<lambda>_.
       if length blocked \<ge> 2 then
         bind (markStatus (sw_id s) ''offline'') (\<lambda>_.
         run_if (sw_status s = ''active'') (migrate e (sw_id s) reason))
       else run_if (score \<ge> 60 \<and> sw_status s = ''offline'') (markStatus (sw_id s) ''active''))))"

definition check_server :: "(error \<Rightarrow> string) \<Rightarrow> Engine \<Rightarrow> serverRow \<Rightarrow> unit go" where
  "check_server text e s =
     bind (attempt (poll e (sw_agentURL s))) (\<lambda>r.
     case r of Inl err \<Rightarrow> check_unreachable e s (text err) | Inr st \<Rightarrow> check_reached e s st)"

definition polled_servers :: "db \<Rightarrow> serverRow list" where
  "polled_servers d = map (\<lambda>r. \<lparr>sw_id = s_id r, sw_agentURL = from_option '''' (s_agent_url r),
       sw_status = s_status r\<rparr>)
     (filter (\<lambda>r. s_status r \<noteq> ''archived'' \<and> s_agent_url r \<noteq> None) (servers d))"

definition sweep :: "(error \<Rightarrow> string) \<Rightarrow> Engine \<Rightarrow> unit go" where
  "sweep text e =
     bind (attempt (sql (select polled_servers))) (\<lambda>r.
     case r of Inl _ \<Rightarrow> return () | Inr ss \<Rightarrow> for_each (check_server text e) ss)"

text \<open>The loop, for the ticks before the context is cancelled.\<close>

fun Engine_Run :: "(error \<Rightarrow> string) \<Rightarrow> Engine \<Rightarrow> nat \<Rightarrow> unit go" where
  "Engine_Run text e 0 = sweep text e"
| "Engine_Run text e (Suc ticks) = bind (sweep text e) (\<lambda>_. Engine_Run text e ticks)"

section \<open>Business metrics\<close>

text \<open>
  What a scrape reads: the totals, unless their query fails, and a score for each server that is
  not archived.  The revenue is a sum of cents.
\<close>

record Totals =
  to_servers :: nat
  to_active :: nat
  to_subs :: nat
  to_paid :: nat
  to_revenue :: int

definition totals :: "db \<Rightarrow> Totals" where
  "totals d = \<lparr>to_servers = length (servers d),
     to_active = count_where (\<lambda>r. s_status r = ''active'') (servers d),
     to_subs = count_where (\<lambda>r. sub_status r = ''active'') (subscriptions d),
     to_paid = count_where (\<lambda>r. o_status r = ''paid'') (orders d),
     to_revenue = sum_list (map o_amount (filter (\<lambda>r. o_status r = ''paid'') (orders d)))\<rparr>"

definition health_scores :: "db \<Rightarrow> (string \<times> string \<times> int) list" where
  "health_scores d = concat (map (\<lambda>s. concat (map (\<lambda>co.
     if c_id co = s_country_id s \<and> s_status s \<noteq> ''archived''
     then [(s_hostname s, c_name co, s_health_score s)] else []) (countries d))) (servers d))"

definition Collect :: "(Totals option \<times> (string \<times> string \<times> int) list) go" where
  "Collect =
     bind (attempt (sql (select totals))) (\<lambda>t.
     bind (attempt (sql (select health_scores))) (\<lambda>hs.
     return (case t of Inl _ \<Rightarrow> None | Inr x \<Rightarrow> Some x, case hs of Inl _ \<Rightarrow> [] | Inr x \<Rightarrow> x)))"

end
