(* ===== verification/ApiServer.thy ===== *)
theory ApiServer
  imports AdminModule UserModule TelegramBot Monitoring
begin

text \<open>
  The process of \<open>cmd/api/main.go\<close>: the clients it connects, the services it wires from the
  configuration, its routes and middleware, and what it starts in the background.
\<close>

section \<open>Clients\<close>

text \<open>
  What the client libraries decide by themselves: whether an address or an endpoint is well formed,
  and whether the bucket is there already.
\<close>

record clients =
  cl_dsn :: "string \<Rightarrow> error + unit"
  cl_redis :: "string \<Rightarrow> error + unit"
  cl_minio :: "string \<Rightarrow> error + unit"
  cl_bucket :: "string \<Rightarrow> bool"

definition database_Connect :: "clients \<Rightarrow> string \<Rightarrow> unit go" where
  "database_Connect c dsn =
     bind (wrap ''database: parse dsn'' (of_sum (cl_dsn c dsn))) (\<lambda>_.
     bind (wrap ''database: create pool'' ping) (\<lambda>_.
     wrap ''database: ping'' ping))"

definition cache_Connect :: "clients \<Rightarrow> string \<Rightarrow> unit go" where
  "cache_Connect c url =
     bind (wrap ''cache: parse url'' (of_sum (cl_redis c url))) (\<lambda>_. wrap ''cache: ping'' ping)"

definition storage_New :: "clients \<Rightarrow> string \<Rightarrow> string \<Rightarrow> unit go" where
  "storage_New c endpoint bucket =
     bind (wrap ''storage: new client'' (of_sum (cl_minio c endpoint))) (\<lambda>_.
     bind (wrap ''storage: bucket exists'' ping) (\<lambda>_.
     run_if (\<not> cl_bucket c bucket) (wrap ''storage: make bucket'' ping)))"

section \<open>Services\<close>

definition NewTokenManager :: "string \<Rightarrow> int \<Rightarrow> int \<Rightarrow> TokenManager" where
  "NewTokenManager secret accessTTL refreshTTL =
     \<lparr>tm_secret = secret, tm_accessTTL = accessTTL, tm_refreshTTL = refreshTTL\<rparr>"

definition api_auth :: "AppConfig \<Rightarrow> AuthService" where
  "api_auth cfg = \<lparr>as_tokens = NewTokenManager (cfg_JWTSecret cfg) (cfg_AccessTokenTTL cfg)
       (cfg_RefreshTokenTTL cfg), as_botToken = cfg_TelegramBotToken cfg\<rparr>"

text \<open>The bot, only when a token is configured; its notices of migrations go to the engine.\<close>

definition api_bot :: "AppConfig \<Rightarrow> Cipher \<Rightarrow> string \<Rightarrow> (timestamp \<Rightarrow> int) \<Rightarrow> Bot option" where
  "api_bot cfg cipher ruCIDRs zone =
     (if cfg_TelegramBotToken cfg = '''' then None
      else Some (NewBot (cfg_TelegramBotToken cfg) (api_vpn cfg cipher ruCIDRs)
        (api_billing cfg cipher ruCIDRs) (cfg_StarsPerUSD cfg) zone))"

definition api_engine :: "AppConfig \<Rightarrow> Cipher \<Rightarrow> string \<Rightarrow> (timestamp \<Rightarrow> int) \<Rightarrow> Engine" where
  "api_engine cfg cipher ruCIDRs zone =
     \<lparr>en_migrator = MigrateServer (api_vpn cfg cipher ruCIDRs),
      en_notifier = map_option NotifyMigration (api_bot cfg cipher ruCIDRs zone),
      en_token = cfg_ProvisionerAgentToken cfg\<rparr>"

section \<open>The HTTP server\<close>

definition minute :: int where "minute = 60 * second_ns"

text \<open>
  What the pages serve: the two embedded files, and what the Prometheus client renders of a
  collection.
\<close>

record pages =
  pg_cabinet :: string
  pg_panel :: string
  pg_metrics :: "Totals option \<times> (string \<times> string \<times> int) list \<Rightarrow> string"

definition serve_page :: "string \<Rightarrow> handler" where
  "serve_page html r rw =
     (\<lambda>w. (Write (O_bytes html) (set_header ''Content-Type'' ''text/html; charset=utf-8'' rw), w))"

definition page_routes :: "string \<Rightarrow> string \<Rightarrow> route list" where
  "page_routes path html =
     [(''GET'', [Lit path], serve_page html), (''GET'', [Lit path, Rest], serve_page html)]"

definition RegisterPanel :: "string \<Rightarrow> route list" where
  "RegisterPanel panelHTML = page_routes ''admin'' panelHTML"

definition cabinet_Register :: "string \<Rightarrow> route list" where
  "cabinet_Register cabinetHTML = page_routes ''app'' cabinetHTML"

definition metrics_handler ::
    "(Totals option \<times> (string \<times> string \<times> int) list \<Rightarrow> string) \<Rightarrow> handler" where
  "metrics_handler render r = on_result Collect internal_error
     (\<lambda>c rw w. (Write (O_bytes (render c)) rw, w))"

definition api_routes :: "AppConfig \<Rightarrow> Cipher \<Rightarrow> string \<Rightarrow> pages \<Rightarrow> route list" where
  "api_routes cfg cipher ruCIDRs pages =
     [(''GET'', [Lit ''health''], Live), (''GET'', [Lit ''ready''], Ready),
      (''GET'', [Lit ''metrics''], metrics_handler (pg_metrics pages))] @
     auth_routes (api_auth cfg) (RateLimiter_Middleware ''auth'' 20 minute) @
     user_routes (api_auth cfg) @
     vpn_routes (api_auth cfg) (api_vpn cfg cipher ruCIDRs) @
     billing_routes (api_auth cfg) (api_billing cfg cipher ruCIDRs) (\<not> IsProduction cfg) @
     admin_routes (api_auth cfg) @
     RegisterPanel (pg_panel pages) @ cabinet_Register (pg_cabinet pages)"

text \<open>
  The middleware, outermost first.  \<open>Observe\<close> only logs and counts; \<open>Recover\<close> answers a panic, and
  no handler of the model panics.
\<close>

definition api_server :: "AppConfig \<Rightarrow> Cipher \<Rightarrow> string \<Rightarrow> pages \<Rightarrow> handler" where
  "api_server cfg cipher ruCIDRs pages = Chain (Mux (api_routes cfg cipher ruCIDRs pages))
     [RequestID, SecurityHeaders, RateLimiter_Middleware ''global'' 600 minute]"

section \<open>Start\<close>

text \<open>What is running once the process is up.\<close>

record process =
  pc_server :: handler
  pc_grace :: int
  pc_bot :: "Bot option"
  pc_engine :: Engine

definition api_run ::
    "clients \<Rightarrow> environment \<Rightarrow> string \<Rightarrow> (timestamp \<Rightarrow> int) \<Rightarrow> pages \<Rightarrow> process go" where
  "api_run c vars ruCIDRs zone pages =
     bind (of_sum (Load vars)) (\<lambda>cfg.
     bind (database_Connect c (cfg_DatabaseURL cfg)) (\<lambda>_.
     bind (cache_Connect c (cfg_RedisURL cfg)) (\<lambda>_.
     bind (storage_New c (cfg_MinioEndpoint cfg) (cfg_MinioBucket cfg)) (\<lambda>_.
     bind (of_sum (NewCipher (cfg_VPNConfigKeyHex cfg))) (\<lambda>cipher.
     return \<lparr>pc_server = api_server cfg cipher ruCIDRs pages,
       pc_grace = cfg_GracePeriod cfg,
       pc_bot = api_bot cfg cipher ruCIDRs zone,
       pc_engine = api_engine cfg cipher ruCIDRs zone\<rparr>)))))"

end
