(* ===== verification/HttpServer.thy ===== *)
theory HttpServer
  imports ApiServer "HOL-Library.Multiset"
begin

text \<open>
  What is around the handlers: the middleware that recovers panics and that observes requests
  (\<open>internal/platform/httpx/middleware.go\<close>, \<open>internal/platform/observability\<close>), the start of the
  server (\<open>httpx/server.go\<close>) and of the process (\<open>main\<close>), and the level of the logger.  Durations and
  log lines are left out.
\<close>

section \<open>Panics\<close>

text \<open>A handler that may panic, after it has written some of its reply.\<close>

type_synonym may_panic = "request \<Rightarrow> writer \<Rightarrow> world \<Rightarrow> bool \<times> writer \<times> world"

definition no_panic :: "handler \<Rightarrow> may_panic" where
  "no_panic h r rw w = (False, h r rw w)"

definition Recover :: "may_panic \<Rightarrow> handler" where
  "Recover next r rw w =
     (case next r rw w of (panicked, rw', w') \<Rightarrow> (if panicked then WriteHeader 500 rw' else rw', w'))"

section \<open>Observations\<close>

text \<open>One sample of the request counter, by its labels; the counters are the samples taken.\<close>

record sample =
  sm_method :: string
  sm_route :: string
  sm_status :: nat

type_synonym Metrics = "sample multiset"

definition Metrics_Observe :: "string \<Rightarrow> string \<Rightarrow> nat \<Rightarrow> Metrics \<Rightarrow> Metrics" where
  "Metrics_Observe meth route status m =
     add_mset \<lparr>sm_method = meth, sm_route = route, sm_status = status\<rparr> m"

text \<open>The pattern that the mux matched, as it was registered; none for an error of the mux.\<close>

fun segment_text :: "segment \<Rightarrow> string" where
  "segment_text (Lit s) = ''/'' @ s"
| "segment_text (Wild n) = ''/{'' @ n @ ''}''"
| "segment_text Rest = ''/''"

definition pattern_text :: "string \<Rightarrow> segment list \<Rightarrow> string" where
  "pattern_text meth p = meth @ '' '' @ concat (map segment_text p)"

definition rq_Pattern :: "route list \<Rightarrow> request \<Rightarrow> string" where
  "rq_Pattern rs r = from_option '''' (map_option (\<lambda>(m, p, h). pattern_text m p)
     (find_first (\<lambda>(m, p, h). match_segments p (rq_Path r) \<noteq> None \<and> method_ok m (rq_Method r)) rs))"

text \<open>The recorder of the status starts at 200; a handler that panics is not counted.\<close>

definition Observe :: "route list \<Rightarrow> may_panic \<Rightarrow> request \<Rightarrow> writer \<Rightarrow> world \<times> Metrics \<Rightarrow>
    bool \<times> writer \<times> world \<times> Metrics" where
  "Observe rs next r rw = (\<lambda>(w, m).
     case next r rw w of (panicked, rw', w') \<Rightarrow>
       (panicked, rw', w', if panicked then m
         else let route = (if rq_Pattern rs r = '''' then ''unmatched'' else rq_Pattern rs r)
           in Metrics_Observe (rq_Method r) route (status_of rw') m))"

text \<open>The innermost two middlewares around the mux, and the metrics after a request reached them.\<close>

definition observed_mux :: "route list \<Rightarrow> Metrics \<Rightarrow> handler" where
  "observed_mux rs m = Recover (\<lambda>r rw w.
     case Observe rs (no_panic (Mux rs)) r rw (w, m) of (p, rw', w', _) \<Rightarrow> (p, rw', w'))"

definition metrics_after :: "route list \<Rightarrow> request \<Rightarrow> writer \<Rightarrow> world \<Rightarrow> Metrics \<Rightarrow> Metrics" where
  "metrics_after rs r rw w m =
     (case Observe rs (no_panic (Mux rs)) r rw (w, m) of (_, _, _, m') \<Rightarrow> m')"

section \<open>The process\<close>

datatype level = LevelDebug | LevelInfo | LevelWarn | LevelError

text \<open>The level of the logger, and whether it writes JSON.\<close>

definition logger_New :: "string \<Rightarrow> string \<Rightarrow> level \<times> bool" where
  "logger_New lvl env =
     (let l = map ascii_lower lvl
      in (if l = ''debug'' then LevelDebug else if l = ''warn'' then LevelWarn
          else if l = ''error'' then LevelError else LevelInfo, env = ''production''))"

text \<open>
  The server runs until its listener fails or the context is cancelled, and then shuts down within
  the timeout; what the listener returns once it is closed on purpose is no failure.
\<close>

datatype listener = Closed | Broken error

definition listen_error :: "listener option \<Rightarrow> error option" where
  "listen_error l = (case l of Some (Broken e) \<Rightarrow> Some e | _ \<Rightarrow> None)"

definition Server_Start :: "listener option \<Rightarrow> unit go \<Rightarrow> unit go" where
  "Server_Start l shutdown = (case listen_error l of Some e \<Rightarrow> throw e | None \<Rightarrow> shutdown)"

text \<open>\<open>main\<close>: the exit code, 1 when anything on the way fails.\<close>

definition api_main :: "clients \<Rightarrow> environment \<Rightarrow> string \<Rightarrow> (timestamp \<Rightarrow> int) \<Rightarrow> pages \<Rightarrow>
    listener option \<Rightarrow> unit go \<Rightarrow> nat go" where
  "api_main c vars ruCIDRs zone pages l shutdown =
     catch (bind (api_run c vars ruCIDRs zone pages) (\<lambda>_.
            bind (Server_Start l shutdown) (\<lambda>_. return 0)))
       (\<lambda>_. return 1)"

section \<open>What the middleware changes\<close>

text \<open>Around handlers that do not panic, the two change no reply and no state.\<close>

lemma observed_mux_transparent: "observed_mux rs m = Mux rs"
  by (intro ext) (simp add: observed_mux_def Recover_def Observe_def no_panic_def split: prod.split)

lemma observed_server:
  "Chain (observed_mux (api_routes cfg cipher cidrs pages) m)
     [RequestID, SecurityHeaders, RateLimiter_Middleware ''global'' 600 minute] =
   api_server cfg cipher cidrs pages"
  by (simp add: observed_mux_transparent api_server_def)

text \<open>A panic is answered with 500, unless a status had been sent before it.\<close>

lemma Recover_panic:
  assumes "next r rw w = (True, rw', w')"
  shows "status_of (fst (Recover next r rw w)) = from_option 500 (writer.wr_Status rw')"
    "snd (Recover next r rw w) = w'"
  using assms by (cases "writer.wr_Status rw'"; simp add: Recover_def WriteHeader_def status_of_def)+

text \<open>
  Every request that reaches the mux is counted once, with its status, and the label of its route is
  a registered pattern or \<open>unmatched\<close>, whatever the path: the routes are of low cardinality.  The
  method is the client's own.
\<close>

theorem routes_of_low_cardinality:
  "\<exists>route. metrics_after rs r rw w m = add_mset \<lparr>sm_method = rq_Method r, sm_route = route,
       sm_status = status_of (fst (Mux rs r rw w))\<rparr> m \<and>
     route \<in> insert ''unmatched'' ((\<lambda>(meth, p, h). pattern_text meth p) ` set rs)"
proof -
  let ?ok = "\<lambda>(m, p, h). match_segments p (rq_Path r) \<noteq> None \<and> method_ok m (rq_Method r)"
  obtain rw' w' where run: "Mux rs r rw w = (rw', w')" by fastforce
  have "rq_Pattern rs r = '''' \<or> rq_Pattern rs r \<in> (\<lambda>(meth, p, h). pattern_text meth p) ` set rs"
  proof (cases "find_first ?ok rs")
    case None
    show ?thesis unfolding rq_Pattern_def None by simp
  next
    case (Some x)
    then have "x \<in> set rs" by (auto dest: find_first_SomeD)
    then show ?thesis unfolding rq_Pattern_def Some by (auto intro!: disjI2 image_eqI [of _ _ x])
  qed
  then have "(if rq_Pattern rs r = '''' then ''unmatched'' else rq_Pattern rs r)
      \<in> insert ''unmatched'' ((\<lambda>(meth, p, h). pattern_text meth p) ` set rs)"
    by (metis insertCI)
  then show ?thesis
    by (rule exI [where P = "\<lambda>x. _ x \<and> x \<in> _", OF conjI, rotated])
      (simp add: metrics_after_def Observe_def no_panic_def Metrics_Observe_def run Let_def)
qed

end
