(* ===== verification/RouteTable.thy ===== *)
theory RouteTable
  imports HttpServer
begin

text \<open>
  The routes of the server, all of them in one table: no two of them can match one request, so that
  the first match of the model and the most specific match of \<open>http.ServeMux\<close> are the same route.
\<close>

section \<open>Overlapping patterns\<close>

text \<open>Whether two patterns can match one path, and two methods one request.\<close>

fun overlap :: "segment list \<Rightarrow> segment list \<Rightarrow> bool" where
  "overlap [] [] = True"
| "overlap [Rest] (q # qs) = True"
| "overlap (p # ps) [Rest] = True"
| "overlap (Lit s # ps) (Lit t # qs) = (s = t \<and> overlap ps qs)"
| "overlap (Lit s # ps) (Wild n # qs) = overlap ps qs"
| "overlap (Wild n # ps) (Lit s # qs) = overlap ps qs"
| "overlap (Wild n # ps) (Wild n' # qs) = overlap ps qs"
| "overlap _ _ = False"

lemma matches_overlap:
  "match_segments p xs \<noteq> None \<Longrightarrow> match_segments q xs \<noteq> None \<Longrightarrow> overlap p q"
  by (induction p q arbitrary: xs rule: overlap.induct;
      case_tac xs) (auto split: if_splits)

definition same_request_line :: "string \<times> segment list \<Rightarrow> string \<times> segment list \<Rightarrow> bool" where
  "same_request_line = (\<lambda>(m, p) (m', p').
     (m = m' \<or> m = ''GET'' \<and> m' = ''HEAD'' \<or> m = ''HEAD'' \<and> m' = ''GET'') \<and> overlap p p')"

definition route_lines :: "route list \<Rightarrow> (string \<times> segment list) list" where
  "route_lines rs = map (\<lambda>(m, p, h). (m, p)) rs"

section \<open>The table\<close>

text \<open>With \<open>dev\<close>, the route that confirms mock payments is there too.\<close>

definition registered :: "bool \<Rightarrow> (string \<times> segment list) list" where
  "registered dev =
    [(''GET'', [Lit ''health'']),
     (''GET'', [Lit ''ready'']),
     (''GET'', [Lit ''metrics'']),
     (''POST'', api_path [''auth'', ''register'']),
     (''POST'', api_path [''auth'', ''login'']),
     (''POST'', api_path [''auth'', ''telegram'']),
     (''POST'', api_path [''auth'', ''refresh'']),
     (''POST'', api_path [''auth'', ''logout'']),
     (''POST'', api_path [''auth'', ''2fa'', ''setup'']),
     (''POST'', api_path [''auth'', ''2fa'', ''enable'']),
     (''POST'', api_path [''auth'', ''2fa'', ''disable'']),
     (''GET'', api_path [''users'', ''me'']),
     (''PUT'', api_path [''users'', ''me'']),
     (''GET'', api_path [''users'', ''me'', ''devices'']),
     (''POST'', api_path [''users'', ''me'', ''devices'']),
     (''DELETE'', api_path [''users'', ''me'', ''devices''] @ [Wild ''id'']),
     (''GET'', api_path [''countries'']),
     (''GET'', api_path [''plans'']),
     (''POST'', api_path [''vpn'', ''create'']),
     (''GET'', api_path [''vpn'', ''list'']),
     (''GET'', api_path [''vpn''] @ [Wild ''id'', Lit ''config'']),
     (''GET'', api_path [''vpn''] @ [Wild ''id'', Lit ''qr'']),
     (''DELETE'', api_path [''vpn''] @ [Wild ''id'']),
     (''GET'', api_path [''billing'', ''gateways'']),
     (''POST'', api_path [''billing'', ''webhook''] @ [Wild ''gateway'']),
     (''POST'', api_path [''billing'', ''buy'']),
     (''GET'', api_path [''billing'', ''orders'']),
     (''POST'', api_path [''billing'', ''promo'', ''check''])] @
    (if dev then [(''POST'', api_path [''billing'', ''dev'', ''confirm''])] else []) @
    [(''GET'', api_path [''admin'', ''dashboard'']),
     (''GET'', api_path [''admin'', ''users'']),
     (''POST'', api_path [''admin'', ''users''] @ [Wild ''id'', Lit ''status'']),
     (''POST'', api_path [''admin'', ''users''] @ [Wild ''id'', Lit ''role'']),
     (''GET'', api_path [''admin'', ''servers'']),
     (''POST'', api_path [''admin'', ''servers''] @ [Wild ''id'', Lit ''status'']),
     (''GET'', api_path [''admin'', ''orders'']),
     (''GET'', api_path [''admin'', ''payments'']),
     (''GET'', api_path [''admin'', ''promocodes'']),
     (''POST'', api_path [''admin'', ''promocodes'']),
     (''GET'', api_path [''admin'', ''audit'']),
     (''GET'', [Lit ''admin'']),
     (''GET'', [Lit ''admin'', Rest]),
     (''GET'', [Lit ''app'']),
     (''GET'', [Lit ''app'', Rest])]"

lemma registered_routes:
  "route_lines (api_routes cfg cipher cidrs pages) = registered (\<not> IsProduction cfg)"
  by (simp add: api_routes_def route_lines_def auth_routes_def user_routes_def vpn_routes_def
        billing_routes_def admin_routes_def RegisterPanel_def cabinet_Register_def page_routes_def
        registered_def api_path_def Let_def)

lemma registered_apart: "sorted_wrt (\<lambda>a b. \<not> same_request_line a b) (registered dev)"
  by (cases dev; simp only:) (code_simp)+


section \<open>One route per request\<close>

text \<open>At most one route answers a request.\<close>

definition answers :: "request \<Rightarrow> route \<Rightarrow> bool" where
  "answers r = (\<lambda>(m, p, h). match_segments p (rq_Path r) \<noteq> None \<and> method_ok m (rq_Method r))"

lemma answers_same_request_line:
  "answers r (m, p, h) \<Longrightarrow> answers r (m', p', h') \<Longrightarrow> same_request_line (m, p) (m', p')"
  by (auto simp: answers_def same_request_line_def method_ok_def intro: matches_overlap)

lemma apart_answers_once:
  "sorted_wrt (\<lambda>a b. \<not> same_request_line a b) (route_lines rs) \<Longrightarrow> length (filter (answers r) rs) \<le> 1"
proof (induction rs)
  case (Cons x xs)
  show ?case
  proof (cases "answers r x")
    case True
    then have "\<not> answers r y" if "y \<in> set xs" for y
      using that Cons.prems answers_same_request_line [of r] by (cases x; cases y) (force simp: route_lines_def)
    then have "filter (answers r) xs = []" by (simp add: filter_empty_conv)
    with True show ?thesis by simp
  qed (use Cons in \<open>simp add: route_lines_def\<close>)
qed (simp add: route_lines_def)

lemma one_route_answers: "length (filter (answers r) (api_routes cfg cipher cidrs pages)) \<le> 1"
  by (rule apart_answers_once) (simp add: registered_routes registered_apart)

lemma route_for_answers:
  "route_for rs r = (case filter (answers r) rs of [] \<Rightarrow> None
     | (m, p, h) # _ \<Rightarrow> Some (the (match_segments p (rq_Path r)), h))"
proof (induction rs)
  case (Cons x xs)
  then show ?case
    by (cases x; cases "match_segments (fst (snd x)) (rq_Path r)")
      (simp_all add: route_for_def answers_def)
qed (simp add: route_for_def)

lemma same_mset_of_one: "length ys \<le> 1 \<Longrightarrow> mset xs = mset ys \<Longrightarrow> xs = ys"
  by (cases ys) simp_all

text \<open>
  C5. However the routes of the server are ordered in its table, every request gets the same reply
  and leaves the same state: no two routes match one request.
\<close>
theorem registration_order_irrelevant:
  assumes "mset rs = mset (api_routes cfg cipher cidrs pages)"
  shows "Mux rs = Mux (api_routes cfg cipher cidrs pages)"
proof
  fix r
  let ?rs = "api_routes cfg cipher cidrs pages"
  have ms: "mset (filter (answers r) rs) = mset (filter (answers r) ?rs)" by (simp add: assms)
  have "filter (answers r) rs = filter (answers r) ?rs"
    using one_route_answers [of r cfg cipher cidrs pages] ms by (rule same_mset_of_one)
  then have "route_for rs r = route_for ?rs r" by (simp add: route_for_answers)
  moreover have "set rs = set ?rs" by (rule mset_eq_setD [OF assms])
  then have "list_ex P rs = list_ex P ?rs" for P by (simp add: list_ex_iff)
  ultimately show "Mux rs r = Mux ?rs r" by (simp add: Mux_def split: option.split)
qed

end
