(* ===== verification/AuthSessions.thy ===== *)
theory AuthSessions
  imports AuthHandler BillingInvariants
begin

text \<open>
  What the operations of the auth service keep: accounts and sessions stay unique, a session only
  ever goes from active to revoked.  A table whose rows evolve is the locale \<open>evolving_table\<close>,
  interpreted on the sessions.
\<close>

section \<open>Tables whose rows evolve\<close>

text \<open>Rows are appended, and changed in place within a relation.\<close>

definition rows_evolve :: "('r \<Rightarrow> 'r \<Rightarrow> bool) \<Rightarrow> 'r list \<Rightarrow> 'r list \<Rightarrow> bool" where
  "rows_evolve ev xs ys \<longleftrightarrow> length xs \<le> length ys \<and> list_all2 ev xs (take (length xs) ys)"

definition grown :: "(db \<Rightarrow> 'r list) \<Rightarrow> ('r \<Rightarrow> 'r \<Rightarrow> bool) \<Rightarrow> db \<Rightarrow> db \<Rightarrow> bool" where
  "grown rows ev d0 d \<longleftrightarrow> rows_evolve ev (rows d0) (rows d)"

locale evolving_table =
  fixes rows :: "db \<Rightarrow> 'r list" and ev :: "'r \<Rightarrow> 'r \<Rightarrow> bool"
  assumes ev_refl: "ev r r"
    and ev_trans: "ev r1 r2 \<Longrightarrow> ev r2 r3 \<Longrightarrow> ev r1 r3"
begin

lemma evolve_refl: "rows_evolve ev xs xs"
  by (simp add: rows_evolve_def list_all2_refl ev_refl)

lemma evolve_trans: "rows_evolve ev xs ys \<Longrightarrow> rows_evolve ev ys zs \<Longrightarrow> rows_evolve ev xs zs"
  unfolding rows_evolve_def list_all2_conv_all_nth using ev_trans by (simp; meson less_le_trans)

lemma evolve_append: "rows_evolve ev xs (xs @ new)"
  by (simp add: rows_evolve_def list_all2_refl ev_refl)

lemma evolve_update: "(\<And>r. P r \<Longrightarrow> ev r (f r)) \<Longrightarrow> rows_evolve ev xs (update_where P f xs)"
  by (simp add: rows_evolve_def list_all2_conv_all_nth update_where_def ev_refl)

text \<open>The first row with a property that rows keep stays the first one.\<close>

lemma evolve_find:
  assumes "rows_evolve ev xs ys" "find_first P xs = Some r" "\<And>r r'. ev r r' \<Longrightarrow> P r' = P r"
  shows "\<exists>r'. find_first P ys = Some r' \<and> ev r r'"
  using assms
proof (induction xs arbitrary: ys)
  case (Cons x xs)
  then obtain y ys' where ys: "ys = y # ys'" "ev x y" "rows_evolve ev xs ys'"
    by (cases ys) (auto simp: rows_evolve_def)
  show ?case
  proof (cases "P x")
    case True
    with Cons.prems ys show ?thesis by auto
  next
    case False
    with Cons.prems ys Cons.IH [OF ys(3)] show ?thesis by auto
  qed
qed simp

lemma grown_refl: "grown rows ev d d"
  by (simp add: grown_def evolve_refl)

lemma stmt_grows:
  "(\<And>now fresh d x d'. st now fresh d = Inr (x, d') \<Longrightarrow> rows_evolve ev (rows d) (rows d')) \<Longrightarrow>
    stmt_keeps (grown rows ev d0) st"
  unfolding stmt_keeps_def grown_def by (meson evolve_trans)

end

section \<open>Sessions\<close>

definition session_evolves :: "session_row \<Rightarrow> session_row \<Rightarrow> bool" where
  "session_evolves r r' \<longleftrightarrow> r' = r\<lparr>se_revoked_at := se_revoked_at r'\<rparr> \<and>
     (se_revoked_at r \<noteq> None \<longrightarrow> se_revoked_at r' = se_revoked_at r)"

interpretation sessions: evolving_table user_sessions session_evolves
proof
  show "session_evolves r1 r3" if "session_evolves r1 r2" "session_evolves r2 r3" for r1 r2 r3
    using that by (cases r1; cases r2; cases r3) (auto simp: session_evolves_def)
qed (simp add: session_evolves_def)

abbreviation sessions_since :: "db \<Rightarrow> db \<Rightarrow> bool" where
  "sessions_since \<equiv> grown user_sessions session_evolves"

section \<open>Accounts\<close>

text \<open>No two users share a key, no two sessions share an id or a token; a session has a user.\<close>

definition accounts_ok :: "db \<Rightarrow> bool" where
  "accounts_ok d \<longleftrightarrow> sorted_wrt (\<lambda>r r'. \<not> clashes r r') (users d) \<and>
     distinct (map se_id (user_sessions d)) \<and> distinct (map se_token_hash (user_sessions d)) \<and>
     (\<forall>r \<in> set (user_sessions d). has_key u_id (se_user_id r) (users d))"

definition same_keys :: "user_row \<Rightarrow> user_row \<Rightarrow> bool" where
  "same_keys r r' \<longleftrightarrow> u_id r' = u_id r \<and> u_email r' = u_email r \<and> u_phone r' = u_phone r \<and>
     u_telegram_id r' = u_telegram_id r"

lemma clashes_sym: "clashes r r' = clashes r' r"
proof -
  have "same_email a b = same_email b a" for a b
    by (auto simp: same_email_def citext_eq_def split: option.splits)
  then show ?thesis unfolding clashes_def by metis
qed

lemma clashes_keys: "same_keys r1 r1' \<Longrightarrow> same_keys r2 r2' \<Longrightarrow> clashes r1' r2' = clashes r1 r2"
  by (simp add: clashes_def same_keys_def)

lemma has_key_ids: "has_key key i rows \<longleftrightarrow> i \<in> set (map key rows)"
  by (auto simp: has_key_iff)

lemma accounts_update:
  assumes "\<And>r. same_keys r (f r)" "accounts_ok d"
  shows "accounts_ok (d\<lparr>users := update_where P f (users d)\<rparr>)"
proof -
  have same: "same_keys r (if P r then f r else r)" for r
    using assms(1) by (simp add: same_keys_def)
  have u: "u_id (f r) = u_id r" for r using assms(1) [of r] by (simp add: same_keys_def)
  have "has_key u_id i (update_where P f (users d)) = has_key u_id i (users d)" for i
    by (simp add: has_key_ids map_update_where_same u)
  with assms(2) show ?thesis
    by (simp add: accounts_ok_def update_where_def sorted_wrt_map clashes_keys [OF same same])
qed

lemma sorted_wrt_snoc: "sorted_wrt R (xs @ [x]) \<longleftrightarrow> sorted_wrt R xs \<and> (\<forall>y \<in> set xs. R y x)"
  by (simp add: sorted_wrt_append)

lemma accounts_statements [keeps_intro]:
  "stmt_keeps accounts_ok (insert_user f)"
  "stmt_keeps accounts_ok (insert_profile i fn sn)"
  "stmt_keeps accounts_ok (insert_session i h ua ip expiry)"
  "stmt_keeps accounts_ok (revoke_where Q)"
proof -
  show "stmt_keeps accounts_ok (insert_user f)"
    by (auto simp: stmt_keeps_def insert_user_def Let_def accounts_ok_def sorted_wrt_snoc
        list_ex_iff clashes_sym has_key_iff split: if_splits)
  show "stmt_keeps accounts_ok (insert_profile i fn sn)"
    by (auto simp: stmt_keeps_def insert_profile_def accounts_ok_def split: if_splits)
  show "stmt_keeps accounts_ok (insert_session i h ua ip expiry)"
    by (auto simp: stmt_keeps_def insert_session_def accounts_ok_def has_key_iff fk_ok_def
        split: if_splits)
  show "stmt_keeps accounts_ok (revoke_where Q)"
    by (auto simp: stmt_keeps_def revoke_where_def accounts_ok_def map_update_where_same
        set_update_where)
qed

lemma accounts_set_user [keeps_intro]:
  "(\<And>r. same_keys r (f r)) \<Longrightarrow> stmt_keeps accounts_ok (set_user P f)"
  by (simp add: set_user_def stmt_keeps_def modify_def accounts_update)

lemma sessions_statements [keeps_intro]:
  "stmt_keeps (sessions_since d0) (insert_user f)"
  "stmt_keeps (sessions_since d0) (insert_profile i fn sn)"
  "stmt_keeps (sessions_since d0) (insert_session i h ua ip expiry)"
  "stmt_keeps (sessions_since d0) (revoke_where Q)"
  "stmt_keeps (sessions_since d0) (set_user P f)"
  by (rule sessions.stmt_grows;
      auto simp: insert_user_def insert_profile_def insert_session_def revoke_where_def set_user_def
        modify_def Let_def session_evolves_def sessions.evolve_refl sessions.evolve_append
        split: if_splits intro!: sessions.evolve_update)+

section \<open>The operations\<close>

lemmas auth_repo_defs = CreateUserWithPassword_def CreateTelegramUser_def GetAuthByEmail_def
  GetUserByID_def GetUserByTelegramID_def SetTOTPSecret_def EnableTOTP_def DisableTOTP_def
  GetTOTP_def CreateSession_def GetSessionByHash_def RevokeSession_def RevokeAllUserSessions_def

lemmas auth_crypto_defs = HashPassword_def CheckPassword_def IssueAccess_def ParseAccess_def
  HashRefreshToken_def NewRefreshToken_def GenerateTOTPSecret_def ValidateTOTP_def
  VerifyTelegramAuth_def Let_def

lemmas auth_service_defs = Register_def Login_def check_second_factor_def Setup2FA_def Enable2FA_def
  Disable2FA_def EnsureTelegramUser_def TelegramLogin_def Refresh_def Logout_def revoke_quietly_def
  time_Until_def IsBlacklisted_def issueTokens_def

lemma keeps_HashPassword [keeps_intro]: "keeps (on_db I) (HashPassword pw)"
  by (simp add: keeps_def on_db_def HashPassword_def split: option.split)

lemma keeps_deny_if [keeps_intro]: "keeps I m \<Longrightarrow> keeps I (deny_if b e m)"
  by (simp add: deny_if_def keeps_throw)

lemma keeps_auth_crypto [keeps_intro]:
  "keeps (on_db I) (CheckPassword h pw)" "keeps (on_db I) (IssueAccess tm u r)"
  "keeps (on_db I) (ParseAccess tm t)" "keeps (on_db I) (HashRefreshToken t)"
  "keeps (on_db I) (NewRefreshToken tm)" "keeps (on_db I) GenerateTOTPSecret"
  "keeps (on_db I) (ValidateTOTP s c)" "keeps (on_db I) (VerifyTelegramAuth b a)"
  "keeps (on_db I) (time_Until at_time)"
  unfolding auth_crypto_defs time_Until_def by (intro keeps_intro)+

lemma keeps_redis_commands [keeps_intro]:
  "keeps (on_db I) (redis_Set k v ttl)" "keeps (on_db I) (redis_Exists k)"
  unfolding redis_Set_def redis_Exists_def by (intro keeps_intro)+

text \<open>What every statement of the repository keeps, every operation of the service keeps.\<close>

lemma service_keeps:
  assumes "\<And>f. stmt_keeps I (insert_user f)" "\<And>i fn sn. stmt_keeps I (insert_profile i fn sn)"
    "\<And>i h ua ip expiry. stmt_keeps I (insert_session i h ua ip expiry)"
    "\<And>Q. stmt_keeps I (revoke_where Q)"
    "\<And>P f. (\<And>r. same_keys r (f r)) \<Longrightarrow> stmt_keeps I (set_user P f)"
  shows "keeps (on_db I) (Register s email pw lang c meta)" "keeps (on_db I) (Login s email pw code meta)"
    "keeps (on_db I) (Setup2FA i)" "keeps (on_db I) (Enable2FA i code)"
    "keeps (on_db I) (Disable2FA i code)" "keeps (on_db I) (EnsureTelegramUser t fn sn un)"
    "keeps (on_db I) (TelegramLogin s a meta)" "keeps (on_db I) (Refresh s token meta)"
    "keeps (on_db I) (Logout jti expiry token)"
  unfolding auth_service_defs auth_repo_defs Let_def
  by (intro keeps_intro assms; simp add: same_keys_def)+

section \<open>Runs\<close>

text \<open>
  Any order of the operations, and of anything else in the program: that leaves sessions and the
  keys of users alone.
\<close>

inductive auth_step :: "AuthService \<Rightarrow> world \<Rightarrow> world \<Rightarrow> bool" for s where
  step_Register: "auth_step s w (snd (Register s email pw lang c meta w))"
| step_Login: "auth_step s w (snd (Login s email pw code meta w))"
| step_Setup2FA: "auth_step s w (snd (Setup2FA i w))"
| step_Enable2FA: "auth_step s w (snd (Enable2FA i code w))"
| step_Disable2FA: "auth_step s w (snd (Disable2FA i code w))"
| step_EnsureTelegramUser: "auth_step s w (snd (EnsureTelegramUser t fn sn un w))"
| step_TelegramLogin: "auth_step s w (snd (TelegramLogin s a meta w))"
| step_Refresh: "auth_step s w (snd (Refresh s token meta w))"
| step_Logout: "auth_step s w (snd (Logout jti expiry token w))"
| step_elsewhere: "user_sessions (w_db w') = user_sessions (w_db w) \<Longrightarrow>
    list_all2 same_keys (users (w_db w)) (users (w_db w')) \<Longrightarrow> auth_step s w w'"

inductive auth_run :: "AuthService \<Rightarrow> world \<Rightarrow> world \<Rightarrow> bool" for s where
  auth_start: "auth_run s w w"
| auth_next: "auth_run s w w1 \<Longrightarrow> auth_step s w1 w2 \<Longrightarrow> auth_run s w w2"

inductive_cases auth_stepE: "auth_step s w w'"

inductive_simps auth_step_none: "auth_step s w w"

lemma run_keeps_accounts:
  assumes "\<And>f. stmt_keeps I (insert_user f)" "\<And>i fn sn. stmt_keeps I (insert_profile i fn sn)"
    "\<And>i h ua ip expiry. stmt_keeps I (insert_session i h ua ip expiry)"
    "\<And>Q. stmt_keeps I (revoke_where Q)"
    "\<And>P f. (\<And>r. same_keys r (f r)) \<Longrightarrow> stmt_keeps I (set_user P f)"
    and elsewhere: "\<And>d d'. user_sessions d' = user_sessions d \<Longrightarrow>
      list_all2 same_keys (users d) (users d') \<Longrightarrow> I d \<Longrightarrow> I d'"
    and run: "auth_run s w w'" and I: "I (w_db w)"
  shows "I (w_db w')"
proof -
  note ops = service_keeps [OF assms(1-5)]
  have "I (w_db w2)" if "auth_step s w1 w2" "I (w_db w1)" for w1 w2
    using that(1)
  proof (cases rule: auth_step.cases)
    case step_elsewhere
    then show ?thesis using elsewhere that(2) by blast
  qed (use that(2) ops in \<open>auto simp: keeps_def on_db_def\<close>)
  with run I show ?thesis by (induction rule: auth_run.induct) blast+
qed

lemma run_sessions:
  assumes "auth_run s w w'"
  shows "sessions_since (w_db w) (w_db w')"
proof (rule run_keeps_accounts [OF _ _ _ _ _ _ assms])
  show "sessions_since (w_db w) d'"
    if "user_sessions d' = user_sessions d" "sessions_since (w_db w) d" for d d'
    using that by (simp add: grown_def)
qed (intro sessions_statements sessions.grown_refl)+

lemma accounts_elsewhere:
  assumes s: "user_sessions d' = user_sessions d" and u: "list_all2 same_keys (users d) (users d')"
    and ok: "accounts_ok d"
  shows "accounts_ok d'"
proof -
  have "map u_id (users d') = map u_id (users d)"
    using u by (induction rule: list_all2_induct) (auto simp: same_keys_def)
  then have "has_key u_id i (users d') = has_key u_id i (users d)" for i
    by (simp only: has_key_ids)
  moreover have "sorted_wrt (\<lambda>r r'. \<not> clashes r r') (users d')"
    unfolding sorted_wrt_iff_nth_less
  proof (intro allI impI)
    fix i j assume ij: "i < j" "j < length (users d')"
    then have "same_keys (users d ! i) (users d' ! i)" "same_keys (users d ! j) (users d' ! j)"
      using u by (simp_all add: list_all2_conv_all_nth)
    moreover have "\<not> clashes (users d ! i) (users d ! j)"
      using ok ij list_all2_lengthD [OF u]
        sorted_wrt_nth_less [of "\<lambda>r r'. \<not> clashes r r'" "users d" i j]
      by (simp add: accounts_ok_def)
    ultimately show "\<not> clashes (users d' ! i) (users d' ! j)" by (simp add: clashes_keys)
  qed
  ultimately show ?thesis using ok by (simp add: accounts_ok_def s)
qed

text \<open>
  Whatever happens, no two accounts share an e-mail address (without regard to case), a phone
  number or a Telegram account, no two sessions share a token, and every session belongs to an
  account.
\<close>

theorem accounts_stay_unique:
  assumes "auth_run s w w'" "accounts_ok (w_db w)"
  shows "accounts_ok (w_db w')"
  by (rule run_keeps_accounts [where I = accounts_ok, OF _ _ _ _ _ _ assms])
    (blast intro: accounts_statements accounts_set_user accounts_elsewhere)+

end
