(* ===== verification/BillingLedger.thy ===== *)
theory BillingLedger
  imports BillingWiring
begin

text \<open>
  The ledger and the orders: what \<open>FinalizePaid\<close> does, exactly; every paid order is charged once,
  with its own amount, and nothing else is charged; the hash chain of a user grows by one link.
\<close>

section \<open>Finalizing an order\<close>

definition payable :: "uuid \<Rightarrow> order_row \<Rightarrow> bool" where
  "payable i r \<longleftrightarrow> o_id r = i \<and> o_status r \<in> {''wait_payment'', ''processing''}"

definition paid_row :: "timestamp \<Rightarrow> uuid \<Rightarrow> order_row \<Rightarrow> order_row" where
  "paid_row t sid r = r\<lparr>o_status := ''paid'', o_paid_at := Some t, o_subscription_id := Some sid\<rparr>"

definition prev_hash :: "uuid \<Rightarrow> ledger_row list \<Rightarrow> string" where
  "prev_hash u ls = (case last_entry u ls of None \<Rightarrow> [] | Some l \<Rightarrow> l_hash l)"

definition charge_entry :: "env \<Rightarrow> uuid \<Rightarrow> timestamp \<Rightarrow> string \<Rightarrow> order_row \<Rightarrow> ledger_row" where
  "charge_entry e fresh t prev r = \<lparr>l_id = fresh, l_user_id = o_user_id r, l_type = ''charge'',
     l_amount = numeric2 (cents (o_amount r)), l_currency = o_currency r,
     l_ref_type = Some ''order'', l_ref_id = Some (o_id r), l_prev_hash = nullif_empty prev,
     l_hash = hex_EncodeToString (env_sha256 e (ledger_payload prev ''charge'' (cents (o_amount r))
       (o_currency r) ''order'' (o_id r) (o_user_id r))), l_created_at = t\<rparr>"

lemma read_prev_InrD:
  assumes "catch (sql (select_row q))
      (\<lambda>e. if errors_Is e ErrNoRows then return [] else throw (Wrap s e)) w = (Inr p, w')"
  shows "p = (case q (w_db w) of None \<Rightarrow> [] | Some h \<Rightarrow> h) \<and> w' = step_tick w"
  using assms
  by (auto simp: catch_def sql_def select_row_def Let_def return_def throw_def step_tick_def
      split: if_splits option.splits)

lemma appendLedger_InrD:
  assumes "appendLedger u ty amount cur rt ri w = (Inr x, w')"
  obtains k fresh where "numeric_in (10 ^ 14) amount = Some k"
    "\<not> has_key l_id fresh (ledger (w_db w))" "w_env w' = w_env w" "w_tx_now w' = w_tx_now w"
    "w_db w' = (w_db w)\<lparr>ledger := ledger (w_db w) @
       [\<lparr>l_id = fresh, l_user_id = u, l_type = ty, l_amount = k, l_currency = cur,
         l_ref_type = Some rt, l_ref_id = Some ri,
         l_prev_hash = nullif_empty (prev_hash u (ledger (w_db w))),
         l_hash = hex_EncodeToString (env_sha256 (w_env w)
           (ledger_payload (prev_hash u (ledger (w_db w))) ty amount cur rt ri u)),
         l_created_at = now_of (step_tick w)\<rparr>]\<rparr>"
  using assms unfolding appendLedger_def sha256hex_def
  by (auto elim!: bind_InrD sql_InrD dest!: wrap_InrD read_prev_InrD
      simp: ask_def insert_ledger_def prev_hash_def split: option.splits if_splits)

lemma payable_hit: "(\<lambda>o1. o_id o1 = i \<and> o_status o1 \<in> set [''wait_payment'', ''processing'']) = payable i"
  by (auto simp: payable_def fun_eq_iff)

lemma mark_paid_InrD:
  assumes "mark_paid i sid now fresh d = Inr (r', d')"
  obtains r where "find_first (payable i) (orders d) = Some r" "has_key sub_id sid (subscriptions d)"
    "r' = paid_row now sid r"
    "d' = d\<lparr>orders := update_where (payable i) (paid_row now sid) (orders d)\<rparr>"
proof -
  have upd: "update_order i [''wait_payment'', ''processing'']
      (\<lambda>now r. r\<lparr>o_status := ''paid'', o_paid_at := Some now, o_subscription_id := Some sid\<rparr>)
      now fresh d = Inr (r', d')"
    using assms by (auto simp: mark_paid_def split: if_splits)
  then obtain r where r: "find_first (payable i) (orders d) = Some r"
      "r' = paid_row now sid r"
      "d' = d\<lparr>orders := update_where (payable i) (paid_row now sid) (orders d)\<rparr>"
    unfolding update_order_def payable_hit Let_def
    by (auto simp: paid_row_def [abs_def] split: option.splits)
  from find_first_SomeD [OF r(1)]
  have "has_key o_id i (filter (\<lambda>o1. o_status o1 \<in> {''wait_payment'', ''processing''}) (orders d))"
    by (auto simp: has_key_iff payable_def)
  then have "has_key sub_id sid (subscriptions d)"
    using assms by (auto simp: mark_paid_def fk_ok_def split: if_splits)
  with r that show thesis by blast
qed

lemma FinalizePaid_InrD:
  assumes "FinalizePaid i sid w = (Inr x, w')"
  obtains r fresh t where "find_first (payable i) (orders (w_db w)) = Some r"
    "\<bar>numeric2 (cents (o_amount r))\<bar> < 10 ^ 14"
    "\<not> has_key l_id fresh (ledger (w_db w))" "t = now_of w" "w_env w' = w_env w"
    "has_key sub_id sid (subscriptions (w_db w))"
    "w_db w' = (w_db w)\<lparr>orders := update_where (payable i) (paid_row t sid) (orders (w_db w)),
       payments := update_where (\<lambda>p. pay_order_id p = i) (\<lambda>p. p\<lparr>pay_status := ''success''\<rparr>)
         (payments (w_db w)),
       ledger := ledger (w_db w) @ [charge_entry (w_env w) fresh t
         (prev_hash (o_user_id r) (ledger (w_db w))) r]\<rparr>"
proof -
  let ?w0 = "(step_tick w)\<lparr>w_tx_now := Some (now_of w)\<rparr>"
  obtain r' w1 w2 w3 where 1: "sql (mark_paid i sid) ?w0 = (Inr r', w1)"
    and 2: "sql (set_payments i ''success'') w1 = (Inr (), w2)"
    and 3: "appendLedger (o_user_id r') ''charge'' (cents (o_amount r')) (o_currency r') ''order'' i w2
      = (Inr x, w3)" and 4: "w' = (step_tick w3)\<lparr>w_tx_now := None\<rparr>"
    using assms unfolding FinalizePaid_def
    by (auto elim!: transaction_SomeD bind_InrD dest!: wrap_InrD no_rows_InrD)
  obtain d1 where d1: "mark_paid i sid (now_of w) (env_uuid (w_env w) (Suc (w_tick w))) (w_db w) = Inr (r', d1)"
      "w1 = (step_tick ?w0)\<lparr>w_db := d1\<rparr>"
    using 1 by (auto elim!: sql_InrD simp: now_of_def)
  obtain r where r: "find_first (payable i) (orders (w_db w)) = Some r"
      "has_key sub_id sid (subscriptions (w_db w))" "r' = paid_row (now_of w) sid r"
      "d1 = (w_db w)\<lparr>orders := update_where (payable i) (paid_row (now_of w) sid) (orders (w_db w))\<rparr>"
    using mark_paid_InrD [OF d1(1)] by metis
  have w2: "w2 = (step_tick w1)\<lparr>w_db := d1\<lparr>payments := update_where (\<lambda>p. pay_order_id p = i)
      (\<lambda>p. p\<lparr>pay_status := ''success''\<rparr>) (payments d1)\<rparr>\<rparr>"
    using 2 d1(2) by (auto elim!: sql_InrD simp: set_payments_def modify_def)
  have id: "o_id r = i" using find_first_SomeD [OF r(1)] by (simp add: payable_def)
  show thesis
    using 3
    by (rule appendLedger_InrD, intro that [OF r(1)])
      (auto simp: numeric_in_def Let_def w2 d1(2) r(2,3,4) 4 id paid_row_def charge_entry_def now_of_def
        split: if_splits)
qed

section \<open>Each paid order is charged exactly once\<close>

definition charges :: "uuid \<Rightarrow> db \<Rightarrow> ledger_row list" where
  "charges i d = filter (\<lambda>l. l_type l = ''charge'' \<and> l_ref_id l = Some i) (ledger d)"

definition charge_of :: "order_row \<Rightarrow> ledger_row \<Rightarrow> bool" where
  "charge_of r l \<longleftrightarrow> l_user_id l = o_user_id r \<and> l_amount l = o_amount r \<and>
     l_currency l = o_currency r \<and> l_ref_type l = Some ''order''"

definition settled :: "db \<Rightarrow> order_row \<Rightarrow> bool" where
  "settled d r \<longleftrightarrow> (if o_status r = ''paid'' then \<exists>l. charges (o_id r) d = [l] \<and> charge_of r l
     else charges (o_id r) d = [])"

definition ledger_ok :: "db \<Rightarrow> bool" where
  "ledger_ok d \<longleftrightarrow> distinct (map o_id (orders d)) \<and> (\<forall>r \<in> set (orders d). \<bar>o_amount r\<bar> < 10 ^ 10) \<and>
     (\<forall>l \<in> set (ledger d). l_type l = ''charge'' \<longrightarrow> (\<exists>r \<in> set (orders d). l_ref_id l = Some (o_id r))) \<and>
     (\<forall>r \<in> set (orders d). settled d r)"

lemma ledger_ok_local:
  "orders d' = orders d \<Longrightarrow> ledger d' = ledger d \<Longrightarrow> ledger_ok d' = ledger_ok d"
  by (simp add: ledger_ok_def settled_def charges_def)

lemma stmt_keeps_ledger_local:
  "(\<And>now fresh d x d'. st now fresh d = Inr (x, d') \<Longrightarrow> orders d' = orders d \<and> ledger d' = ledger d) \<Longrightarrow>
    stmt_keeps ledger_ok st"
  unfolding stmt_keeps_def by (metis ledger_ok_local)

lemma ledger_statements [keeps_intro]:
  "stmt_keeps ledger_ok (use_promo p)" "stmt_keeps ledger_ok (insert_redemption p u i)"
  "stmt_keeps ledger_ok (insert_payment i g x st a c l)" "stmt_keeps ledger_ok (set_payments i st)"
  "stmt_keeps ledger_ok (upsert_webhook g x st pl)" "stmt_keeps ledger_ok (stamp_webhook g x)"
  by (rule stmt_keeps_ledger_local;
      auto simp: use_promo_def insert_redemption_def insert_payment_def set_payments_def modify_def
        upsert_webhook_def stamp_webhook_def Let_def split: option.splits if_splits)+

lemma ledger_insert_order [keeps_intro]: "stmt_keeps ledger_ok (insert_order n)"
proof (unfold stmt_keeps_def, intro allI impI)
  fix now :: timestamp and fresh d x d'
  assume ok: "ledger_ok d" and run: "insert_order n now fresh d = Inr (x, d')"
  from run obtain r where r: "orders d' = orders d @ [r]" "ledger d' = ledger d" "o_id r = fresh"
      "o_status r = ''wait_payment''" "\<bar>o_amount r\<bar> < 10 ^ 10" "\<forall>r \<in> set (orders d). o_id r \<noteq> fresh"
    by (auto simp: insert_order_def numeric_in_def Let_def has_key_iff order_status_defs
        split: if_splits option.splits)
  have "charges fresh d = []"
    using ok r(6) by (fastforce simp: ledger_ok_def charges_def filter_empty_conv)
  then show "ledger_ok d'"
    using ok r by (auto simp: ledger_ok_def settled_def charges_def)
qed

text \<open>A status change between unpaid states.\<close>

lemma ledger_ok_unpaid:
  assumes ok: "ledger_ok d" and led: "ledger d' = ledger d"
    and ords: "orders d' = update_where P f (orders d)"
    and f: "\<And>r. P r \<Longrightarrow> o_status r \<noteq> ''paid'' \<and> f r = r\<lparr>o_status := st\<rparr>" and st: "st \<noteq> ''paid''"
  shows "ledger_ok d'"
proof -
  define g where "g = (\<lambda>r. if P r then f r else r)"
  have same: "o_id (g r) = o_id r" "o_amount (g r) = o_amount r" "settled d' (g r) = settled d r" for r
    using f [of r] st by (auto simp: settled_def charges_def led charge_of_def g_def)
  have "orders d' = map g (orders d)" by (simp add: ords update_where_def g_def)
  moreover have "o_id \<circ> g = o_id" by (simp add: fun_eq_iff same(1))
  ultimately show ?thesis using ok by (auto simp: ledger_ok_def led same)
qed

lemma ledger_claim [keeps_intro]: "stmt_keeps ledger_ok (claim_order i)"
  unfolding stmt_keeps_def claim_order_def
  by (auto simp: update_order_def Let_def split: option.splits
      elim!: ledger_ok_unpaid [where st = "''processing''"])

lemma ledger_fail [keeps_intro]: "stmt_keeps ledger_ok (fail_order i)"
  unfolding stmt_keeps_def fail_order_def modify_def
  by (auto elim!: ledger_ok_unpaid [where st = "''failed''"])

text \<open>Finalizing charges the one order it marks paid.\<close>

lemma ledger_finalize [keeps_intro]: "keeps (on_db ledger_ok) (FinalizePaid i sid)"
proof (rule keeps_atomic)
  fix w x w' assume ok: "ledger_ok (w_db w)" and run: "FinalizePaid i sid w = (Inr x, w')"
  obtain r fresh t where r: "find_first (payable i) (orders (w_db w)) = Some r"
    and db: "w_db w' = (w_db w)\<lparr>orders := update_where (payable i) (paid_row t sid) (orders (w_db w)),
       payments := update_where (\<lambda>p. pay_order_id p = i) (\<lambda>p. p\<lparr>pay_status := ''success''\<rparr>)
         (payments (w_db w)),
       ledger := ledger (w_db w) @ [charge_entry (w_env w) fresh t
         (prev_hash (o_user_id r) (ledger (w_db w))) r]\<rparr>"
    using run by (rule FinalizePaid_InrD)
  define l where "l = charge_entry (w_env w) fresh t (prev_hash (o_user_id r) (ledger (w_db w))) r"
  define g where "g = (\<lambda>o1. if payable i o1 then paid_row t sid o1 else o1)"
  have rin: "r \<in> set (orders (w_db w))" "o_id r = i" "o_status r \<noteq> ''paid''" "payable i r"
    using find_first_SomeD [OF r] by (auto simp: payable_def)
  have amt: "numeric2 (cents (o_amount r)) = o_amount r"
    using ok rin(1) by (intro numeric2_cents) (auto simp: ledger_ok_def)
  have only: "o1 = r" if "o1 \<in> set (orders (w_db w))" "o_id o1 = i" for o1
    using ok rin that unfolding ledger_ok_def by (metis distinct_map inj_onD)
  have ch: "charges j (w_db w') = charges j (w_db w) @ (if j = i then [l] else [])" for j
    by (simp add: charges_def db l_def charge_entry_def rin(2))
  have ords: "orders (w_db w') = map g (orders (w_db w))" by (simp add: db update_where_def g_def)
  have fields: "o_id (g o1) = o_id o1" "o_amount (g o1) = o_amount o1" for o1
    by (simp_all add: paid_row_def g_def)
  have st: "settled (w_db w') (g o1)" if o1: "o1 \<in> set (orders (w_db w))" for o1
  proof (cases "o_id o1 = i")
    case True
    with only [OF o1] have "o1 = r" by simp
    moreover have "charges i (w_db w) = []"
      using ok rin by (auto simp: ledger_ok_def settled_def)
    ultimately show ?thesis using rin
      by (simp add: g_def settled_def ch paid_row_def charge_of_def l_def charge_entry_def amt)
  next
    case False
    with ok o1 show ?thesis by (auto simp: ledger_ok_def settled_def ch payable_def g_def)
  qed
  have "o_id \<circ> g = o_id" by (simp add: fun_eq_iff fields)
  moreover have "\<exists>o1 \<in> set (orders (w_db w)). l_ref_id e = Some (o_id o1)"
    if "e \<in> set (ledger (w_db w'))" "l_type e = ''charge''" for e
    using that ok rin(1) unfolding ledger_ok_def by (auto simp: db charge_entry_def)
  ultimately show "ledger_ok (w_db w')"
    using ok st by (auto simp: ledger_ok_def ords fields)
qed (simp add: FinalizePaid_def transaction_error_db)

lemma ledger_repo [keeps_intro]:
  "keeps (on_db ledger_ok) (CreateOrder n)" "keeps (on_db ledger_ok) (CreatePayment i g x st a c l)"
  "keeps (on_db ledger_ok) (ClaimForProvisioning i)" "keeps (on_db ledger_ok) (MarkFailed i)"
  "keeps (on_db ledger_ok) (RecordWebhook g x st b)" "keeps (on_db ledger_ok) (MarkWebhookProcessed g x)"
  unfolding CreateOrder_def redeem_def CreatePayment_def ClaimForProvisioning_def MarkFailed_def
    RecordWebhook_def MarkWebhookProcessed_def Let_def
  by (intro keeps_intro)+

lemma ledger_ok_billing: "billing_is d d' \<Longrightarrow> ledger_ok d = ledger_ok d'"
  by (rule ledger_ok_local) (simp_all add: billing_is_def billing_tables_def)

text \<open>
  Whatever is bought, confirmed, failed or renewed, in any order and with any failures, every
  paid order has exactly one charge in the ledger, of its own amount, currency and user, and no
  other order has any.
\<close>

theorem paid_orders_charged_once:
  assumes "billing_run (api_billing cfg cipher cidrs) w w'" "ledger_ok (w_db w)"
  shows "ledger_ok (w_db w')"
  by (rule api.run_keeps [OF ledger_ok_billing ledger_repo(1-3) ledger_finalize ledger_repo(4-6)])
    (use assms in auto)

end
