(* ===== verification/Serving.thy ===== *)
theory Serving
  imports ApiServer BillingInvariants AuthSessions BillingLedger
begin

text \<open>
  What a handler keeps of the tables: rules that go backwards over a handler to the operations it
  calls, for the middleware and for the mux.
\<close>

section \<open>Serving\<close>

definition serves :: "(db \<Rightarrow> bool) \<Rightarrow> serve \<Rightarrow> bool" where
  "serves I s \<longleftrightarrow> (\<forall>rw w. I (w_db w) \<longrightarrow> I (w_db (snd (s rw w))))"

named_theorems serves_intro \<open>handlers that keep a property of the tables\<close>

lemma servesD: "serves I s \<Longrightarrow> I (w_db w) \<Longrightarrow> I (w_db (snd (s rw w)))"
  by (simp add: serves_def)

lemma serves_reply [serves_intro]:
  "serves I (writeJSON code body)" "serves I (writeError code msg)" "serves I (writeErr code e)"
  "serves I (status_reply code msg)" "serves I (\<lambda>rw w. (g rw, w))" "serves I (write_bytes data)"
  "serves I (internal_error e)"
  by (simp_all add: serves_def writeJSON_def writeError_def writeErr_def status_reply_def
      write_bytes_def internal_error_def)

lemma serves_on_result [serves_intro]:
  assumes "keeps (on_db I) m" "\<And>e. serves I (bad e)" "\<And>x. serves I (good x)"
  shows "serves I (on_result m bad good)"
proof (unfold serves_def, intro allI impI)
  fix rw and w :: world assume "I (w_db w)"
  then have "I (w_db (snd (m w)))" using assms(1) by (simp add: keeps_def on_db_def)
  with assms(2,3) show "I (w_db (snd (on_result m bad good rw w)))"
    by (cases "m w") (auto simp: on_result_def serves_def split: sum.split)
qed

lemma serves_if [serves_intro]: "serves I s \<Longrightarrow> serves I t \<Longrightarrow> serves I (if b then s else t)"
  by simp

lemma serves_case_option [serves_intro]:
  "serves I s \<Longrightarrow> (\<And>x. serves I (f x)) \<Longrightarrow> serves I (case v of None \<Rightarrow> s | Some x \<Rightarrow> f x)"
  by (cases v) auto

lemma serves_case_prod [serves_intro]:
  "(\<And>x y. serves I (f x y)) \<Longrightarrow> serves I (case v of (x, y) \<Rightarrow> f x y)"
  by (cases v) auto

lemma serves_header: "serves I s \<Longrightarrow> serves I (\<lambda>rw. s (f rw))"
  by (simp add: serves_def)

lemma serves_header_reply [serves_intro]:
  "serves I (\<lambda>rw. writeError code msg (f rw))" "serves I (\<lambda>rw. write_bytes data (f rw))"
  by (rule serves_header [OF serves_reply(2)], rule serves_header [OF serves_reply(6)])

lemma serves_decode [serves_intro]: "(\<And>x. serves I (k x)) \<Longrightarrow> serves I (decode names read r k)"
  unfolding decode_def by (intro serves_intro)

lemma serves_parse_or [serves_intro]: "(\<And>i. serves I (k i)) \<Longrightarrow> serves I (parse_or s msg k)"
  unfolding parse_or_def by (intro serves_intro)

text \<open>The error replies.\<close>

lemma serves_errors [serves_intro]:
  "serves I (writeDomainError e)" "serves I (user_writeRepoError e)"
  "serves I (writeVPNError e)" "serves I (writeBillingError e)" "serves I (admin_writeRepoError e)"
  unfolding writeDomainError_def user_writeRepoError_def writeVPNError_def writeBillingError_def
    admin_writeRepoError_def
  by (intro serves_intro)+

section \<open>Middleware\<close>

text \<open>Reads, Redis and the tokens leave the tables alone.\<close>

lemma keeps_redis_counters [keeps_intro]:
  "keeps (on_db I) (redis_Incr k)" "keeps (on_db I) (redis_Expire k d)" "keeps (on_db I) (redis_TTL k)"
  "keeps (on_db I) (redis_Get k)" "keeps (on_db I) (redis_Del k)"
  unfolding redis_Incr_def redis_Expire_def redis_TTL_def redis_Get_def redis_Del_def
  by (intro keeps_intro)+

lemma keeps_newID [keeps_intro]: "keeps (on_db I) newID"
  unfolding newID_def by (intro keeps_intro)

lemma keeps_IsBlacklisted [keeps_intro]: "keeps (on_db I) (IsBlacklisted jti)"
  unfolding IsBlacklisted_def by (intro keeps_intro)

lemma serves_Authenticate [serves_intro]:
  "(\<And>p. serves I (h (r\<lparr>rq_Principal := p\<rparr>))) \<Longrightarrow> serves I (Authenticate s h r)"
  unfolding Authenticate_def Let_def by (intro serves_intro keeps_intro)

lemma serves_RequireRole [serves_intro]: "serves I (h r) \<Longrightarrow> serves I (RequireRole roles h r)"
  unfolding RequireRole_def by (intro serves_intro)

lemma serves_guard [serves_intro]:
  "(\<And>p. serves I (h (r\<lparr>rq_Principal := p\<rparr>))) \<Longrightarrow> serves I (guard s h r)"
  unfolding guard_def by (intro serves_intro)

lemma serves_RateLimiter [serves_intro]:
  "serves I (h r) \<Longrightarrow> serves I (RateLimiter_Middleware scope limit window h r)"
  unfolding RateLimiter_Middleware_def too_many_def by (intro serves_intro keeps_intro)

lemma serves_RequestID [serves_intro]:
  assumes "\<And>i. serves I (h (r\<lparr>rq_RequestID := i\<rparr>))"
  shows "serves I (RequestID h r)"
proof -
  have "serves I (\<lambda>rw. h (r\<lparr>rq_RequestID := i\<rparr>) (f rw))" for i f
    using assms by (rule serves_header)
  then show ?thesis unfolding RequestID_def Let_def by (intro serves_intro keeps_intro)
qed

lemma serves_SecurityHeaders [serves_intro]: "serves I (h r) \<Longrightarrow> serves I (SecurityHeaders h r)"
  by (simp add: serves_def SecurityHeaders_def)

text \<open>The mux runs one of its routes, or none.\<close>

definition routes_keep :: "(db \<Rightarrow> bool) \<Rightarrow> route list \<Rightarrow> bool" where
  "routes_keep I rs \<longleftrightarrow> (\<forall>(m, p, h) \<in> set rs. \<forall>r. serves I (h r))"

lemma routes_keep_simps [simp]:
  "routes_keep I []"
  "routes_keep I ((m, p, h) # rs) \<longleftrightarrow> (\<forall>r. serves I (h r)) \<and> routes_keep I rs"
  "routes_keep I (rs @ ss) \<longleftrightarrow> routes_keep I rs \<and> routes_keep I ss"
  unfolding routes_keep_def by (simp_all add: ball_Un)

lemma route_for_SomeD:
  assumes "route_for rs r = Some (vs, h)"
  obtains m p where "(m, p, h) \<in> set rs" "match_segments p (rq_Path r) = Some vs" "method_ok m (rq_Method r)"
  using assms unfolding route_for_def
  by (auto dest!: find_first_SomeD split: option.splits if_splits)

lemma serves_Mux [serves_intro]:
  assumes "routes_keep I rs"
  shows "serves I (Mux rs r)"
proof (cases "route_for rs r")
  case None
  then show ?thesis by (simp add: Mux_def serves_def)
next
  case (Some v)
  obtain vs h where v: "v = (vs, h)" by (cases v)
  from Some v obtain m p where "(m, p, h) \<in> set rs" by (auto elim: route_for_SomeD)
  with assms have "serves I (h (r\<lparr>rq_PathValues := vs\<rparr>))" by (auto simp: routes_keep_def)
  with Some v show ?thesis by (simp add: Mux_def)
qed

end
