(* ===== verification/MonitoringCorrect.thy ===== *)
theory MonitoringCorrect
  imports Monitoring
begin

text \<open>
  What the monitoring engine keeps and does: whatever property of the tables its migrator keeps, a
  run of the engine keeps; the status of a node is a state machine driven by what each poll
  observes; a node that is not active is never migrated.  The migrator is a locale, interpreted on
  the VPN service.
\<close>

section \<open>The migrator\<close>

text \<open>
  A property of the tables that the migrator keeps, and that does not depend on what the engine
  writes itself: the health records, the status and the score of a server.
\<close>

locale migrator =
  fixes mig :: "uuid \<Rightarrow> string \<Rightarrow> MigrationResult list go" and I :: "db \<Rightarrow> bool"
  assumes mig_keeps: "keeps (on_db I) (mig i reason)"
    and health_free: "I d \<Longrightarrow> I (d\<lparr>server_health := h\<rparr>)"
    and status_free: "I d \<Longrightarrow> I (d\<lparr>servers := update_where P (\<lambda>r. r\<lparr>s_status := st\<rparr>) (servers d)\<rparr>)"
    and score_free: "I d \<Longrightarrow> I (d\<lparr>servers := update_where P
      (\<lambda>r. r\<lparr>s_health_score := n, s_last_seen := t\<rparr>) (servers d)\<rparr>)"

lemma keeps_ignore [keeps_intro]: "keeps I m \<Longrightarrow> keeps I (ignore m)"
  unfolding ignore_def by (intro keeps_intro)

lemma keeps_http_get [keeps_intro]: "keeps (on_db I) (http_get url hs)"
  by (simp add: keeps_def on_db_def http_get_def)

lemma keeps_poll [keeps_intro]: "keeps (on_db I) (poll e url)"
  unfolding poll_def by (intro keeps_intro)

definition quiet_notifier :: "Engine \<Rightarrow> bool" where
  "quiet_notifier e \<longleftrightarrow> (case en_notifier e of None \<Rightarrow> True | Some n \<Rightarrow> \<forall>tg co. quiet (n tg co))"

context migrator
begin

lemma keeps_writes:
  "keeps (on_db I) (health_record i score st reason payload)"
  "keeps (on_db I) (markHealth i score)" "keeps (on_db I) (markStatus i st)"
  unfolding health_record_def markHealth_def markStatus_def Let_def
  by (intro keeps_intro;
      auto simp: stmt_keeps_def insert_health_def update_server_def health_free status_free
        score_free split: if_splits)+

lemma keeps_migrate:
  assumes "quiet_notifier e" "en_migrator e = mig"
  shows "keeps (on_db I) (migrate e i reason)"
proof -
  have "keeps (on_db I) (n tg co)" if "en_notifier e = Some n" for n tg co
    using assms(1) that by (simp add: quiet_notifier_def keeps_quiet)
  then show ?thesis
    unfolding migrate_def assms(2)
    by (cases "en_notifier e") (auto intro!: keeps_intro mig_keeps)
qed

lemma keeps_check:
  assumes "quiet_notifier e" "en_migrator e = mig"
  shows "keeps (on_db I) (check_server text e s)"
  unfolding check_server_def check_unreachable_def check_reached_def Let_def
  by (intro keeps_intro keeps_writes keeps_migrate assms)

lemma keeps_sweep:
  assumes "quiet_notifier e" "en_migrator e = mig"
  shows "keeps (on_db I) (sweep text e)"
  unfolding sweep_def by (intro keeps_intro keeps_check assms)

lemma keeps_Engine_Run:
  assumes "quiet_notifier e" "en_migrator e = mig"
  shows "keeps (on_db I) (Engine_Run text e n)"
  by (induction n) (auto intro!: keeps_intro keeps_sweep assms)

end

section \<open>The VPN service as the migrator\<close>

text \<open>The tables as a migration needs them: unique users and countries, exact counts, unique addresses.\<close>

definition fleet_ok :: "db \<Rightarrow> bool" where
  "fleet_ok d \<longleftrightarrow> distinct (map u_id (users d)) \<and> distinct (map c_id (countries d)) \<and>
     load_ok d \<and> ips_ok d"

text \<open>The statuses of the servers, by id.\<close>

definition statuses :: "db \<Rightarrow> (uuid \<times> string) list" where
  "statuses d = map (\<lambda>r. (s_id r, s_status r)) (servers d)"

lemma status_loads [simp]: "s_status (inc_load s) = s_status s" "s_status (dec_load s) = s_status s"
  by (simp_all add: inc_load_def dec_load_def)

lemma Reassign_elsewhere:
  "keeps (on_db (\<lambda>d. users d = us \<and> countries d = cs \<and> statuses d = ss)) (Reassign p c i old reason)"
proof (rule keeps_atomic; (erule tx_errors)?)
  fix w :: world and x w'
  assume "users (w_db w) = us \<and> countries (w_db w) = cs \<and> statuses (w_db w) = ss"
    "Reassign p c i old reason w = (Inr x, w')"
  then show "users (w_db w') = us \<and> countries (w_db w') = cs \<and> statuses (w_db w') = ss"
    by (auto dest!: Reassign_InrD simp: statuses_def map_update_where_same)
qed

lemma keeps_migrate_loop [keeps_intro]:
  "(\<And>sub. keeps I (migrate_one s i reason old sub)) \<Longrightarrow> keeps I (migrate_loop s i reason old subs)"
  by (induction subs) (auto intro!: keeps_intro)

context provisioner
begin

text \<open>What a reassignment keeps, a migration keeps: it writes nothing else.\<close>

lemma MigrateServer_keeps:
  assumes "vs_provisioner s = pv" "\<And>p c k old. keeps (on_db I) (Reassign p c k old reason)"
  shows "keeps (on_db I) (MigrateServer s i reason)"
proof -
  have one: "keeps (on_db I) (migrate_one s i reason old sub)" for old sub
    unfolding migrate_one_def Let_def
    by (intro keeps_intro assms keeps_quiet quiet_intro quiet_provision quiet_deprovisionOld)
  show ?thesis
    unfolding MigrateServer_def Let_def
    by (intro keeps_intro one keeps_quiet [OF quiet_reads(8)] keeps_quiet [OF quiet_reads(3)])
qed

lemmas MigrateServer_elsewhere = MigrateServer_keeps [OF _ Reassign_elsewhere]

end

lemma MigrateServer_fleet_ok:
  assumes "vs_provisioner s = NewProvisioner mode token"
  shows "keeps (on_db fleet_ok) (MigrateServer s i reason)"
  unfolding keeps_def on_db_def fleet_ok_def
  using MigrateServer_counts_ips [OF assms] selected.MigrateServer_elsewhere [OF assms]
  by (fastforce simp: keeps_def on_db_def)

lemma load_ok_servers:
  assumes "load_ok d" "\<And>r. s_id (f r) = s_id r" "\<And>r. s_client_count (f r) = s_client_count r"
  shows "load_ok (d\<lparr>servers := update_where P f (servers d)\<rparr>)"
  using assms by (auto simp: load_ok_def list_all_iff set_update_where distinct_map_update)

interpretation fleet: migrator "MigrateServer (api_vpn cfg cipher cidrs)" fleet_ok
  for cfg cipher cidrs
proof
  show "keeps (on_db fleet_ok) (MigrateServer (api_vpn cfg cipher cidrs) i reason)" for i reason
    by (rule MigrateServer_fleet_ok [where mode = "cfg_ProvisionerMode cfg"
        and token = "cfg_ProvisionerAgentToken cfg"]) (simp add: api_vpn_def NewVPNService_def)
qed (auto simp: fleet_ok_def load_ok_servers ips_ok_def, simp_all add: load_ok_def)


section \<open>Scores\<close>

text \<open>What the score of a status is reduced by.\<close>

definition blocked_targets :: "agentStatus \<Rightarrow> string list" where
  "blocked_targets st = map fst (filter (\<lambda>(name, ok). \<not> ok) (st_Blocks st))"

definition penalty :: "agentStatus \<Rightarrow> int" where
  "penalty st = (if st_XrayUp st then 0 else 40) + 15 * int (length (blocked_targets st)) +
     (if st_CPULoad st > fl (9 / 10) then 20 else 0) + (if st_MemUsedPct st > 90 then 15 else 0)"

lemma foldl_blocked:
  "foldl (\<lambda>(score, blocked) (name, ok).
      if \<not> ok then (score - 15, blocked @ [name]) else (score, blocked)) (n, acc) blocks =
    (n - 15 * int (length (filter (\<lambda>(name, ok). \<not> ok) blocks)),
     acc @ map fst (filter (\<lambda>(name, ok). \<not> ok) blocks))"
  by (induction blocks arbitrary: n acc) auto

lemma scoreHealth_eq: "scoreHealth st = (max 0 (100 - penalty st), blocked_targets st)"
  by (auto simp: scoreHealth_def Let_def foldl_blocked blocked_targets_def penalty_def)

section \<open>The status of a server\<close>

text \<open>What a poll observes, and the status it moves a server to.\<close>

datatype observation = Unreachable | Blocked | Healthy | Poor

definition observe :: "error + agentStatus \<Rightarrow> observation" where
  "observe r = (case r of
     Inl e \<Rightarrow> Unreachable
   | Inr st \<Rightarrow>
       if length (blocked_targets st) \<ge> 2 then Blocked
       else if penalty st \<le> 40 then Healthy else Poor)"

fun next_status :: "string \<Rightarrow> observation \<Rightarrow> string" where
  "next_status old Unreachable = ''offline''"
| "next_status old Blocked = ''offline''"
| "next_status old Healthy = (if old = ''offline'' then ''active'' else old)"
| "next_status old Poor = old"

definition set_status :: "uuid \<Rightarrow> string \<Rightarrow> (uuid \<times> string) list \<Rightarrow> (uuid \<times> string) list" where
  "set_status i st ss = map (\<lambda>(j, t). (j, if j = i then st else t)) ss"

lemma set_status_same: "(\<And>t. (i, t) \<in> set ss \<Longrightarrow> t = st) \<Longrightarrow> set_status i st ss = ss"
  unfolding set_status_def by (rule map_idI) (auto split: prod.split)

text \<open>A statement whose error is dropped.\<close>

definition sql_db :: "'a statement \<Rightarrow> world \<Rightarrow> db" where
  "sql_db stm w = (case sql stm w of (r, w') \<Rightarrow> w_db w')"

lemma drop_sql: "ignore (sql stm) w = (Inr (), (step_tick w)\<lparr>w_db := sql_db stm w\<rparr>)"
  by (auto simp: ignore_def attempt_def bind_def return_def sql_db_def sql_def Let_def
      step_tick_def split: sum.split prod.split)

lemma statuses_writes:
  "statuses (sql_db (insert_health i sc st re pl) w) = statuses (w_db w)"
  "statuses (sql_db (update_server (\<lambda>r. s_id r = i)
     (\<lambda>now r. r\<lparr>s_health_score := sc, s_last_seen := Some now\<rparr>)) w) = statuses (w_db w)"
  by (auto simp: sql_db_def sql_def Let_def insert_health_def update_server_def statuses_def
      map_update_where_same)

lemma statuses_markStatus:
  assumes "\<not> env_fault (w_env w) (w_tick w)"
  shows "statuses (sql_db (update_server (\<lambda>r. s_id r = i \<and> s_status r \<noteq> st)
     (\<lambda>now r. r\<lparr>s_status := st\<rparr>)) w) = set_status i st (statuses (w_db w))"
  using assms
  by (auto simp: sql_db_def sql_def Let_def update_server_def statuses_def set_status_def
      update_where_def)

lemma poll_world:
  assumes "poll e url w = (r, w')"
  shows "w_db w' = w_db w" "w_env w' = w_env w" "w_tick w' = Suc (w_tick w)"
  using assms
  by (auto simp: poll_def http_get_def bind_def throw_def return_def
      split: if_splits option.splits)

locale status_keeper =
  fixes e :: Engine
  assumes migrator_statuses: "keeps (on_db (\<lambda>d. statuses d = ss)) (en_migrator e i reason)"
    and notifier: "quiet_notifier e"
begin

lemma statuses_migrate: "statuses (w_db (snd (migrate e i reason w))) = statuses (w_db w)"
proof -
  have "keeps (on_db (\<lambda>d. statuses d = statuses (w_db w))) (n tg co)"
    if "en_notifier e = Some n" for n tg co
    using notifier that by (simp add: quiet_notifier_def keeps_quiet)
  then have "keeps (on_db (\<lambda>d. statuses d = statuses (w_db w))) (migrate e i reason)"
    unfolding migrate_def
    by (cases "en_notifier e") (auto intro!: keeps_intro migrator_statuses)
  then show ?thesis by (simp add: keeps_def on_db_def)
qed

lemma statuses_run_if: "statuses (w_db (snd (run_if b (migrate e i reason) w))) = statuses (w_db w)"
  by (simp add: run_if_def statuses_migrate return_def)

lemma statuses_unreachable:
  assumes "\<And>t. t \<ge> w_tick w \<Longrightarrow> \<not> env_fault (w_env w) t"
  shows "statuses (w_db (snd (check_unreachable e s text w))) =
    set_status (sw_id s) ''offline'' (statuses (w_db w))"
  using assms
  by (simp add: check_unreachable_def health_record_def markStatus_def Let_def bind_def drop_sql
      statuses_run_if statuses_markStatus statuses_writes)

lemma statuses_reached:
  assumes "\<And>t. t \<ge> w_tick w \<Longrightarrow> \<not> env_fault (w_env w) t"
    and "\<And>t. (sw_id s, t) \<in> set (statuses (w_db w)) \<Longrightarrow> t = sw_status s"
  shows "statuses (w_db (snd (check_reached e s st w))) =
    set_status (sw_id s) (next_status (sw_status s) (observe (Inr st))) (statuses (w_db w))"
proof -
  have same: "set_status (sw_id s) (sw_status s) (statuses (w_db w)) = statuses (w_db w)"
    using assms(2) by (rule set_status_same)
  have score: "60 \<le> max 0 (100 - penalty st) \<longleftrightarrow> penalty st \<le> 40" by linarith
  show ?thesis
    using assms(1) same
    by (simp add: check_reached_def scoreHealth_eq health_record_def markStatus_def markHealth_def
        Let_def bind_def drop_sql statuses_run_if statuses_markStatus statuses_writes observe_def
        run_if_def [where b = "_ \<and> _"] return_def score del: le_max_iff_disj)
qed

lemma statuses_check:
  assumes "\<And>t. w_tick w < t \<Longrightarrow> \<not> env_fault (w_env w) t"
    and "\<And>t. (sw_id s, t) \<in> set (statuses (w_db w)) \<Longrightarrow> t = sw_status s"
  shows "statuses (w_db (snd (check_server text e s w))) =
    set_status (sw_id s) (next_status (sw_status s) (observe (fst (poll e (sw_agentURL s) w))))
      (statuses (w_db w))"
proof -
  obtain r w1 where 1: "poll e (sw_agentURL s) w = (r, w1)" by fastforce
  note w1 = poll_world [OF 1]
  have quiet: "\<not> env_fault (w_env w1) t" if "t \<ge> w_tick w1" for t
    using assms(1) that w1 by simp
  show ?thesis
  proof (cases r)
    case (Inl err)
    with 1 w1 statuses_unreachable [OF quiet] show ?thesis
      by (simp add: check_server_def bind_def attempt_def observe_def)
  next
    case (Inr st)
    with 1 w1 assms(2) statuses_reached [OF quiet, of s st] show ?thesis
      by (simp add: check_server_def bind_def attempt_def)
  qed
qed

end

text \<open>
  A sweep migrates the clients of active servers only: while no server is active the migrator is
  not called.  So a migration that fails, after its server went offline, is not tried again.
\<close>

theorem inactive_never_migrated:
  assumes "\<forall>r \<in> set (servers (w_db w)). s_status r \<noteq> ''active''"
  shows "sweep text (e\<lparr>en_migrator := m\<rparr>) w = sweep text e w"
proof -
  let ?e = "e\<lparr>en_migrator := m\<rparr>"
  have poll: "poll ?e url = poll e url" for url by (simp add: poll_def)
  have "check_unreachable ?e s err = check_unreachable e s err"
    "check_reached ?e s st = check_reached e s st" if "sw_status s \<noteq> ''active''" for s err st
    by (simp_all add: that check_unreachable_def check_reached_def run_if_def case_prod_beta Let_def)
  then have "check_server text ?e s = check_server text e s" if "sw_status s \<noteq> ''active''" for s
    using that by (simp add: check_server_def poll cong: sum.case_cong)
  then have "for_each (check_server text ?e) ss = for_each (check_server text e) ss"
    if "\<forall>s \<in> set ss. sw_status s \<noteq> ''active''" for ss
    using that by (induction ss) simp_all
  then have each: "for_each (check_server text ?e) (polled_servers (w_db w)) =
      for_each (check_server text e) (polled_servers (w_db w))"
    using assms by (simp add: polled_servers_def)
  show ?thesis
    by (auto simp: sweep_def bind_def attempt_def sql_def select_def Let_def each)
qed

end
