(* ===== verification/Platform.thy ===== *)
theory Platform
  imports Serving MonitoringCorrect
begin

text \<open>
  The whole program as one system: the HTTP server, the Telegram bot, the expirer and the
  monitoring engine take steps on one world, in any order.  What every write of every repository
  keeps, a run of the program keeps: the locale \<open>platform_invariant\<close>.
\<close>

section \<open>Steps\<close>

text \<open>
  One step: a request, an update of the bot or a whole poll of it, a sweep of the expirer, a sweep
  of the engine, a scrape; and time, Redis, nodes and the outside move on by themselves.
\<close>

inductive platform_step ::
    "AppConfig \<Rightarrow> Cipher \<Rightarrow> string \<Rightarrow> (timestamp \<Rightarrow> int) \<Rightarrow> pages \<Rightarrow> world \<Rightarrow> world \<Rightarrow> bool"
  for cfg cipher cidrs zone pages where
  step_request: "platform_step cfg cipher cidrs zone pages w
    (snd (api_server cfg cipher cidrs pages r fresh_writer w))"
| step_update: "api_bot cfg cipher cidrs zone = Some b \<Longrightarrow>
    platform_step cfg cipher cidrs zone pages w (snd (dispatch b u w))"
| step_poll: "api_bot cfg cipher cidrs zone = Some b \<Longrightarrow>
    platform_step cfg cipher cidrs zone pages w (snd (Bot_Run b polls offset w))"
| step_expirer: "platform_step cfg cipher cidrs zone pages w (snd (Expirer_Run (cfg_GracePeriod cfg) n w))"
| step_engine: "platform_step cfg cipher cidrs zone pages w
    (snd (Engine_Run text (api_engine cfg cipher cidrs zone) n w))"
| step_outside: "w_db w' = w_db w \<Longrightarrow> platform_step cfg cipher cidrs zone pages w w'"

inductive platform_run ::
    "AppConfig \<Rightarrow> Cipher \<Rightarrow> string \<Rightarrow> (timestamp \<Rightarrow> int) \<Rightarrow> pages \<Rightarrow> world \<Rightarrow> world \<Rightarrow> bool"
  for cfg cipher cidrs zone pages where
  run_idle: "platform_run cfg cipher cidrs zone pages w w"
| run_more: "platform_run cfg cipher cidrs zone pages w w1 \<Longrightarrow>
    platform_step cfg cipher cidrs zone pages w1 w2 \<Longrightarrow> platform_run cfg cipher cidrs zone pages w w2"

inductive_cases platform_stepE: "platform_step cfg cipher cidrs zone pages w w'"

inductive_simps platform_step_request:
  "platform_step cfg cipher cidrs zone pages w (snd (api_server cfg cipher cidrs pages r fresh_writer w))"

section \<open>Operations of the bot that leave the tables alone\<close>

lemma quiet_api_upload [quiet_intro]: "quiet (api_upload url hs body)"
  by (simp add: quiet_def api_upload_def same_state_def)

lemmas telegram_methods = GetUpdates_def SendMessage_def EditMessageText_def AnswerCallbackQuery_def
  SendInvoice_def AnswerPreCheckoutQuery_def SendPhoto_def SendDocument_def

lemma quiet_tg [quiet_intro]:
  "quiet (tg_call token meth payload)" "quiet (tg_do token meth payload)"
  "quiet (tg_upload token meth chatID field name data caption)"
  unfolding tg_do_def tg_call_def tg_upload_def Let_def case_prod_beta
  by (intro quiet_intro)+

lemma quiet_methods [quiet_intro]:
  "quiet (SendMessage token chatID body kb)" "quiet (EditMessageText token chatID i body kb)"
  "quiet (AnswerCallbackQuery token q body)" "quiet (SendInvoice token chatID t ds pl ps)"
  "quiet (AnswerPreCheckoutQuery token q ok msg)" "quiet (SendPhoto token chatID n data cap)"
  "quiet (SendDocument token chatID n data cap)"
  unfolding telegram_methods by (intro quiet_intro)+

lemma quiet_replies [quiet_intro]:
  "quiet (NotifyUser b chatID body)" "quiet (NotifyMigration b telegramID country)"
  "quiet (reply b chatID body kb)" "quiet (editKB b chatID i body kb)"
  "quiet (editOrSend b chatID i body kb)"
  unfolding NotifyUser_def NotifyMigration_def reply_def editKB_def editOrSend_def
  by (intro quiet_intro)+

lemma quiet_or_reply [quiet_intro]:
  "quiet m \<Longrightarrow> quiet bad \<Longrightarrow> (\<And>x. quiet (good x)) \<Longrightarrow> quiet (or_reply m bad good)"
  unfolding or_reply_def by (intro quiet_intro)

lemma keeps_or_reply [keeps_intro]:
  "keeps I m \<Longrightarrow> keeps I bad \<Longrightarrow> (\<And>x. keeps I (good x)) \<Longrightarrow> keeps I (or_reply m bad good)"
  unfolding or_reply_def by (intro keeps_intro)

lemma quiet_engine: "quiet_notifier (api_engine cfg cipher cidrs zone)"
  by (auto simp: quiet_notifier_def api_engine_def api_bot_def quiet_replies)

end
