(* ===== verification/PlatformKeeps.thy ===== *)
theory PlatformKeeps
  imports Platform
begin

text \<open>
  The laws that a property of the tables must satisfy to be an invariant of the whole program: one
  per write of a repository.  Everything the program does keeps it then.
\<close>

section \<open>Reads\<close>

lemma keeps_reads [keeps_intro]:
  "keeps (on_db I) (VPN_List i)" "keeps (on_db I) Countries" "keeps (on_db I) Plans"
  "keeps (on_db I) (FetchConfig v i j)" "keeps (on_db I) (FetchQR i j)"
  "keeps (on_db I) (Billing_ListOrders i)" "keeps (on_db I) (PromoPreview code j)"
  "keeps (on_db I) (findPlan p)" "keeps (on_db I) Collect" "keeps (on_db I) ping"
  unfolding VPN_List_def Countries_def ListCountries_def Plans_def ListPlans_def FetchConfig_def
    FetchQR_def Billing_ListOrders_def ListOrders_def PromoPreview_def GetPlanPricing_def
    resolvePromo_def GetPromoByCode_def findPlan_def Collect_def ListUserVPNs_def
    GetArtifactForUser_def Decrypt_def Let_def
  by ((intro keeps_intro)+, simp add: keeps_def on_db_def ping_def)

lemma keeps_billing_reads:
  "keeps (on_db I) (GetPlanPricing i)" "keeps (on_db I) (GetPromoByCode code)"
  "keeps (on_db I) (CountRecentPendingOrders i t)" "keeps (on_db I) (GetOrderByExternalPayment g x)"
  "keeps (on_db I) (GetOrderForProvision i)" "keeps (on_db I) (OrderSubscriptionID i)"
  unfolding GetPlanPricing_def GetPromoByCode_def CountRecentPendingOrders_def
    GetOrderByExternalPayment_def GetOrderForProvision_def scanProvision_def OrderSubscriptionID_def
  by (intro keeps_intro)+

lemma keeps_user_reads [keeps_intro]:
  "keeps (on_db I) (GetMe i)" "keeps (on_db I) (ListDevices i)"
  unfolding GetMe_def ListDevices_def by (intro keeps_intro)+

lemma keeps_drafts [keeps_intro]:
  "keeps (on_db I) (getDraft chatID)" "keeps (on_db I) (saveDraft chatID d)"
  "keeps (on_db I) (clearDraft chatID)" "keeps (on_db I) (current_draft chatID)"
  "keeps (on_db I) (update_draft chatID f)"
  unfolding getDraft_def saveDraft_def clearDraft_def current_draft_def update_draft_def
  by (intro keeps_intro)+

lemma keeps_admin_reads [keeps_intro]:
  "keeps (on_db I) Admin_Dashboard" "keeps (on_db I) (ListUsers q l off)"
  "keeps (on_db I) ListServers" "keeps (on_db I) (Admin_ListOrders l off)"
  "keeps (on_db I) (ListPayments l)" "keeps (on_db I) ListPromos" "keeps (on_db I) (ListAudit l)"
proof -
  have "stmt_keeps I dashboard_stmt" by (simp add: stmt_keeps_def dashboard_stmt_def)
  then show "keeps (on_db I) Admin_Dashboard"
    unfolding Admin_Dashboard_def by (intro keeps_intro)
qed (unfold ListUsers_def ListServers_def Admin_ListOrders_def ListPayments_def ListPromos_def
    ListAudit_def, (intro keeps_intro)+)

text \<open>The handlers that only read.\<close>

lemma serves_listing [serves_intro]: "keeps (on_db I) m \<Longrightarrow> serves I (listing name f m)"
  unfolding listing_def by (intro serves_intro)

lemma serves_reads [serves_intro]:
  "serves I (Live r)" "serves I (Ready r)" "serves I (metrics_handler f r)"
  "serves I (serve_page html r)" "serves I (getMe r)" "serves I (listDevices r)"
  "serves I (countries_handler r)" "serves I (plans_handler r)" "serves I (list_handler r)"
  "serves I (config_handler v r)" "serves I (qr_handler r)" "serves I (gateways_handler b r)"
  "serves I (orders_handler r)" "serves I (promoCheck r)" "serves I (dashboard_handler r)"
  "serves I (users_handler r)" "serves I (servers_handler r)" "serves I (admin_orders_handler r)"
  "serves I (payments_handler r)" "serves I (promos_handler r)" "serves I (audit_handler r)"
  unfolding Live_def Ready_def Let_def metrics_handler_def serve_page_def getMe_def listDevices_def
    countries_handler_def plans_handler_def list_handler_def config_handler_def qr_handler_def
    gateways_handler_def orders_handler_def promoCheck_def dashboard_handler_def users_handler_def
    servers_handler_def admin_orders_handler_def payments_handler_def promos_handler_def
    audit_handler_def
  by (intro serves_intro keeps_intro)+

section \<open>The laws\<close>

locale platform_invariant =
  fixes I :: "db \<Rightarrow> bool"
  assumes insert_user_law: "stmt_keeps I (insert_user f)"
    and insert_profile_law: "stmt_keeps I (insert_profile i fn sn)"
    and insert_session_law: "stmt_keeps I (insert_session i h ua ip expiry)"
    and revoke_law: "stmt_keeps I (revoke_where Q)"
    and users_law: "(\<And>r. same_keys r (g r)) \<Longrightarrow> I d \<Longrightarrow> I (d\<lparr>users := update_where P g (users d)\<rparr>)"
    and set_profile_law: "stmt_keeps I (set_profile i u)"
    and upsert_device_law: "stmt_keeps I (upsert_device i du)"
    and delete_device_law: "stmt_keeps I (delete_device i j)"
    and Persist_law: "keeps (on_db I) (Persist p c)"
    and SoftDelete_law: "keeps (on_db I) (SoftDelete i j)"
    and MigrateServer_law: "keeps (on_db I) (MigrateServer (api_vpn cfg cipher cidrs) i reason)"
    and CreateOrder_law: "keeps (on_db I) (CreateOrder n)"
    and CreatePayment_law: "keeps (on_db I) (CreatePayment i gw x st a cu l)"
    and extend_law: "stmt_keeps I (extend_sub i k)"
    and Claim_law: "keeps (on_db I) (ClaimForProvisioning i)"
    and FinalizePaid_law: "keeps (on_db I) (FinalizePaid i j)"
    and MarkFailed_law: "keeps (on_db I) (MarkFailed i)"
    and RecordWebhook_law: "keeps (on_db I) (RecordWebhook gw x st b)"
    and MarkWebhook_law: "keeps (on_db I) (MarkWebhookProcessed gw x)"
    and expire_law: "stmt_keeps I (expire_subs grace)"
    and status_law: "I d \<Longrightarrow> I (d\<lparr>servers := update_where Ps (\<lambda>r. r\<lparr>s_status := st\<rparr>) (servers d)\<rparr>)"
    and score_law: "I d \<Longrightarrow> I (d\<lparr>servers := update_where Ps
      (\<lambda>r. r\<lparr>s_health_score := sc, s_last_seen := t\<rparr>) (servers d)\<rparr>)"
    and health_law: "I d \<Longrightarrow> I (d\<lparr>server_health := hs\<rparr>)"
    and promo_law: "stmt_keeps I (insert_promo code ptype disc mx)"
    and audit_law: "stmt_keeps I (insert_audit i action ot oi)"
begin

lemma set_user_law: "(\<And>r. same_keys r (g r)) \<Longrightarrow> stmt_keeps I (set_user P g)"
  by (simp add: set_user_def stmt_keeps_def modify_def users_law)

lemma auth_ops:
  "keeps (on_db I) (Register s email pw lang c meta)" "keeps (on_db I) (Login s email pw code meta)"
  "keeps (on_db I) (Setup2FA i)" "keeps (on_db I) (Enable2FA i code)"
  "keeps (on_db I) (Disable2FA i code)" "keeps (on_db I) (EnsureTelegramUser t fn sn un)"
  "keeps (on_db I) (TelegramLogin s a meta)" "keeps (on_db I) (Refresh s token meta)"
  "keeps (on_db I) (Logout jti expiry token)"
  by (rule service_keeps; blast intro: insert_user_law insert_profile_law insert_session_law
      revoke_law set_user_law)+

lemma user_ops: "keeps (on_db I) (UpdateProfile i u)" "keeps (on_db I) (UpsertDevice i du)"
  "keeps (on_db I) (DeleteDevice i j)"
  unfolding UpdateProfile_def UpsertDevice_def DeleteDevice_def
  by (intro keeps_intro set_profile_law upsert_device_law delete_device_law set_user_law;
      simp add: same_keys_def set_locale_def)+

lemma api_pv: "vs_provisioner (api_vpn cfg cipher cidrs) =
    NewProvisioner (cfg_ProvisionerMode cfg) (cfg_ProvisionerAgentToken cfg)"
  by (simp add: api_vpn_def NewVPNService_def)

lemma vpn_ops: "keeps (on_db I) (Create (api_vpn cfg cipher cidrs) inp)"
  "keeps (on_db I) (Delete (api_vpn cfg cipher cidrs) i j)"
proof -
  show "keeps (on_db I) (Create (api_vpn cfg cipher cidrs) inp)"
    by (rule selected.keeps_Create [OF api_pv Persist_law])
  show "keeps (on_db I) (Delete (api_vpn cfg cipher cidrs) i j)"
    unfolding Delete_def api_pv
    by (intro keeps_intro SoftDelete_law keeps_quiet [OF selected.quiet_remove_client])
qed

lemma ExtendSubscription_law: "keeps (on_db I) (ExtendSubscription i k)"
  unfolding ExtendSubscription_def by (intro keeps_intro extend_law)

lemma billing_issue: "keeps (on_db I) (bs_issuer (api_billing cfg cipher cidrs) inp)"
  by (simp add: vpn_ops)

lemmas billing_ops = api.keeps_operations [where I = I, OF billing_issue
  keeps_billing_reads(1-3) CreateOrder_law CreatePayment_law keeps_billing_reads(4,5)
  ExtendSubscription_law Claim_law FinalizePaid_law MarkFailed_law RecordWebhook_law
  MarkWebhook_law keeps_billing_reads(6)]

lemma admin_ops: "keeps (on_db I) (SetUserStatus i st)" "keeps (on_db I) (SetUserRole i role)"
  "keeps (on_db I) (SetServerStatus i st)" "keeps (on_db I) (CreatePromo code ptype disc mx)"
  "keeps (on_db I) (InsertAudit i action ot oi)"
proof -
  have u: "stmt_keeps I (exec_users ok i g)" if "\<And>r. same_keys r (g r)" for ok i g
    using users_law [OF that] by (auto simp: stmt_keeps_def exec_users_def split: if_splits)
  have s: "stmt_keeps I (exec_servers ok i (\<lambda>s. s\<lparr>s_status := st\<rparr>))" for ok i st
    using status_law by (auto simp: stmt_keeps_def exec_servers_def split: if_splits)
  show "keeps (on_db I) (SetUserStatus i st)" "keeps (on_db I) (SetUserRole i role)"
    "keeps (on_db I) (SetServerStatus i st)" "keeps (on_db I) (CreatePromo code ptype disc mx)"
    "keeps (on_db I) (InsertAudit i action ot oi)"
    unfolding SetUserStatus_def SetUserRole_def SetServerStatus_def CreatePromo_def InsertAudit_def
      execAffect_def
    by (intro keeps_intro u s promo_law audit_law; simp add: same_keys_def)+
qed

section \<open>The server\<close>

lemma auth_handlers: "serves I (register_handler s r)" "serves I (login_handler s r)"
  "serves I (telegram_handler s r)" "serves I (refresh_handler s r)" "serves I (logout_handler r)"
  "serves I (twoFASetup r)" "serves I (twoFAOp Enable2FA okm r)" "serves I (twoFAOp Disable2FA okm r)"
  unfolding register_handler_def login_handler_def telegram_handler_def refresh_handler_def
    logout_handler_def twoFASetup_def twoFAOp_def
  by (intro serves_intro auth_ops)+

lemma user_handlers: "serves I (updateMe r)" "serves I (upsertDevice r)" "serves I (deleteDevice r)"
  unfolding updateMe_def upsertDevice_def deleteDevice_def
  by (intro serves_intro keeps_intro user_ops)+

lemma vpn_handlers: "serves I (create_handler (api_vpn cfg cipher cidrs) r)"
  "serves I (delete_handler (api_vpn cfg cipher cidrs) r)"
  unfolding create_handler_def delete_handler_def Let_def
  by (intro serves_intro keeps_intro vpn_ops)+

lemma billing_handlers: "serves I (webhook_handler (api_billing cfg cipher cidrs) r)"
  "serves I (buy_handler (api_billing cfg cipher cidrs) r)"
  "serves I (devConfirm (api_billing cfg cipher cidrs) r)"
  unfolding webhook_handler_def buy_handler_def devConfirm_def
  by (intro serves_intro keeps_intro billing_ops)+

lemma audited_keeps: "keeps (on_db I) (audited r action ot oi)"
  unfolding audited_def by (intro keeps_intro admin_ops)

lemma set_field_serves: "(\<And>i v. keeps (on_db I) (change i v)) \<Longrightarrow>
    serves I (set_field name allowed change action ot r)"
  unfolding set_field_def by (intro serves_intro audited_keeps) assumption

lemma admin_handlers: "serves I (userStatus r)" "serves I (userRole r)" "serves I (serverStatus r)"
  "serves I (createPromo r)"
proof -
  show "serves I (userStatus r)" "serves I (userRole r)" "serves I (serverStatus r)"
    unfolding userStatus_def userRole_def serverStatus_def
    by (intro set_field_serves admin_ops)+
  show "serves I (createPromo r)"
    unfolding createPromo_def by (intro serves_intro admin_ops audited_keeps)
qed

lemma routes_keep_api: "routes_keep I (api_routes cfg cipher cidrs pages)"
  unfolding api_routes_def auth_routes_def user_routes_def vpn_routes_def billing_routes_def
    admin_routes_def RegisterPanel_def cabinet_Register_def page_routes_def Let_def
  by (simp add: serves_intro keeps_intro auth_handlers user_handlers vpn_handlers
      billing_handlers admin_handlers)

lemma serves_api: "serves I (api_server cfg cipher cidrs pages r)"
  unfolding api_server_def Chain.simps by (intro serves_intro routes_keep_api)

section \<open>The bot\<close>

lemmas talk = quiet_replies [THEN keeps_quiet] quiet_methods [THEN keeps_quiet]

lemma bot_views: "keeps (on_db I) (showMyVPN b chatID i)" "keeps (on_db I) (editMyVPN b chatID m i)"
  "keeps (on_db I) (showCountries b chatID m)" "keeps (on_db I) (editPlans b chatID m)"
  "keeps (on_db I) (selectPlan b chatID m p)" "keeps (on_db I) (startRenew b chatID m i sid)"
  "keeps (on_db I) (sendConfig b chatID i sid)"
  unfolding showMyVPN_def editMyVPN_def my_vpn_def showCountries_def editPlans_def selectPlan_def
    startRenew_def sendConfig_def Let_def
  by (intro keeps_intro talk)+

lemma bot_parts: "bt_vpn b = api_vpn cfg cipher cidrs"
    "bt_billing b = api_billing cfg cipher cidrs" if "api_bot cfg cipher cidrs zone = Some b"
  using that by (auto simp: api_bot_def NewBot_def split: if_splits)

lemma pay_keeps:
  assumes "bt_billing b = api_billing cfg cipher cidrs"
  shows "keeps (on_db I) (pay b chatID user)"
  unfolding pay_def assms Let_def
  by (intro keeps_intro billing_ops talk)

lemma ensureUser_keeps: "keeps (on_db I) (ensureUser from)"
  unfolding ensureUser_def by (rule auth_ops)

lemma handlers_keep:
  assumes "bt_billing b = api_billing cfg cipher cidrs"
  shows "keeps (on_db I) (handlePayment b msg payment)" "keeps (on_db I) (handleCommand b msg)"
    "keeps (on_db I) (handleCallback b cq)"
  unfolding handlePayment_def deref_def handleCommand_def handleCallback_def callback_action_def
    assms Let_def
  by (intro keeps_intro billing_ops ensureUser_keeps pay_keeps [OF assms] bot_views
      talk)+

lemma dispatch_keeps:
  assumes "bt_billing b = api_billing cfg cipher cidrs"
  shows "keeps (on_db I) (dispatch b u)"
  unfolding dispatch_def
  by (intro keeps_intro handlers_keep [OF assms] keeps_ignore talk)

lemma keeps_GetUpdates: "keeps (on_db I) (GetUpdates token offset timeout)"
  unfolding GetUpdates_def
  by (intro keeps_quiet quiet_intro) (auto intro!: quiet_intro split: option.split json.split)

lemma Bot_Run_keeps:
  assumes "bt_billing b = api_billing cfg cipher cidrs"
  shows "keeps (on_db I) (Bot_Run b polls offset)"
proof -
  have all: "keeps (on_db I) (dispatch_all b offset us)" for offset us
    by (induction us arbitrary: offset) (auto intro!: keeps_intro dispatch_keeps [OF assms])
  show ?thesis
    by (induction polls arbitrary: offset)
      (auto intro!: keeps_intro all keeps_GetUpdates)
qed

section \<open>Background\<close>

lemma Expirer_keeps: "keeps (on_db I) (Expirer_Run grace n)"
  by (induction n) (auto simp: Expirer_sweep_def intro!: keeps_intro expire_law)

lemma engine_keeps: "keeps (on_db I) (Engine_Run text (api_engine cfg cipher cidrs zone) n)"
proof (rule migrator.keeps_Engine_Run)
  show "migrator (MigrateServer (api_vpn cfg cipher cidrs)) I"
    by unfold_locales (fact MigrateServer_law, fact health_law, fact status_law, fact score_law)
qed (rule quiet_engine, simp add: api_engine_def)

section \<open>Runs\<close>

lemma platform_step_keeps:
  assumes "platform_step cfg cipher cidrs zone pages w w'" "I (w_db w)"
  shows "I (w_db w')"
  using assms
proof (cases rule: platform_step.cases)
  case step_request
  then show ?thesis using serves_api servesD assms(2) by blast
next
  case (step_update b u)
  then show ?thesis
    using keepsD [OF dispatch_keeps [OF bot_parts(2)]] assms(2) by (simp add: on_db_def)
next
  case (step_poll b polls offset)
  then show ?thesis
    using keepsD [OF Bot_Run_keeps [OF bot_parts(2)]] assms(2) by (simp add: on_db_def)
next
  case step_expirer
  then show ?thesis using keepsD [OF Expirer_keeps] assms(2) by (simp add: on_db_def)
next
  case step_engine
  then show ?thesis using keepsD [OF engine_keeps] assms(2) by (simp add: on_db_def)
qed simp

lemma platform_run_keeps:
  assumes "platform_run cfg cipher cidrs zone pages w w'" "I (w_db w)"
  shows "I (w_db w')"
  using assms by (induction rule: platform_run.induct) (blast intro: platform_step_keeps)+

end

end
