(* ===== verification/PlatformInvariants.thy ===== *)
theory PlatformInvariants
  imports PlatformKeeps
begin

text \<open>
  The invariants of the modules are invariants of the whole program: interpretations of
  \<open>platform_invariant\<close>.  A module leaves the tables of the others alone; its frame is what it does
  not touch.
\<close>

section \<open>Frames\<close>

lemma keeps_frame:
  assumes "\<And>f. keeps (on_db (\<lambda>d. F d = f)) m" "\<And>d d'. F d = F d' \<Longrightarrow> I d \<Longrightarrow> I d'"
  shows "keeps (on_db I) m"
proof (unfold keeps_def on_db_def, intro allI impI)
  fix w :: world assume "I (w_db w)"
  moreover have "F (w_db (snd (m w))) = F (w_db w)"
    using assms(1) [of "F (w_db w)"] by (simp add: keeps_def on_db_def)
  ultimately show "I (w_db (snd (m w)))" using assms(2) by metis
qed

lemma stmt_frame:
  assumes st: "\<And>f. stmt_keeps (\<lambda>d. F d = f) st" and I: "\<And>d d'. F d = F d' \<Longrightarrow> I d \<Longrightarrow> I d'"
  shows "stmt_keeps I st"
  unfolding stmt_keeps_def
proof (intro allI impI)
  fix now fresh d x d' assume d: "I d" "st now fresh d = Inr (x, d')"
  then have "F d' = F d" using st [of "F d"] unfolding stmt_keeps_def by blast
  then show "I d'" by (rule I [OF sym d(1)])
qed

text \<open>What the VPN module leaves alone.\<close>

definition vpn_frame :: "db \<Rightarrow> _" where
  "vpn_frame d = (users d, user_sessions d, user_profiles d, devices d, countries d, audit_log d,
     billing_tables d)"

lemma vpn_frame_stmts [keeps_intro]:
  "stmt_keeps (\<lambda>d. vpn_frame d = f) (insert_subscription p)"
  "stmt_keeps (\<lambda>d. vpn_frame d = f) (insert_config p c i v)"
  "stmt_keeps (\<lambda>d. vpn_frame d = f) (insert_key p c)"
  "stmt_keeps (\<lambda>d. vpn_frame d = f) (set_server i g)"
  "stmt_keeps (\<lambda>d. vpn_frame d = f) (set_sub i h)"
  "stmt_keeps (\<lambda>d. vpn_frame d = f) (revoke_keys i)"
  "stmt_keeps (\<lambda>d. vpn_frame d = f) (assign_sub i j)"
  "stmt_keeps (\<lambda>d. vpn_frame d = f) (insert_migration i j k l t)"
  by (auto simp: stmt_keeps_def stmt_defs vpn_frame_def billing_tables_def Let_def
      split: if_splits option.splits sum.splits)

lemma vpn_frame_ops:
  "keeps (on_db (\<lambda>d. vpn_frame d = f)) (Persist p c)"
  "keeps (on_db (\<lambda>d. vpn_frame d = f)) (SoftDelete i j)"
  "keeps (on_db (\<lambda>d. vpn_frame d = f)) (Reassign p c k old reason)"
  unfolding Persist_def SoftDelete_def Reassign_def next_version_def Let_def case_prod_beta
  by (intro keeps_intro)+

lemma vpn_frame_laws:
  assumes "\<And>d d'. vpn_frame d = vpn_frame d' \<Longrightarrow> I d \<Longrightarrow> I d'"
  shows "keeps (on_db I) (Persist p c)" "keeps (on_db I) (SoftDelete i j)"
    "keeps (on_db I) (MigrateServer (api_vpn cfg cipher cidrs) i reason)"
proof -
  have pv: "vs_provisioner (api_vpn cfg cipher cidrs) =
      NewProvisioner (cfg_ProvisionerMode cfg) (cfg_ProvisionerAgentToken cfg)"
    by (simp add: api_vpn_def NewVPNService_def)
  have frame: "keeps (on_db I) m" if "\<And>f. keeps (on_db (\<lambda>d. vpn_frame d = f)) m" for m :: "'a go"
    using that assms by (rule keeps_frame)
  show "keeps (on_db I) (Persist p c)" "keeps (on_db I) (SoftDelete i j)"
    by (rule frame [OF vpn_frame_ops(1)] frame [OF vpn_frame_ops(2)])+
  show "keeps (on_db I) (MigrateServer (api_vpn cfg cipher cidrs) i reason)"
    by (rule selected.MigrateServer_keeps [OF pv frame [OF vpn_frame_ops(3)]])
qed

text \<open>What billing leaves alone: of the subscriptions, what decides the load of a server.\<close>

definition loads :: "subscription_row list \<Rightarrow> _" where
  "loads subs = map (\<lambda>s. (sub_id s, sub_server_id s, sub_status s = ''deleted'')) subs"

definition billing_frame :: "db \<Rightarrow> _" where
  "billing_frame d = (users d, user_sessions d, user_profiles d, devices d, countries d,
     audit_log d, servers d, vpn_keys d, vpn_configs d, loads (subscriptions d))"

lemma billing_frame_stmts [keeps_intro]:
  "stmt_keeps (\<lambda>d. billing_frame d = f) (insert_order n)"
  "stmt_keeps (\<lambda>d. billing_frame d = f) (use_promo p)"
  "stmt_keeps (\<lambda>d. billing_frame d = f) (insert_redemption p u i)"
  "stmt_keeps (\<lambda>d. billing_frame d = f) (insert_payment i g x st a c l)"
  "stmt_keeps (\<lambda>d. billing_frame d = f) (claim_order i)"
  "stmt_keeps (\<lambda>d. billing_frame d = f) (mark_paid i sid)"
  "stmt_keeps (\<lambda>d. billing_frame d = f) (set_payments i st)"
  "stmt_keeps (\<lambda>d. billing_frame d = f) (insert_ledger u t a c rt ri ph h)"
  "stmt_keeps (\<lambda>d. billing_frame d = f) (fail_order i)"
  "stmt_keeps (\<lambda>d. billing_frame d = f) (upsert_webhook g x st pl)"
  "stmt_keeps (\<lambda>d. billing_frame d = f) (stamp_webhook g x)"
  by (auto simp: stmt_keeps_def billing_frame_def insert_order_def use_promo_def
      insert_redemption_def insert_payment_def claim_order_def mark_paid_def update_order_def
      set_payments_def modify_def insert_ledger_def fail_order_def upsert_webhook_def
      stamp_webhook_def Let_def split: option.splits if_splits)

lemma billing_frame_subs [keeps_intro]:
  "stmt_keeps (\<lambda>d. billing_frame d = f) (extend_sub sid days)"
  "stmt_keeps (\<lambda>d. billing_frame d = f) (expire_subs grace)"
  by (auto simp: stmt_keeps_def billing_frame_def loads_def extend_sub_def expire_subs_def Let_def
      update_where_def overdue_def)

lemma billing_frame_ops:
  "keeps (on_db (\<lambda>d. billing_frame d = f)) (CreateOrder n)"
  "keeps (on_db (\<lambda>d. billing_frame d = f)) (CreatePayment i g x st a c l)"
  "keeps (on_db (\<lambda>d. billing_frame d = f)) (ClaimForProvisioning i)"
  "keeps (on_db (\<lambda>d. billing_frame d = f)) (FinalizePaid i sid)"
  "keeps (on_db (\<lambda>d. billing_frame d = f)) (MarkFailed i)"
  "keeps (on_db (\<lambda>d. billing_frame d = f)) (RecordWebhook g x st b)"
  "keeps (on_db (\<lambda>d. billing_frame d = f)) (MarkWebhookProcessed g x)"
  unfolding CreateOrder_def redeem_def CreatePayment_def ClaimForProvisioning_def FinalizePaid_def
    appendLedger_def MarkFailed_def RecordWebhook_def MarkWebhookProcessed_def Let_def
  by (intro keeps_intro)+

lemma billing_frame_laws:
  assumes "\<And>d d'. billing_frame d = billing_frame d' \<Longrightarrow> I d \<Longrightarrow> I d'"
  shows "keeps (on_db I) (CreateOrder n)" "keeps (on_db I) (CreatePayment i g x st a c l)"
    "keeps (on_db I) (ClaimForProvisioning i)" "keeps (on_db I) (FinalizePaid i sid)"
    "keeps (on_db I) (MarkFailed i)" "keeps (on_db I) (RecordWebhook g x st b)"
    "keeps (on_db I) (MarkWebhookProcessed g x)" "stmt_keeps I (extend_sub sid days)"
    "stmt_keeps I (expire_subs grace)"
  by (rule keeps_frame [where F = billing_frame] stmt_frame [where F = billing_frame];
      (rule billing_frame_ops billing_frame_subs)?; erule (1) assms)+

text \<open>What accounts, profiles, devices, promo codes and the audit trail leave alone.\<close>

definition core_frame :: "db \<Rightarrow> _" where
  "core_frame d = (countries d, servers d, subscriptions d, vpn_keys d, orders d, ledger d)"

lemma core_frame_stmts [keeps_intro]:
  "stmt_keeps (\<lambda>d. core_frame d = f) (insert_profile i fn sn)"
  "stmt_keeps (\<lambda>d. core_frame d = f) (insert_session i h ua ip expiry)"
  "stmt_keeps (\<lambda>d. core_frame d = f) (revoke_where Q)"
  "stmt_keeps (\<lambda>d. core_frame d = f) (insert_user g)"
  "stmt_keeps (\<lambda>d. core_frame d = f) (set_profile i u)"
  "stmt_keeps (\<lambda>d. core_frame d = f) (upsert_device i du)"
  "stmt_keeps (\<lambda>d. core_frame d = f) (delete_device i j)"
  "stmt_keeps (\<lambda>d. core_frame d = f) (insert_promo code ptype disc mx)"
  "stmt_keeps (\<lambda>d. core_frame d = f) (insert_audit i action ot oi)"
  by (auto simp: stmt_keeps_def core_frame_def insert_profile_def insert_session_def
      revoke_where_def insert_user_def set_profile_def modify_def upsert_device_def
      delete_device_def insert_promo_def insert_audit_def Let_def split: option.splits if_splits)

section \<open>Accounts\<close>

lemma accounts_elsewhere_stmts:
  "stmt_keeps accounts_ok (set_profile i u)" "stmt_keeps accounts_ok (upsert_device i du)"
  "stmt_keeps accounts_ok (delete_device i j)" "stmt_keeps accounts_ok (insert_promo code ptype disc mx)"
  "stmt_keeps accounts_ok (insert_audit i action ot oi)"
  by (auto simp: stmt_keeps_def accounts_ok_def set_profile_def modify_def upsert_device_def
      delete_device_def insert_promo_def insert_audit_def Let_def split: option.splits if_splits)

lemma accounts_other_modules:
  "keeps (on_db accounts_ok) (Persist p c)" "keeps (on_db accounts_ok) (SoftDelete i j)"
  "keeps (on_db accounts_ok) (MigrateServer (api_vpn cfg cipher cidrs) i reason)"
  "keeps (on_db accounts_ok) (CreateOrder n)" "keeps (on_db accounts_ok) (CreatePayment i g x st a c' l)"
  "keeps (on_db accounts_ok) (ClaimForProvisioning i)" "keeps (on_db accounts_ok) (FinalizePaid i sid)"
  "keeps (on_db accounts_ok) (MarkFailed i)" "keeps (on_db accounts_ok) (RecordWebhook g x st b)"
  "keeps (on_db accounts_ok) (MarkWebhookProcessed g x)" "stmt_keeps accounts_ok (extend_sub sid days)"
  "stmt_keeps accounts_ok (expire_subs grace)"
  by (rule vpn_frame_laws billing_frame_laws;
      simp add: vpn_frame_def billing_frame_def accounts_ok_def)+

interpretation accounts: platform_invariant accounts_ok
proof
  show "accounts_ok (d\<lparr>users := update_where P g (users d)\<rparr>)"
    if "\<And>r. same_keys r (g r)" "accounts_ok d" for P g d
    by (rule accounts_update [OF that])
qed (rule accounts_statements accounts_elsewhere_stmts accounts_other_modules |
    simp add: accounts_ok_def)+

section \<open>The fleet\<close>

lemma fleet_core:
  assumes "core_frame d = core_frame d'" "map u_id (users d) = map u_id (users d')" "fleet_ok d"
  shows "fleet_ok d'"
  using assms by (simp add: core_frame_def fleet_ok_def load_ok_def ips_ok_def)

lemma fleet_stmt:
  assumes "\<And>f. stmt_keeps (\<lambda>d. core_frame d = f) st"
    "\<And>now fresh d x d'. st now fresh d = Inr (x, d') \<Longrightarrow> map u_id (users d') = map u_id (users d)"
  shows "stmt_keeps fleet_ok st"
  unfolding stmt_keeps_def
proof (intro allI impI)
  fix now fresh d x d' assume d: "fleet_ok d" "st now fresh d = Inr (x, d')"
  then have "core_frame d' = core_frame d"
    using assms(1) [of "core_frame d"] unfolding stmt_keeps_def by blast
  then show "fleet_ok d'" using fleet_core [OF _ _ d(1)] assms(2) [OF d(2)] by metis
qed

lemma fleet_statements:
  "stmt_keeps fleet_ok (insert_profile i fn sn)" "stmt_keeps fleet_ok (insert_session i h ua ip expiry)"
  "stmt_keeps fleet_ok (revoke_where Q)" "stmt_keeps fleet_ok (set_profile i u)"
  "stmt_keeps fleet_ok (upsert_device i du)" "stmt_keeps fleet_ok (delete_device i j)"
  "stmt_keeps fleet_ok (insert_promo code ptype disc mx)"
  "stmt_keeps fleet_ok (insert_audit i action ot oi)"
  by (rule fleet_stmt, rule core_frame_stmts,
      (auto simp: insert_profile_def insert_session_def revoke_where_def set_profile_def modify_def
        upsert_device_def delete_device_def insert_promo_def insert_audit_def Let_def
        split: option.splits if_splits)[1])+

lemma fleet_insert_user: "stmt_keeps fleet_ok (insert_user g)"
  by (auto simp: stmt_keeps_def insert_user_def fleet_ok_def load_ok_def ips_ok_def Let_def
      clashes_def list_ex_iff split: if_splits)

lemma live_count_loads:
  "live_count i subs = length (filter (\<lambda>(_, j, deleted). j = i \<and> \<not> deleted) (loads subs))"
  by (simp add: live_count_def count_where_def loads_def filter_map comp_def on_server_def [abs_def])

lemma ids_loads: "map sub_id subs = map fst (loads subs)"
  by (simp add: loads_def comp_def)

lemma fleet_billing:
  "keeps (on_db fleet_ok) (CreateOrder n)" "keeps (on_db fleet_ok) (CreatePayment i g x st a c l)"
  "keeps (on_db fleet_ok) (ClaimForProvisioning i)" "keeps (on_db fleet_ok) (FinalizePaid i sid)"
  "keeps (on_db fleet_ok) (MarkFailed i)" "keeps (on_db fleet_ok) (RecordWebhook g x st b)"
  "keeps (on_db fleet_ok) (MarkWebhookProcessed g x)" "stmt_keeps fleet_ok (extend_sub sid days)"
  "stmt_keeps fleet_ok (expire_subs grace)"
  by (rule billing_frame_laws;
      simp add: billing_frame_def fleet_ok_def load_ok_def ips_ok_def live_count_loads ids_loads)+

lemma fleet_vpn:
  "keeps (on_db fleet_ok) (Persist p c)" "keeps (on_db fleet_ok) (SoftDelete i j)"
proof -
  have users: "keeps (on_db (\<lambda>d. distinct (map u_id (users d)) \<and> distinct (map c_id (countries d)))) m"
    if "\<And>f. keeps (on_db (\<lambda>d. vpn_frame d = f)) m" for m :: "'a go"
    using that by (rule keeps_frame) (simp add: vpn_frame_def)
  show "keeps (on_db fleet_ok) (Persist p c)"
    using client_count_exact Persist_ips_ok users [OF vpn_frame_ops(1)]
    by (simp add: keeps_def on_db_def fleet_ok_def)
  show "keeps (on_db fleet_ok) (SoftDelete i j)"
    using client_count_exact SoftDelete_ips_ok users [OF vpn_frame_ops(2)]
    by (simp add: keeps_def on_db_def fleet_ok_def)
qed

interpretation running_fleet: platform_invariant fleet_ok
proof
  show "fleet_ok (d\<lparr>users := update_where P g (users d)\<rparr>)"
    if "\<And>r. same_keys r (g r)" "fleet_ok d" for P g d
  proof (rule fleet_core [OF _ _ that(2)])
    have "u_id (g r) = u_id r" for r using that(1) [of r] by (simp add: same_keys_def)
    then show "map u_id (users d) = map u_id (users (d\<lparr>users := update_where P g (users d)\<rparr>))"
      by (simp add: map_update_where_same)
  qed (simp add: core_frame_def)
qed (rule fleet_statements fleet_insert_user fleet_billing fleet_vpn fleet.mig_keeps
    fleet.health_free fleet.status_free fleet.score_free | assumption)+

section \<open>The ledger\<close>

lemma ledger_carry: "ledger_ok d \<Longrightarrow> orders d' = orders d \<Longrightarrow> ledger d' = ledger d \<Longrightarrow> ledger_ok d'"
  by (simp add: ledger_ok_local [of d' d])

lemma ledger_stmts:
  "stmt_keeps ledger_ok (insert_user g)" "stmt_keeps ledger_ok (insert_profile i fn sn)"
  "stmt_keeps ledger_ok (insert_session i h ua ip expiry)" "stmt_keeps ledger_ok (revoke_where Q)"
  "stmt_keeps ledger_ok (set_profile i u)" "stmt_keeps ledger_ok (upsert_device i du)"
  "stmt_keeps ledger_ok (delete_device i j)" "stmt_keeps ledger_ok (insert_promo code ptype disc mx)"
  "stmt_keeps ledger_ok (insert_audit i action ot oi)"
  by (rule stmt_frame [where F = core_frame], rule core_frame_stmts,
      (erule ledger_carry; simp add: core_frame_def)[1])+

lemma ledger_other_modules:
  "keeps (on_db ledger_ok) (Persist p c)" "keeps (on_db ledger_ok) (SoftDelete i j)"
  "keeps (on_db ledger_ok) (MigrateServer (api_vpn cfg cipher cidrs) i reason)"
  by (rule vpn_frame_laws, (erule ledger_carry; simp add: vpn_frame_def billing_tables_def)[1])+

lemma ledger_subs: "stmt_keeps ledger_ok (extend_sub sid days)" "stmt_keeps ledger_ok (expire_subs grace)"
  by (rule stmt_keeps_ledger_local; auto simp: extend_sub_def expire_subs_def Let_def)+

interpretation running_ledger: platform_invariant ledger_ok
  by unfold_locales
    (rule ledger_stmts ledger_other_modules ledger_repo ledger_finalize ledger_subs |
      erule ledger_carry; simp)+

section \<open>Histories\<close>

text \<open>Orders and sessions only evolve, from any moment on.\<close>

lemma since_elsewhere:
  "stmt_keeps (since d0) (insert_user g)" "stmt_keeps (since d0) (insert_profile i fn sn)"
  "stmt_keeps (since d0) (insert_session i h ua ip expiry)" "stmt_keeps (since d0) (revoke_where Q)"
  "stmt_keeps (since d0) (set_profile i u)" "stmt_keeps (since d0) (upsert_device i du)"
  "stmt_keeps (since d0) (delete_device i j)" "stmt_keeps (since d0) (insert_promo code ptype disc mx)"
  "stmt_keeps (since d0) (insert_audit i action ot oi)"
  by (rule stmt_frame [where F = core_frame], rule core_frame_stmts,
      (simp add: since_def core_frame_def))+

lemma since_other_modules:
  "keeps (on_db (since d0)) (Persist p c)" "keeps (on_db (since d0)) (SoftDelete i j)"
  "keeps (on_db (since d0)) (MigrateServer (api_vpn cfg cipher cidrs) i reason)"
  by (rule vpn_frame_laws; simp add: since_def vpn_frame_def billing_tables_def)+

lemma since_expire: "stmt_keeps (since d0) (expire_subs grace)"
  by (simp add: stmt_keeps_def expire_subs_def since_def)

interpretation order_history: platform_invariant "since d0" for d0
  by unfold_locales
    (rule since_elsewhere since_other_modules since_repo since_statements since_expire |
      simp add: since_def)+

lemma sessions_elsewhere:
  "stmt_keeps (sessions_since d0) (set_profile i u)" "stmt_keeps (sessions_since d0) (upsert_device i du)"
  "stmt_keeps (sessions_since d0) (delete_device i j)"
  "stmt_keeps (sessions_since d0) (insert_promo code ptype disc mx)"
  "stmt_keeps (sessions_since d0) (insert_audit i action ot oi)"
  by (auto simp: stmt_keeps_def grown_def set_profile_def modify_def upsert_device_def
      delete_device_def insert_promo_def insert_audit_def Let_def split: option.splits if_splits)

lemma sessions_other_modules:
  "keeps (on_db (sessions_since d0)) (Persist p c)" "keeps (on_db (sessions_since d0)) (SoftDelete i j)"
  "keeps (on_db (sessions_since d0)) (MigrateServer (api_vpn cfg cipher cidrs) i reason)"
  "keeps (on_db (sessions_since d0)) (CreateOrder n)"
  "keeps (on_db (sessions_since d0)) (CreatePayment i g x st a c' l)"
  "keeps (on_db (sessions_since d0)) (ClaimForProvisioning i)"
  "keeps (on_db (sessions_since d0)) (FinalizePaid i sid)"
  "keeps (on_db (sessions_since d0)) (MarkFailed i)"
  "keeps (on_db (sessions_since d0)) (RecordWebhook g x st b)"
  "keeps (on_db (sessions_since d0)) (MarkWebhookProcessed g x)"
  "stmt_keeps (sessions_since d0) (extend_sub sid days)"
  "stmt_keeps (sessions_since d0) (expire_subs grace)"
  by (rule vpn_frame_laws billing_frame_laws; simp add: vpn_frame_def billing_frame_def grown_def)+

interpretation session_history: platform_invariant "sessions_since d0" for d0
  by unfold_locales
    (rule sessions_statements sessions_elsewhere sessions_other_modules | simp add: grown_def)+

end
