(* ===== verification/Interleaving.thy ===== *)
theory Interleaving
  imports PlatformInvariants
begin

text \<open>
  Requests that run at the same time.  What an operation does to the tables is a sequence of
  committed writes of the repositories; between two of its writes any other operation may commit
  its own, with arguments read long before.  So the tables move by writes with any arguments: a
  run of the program is such a sequence, and the invariants hold over every one of them, except
  that a migration must still find its subscription where it read it.
\<close>

section \<open>Writes\<close>

text \<open>The effect of a statement that succeeds, and of an operation in any world.\<close>

definition executes :: "'a statement \<Rightarrow> db \<Rightarrow> db \<Rightarrow> bool" where
  "executes st d d' \<longleftrightarrow> (\<exists>now fresh x. st now fresh d = Inr (x, d'))"

definition commits :: "'a go \<Rightarrow> db \<Rightarrow> db \<Rightarrow> bool" where
  "commits m d d' \<longleftrightarrow> (\<exists>w. w_db w = d \<and> w_db (snd (m w)) = d')"

text \<open>
  One committed write, or an attempt that was rolled back.  In a timely run a subscription is
  moved only from the server it is live on, to another one.
\<close>

inductive db_write :: "bool \<Rightarrow> db \<Rightarrow> db \<Rightarrow> bool" for timely where
  write_user: "executes (insert_user f) d d' \<Longrightarrow> db_write timely d d'"
| write_profile: "executes (insert_profile i fn sn) d d' \<Longrightarrow> db_write timely d d'"
| write_session: "executes (insert_session i h ua ip expiry) d d' \<Longrightarrow> db_write timely d d'"
| write_revoke: "executes (revoke_where Q) d d' \<Longrightarrow> db_write timely d d'"
| write_users: "(\<And>r. same_keys r (g r)) \<Longrightarrow>
    db_write timely d (d\<lparr>users := update_where P g (users d)\<rparr>)"
| write_set_profile: "executes (set_profile i u) d d' \<Longrightarrow> db_write timely d d'"
| write_device: "executes (upsert_device i du) d d' \<Longrightarrow> db_write timely d d'"
| write_no_device: "executes (delete_device i j) d d' \<Longrightarrow> db_write timely d d'"
| write_persist: "commits (Persist p c) d d' \<Longrightarrow> db_write timely d d'"
| write_delete: "commits (SoftDelete i j) d d' \<Longrightarrow> db_write timely d d'"
| write_reassign: "commits (Reassign p c i old reason) d d' \<Longrightarrow>
    timely \<longrightarrow> lives_on i old d \<and> srv_ID (cp_Server p) \<noteq> old \<Longrightarrow> db_write timely d d'"
| write_order: "commits (CreateOrder n) d d' \<Longrightarrow> db_write timely d d'"
| write_payment: "commits (CreatePayment i gw x st a cu l) d d' \<Longrightarrow> db_write timely d d'"
| write_extend: "executes (extend_sub i k) d d' \<Longrightarrow> db_write timely d d'"
| write_claim: "commits (ClaimForProvisioning i) d d' \<Longrightarrow> db_write timely d d'"
| write_paid: "commits (FinalizePaid i j) d d' \<Longrightarrow> db_write timely d d'"
| write_failed: "commits (MarkFailed i) d d' \<Longrightarrow> db_write timely d d'"
| write_webhook: "commits (RecordWebhook gw x st b) d d' \<Longrightarrow> db_write timely d d'"
| write_processed: "commits (MarkWebhookProcessed gw x) d d' \<Longrightarrow> db_write timely d d'"
| write_expire: "executes (expire_subs grace) d d' \<Longrightarrow> db_write timely d d'"
| write_status: "db_write timely d (d\<lparr>servers := update_where Ps (\<lambda>r. r\<lparr>s_status := st\<rparr>) (servers d)\<rparr>)"
| write_score: "db_write timely d (d\<lparr>servers := update_where Ps
    (\<lambda>r. r\<lparr>s_health_score := sc, s_last_seen := t\<rparr>) (servers d)\<rparr>)"
| write_health: "db_write timely d (d\<lparr>server_health := hs\<rparr>)"
| write_promo: "executes (insert_promo code ptype disc mx) d d' \<Longrightarrow> db_write timely d d'"
| write_audit: "executes (insert_audit i action ot oi) d d' \<Longrightarrow> db_write timely d d'"

inductive db_run :: "bool \<Rightarrow> db \<Rightarrow> db \<Rightarrow> bool" for timely where
  no_write: "db_run timely d d"
| more_writes: "db_run timely d d1 \<Longrightarrow> db_write timely d1 d2 \<Longrightarrow> db_run timely d d2"

section \<open>The program is a sequence of writes\<close>

lemma run_stmt:
  assumes "\<And>d d'. executes st d d' \<Longrightarrow> db_write False d d'"
  shows "stmt_keeps (db_run False d0) st"
  unfolding stmt_keeps_def using assms by (blast intro: more_writes executes_def [THEN iffD2])

lemma run_op:
  assumes "\<And>d d'. commits m d d' \<Longrightarrow> db_write False d d'"
  shows "keeps (on_db (db_run False d0)) m"
  unfolding keeps_def on_db_def using assms
  by (blast intro: more_writes commits_def [THEN iffD2])

lemma run_Reassign: "keeps (on_db (db_run False d0)) (Reassign p c i old reason)"
  by (rule run_op) (blast intro: write_reassign)

lemma run_Migrate:
  "keeps (on_db (db_run False d0)) (MigrateServer (api_vpn cfg cipher cidrs) i reason)"
  by (rule selected.MigrateServer_keeps [OF _ run_Reassign]) (simp add: api_vpn_def NewVPNService_def)

interpretation written: platform_invariant "db_run False d0" for d0
  by unfold_locales
    (rule run_stmt run_op run_Migrate | erule db_write.intros | erule more_writes |
      rule db_write.intros | assumption)+


section \<open>Invariants under interleaving\<close>

context platform_invariant
begin

lemma law_stmt: "stmt_keeps I st \<Longrightarrow> executes st d d' \<Longrightarrow> I d \<Longrightarrow> I d'"
  by (auto simp: stmt_keeps_def executes_def)

lemma law_op: "keeps (on_db I) m \<Longrightarrow> commits m d d' \<Longrightarrow> I d \<Longrightarrow> I d'"
  by (auto simp: keeps_def on_db_def commits_def)

lemma db_write_keeps:
  assumes "db_write timely d d'" "I d"
    and "\<And>p c i old reason. commits (Reassign p c i old reason) d d' \<Longrightarrow>
      timely \<longrightarrow> lives_on i old d \<and> srv_ID (cp_Server p) \<noteq> old \<Longrightarrow> I d'"
  shows "I d'"
  using assms(1)
proof cases
  case write_users
  then show ?thesis using users_law assms(2) by blast
next
  case write_reassign
  then show ?thesis by (rule assms(3))
qed (use assms(2) status_law score_law health_law in \<open>blast intro: insert_user_law [THEN law_stmt]
    insert_profile_law [THEN law_stmt] insert_session_law [THEN law_stmt] revoke_law [THEN law_stmt]
    set_profile_law [THEN law_stmt] upsert_device_law [THEN law_stmt] delete_device_law [THEN law_stmt]
    Persist_law [THEN law_op] SoftDelete_law [THEN law_op] CreateOrder_law [THEN law_op]
    CreatePayment_law [THEN law_op] extend_law [THEN law_stmt] Claim_law [THEN law_op]
    FinalizePaid_law [THEN law_op] MarkFailed_law [THEN law_op] RecordWebhook_law [THEN law_op]
    MarkWebhook_law [THEN law_op] expire_law [THEN law_stmt] promo_law [THEN law_stmt]
    audit_law [THEN law_stmt]\<close>)+

lemma db_run_keeps:
  assumes "db_run timely d d'" "I d"
    and "\<And>d d' p c i old reason. commits (Reassign p c i old reason) d d' \<Longrightarrow>
      timely \<longrightarrow> lives_on i old d \<and> srv_ID (cp_Server p) \<noteq> old \<Longrightarrow> I d \<Longrightarrow> I d'"
  shows "I d'"
  using assms(1,2)
proof (induction rule: db_run.induct)
  case (more_writes d d1 d2)
  then have "I d1" by blast
  show ?case
    by (rule db_write_keeps [OF more_writes.hyps(2) \<open>I d1\<close>]) (rule assms(3) [OF _ _ \<open>I d1\<close>])
qed

end

lemma commits_frame:
  assumes "\<And>f. keeps (on_db (\<lambda>d. F d = f)) m" "commits m d d'"
  shows "F d' = F d"
  using assms(2) keepsD [OF assms(1) [of "F d"]] by (auto simp: commits_def on_db_def)

lemma fleet_timely_Reassign:
  assumes "commits (Reassign p c i old reason) d d'" "lives_on i old d" "srv_ID (cp_Server p) \<noteq> old"
    and "fleet_ok d"
  shows "fleet_ok d'"
proof -
  obtain w where w: "w_db w = d" "w_db (snd (Reassign p c i old reason w)) = d'"
    using assms(1) by (auto simp: commits_def)
  have "load_ok d'"
    using client_count_exact_migration [of w i old p c reason] w assms(2-4) by (simp add: fleet_ok_def)
  moreover have "ips_ok d'"
    using keepsD [OF Reassign_ips_ok, of w p c i old reason] w assms(4) by (simp add: on_db_def fleet_ok_def)
  moreover have "vpn_frame d' = vpn_frame d"
    by (rule commits_frame [OF vpn_frame_ops(3) assms(1)])
  ultimately show ?thesis using assms(4) by (simp add: fleet_ok_def vpn_frame_def)
qed


text \<open>
  C4. The history needs no proviso: however operations interleave, no order is lost, an order moves
  only along its life cycle, and a session only goes from active to revoked.
\<close>

theorem interleaved_history:
  assumes "db_run timely d d'"
  shows "since d d' \<and> sessions_since d d'"
proof
  have frame: "vpn_frame d2 = vpn_frame d1" if "commits (Reassign p c i old reason) d1 d2"
    for d1 d2 p c i old reason
    by (rule commits_frame [OF vpn_frame_ops(3) that])
  show "since d d'"
    by (rule order_history.db_run_keeps [OF assms since_refl])
      (drule frame, simp add: since_def vpn_frame_def billing_tables_def)
  show "sessions_since d d'"
    by (rule session_history.db_run_keeps [OF assms sessions.grown_refl])
      (drule frame, simp add: grown_def vpn_frame_def)
qed

text \<open>
  The proviso is needed.  A migration that commits after its subscription was deleted makes it live
  again, on the new server, and takes a client off the count of the old one a second time: when
  other clients are left there, that count is wrong from then on.
\<close>

theorem late_migration_miscounts:
  assumes "load_ok (w_db w)" "s \<in> set (subscriptions (w_db w))" "sub_status s = ''deleted''"
    and "r \<in> set (servers (w_db w))" "s_id r = old" "s_client_count r > 0"
    and "srv_ID (cp_Server p) \<noteq> old" "sub_server_id s = old"
    and "Reassign p c (sub_id s) old reason w = (Inr u, w')"
  shows "\<not> load_ok (w_db w') \<and> s\<lparr>sub_server_id := srv_ID (cp_Server p), sub_status := ''active''\<rparr>
    \<in> set (subscriptions (w_db w'))"
proof -
  let ?f = "\<lambda>x. x\<lparr>sub_server_id := srv_ID (cp_Server p), sub_status := ''active''\<rparr>"
  have subs: "subscriptions (w_db w') = update_where (\<lambda>x. sub_id x = sub_id s) ?f (subscriptions (w_db w))"
    and servers: "servers (w_db w') = update_where (\<lambda>x. s_id x = old) dec_load
      (update_where (\<lambda>x. s_id x = srv_ID (cp_Server p)) inc_load (servers (w_db w)))"
    using Reassign_InrD [OF assms(9)] by fastforce+
  have cnt: "s_client_count r = int (live_count old (subscriptions (w_db w)))"
    using assms(1,4,5) by (auto simp: load_ok_def list_all_iff)
  have "live_count old (subscriptions (w_db w')) + (if on_server old s then 1 else 0) =
      live_count old (subscriptions (w_db w)) + (if on_server old (?f s) then 1 else 0)"
    unfolding subs using live_count_update [of "subscriptions (w_db w)" s old ?f] assms(1,2)
    by (simp add: load_ok_def)
  then have same: "live_count old (subscriptions (w_db w')) = live_count old (subscriptions (w_db w))"
    using assms(3,7) by (simp add: on_server_def)
  have "dec_load r \<in> set (servers (w_db w'))"
    using assms(4,5,7) by (auto simp: servers set_update_where image_iff intro!: bexI [of _ r])
  moreover have "s_client_count (dec_load r) \<noteq> int (live_count (s_id (dec_load r)) (subscriptions (w_db w')))"
    using assms(5,6) cnt same by (simp add: dec_load_def)
  ultimately have "\<not> load_ok (w_db w')" unfolding load_ok_def list_all_iff by blast
  moreover have "?f s \<in> set (subscriptions (w_db w'))"
    using assms(2) by (auto simp: subs set_update_where image_iff intro!: bexI [of _ s])
  ultimately show ?thesis by blast
qed

end
