(* ===== verification/PlatformTypes.thy ===== *)
theory PlatformTypes
  imports PlatformInvariants
begin

text \<open>
  The columns that are enums in the schema stay within their values: a \<open>platform_invariant\<close> whose
  laws come from the statements one by one.
\<close>

section \<open>Laws from statements\<close>

lemma vpn_laws_from_statements:
  assumes "\<And>p. stmt_keeps I (insert_subscription p)" "\<And>p c i v. stmt_keeps I (insert_config p c i v)"
    "\<And>p c. stmt_keeps I (insert_key p c)" "\<And>i. stmt_keeps I (set_server i inc_load)"
    "\<And>i. stmt_keeps I (set_server i dec_load)"
    "\<And>i. stmt_keeps I (set_sub i (\<lambda>s. s\<lparr>sub_status := ''deleted''\<rparr>))"
    "\<And>i. stmt_keeps I (revoke_keys i)" "\<And>i j. stmt_keeps I (assign_sub i j)"
    "\<And>i j k l t. stmt_keeps I (insert_migration i j k l t)"
  shows "keeps (on_db I) (Persist p c)" "keeps (on_db I) (SoftDelete i j)"
    "keeps (on_db I) (MigrateServer (api_vpn cfg cipher cidrs) i reason)"
proof -
  show "keeps (on_db I) (Persist p c)"
    unfolding Persist_def by (intro keeps_intro assms)
  show "keeps (on_db I) (SoftDelete i j)"
    unfolding SoftDelete_def Let_def case_prod_beta by (intro keeps_intro assms)
  have "keeps (on_db I) (Reassign p c k old reason)" for p c k old
    unfolding Reassign_def next_version_def by (intro keeps_intro assms)
  moreover have "vs_provisioner (api_vpn cfg cipher cidrs) =
      NewProvisioner (cfg_ProvisionerMode cfg) (cfg_ProvisionerAgentToken cfg)"
    by (simp add: api_vpn_def NewVPNService_def)
  ultimately show "keeps (on_db I) (MigrateServer (api_vpn cfg cipher cidrs) i reason)"
    by (rule selected.MigrateServer_keeps [rotated])
qed

lemma billing_laws_from_statements:
  assumes "\<And>n. stmt_keeps I (insert_order n)" "\<And>p. stmt_keeps I (use_promo p)"
    "\<And>p u i. stmt_keeps I (insert_redemption p u i)"
    "\<And>i g x st a c l. stmt_keeps I (insert_payment i g x st a c l)"
    "\<And>i. stmt_keeps I (claim_order i)" "\<And>i sid. stmt_keeps I (mark_paid i sid)"
    "\<And>i. stmt_keeps I (set_payments i ''success'')" "\<And>i. stmt_keeps I (set_payments i ''failed'')"
    "\<And>u t a c rt ri ph h. stmt_keeps I (insert_ledger u t a c rt ri ph h)"
    "\<And>i. stmt_keeps I (fail_order i)" "\<And>g x st pl. stmt_keeps I (upsert_webhook g x st pl)"
    "\<And>g x. stmt_keeps I (stamp_webhook g x)"
  shows "keeps (on_db I) (CreateOrder n)" "keeps (on_db I) (CreatePayment i g x st a c l)"
    "keeps (on_db I) (ClaimForProvisioning i)" "keeps (on_db I) (FinalizePaid i sid)"
    "keeps (on_db I) (MarkFailed i)" "keeps (on_db I) (RecordWebhook g x st b)"
    "keeps (on_db I) (MarkWebhookProcessed g x)"
  unfolding CreateOrder_def redeem_def CreatePayment_def ClaimForProvisioning_def FinalizePaid_def
    appendLedger_def MarkFailed_def RecordWebhook_def MarkWebhookProcessed_def Let_def
  by (intro keeps_intro assms)+

section \<open>Enums\<close>

definition order_statuses :: "string list" where
  "order_statuses = [''wait_payment'', ''processing'', ''paid'', ''failed'']"

definition sub_statuses :: "string list" where
  "sub_statuses = [''active'', ''expired'', ''deleted'']"

definition enums_ok :: "db \<Rightarrow> bool" where
  "enums_ok d \<longleftrightarrow> list_all (\<lambda>r. o_status r \<in> set order_statuses) (orders d) \<and>
     list_all (\<lambda>r. sub_status r \<in> set sub_statuses) (subscriptions d) \<and>
     list_all (\<lambda>k. k_status k = ''active'' \<or> k_status k = ''revoked'') (vpn_keys d)"

lemma enums_vpn:
  "stmt_keeps enums_ok (insert_subscription p)" "stmt_keeps enums_ok (insert_config p c i v)"
  "stmt_keeps enums_ok (insert_key p c)" "stmt_keeps enums_ok (set_server i f)"
  "stmt_keeps enums_ok (set_sub i (\<lambda>s. s\<lparr>sub_status := ''deleted''\<rparr>))"
  "stmt_keeps enums_ok (revoke_keys i)" "stmt_keeps enums_ok (assign_sub i j)"
  "stmt_keeps enums_ok (insert_migration i j k l t)"
  by (auto simp: stmt_keeps_def stmt_defs enums_ok_def sub_statuses_def list_all_iff
      set_update_where Let_def split: if_splits option.splits sum.splits)

lemma enums_billing:
  "stmt_keeps enums_ok (insert_order n)" "stmt_keeps enums_ok (use_promo pr)"
  "stmt_keeps enums_ok (insert_redemption p u i)"
  "stmt_keeps enums_ok (insert_payment i g x st a c l)" "stmt_keeps enums_ok (claim_order i)"
  "stmt_keeps enums_ok (mark_paid i sid)" "stmt_keeps enums_ok (set_payments i s)"
  "stmt_keeps enums_ok (insert_ledger u t a c rt ri ph h)" "stmt_keeps enums_ok (fail_order i)"
  "stmt_keeps enums_ok (upsert_webhook g x st pl)" "stmt_keeps enums_ok (stamp_webhook g x)"
  "stmt_keeps enums_ok (extend_sub sid days)" "stmt_keeps enums_ok (expire_subs grace)"
  by (auto simp: stmt_keeps_def enums_ok_def order_statuses_def sub_statuses_def list_all_iff
      insert_order_def OrderWaitPayment_def use_promo_def insert_redemption_def insert_payment_def
      claim_order_def mark_paid_def update_order_def set_payments_def modify_def insert_ledger_def
      fail_order_def upsert_webhook_def stamp_webhook_def extend_sub_def expire_subs_def
      set_update_where Let_def
      split: option.splits if_splits)

lemma enums_core:
  "stmt_keeps enums_ok (insert_user g)" "stmt_keeps enums_ok (insert_profile i fn sn)"
  "stmt_keeps enums_ok (insert_session i h ua ip expiry)" "stmt_keeps enums_ok (revoke_where Q)"
  "stmt_keeps enums_ok (set_profile i u)" "stmt_keeps enums_ok (upsert_device i du)"
  "stmt_keeps enums_ok (delete_device i j)" "stmt_keeps enums_ok (insert_promo code ptype disc mx)"
  "stmt_keeps enums_ok (insert_audit i action ot oi)"
  by (rule stmt_frame [where F = core_frame], rule core_frame_stmts,
      (simp add: core_frame_def enums_ok_def))+

interpretation typed: platform_invariant enums_ok
  by unfold_locales
    (rule enums_core vpn_laws_from_statements billing_laws_from_statements enums_vpn enums_billing |
      simp add: enums_ok_def)+

text \<open>
  C9. Over any run of the program the status of every order, subscription and key is one of the values
  the code names.
\<close>

theorem statuses_stay_typed:
  assumes "platform_run cfg cipher cidrs zone pages w w'" "enums_ok (w_db w)"
  shows "enums_ok (w_db w')"
  using assms by (rule typed.platform_run_keeps)

section \<open>Deliveries\<close>

text \<open>A paid order has the subscription it paid for.\<close>

definition delivered :: "db \<Rightarrow> bool" where
  "delivered d \<longleftrightarrow> (\<forall>r \<in> set (orders d). o_status r = ''paid'' \<longrightarrow>
     (\<exists>i. o_subscription_id r = Some i \<and> i \<in> sub_id ` set (subscriptions d)))"

lemma delivered_grow:
  assumes "delivered d" "orders d' = orders d"
    "sub_id ` set (subscriptions d) \<subseteq> sub_id ` set (subscriptions d')"
  shows "delivered d'"
  unfolding delivered_def assms(2)
proof (intro ballI impI)
  fix r assume "r \<in> set (orders d)" "o_status r = ''paid''"
  with assms(1) obtain i where "o_subscription_id r = Some i" "i \<in> sub_id ` set (subscriptions d)"
    unfolding delivered_def by blast
  with assms(3) show "\<exists>i. o_subscription_id r = Some i \<and> i \<in> sub_id ` set (subscriptions d')"
    by blast
qed

lemma image_update_where: "(\<And>r. key (f r) = key r) \<Longrightarrow> key ` set (update_where P f rows) = key ` set rows"
  by (metis list.set_map map_update_where_same)

lemma delivered_by_growth:
  assumes "\<And>now fresh d x d'. st now fresh d = Inr (x, d') \<Longrightarrow> orders d' = orders d \<and>
    sub_id ` set (subscriptions d) \<subseteq> sub_id ` set (subscriptions d')"
  shows "stmt_keeps delivered st"
  unfolding stmt_keeps_def
proof (intro allI impI)
  fix now fresh d x d' assume d: "delivered d" and st: "st now fresh d = Inr (x, d')"
  note grow = assms [OF st]
  show "delivered d'" by (rule delivered_grow [OF d conjunct1 [OF grow] conjunct2 [OF grow]])
qed

lemma delivered_vpn:
  "stmt_keeps delivered (insert_subscription p)" "stmt_keeps delivered (insert_config p c i v)"
  "stmt_keeps delivered (insert_key p c)" "stmt_keeps delivered (set_server i f)"
  "stmt_keeps delivered (set_sub i (\<lambda>s. s\<lparr>sub_status := ''deleted''\<rparr>))"
  "stmt_keeps delivered (revoke_keys i)" "stmt_keeps delivered (assign_sub i j)"
  "stmt_keeps delivered (insert_migration i j k l t)"
  by (rule delivered_by_growth;
      auto simp: stmt_defs image_update_where Let_def split: if_splits option.splits sum.splits)+

lemma delivered_billing:
  "stmt_keeps delivered (use_promo pr)" "stmt_keeps delivered (insert_redemption p u i)"
  "stmt_keeps delivered (insert_payment i g x st a c l)" "stmt_keeps delivered (set_payments i s)"
  "stmt_keeps delivered (insert_ledger u t a c rt ri ph h)"
  "stmt_keeps delivered (upsert_webhook g x st pl)" "stmt_keeps delivered (stamp_webhook g x)"
  "stmt_keeps delivered (extend_sub sid days)" "stmt_keeps delivered (expire_subs grace)"
  by (rule delivered_by_growth;
      auto simp: use_promo_def insert_redemption_def insert_payment_def set_payments_def modify_def
        insert_ledger_def upsert_webhook_def stamp_webhook_def extend_sub_def expire_subs_def
        image_update_where Let_def split: option.splits if_splits)+

lemma delivered_orders:
  "stmt_keeps delivered (insert_order n)" "stmt_keeps delivered (claim_order i)"
  "stmt_keeps delivered (mark_paid i sid)" "stmt_keeps delivered (fail_order i)"
proof -
  show "stmt_keeps delivered (insert_order n)" "stmt_keeps delivered (claim_order i)"
    "stmt_keeps delivered (fail_order i)"
    by (auto simp: stmt_keeps_def delivered_def insert_order_def OrderWaitPayment_def claim_order_def
        update_order_def fail_order_def modify_def set_update_where Let_def
        split: option.splits if_splits)
  show "stmt_keeps delivered (mark_paid i sid)"
  proof (unfold stmt_keeps_def, intro allI impI)
    fix now fresh d x d'
    assume d: "delivered d" "mark_paid i sid now fresh d = Inr (x, d')"
    have "sid \<in> sub_id ` set (subscriptions d)" if "r \<in> set (orders d)" "o_id r = i"
        "o_status r \<in> {''wait_payment'', ''processing''}" for r
      using d(2) that by (auto simp: mark_paid_def has_key_iff fk_ok_def split: if_splits)
    with d show "delivered d'"
      by (auto simp: delivered_def mark_paid_def update_order_def set_update_where Let_def
          split: option.splits if_splits)
  qed
qed

lemma delivered_core:
  "stmt_keeps delivered (insert_user g)" "stmt_keeps delivered (insert_profile i fn sn)"
  "stmt_keeps delivered (insert_session i h ua ip expiry)" "stmt_keeps delivered (revoke_where Q)"
  "stmt_keeps delivered (set_profile i u)" "stmt_keeps delivered (upsert_device i du)"
  "stmt_keeps delivered (delete_device i j)" "stmt_keeps delivered (insert_promo code ptype disc mx)"
  "stmt_keeps delivered (insert_audit i action ot oi)"
  by (rule stmt_frame [where F = core_frame], rule core_frame_stmts,
      (simp add: core_frame_def delivered_def))+

interpretation deliveries: platform_invariant delivered
  by unfold_locales
    (rule delivered_core vpn_laws_from_statements billing_laws_from_statements delivered_vpn
        delivered_billing delivered_orders | simp add: delivered_def)+


end
