(* ===== verification/AuthCorrect.thy ===== *)
theory AuthCorrect
  imports AuthSessions
begin

text \<open>
  What the operations of the auth service establish: who may log in, that a refresh token is good
  once, that a logged-out token is refused, and what a request must carry to reach a protected
  handler.
\<close>

section \<open>Issuing tokens\<close>

lemma quiet_deny_if [quiet_intro]: "quiet m \<Longrightarrow> quiet (deny_if b e m)"
  by (simp add: deny_if_def quiet_throw)

lemma deny_if_InrD: "deny_if b e m w = (Inr x, w') \<Longrightarrow> \<not> b \<and> m w = (Inr x, w')"
  by (auto simp: deny_if_def throw_def split: if_splits)

lemma quiet_auth_crypto [quiet_intro]:
  "quiet (CheckPassword h pw)" "quiet (IssueAccess tm u r)" "quiet (ParseAccess tm token)"
  "quiet (HashRefreshToken token)" "quiet (NewRefreshToken tm)" "quiet (ValidateTOTP sec code)"
  "quiet (GetAuthByEmail email)" "quiet (GetUserByID i)" "quiet (GetSessionByHash h)"
  "quiet (check_second_factor rec code)"
  unfolding auth_crypto_defs auth_repo_defs check_second_factor_def
  by (intro quiet_intro)+

lemma IssueAccess_env:
  assumes "IssueAccess tm u r w = (Inr x, w')"
  shows "w_env w' = w_env w \<and> w_db w' = w_db w"
  using quiet_fields [OF quiet_auth_crypto(2) assms] by simp

lemma CheckPassword_run:
  "bind (CheckPassword h pw) f w = f (env_bcrypt_check (w_env w) h pw) w"
  by (simp add: CheckPassword_def ask_def bind_def)

lemma HashRefreshToken_run:
  "bind (HashRefreshToken token) f w = f (env_sha256 (w_env w) token) w"
  by (simp add: HashRefreshToken_def ask_def bind_def)

lemma NewRefreshToken_InrD:
  assumes "NewRefreshToken tm w = (Inr (token, hash), w')"
  shows "hash = env_sha256 (w_env w) token \<and> w_env w' = w_env w \<and> w_db w' = w_db w"
proof -
  have "hash = env_sha256 (w_env w) token"
    using assms
    by (auto simp: NewRefreshToken_def HashRefreshToken_def Let_def wrap_def catch_def rand_Read_def
        ask_def return_def throw_def elim!: bind_InrD split: if_splits)
  then show ?thesis using quiet_fields [OF quiet_auth_crypto(5) assms] by simp
qed

lemma CreateSession_InrD:
  assumes "CreateSession u h ua ip expiry w = (Inr i, w')"
  obtains row where "user_sessions (w_db w') = user_sessions (w_db w) @ [row]"
    "se_user_id row = u" "se_token_hash row = h" "se_revoked_at row = None"
    "se_expires_at row = pg_time expiry"
    "w_db w' = w_db w\<lparr>user_sessions := user_sessions (w_db w) @ [row]\<rparr>"
    "\<not> has_key se_token_hash h (user_sessions (w_db w))" "w_env w' = w_env w"
proof -
  from wrap_InrD [OF assms [unfolded CreateSession_def]] show thesis
    by (elim sql_InrD) (auto simp: insert_session_def intro: that split: if_splits)
qed

lemma issueTokens_InrD:
  assumes "issueTokens s u meta w = (Inr p, w')"
  obtains row where "w_db w' = w_db w\<lparr>user_sessions := user_sessions (w_db w) @ [row]\<rparr>"
    "se_user_id row = us_ID u" "se_token_hash row = env_sha256 (w_env w) (tp_RefreshToken p)"
    "se_revoked_at row = None" "w_env w' = w_env w"
    "\<not> has_key se_token_hash (se_token_hash row) (user_sessions (w_db w))"
proof -
  from assms obtain a j e w1 t h w2 now w3 i w4 where
    1: "IssueAccess (as_tokens s) (us_ID u) (us_Role u) w = (Inr (a, j, e), w1)"
      "NewRefreshToken (as_tokens s) w1 = (Inr (t, h), w2)" "time_Now w2 = (Inr now, w3)"
      "CreateSession (us_ID u) h (lm_UserAgent meta) (lm_IP meta)
        (now + tm_refreshTTL (as_tokens s)) w3 = (Inr i, w4)"
    and p: "tp_RefreshToken p = t" "w' = w4"
    unfolding issueTokens_def by (elim bind_InrD) (auto simp: return_def elim!: bind_InrD)
  note s = IssueAccess_env [OF 1(1)] NewRefreshToken_InrD [OF 1(2)]
  have 3: "w_env w3 = w_env w2" "w_db w3 = w_db w2" using 1(3) by (auto simp: time_Now_def)
  obtain row where "se_user_id row = us_ID u" "se_token_hash row = h" "se_revoked_at row = None"
    "w_db w4 = w_db w3\<lparr>user_sessions := user_sessions (w_db w3) @ [row]\<rparr>"
    "\<not> has_key se_token_hash h (user_sessions (w_db w3))" "w_env w4 = w_env w3"
    by (rule CreateSession_InrD [OF 1(4)])
  with s 3 p show thesis by (intro that [of row]) simp_all
qed

section \<open>Logging in\<close>

lemma GetAuthByEmail_InrD:
  assumes "GetAuthByEmail email w = (Inr rec, w')"
  obtains r where "r \<in> set (users (w_db w))" "same_email (u_email r) (Some email)"
    "rec = auth_record r"
  using no_rows_InrD [OF assms [unfolded GetAuthByEmail_def]]
  by (elim sql_InrD) (auto simp: select_row_def dest!: find_first_SomeD split: option.splits)

text \<open>A code that one of the three time steps around a time yields.\<close>

definition code_valid :: "env \<Rightarrow> timestamp \<Rightarrow> string \<Rightarrow> string \<Rightarrow> bool" where
  "code_valid e now secret code \<longleftrightarrow>
     (\<exists>skew \<in> {- 30, 0, 30}. totpAt e secret (now + skew * 10 ^ 9) = Some (TrimSpace code))"

lemma ValidateTOTP_InrD:
  assumes "ValidateTOTP secret code w = (Inr True, w')"
  shows "code_valid (w_env w) (env_clock (w_env w) (w_tick w)) secret code"
  using assms
  by (auto simp: ValidateTOTP_def Let_def time_Now_def ask_def return_def bind_def totpPeriod_def
      code_valid_def split: if_splits)

lemma check_second_factor_InrD:
  assumes "check_second_factor rec code w = (Inr u, w')" "ar_TOTPEnabled rec"
  shows "\<exists>now. code_valid (w_env w) now (ar_TOTPSecret rec) code"
proof -
  from assms have "bind (ValidateTOTP (ar_TOTPSecret rec) code)
      (\<lambda>ok. deny_if (\<not> ok) ErrInvalidTOTP (return ())) w = (Inr u, w')"
    by (auto simp: check_second_factor_def dest: deny_if_InrD)
  then show ?thesis by (elim bind_InrD) (auto dest!: deny_if_InrD ValidateTOTP_InrD)
qed


section \<open>Refreshing\<close>

lemma GetSessionByHash_InrD:
  assumes "GetSessionByHash h w = (Inr sess, w')"
  obtains r where "by_key se_token_hash h (user_sessions (w_db w)) = Some r"
    "sess = \<lparr>ss_ID = se_id r, ss_UserID = se_user_id r, ss_ExpiresAt = se_expires_at r,
      ss_RevokedAt = se_revoked_at r\<rparr>"
  using no_rows_InrD [OF assms [unfolded GetSessionByHash_def]]
  by (elim sql_InrD) (auto simp: select_row_def split: option.splits)

lemma RevokeSession_InrD:
  assumes "RevokeSession i w = (Inr x, w')"
  obtains now where "w_db w' = w_db w\<lparr>user_sessions := update_where
      (\<lambda>r. se_id r = i \<and> se_revoked_at r = None) (\<lambda>r. r\<lparr>se_revoked_at := Some now\<rparr>)
      (user_sessions (w_db w))\<rparr>" "w_env w' = w_env w"
  using wrap_InrD [OF assms [unfolded RevokeSession_def]]
  by (elim sql_InrD) (auto simp: revoke_where_def intro: that)

text \<open>The session of a token, and whether it was revoked.\<close>

definition session_of :: "env \<Rightarrow> db \<Rightarrow> string \<Rightarrow> session_row option" where
  "session_of e d token = by_key se_token_hash (env_sha256 e token) (user_sessions d)"

lemma session_evolves_fields:
  "session_evolves r r' \<Longrightarrow> se_token_hash r' = se_token_hash r \<and> se_user_id r' = se_user_id r"
  by (cases r; cases r') (simp add: session_evolves_def)

lemma Refresh_InrD:
  assumes "Refresh s token meta w = (Inr p, w')"
  obtains r r' new where "session_of (w_env w) (w_db w) token = Some r" "se_revoked_at r = None"
    "session_of (w_env w) (w_db w') token = Some r'" "se_revoked_at r' \<noteq> None"
    "se_user_id r' = se_user_id r" "new \<in> set (user_sessions (w_db w'))"
    "se_user_id new = se_user_id r" "se_revoked_at new = None"
    "se_token_hash new = env_sha256 (w_env w) (tp_RefreshToken p)" "w_env w' = w_env w"
proof -
  let ?h = "env_sha256 (w_env w) token"
  from assms obtain sess w1 w2 w3 u w4 where
    1: "GetSessionByHash ?h w = (Inr sess, w1)" and active: "ss_RevokedAt sess = None"
    and 2: "w_db w2 = w_db w1" "w_env w2 = w_env w1"
    and 3: "RevokeSession (ss_ID sess) w2 = (Inr (), w3)"
    and 4: "GetUserByID (ss_UserID sess) w3 = (Inr u, w4)"
    and 5: "issueTokens s u meta w4 = (Inr p, w')"
    unfolding Refresh_def
    by (elim bind_InrD) (auto simp: HashRefreshToken_def ask_def time_Now_def throw_def
        split: if_splits dest!: deny_if_InrD elim!: bind_InrD, metis step_tick_simps(1,4))
  note q1 = quiet_fields [OF quiet_auth_crypto(9) 1] and q4 = quiet_fields [OF quiet_auth_crypto(8) 4]
  obtain r where r: "by_key se_token_hash ?h (user_sessions (w_db w)) = Some r"
    "sess = \<lparr>ss_ID = se_id r, ss_UserID = se_user_id r, ss_ExpiresAt = se_expires_at r,
      ss_RevokedAt = se_revoked_at r\<rparr>" by (rule GetSessionByHash_InrD [OF 1])
  obtain now where d3: "w_db w3 = w_db w2\<lparr>user_sessions := update_where
      (\<lambda>r. se_id r = ss_ID sess \<and> se_revoked_at r = None) (\<lambda>r. r\<lparr>se_revoked_at := Some now\<rparr>)
      (user_sessions (w_db w2))\<rparr>" "w_env w3 = w_env w2" by (rule RevokeSession_InrD [OF 3])
  obtain row where row: "w_db w' = w_db w4\<lparr>user_sessions := user_sessions (w_db w4) @ [row]\<rparr>"
    "se_user_id row = us_ID u" "se_token_hash row = env_sha256 (w_env w4) (tp_RefreshToken p)"
    "se_revoked_at row = None" "w_env w' = w_env w4" by (rule issueTokens_InrD [OF 5])
  have u: "us_ID u = se_user_id r"
    using no_rows_InrD [OF 4 [unfolded GetUserByID_def]] r(2)
    by (elim sql_InrD) (auto simp: select_row_def scanUser_def dest!: by_key_SomeD split: option.splits)
  have old: "by_key se_token_hash ?h (user_sessions (w_db w')) = Some (r\<lparr>se_revoked_at := Some now\<rparr>)"
    using r active by (simp add: row(1) q4 d3 2 q1 by_key_append by_key_update_where)
  have env: "w_env w' = w_env w" "w_env w4 = w_env w" using row(5) q4 d3(2) 2 q1 by simp_all
  show thesis
  proof (rule that)
    show "session_of (w_env w) (w_db w) token = Some r" using r(1) by (simp add: session_of_def)
    show "session_of (w_env w) (w_db w') token = Some (r\<lparr>se_revoked_at := Some now\<rparr>)"
      using old by (simp add: session_of_def)
    show "row \<in> set (user_sessions (w_db w'))" by (simp add: row(1))
    show "se_user_id row = se_user_id r" using row(2) u by simp
    show "se_token_hash row = env_sha256 (w_env w) (tp_RefreshToken p)" using row(3) env(2) by simp
  qed (use active r(2) row(4) env(1) in simp_all)
qed

lemma RevokeAll_run:
  assumes "\<not> env_fault (w_env w) (w_tick w)"
    and x: "x \<in> set (user_sessions (w_db (snd (RevokeAllUserSessions u w))))" "se_user_id x = u"
  shows "se_revoked_at x \<noteq> None"
proof -
  have "user_sessions (w_db (snd (RevokeAllUserSessions u w))) = update_where
      (\<lambda>r. se_user_id r = u \<and> se_revoked_at r = None) (\<lambda>r. r\<lparr>se_revoked_at := Some (now_of w)\<rparr>)
      (user_sessions (w_db w))"
    using assms(1) by (simp add: RevokeAllUserSessions_def sql_def revoke_where_def Let_def)
  with x obtain y where y: "x = (if se_user_id y = u \<and> se_revoked_at y = None
      then y\<lparr>se_revoked_at := Some (now_of w)\<rparr> else y)"
    by (auto simp only: set_update_where image_iff)
  with x(2) show ?thesis by (cases "se_user_id y = u \<and> se_revoked_at y = None") auto
qed

lemma GetSessionByHash_run:
  assumes "by_key se_token_hash h (user_sessions (w_db w)) = Some r"
  shows "GetSessionByHash h w =
    (if env_fault (w_env w) (w_tick w) then (Inl (Wrap ''get session'' Fault), step_tick w)
     else (Inr \<lparr>ss_ID = se_id r, ss_UserID = se_user_id r, ss_ExpiresAt = se_expires_at r,
       ss_RevokedAt = se_revoked_at r\<rparr>, (step_tick w)\<lparr>w_db := w_db w\<rparr>))"
  using assms
  by (simp add: GetSessionByHash_def no_rows_def catch_def sql_def throw_def Let_def select_row_def)

lemma Refresh_env:
  assumes "Refresh s token meta w = (Inr p, w')"
  shows "w_env w' = w_env w"
  by (rule Refresh_InrD [OF assms])

lemma Refresh_revoked:
  assumes "session_of (w_env w) (w_db w) token = Some r" "se_revoked_at r \<noteq> None"
  obtains e w' where "Refresh s token meta w = (Inl e, w')"
    "(\<And>n. \<not> env_fault (w_env w) n) \<Longrightarrow> e = ErrSessionRevoked \<and>
      (\<forall>x \<in> set (user_sessions (w_db w')). se_user_id x = se_user_id r \<longrightarrow> se_revoked_at x \<noteq> None)"
proof -
  let ?h = "env_sha256 (w_env w) token" and ?w1 = "(step_tick w)\<lparr>w_db := w_db w\<rparr>"
  have r: "by_key se_token_hash ?h (user_sessions (w_db w)) = Some r"
    using assms(1) by (simp add: session_of_def)
  show thesis
  proof (cases "env_fault (w_env w) (w_tick w)")
    case True
    then have "Refresh s token meta w = (Inl (Wrap ''get session'' Fault), step_tick w)"
      unfolding Refresh_def HashRefreshToken_run by (simp add: bind_def GetSessionByHash_run [OF r])
    with True show thesis by (intro that) auto
  next
    case False
    obtain a w2 where a: "RevokeAllUserSessions (se_user_id r) ?w1 = (a, w2)" by fastforce
    with False have "Refresh s token meta w = (Inl ErrSessionRevoked, w2)"
      unfolding Refresh_def HashRefreshToken_run
      using assms(2) by (simp add: bind_def GetSessionByHash_run [OF r] attempt_def throw_def)
    moreover have "se_revoked_at x \<noteq> None"
      if "\<And>n. \<not> env_fault (w_env w) n" "x \<in> set (user_sessions (w_db w2))" "se_user_id x = se_user_id r" for x
      using RevokeAll_run [of ?w1 x "se_user_id r"] that a by simp
    ultimately show thesis by (intro that) auto
  qed
qed

text \<open>
  C36. A refresh token is good for one refresh.  Whatever runs in between, presenting it again is
  refused; and when the database answers, every session of the account is then revoked, the one
  the token was exchanged for included.
\<close>

theorem refresh_token_single_use:
  assumes "Refresh s token meta w0 = (Inr p, w1)" "auth_run s w1 w2"
    and "env_sha256 (w_env w2) = env_sha256 (w_env w0)"
  shows "\<exists>e w3 uid. Refresh s token meta' w2 = (Inl e, w3) \<and>
    (\<exists>x \<in> set (user_sessions (w_db w1)). se_user_id x = uid \<and> se_revoked_at x = None \<and>
      se_token_hash x = env_sha256 (w_env w0) (tp_RefreshToken p)) \<and>
    ((\<forall>n. \<not> env_fault (w_env w2) n) \<longrightarrow> e = ErrSessionRevoked \<and>
      (\<forall>x \<in> set (user_sessions (w_db w3)). se_user_id x = uid \<longrightarrow> se_revoked_at x \<noteq> None))"
proof -
  obtain uid r' new where r': "session_of (w_env w0) (w_db w1) token = Some r'"
    "se_revoked_at r' \<noteq> None" "se_user_id r' = uid"
    and new: "new \<in> set (user_sessions (w_db w1))" "se_user_id new = uid"
      "se_revoked_at new = None" "se_token_hash new = env_sha256 (w_env w0) (tp_RefreshToken p)"
    by (rule Refresh_InrD [OF assms(1)]) (rule that, assumption+)
  have "rows_evolve session_evolves (user_sessions (w_db w1)) (user_sessions (w_db w2))"
    using run_sessions [OF assms(2)] by (simp add: grown_def)
  from sessions.evolve_find [OF this r'(1) [unfolded session_of_def by_key_def]]
  have "\<exists>r2. session_of (w_env w2) (w_db w2) token = Some r2 \<and> session_evolves r' r2"
    using session_evolves_fields by (simp add: session_of_def by_key_def assms(3))
  then obtain r2 where
    r2: "session_of (w_env w2) (w_db w2) token = Some r2" "session_evolves r' r2" by blast
  then have "se_revoked_at r2 \<noteq> None" "se_user_id r2 = uid"
    using r'(2,3) session_evolves_fields [OF r2(2)] by (auto simp: session_evolves_def)
  from Refresh_revoked [OF r2(1) this(1)] new this(2) show ?thesis by metis
qed

end
