(* ===== verification/AuthGuard.thy ===== *)
theory AuthGuard
  imports AuthCorrect
begin

text \<open>
  What guards the endpoints: authentication with the role check, the blacklist of logged-out
  tokens, the rate limiter, and the signature of a Telegram login.
\<close>

section \<open>Authentication\<close>

lemma quiet_redis_read [quiet_intro]:
  "quiet (redis_Exists k)" "quiet (redis_TTL k)" "quiet (redis_Get k)"
  by (simp_all add: quiet_def redis_Exists_def redis_TTL_def redis_Get_def redis_cmd_def same_state_def)

lemma quiet_IsBlacklisted [quiet_intro]: "quiet (IsBlacklisted jti)"
  unfolding IsBlacklisted_def by (intro quiet_intro)

lemma IsBlacklisted_InrD:
  assumes "IsBlacklisted jti w = (Inr b, w')"
  shows "b \<longleftrightarrow> redis_lookup (env_clock (w_env w) (w_tick w)) (blacklistKey jti) (w_redis w) \<noteq> None"
proof -
  from assms obtain n where n: "redis_Exists (blacklistKey jti) w = (Inr n, w')" "b = (n > 0)"
    unfolding IsBlacklisted_def by (elim bind_InrD) (auto dest!: wrap_InrD simp: return_def)
  then show ?thesis
    by (auto simp: redis_Exists_def redis_cmd_def split: if_splits option.splits)
qed

lemma ParseAccess_InrD:
  assumes "ParseAccess tm token w = (Inr c, w')"
  shows "env_jwt_parse (w_env w) (tm_secret tm) (env_clock (w_env w) (w_tick w)) token = Some c"
  using assms
  by (auto simp: ParseAccess_def time_Now_def bind_def ask_def throw_def return_def
      split: option.splits)


lemma guarded_cases:
  obtains w1 code msg where "same_state w w1" "code \<in> {401, 403, 503}"
    "Authenticate s (RequireRole roles h) r rw w = writeError code msg rw w1"
  | w1 now now' claims uid where "same_state w w1"
    "env_jwt_parse (w_env w) (tm_secret (as_tokens s)) now (bearerToken r) = Some claims"
    "redis_lookup now' (blacklistKey (jc_ID claims)) (w_redis w) = None"
    "jc_Role claims \<in> set roles" "uuid_Parse (jc_Subject claims) = Some uid"
    "Authenticate s (RequireRole roles h) r rw w =
      h (r\<lparr>rq_Principal := Some (principal_of uid claims)\<rparr>) rw w1"
proof (cases "bearerToken r = ''''")
  case True
  show ?thesis by (rule that(1) [of w 401]) (simp_all add: Authenticate_def True)
next
  case False
  obtain p w1 where 1: "ParseAccess (as_tokens s) (bearerToken r) w = (p, w1)" by fastforce
  note q1 = quietD [OF quiet_auth_crypto(3) 1]
  show ?thesis
  proof (cases p)
    case (Inl e)
    show ?thesis by (rule that(1) [of w1 401]) (simp_all add: Authenticate_def False on_result_def 1 Inl q1)
  next
    case (Inr claims)
    obtain b w2 where 2: "IsBlacklisted (jc_ID claims) w1 = (b, w2)" by fastforce
    note q2 = same_state_trans [OF q1 quietD [OF quiet_IsBlacklisted 2]]
    note run = Authenticate_def False on_result_def 1 Inr 2
    show ?thesis
    proof (cases b)
      case (Inl e)
      show ?thesis by (rule that(1) [of w2 503]) (simp_all add: run Inl q2)
    next
      case b: (Inr black)
      show ?thesis
      proof (cases "black \<or> uuid_Parse (jc_Subject claims) = None")
        case True
        show ?thesis
          by (rule that(1) [of w2 401 "if black then ''token revoked'' else ''invalid subject''"])
            (use True in \<open>auto simp: run b q2\<close>)
      next
        case live: False
        then obtain uid where uid: "uuid_Parse (jc_Subject claims) = Some uid" by blast
        have look: "redis_lookup (env_clock (w_env w1) (w_tick w1)) (blacklistKey (jc_ID claims))
            (w_redis w) = None"
          using IsBlacklisted_InrD [OF 2 [unfolded b]] live q1 unfolding same_state_def by metis
        show ?thesis
        proof (cases "jc_Role claims \<in> set roles")
          case True
          show ?thesis
            by (rule that(2) [of w2 _ claims _ uid])
              (use True live uid look ParseAccess_InrD [OF 1 [unfolded Inr]] q2 in
                \<open>auto simp: run b RequireRole_def principal_of_def\<close>)
        next
          case False
          show ?thesis
            by (rule that(1) [of w2 403 "''insufficient role''"])
              (use False live uid q2 in \<open>auto simp: run b RequireRole_def principal_of_def\<close>)
        qed
      qed
    qed
  qed
qed


section \<open>Logout\<close>

lemma redis_ttl_less: "d - 10 ^ 6 < redis_ttl d"
proof -
  have "d = d div 1000000 * 1000000 + d mod 1000000" "d mod 1000000 < 1000000" by simp_all
  then have "d - 1000000 < d div 1000000 * 1000000" by linarith
  then show ?thesis by (simp add: redis_ttl_def less_max_iff_disj)
qed

lemma quiet_revoke_redis: "w_redis (snd (revoke_quietly token w)) = w_redis w"
proof -
  have "w_redis (snd (RevokeSession i w)) = w_redis w" for i w
    by (simp add: RevokeSession_def sql_def revoke_where_def Let_def)
  then show ?thesis
    using quiet_auth_crypto(9) [of "env_sha256 (w_env w) token"]
    unfolding revoke_quietly_def HashRefreshToken_run
    by (auto simp: bind_def attempt_def return_def quiet_def same_state_def
        split: prod.split sum.split) (metis snd_conv)+
qed

lemma Logout_InrD:
  assumes "Logout jti expiry token w = (Inr (), w1)"
    and "0 < expiry - env_clock (w_env w) (w_tick w)"
      "expiry - env_clock (w_env w) (w_tick w) < 2 ^ 63"
  shows "map_of (w_redis w1) (blacklistKey jti) =
    Some (''1'', Some (env_clock (w_env w) (Suc (w_tick w)) +
      redis_ttl (expiry - env_clock (w_env w) (w_tick w))))"
proof -
  let ?d = "expiry - env_clock (w_env w) (w_tick w)"
  have d: "max (- (2 ^ 63)) (min (2 ^ 63 - 1) ?d) = ?d" using assms(2,3) by (simp add: max_def min_def)
  have "bind (time_Until expiry) f w = f ?d (step_tick w)" for f :: "int \<Rightarrow> unit go"
    using d by (simp add: time_Until_def time_Now_def bind_def return_def)
  with assms(1) have "bind (run_if True (wrap ''blacklist token'' (redis_Set (blacklistKey jti) ''1'' ?d)))
      (\<lambda>_. run_if (token \<noteq> '''') (revoke_quietly token)) (step_tick w) = (Inr (), w1)"
    using assms(2) by (simp add: Logout_def)
  then obtain u w2 where 2: "redis_Set (blacklistKey jti) ''1'' ?d (step_tick w) = (Inr u, w2)"
    and 3: "run_if (token \<noteq> '''') (revoke_quietly token) w2 = (Inr (), w1)"
    by (elim bind_InrD) (auto simp: run_if_def dest!: wrap_InrD)
  have "w_redis w1 = w_redis w2"
    using 3 quiet_revoke_redis [of token w2] by (auto simp: run_if_def return_def split: if_splits)
  moreover have "map_of (w_redis w2) (blacklistKey jti) =
      Some (''1'', Some (env_clock (w_env w) (Suc (w_tick w)) + redis_ttl ?d))"
    using 2 assms(2) by (auto simp: redis_Set_def redis_cmd_def redis_put_def split: if_splits)
  ultimately show ?thesis by simp
qed

text \<open>
  C38. After a logout, a request with the logged-out access token is answered 401 and does not reach
  its handler, as long as the entry of the blacklist is kept: until a millisecond before the token
  expires by itself.
\<close>

theorem logout_revokes_token:
  assumes "Logout jti expiry token w = (Inr (), w1)"
    and "0 < expiry - env_clock (w_env w) (w_tick w)"
      "expiry - env_clock (w_env w) (w_tick w) < 2 ^ 63"
      "env_clock (w_env w) (w_tick w) \<le> env_clock (w_env w) (Suc (w_tick w))"
    and kept: "map_of (w_redis w2) (blacklistKey jti) = map_of (w_redis w1) (blacklistKey jti)"
    and token: "bearerToken r \<noteq> ''''" "ParseAccess (as_tokens s) (bearerToken r) w2 = (Inr claims, w3)"
      "jc_ID claims = jti"
    and later: "\<not> env_fault (w_env w3) (w_tick w3)" "env_clock (w_env w3) (w_tick w3) \<le> expiry - 10 ^ 6"
  shows "\<exists>w4. same_state w2 w4 \<and>
    Authenticate s next r rw w2 = writeError 401 ''token revoked'' rw w4"
proof -
  have q: "same_state w2 w3" by (rule quietD [OF quiet_auth_crypto(3) token(2)])
  have "redis_lookup (env_clock (w_env w3) (w_tick w3)) (blacklistKey jti) (w_redis w3) \<noteq> None"
    using Logout_InrD [OF assms(1-3)] kept q later(2) assms(4)
      redis_ttl_less [of "expiry - env_clock (w_env w) (w_tick w)"]
    by (simp add: redis_lookup_def same_state_def alive_def)
  then have b: "IsBlacklisted jti w3 = (Inr True, step_tick w3)"
    using later(1)
    by (auto simp: IsBlacklisted_def bind_def wrap_def catch_def redis_Exists_def redis_cmd_def
        return_def)
  have "Authenticate s next r rw w2 = writeError 401 ''token revoked'' rw (step_tick w3)"
    using token b by (simp add: Authenticate_def on_result_def)
  then show ?thesis using same_state_trans [OF q same_state_step_tick] by blast
qed

end
