(* ===== verification/PlatformCorrect.thy ===== *)
theory PlatformCorrect
  imports PlatformInvariants AuthGuard
begin

text \<open>
  What holds of the whole program: its invariants and histories over any run, and who can change
  the tables through the HTTP server.
\<close>

section \<open>Runs\<close>

text \<open>
  C1. Whatever requests, bot updates, sweeps and migrations happen, in any order and with any
  failures: accounts and sessions stay unique, every server's client count is the number of
  subscriptions it carries and no address is given out twice, and every paid order has exactly
  one charge in the ledger.
\<close>

theorem platform_keeps_invariants:
  assumes "platform_run cfg cipher cidrs zone pages w w'"
    and "accounts_ok (w_db w)" "fleet_ok (w_db w)" "ledger_ok (w_db w)"
  shows "accounts_ok (w_db w') \<and> fleet_ok (w_db w') \<and> ledger_ok (w_db w')"
  using assms(2-4) accounts.platform_run_keeps [OF assms(1)]
    running_fleet.platform_run_keeps [OF assms(1)] running_ledger.platform_run_keeps [OF assms(1)]
  by blast

text \<open>
  Over any run of the program no order is lost, an order moves only along its life cycle (a paid or
  failed one stays as it is), and a session only goes from active to revoked.
\<close>

theorem platform_history:
  assumes "platform_run cfg cipher cidrs zone pages w w'"
  shows "since (w_db w) (w_db w') \<and> sessions_since (w_db w) (w_db w')"
  using order_history.platform_run_keeps [OF assms] session_history.platform_run_keeps [OF assms]
  by (simp add: sessions.grown_refl)

section \<open>The middleware\<close>

text \<open>A request comes through to the mux with its method, path and headers, or is turned away.\<close>

definition passes :: "world \<Rightarrow> world \<Rightarrow> bool" where
  "passes w w' \<longleftrightarrow> w_db w' = w_db w \<and> w_env w' = w_env w"

lemma passes_refl [simp]: "passes w w"
  by (simp add: passes_def)

lemma passes_trans: "passes w1 w2 \<Longrightarrow> passes w2 w3 \<Longrightarrow> passes w1 w3"
  by (simp add: passes_def)

lemma passes_redis:
  "passes w (snd (redis_Incr k w))" "passes w (snd (redis_Expire k d w))"
  "passes w (snd (redis_TTL k w))" "passes w (snd (newID w))"
  by (auto simp: passes_def redis_Incr_def redis_Expire_def redis_TTL_def newID_def redis_cmd_def
      bind_def attempt_def return_def rand_Read_def Let_def split: option.splits sum.splits prod.splits)

lemma passes_bind:
  assumes "\<And>w. passes w (snd (m w))" "\<And>x w. passes w (snd (f x w))"
  shows "passes w (snd (bind m f w))"
proof (cases "m w")
  case (Pair r w1)
  with assms(1) [of w] assms(2) show ?thesis
    by (cases r) (auto simp: bind_def intro: passes_trans)
qed

lemma limiter_passes:
  "(\<exists>w1. passes w w1 \<and> RateLimiter_Middleware scope limit window next r rw w = next r rw w1) \<or>
    passes w (snd (RateLimiter_Middleware scope limit window next r rw w))"
proof -
  let ?k = "rate_key scope r"
  obtain c w1 where 1: "redis_Incr ?k w = (c, w1)" by fastforce
  with passes_redis(1) [of w ?k] have w1: "passes w w1" by simp
  show ?thesis
  proof (cases c)
    case (Inl e)
    with 1 w1 show ?thesis by (auto simp: RateLimiter_Middleware_def on_result_def)
  next
    case (Inr n)
    define oper where "oper = run_if (n = 1) (bind (attempt (redis_Expire ?k window)) (\<lambda>_. return ()))"
    have "passes v (snd (oper v))" for v
      unfolding oper_def run_if_def
      by (auto intro!: passes_bind simp: passes_redis return_def)
    moreover obtain u w2 where 2: "oper w1 = (u, w2)" by fastforce
    ultimately have w2: "passes w w2" using w1 passes_trans by (metis snd_conv)
    have run: "RateLimiter_Middleware scope limit window next r rw w =
        (case u of Inl e \<Rightarrow> (rw, w2)
         | Inr _ \<Rightarrow> (if n > limit then too_many window ?k else next r) rw w2)"
      using 1 2 Inr by (simp add: RateLimiter_Middleware_def on_result_def oper_def split: sum.split)
    have "passes w (snd (too_many window ?k rw w2))"
      using passes_trans [OF w2 passes_redis(3) [of w2 ?k]]
      by (auto simp: too_many_def on_result_def catch_def return_def writeError_def writeJSON_def
          split: sum.split prod.split)
    with run w2 show ?thesis by (cases u) auto
  qed
qed

text \<open>The request as the mux sees it.\<close>

definition same_request :: "request \<Rightarrow> request \<Rightarrow> bool" where
  "same_request r r' \<longleftrightarrow> rq_Method r' = rq_Method r \<and> rq_Path r' = rq_Path r \<and>
     rq_Header r' = rq_Header r"

lemma newID_Inr: "\<exists>i w1. newID w = (Inr i, w1) \<and> passes w w1"
  using passes_redis(4) [of w]
  by (auto simp: newID_def bind_def attempt_def return_def split: prod.splits)

lemma server_passes:
  "(\<exists>r' rw' w1. passes w w1 \<and> same_request r r' \<and> api_server cfg cipher cidrs pages r rw w =
      Mux (api_routes cfg cipher cidrs pages) r' rw' w1) \<or>
    passes w (snd (api_server cfg cipher cidrs pages r rw w))"
proof -
  define inner where "inner = SecurityHeaders (RateLimiter_Middleware ''global'' 600 minute
    (Mux (api_routes cfg cipher cidrs pages)))"
  have server: "api_server cfg cipher cidrs pages = RequestID inner"
    by (simp add: api_server_def inner_def)
  obtain i rw1 w1 where 1: "passes w w1" "RequestID inner r rw w = inner (r\<lparr>rq_RequestID := i\<rparr>) rw1 w1"
  proof (cases "Header_Get r ''X-Request-Id'' = ''''")
    case True
    obtain i w1 where "newID w = (Inr i, w1)" "passes w w1" using newID_Inr by blast
    with True that show ?thesis by (auto simp: RequestID_def Let_def on_result_def)
  next
    case False
    show ?thesis
      by (rule that [OF passes_refl]) (use False in \<open>simp add: RequestID_def Let_def\<close>)
  qed
  have same: "same_request r (r\<lparr>rq_RequestID := i\<rparr>)" by (simp add: same_request_def)
  define rw2 where "rw2 = fold (\<lambda>(k, v). set_header k v) security_headers rw1"
  have run: "api_server cfg cipher cidrs pages r rw w = RateLimiter_Middleware ''global'' 600 minute
      (Mux (api_routes cfg cipher cidrs pages)) (r\<lparr>rq_RequestID := i\<rparr>) rw2 w1"
    unfolding server 1(2) by (simp add: inner_def SecurityHeaders_def rw2_def)
  show ?thesis
    using limiter_passes [of w1 "''global''" 600 minute "Mux (api_routes cfg cipher cidrs pages)"
        "r\<lparr>rq_RequestID := i\<rparr>" rw2] passes_trans [OF 1(1)] same
    unfolding run by blast
qed

section \<open>Anonymous requests\<close>

text \<open>The endpoints that take no token and write: those that give tokens, and the webhooks.\<close>

definition public_write :: "string list \<Rightarrow> bool" where
  "public_write p \<longleftrightarrow>
     p \<in> {[''api'', ''v1'', ''auth'', x] |x. x \<in> {''register'', ''login'', ''telegram'', ''refresh''}} \<or>
     (\<exists>g. p = [''api'', ''v1'', ''billing'', ''webhook'', g])"

lemma match_iff:
  "match_segments [] p = Some vs \<longleftrightarrow> p = [] \<and> vs = []"
  "match_segments (Lit s # ps) p = Some vs \<longleftrightarrow> (\<exists>xs. p = s # xs \<and> match_segments ps xs = Some vs)"
  "match_segments (Wild n # ps) p = Some vs \<longleftrightarrow> (\<exists>x xs us. p = x # xs \<and> x \<noteq> '''' \<and>
     vs = (n, x) # us \<and> match_segments ps xs = Some us)"
  "match_segments [Rest] p = Some vs \<longleftrightarrow> p \<noteq> [] \<and> vs = []"
  by ((cases p, auto)[1], (cases p, auto)[1], (cases p, auto)[1], (cases p, auto)[1])

text \<open>A handler that leaves the tables alone.\<close>

definition harmless :: "serve \<Rightarrow> bool" where
  "harmless s \<longleftrightarrow> (\<forall>rw w. w_db (snd (s rw w)) = w_db w)"

lemma harmlessI: "(\<And>d. serves (\<lambda>x. x = d) s) \<Longrightarrow> harmless s"
  by (simp add: serves_def harmless_def)

lemmas harmless_reads = serves_reads [THEN harmlessI]

lemma bearer_same: "same_request r r' \<Longrightarrow> bearerToken r' = bearerToken r"
  by (simp add: same_request_def bearerToken_def Header_Get_def)

lemma Authenticate_anonymous: "bearerToken r = '''' \<Longrightarrow> harmless (Authenticate s h r)"
  by (simp add: harmless_def Authenticate_def writeError_def writeJSON_def)

lemma anonymous_route:
  assumes "(m, p, h) \<in> set (api_routes cfg cipher cidrs pages)" "bearerToken r = ''''"
    and "match_segments p path = Some vs" "\<not> public_write path"
  shows "harmless (h r)"
  using assms
  by (auto simp: api_routes_def auth_routes_def user_routes_def vpn_routes_def api_path_def
      billing_routes_def admin_routes_def guard_def RegisterPanel_def cabinet_Register_def
      page_routes_def Let_def match_iff public_write_def Authenticate_anonymous harmless_reads
      split: if_splits)

text \<open>
  C7. A request without a bearer token changes nothing in the tables, unless it is one of the public
  calls that log in, register, refresh, or report a payment.
\<close>

theorem anonymous_changes_nothing:
  assumes "bearerToken r = ''''" "\<not> public_write (rq_Path r)"
  shows "w_db (snd (api_server cfg cipher cidrs pages r rw w)) = w_db w"
proof -
  let ?rs = "api_routes cfg cipher cidrs pages"
  have "w_db (snd (Mux ?rs r' rw' w1)) = w_db w1" if r': "same_request r r'" for r' rw' w1
  proof (cases "route_for ?rs r'")
    case None
    then show ?thesis by (simp add: Mux_def)
  next
    case (Some v)
    obtain vs h where v: "v = (vs, h)" by (cases v)
    let ?r = "r'\<lparr>rq_PathValues := vs\<rparr>"
    have tok: "bearerToken ?r = ''''"
      using assms(1) bearer_same [OF r'] by (simp add: bearerToken_def Header_Get_def)
    from Some v obtain m p where mp: "(m, p, h) \<in> set ?rs" "match_segments p (rq_Path r) = Some vs"
      using r' by (auto elim!: route_for_SomeD simp: same_request_def)
    have "harmless (h ?r)" by (rule anonymous_route [OF mp(1) tok mp(2) assms(2)])
    with Some v show ?thesis by (simp add: Mux_def harmless_def)
  qed
  with server_passes [of w r cfg cipher cidrs pages rw] show ?thesis
    by (auto simp: passes_def)
qed

section \<open>Administrators\<close>

text \<open>
  A path below \<open>/api/v1/admin\<close> is served by the routes of the admin module, and those are guarded.
\<close>

lemma admin_route:
  assumes "(m, p, h) \<in> set (api_routes cfg cipher cidrs pages)"
    and "match_segments p (''api'' # ''v1'' # ''admin'' # rest) = Some vs"
  shows "\<exists>h'. h = guard (api_auth cfg) h'"
  using assms
  by (auto simp: api_routes_def auth_routes_def user_routes_def vpn_routes_def api_path_def
      billing_routes_def admin_routes_def RegisterPanel_def cabinet_Register_def
      page_routes_def Let_def match_iff split: if_splits)

text \<open>
  C8. A request to the administration API changes nothing in the tables unless it carries a token that
  the JWT library accepts, at some moment, for the server's secret, with the role of an
  administrator.
\<close>

theorem admin_api_needs_role:
  assumes "rq_Path r = ''api'' # ''v1'' # ''admin'' # rest"
    and "\<And>now claims. env_jwt_parse (w_env w) (cfg_JWTSecret cfg) now (bearerToken r) = Some claims \<Longrightarrow>
      jc_Role claims \<notin> {RoleAdmin, RoleSuperAdmin}"
  shows "w_db (snd (api_server cfg cipher cidrs pages r rw w)) = w_db w"
proof -
  let ?rs = "api_routes cfg cipher cidrs pages"
  have "w_db (snd (Mux ?rs r' rw' w1)) = w_db w1"
    if r': "same_request r r'" and w1: "passes w w1" for r' rw' w1
  proof (cases "route_for ?rs r'")
    case None
    then show ?thesis by (simp add: Mux_def)
  next
    case (Some v)
    obtain vs h where v: "v = (vs, h)" by (cases v)
    let ?r = "r'\<lparr>rq_PathValues := vs\<rparr>"
    have tok: "bearerToken ?r = bearerToken r"
      using bearer_same [OF r'] by (simp add: bearerToken_def Header_Get_def)
    from Some v obtain m p where "(m, p, h) \<in> set ?rs"
      "match_segments p (''api'' # ''v1'' # ''admin'' # rest) = Some vs"
      using r' assms(1) by (auto elim!: route_for_SomeD simp: same_request_def)
    then obtain h' where h: "h = guard (api_auth cfg) h'" using admin_route by blast
    have "tm_secret (as_tokens (api_auth cfg)) = cfg_JWTSecret cfg"
      by (simp add: api_auth_def NewTokenManager_def)
    then have "w_db (snd (h ?r rw' w1)) = w_db w1"
      unfolding h guard_def
      by (rule_tac guarded_cases [of w1 "api_auth cfg" "[RoleAdmin, RoleSuperAdmin]" h' ?r rw'])
        (use assms(2) w1 tok in \<open>auto simp: passes_def same_state_def writeError_def writeJSON_def\<close>)
    with Some v show ?thesis by (simp add: Mux_def)
  qed
  with server_passes [of w r cfg cipher cidrs pages rw] show ?thesis
    by (auto simp: passes_def)
qed

section \<open>Expiry\<close>

text \<open>
  C10. An active subscription that ended longer ago than the grace period is expired by the first sweep
  whose statement does not fail.
\<close>

theorem overdue_gets_expired:
  assumes "s \<in> set (subscriptions (w_db w))" "sub_status s = ''active''"
    and "sub_expires_at s < now_of w - pg_time grace" "\<not> env_fault (w_env w) (w_tick w)"
  shows "s\<lparr>sub_status := ''expired''\<rparr> \<in> set (subscriptions (w_db (snd (Expirer_Run grace 0 w))))"
  using assms
  by (auto simp: Expirer_sweep_def bind_def attempt_def return_def sql_def expire_subs_def
      overdue_def set_update_where Let_def image_iff intro!: bexI [of _ s])

section \<open>Monitoring\<close>

lemma api_engine_statuses:
  "keeps (on_db (\<lambda>d. statuses d = ss)) (en_migrator (api_engine cfg cipher cidrs zone) i reason)"
proof -
  have "keeps (on_db (\<lambda>d. users d = us \<and> countries d = cs \<and> statuses d = ss))
      (en_migrator (api_engine cfg cipher cidrs zone) i reason)" for us cs
    unfolding api_engine_def Engine.simps
    by (rule selected.MigrateServer_elsewhere) (simp add: api_vpn_def NewVPNService_def)
  then show ?thesis unfolding keeps_def on_db_def by blast
qed

interpretation polls: status_keeper "api_engine cfg cipher cidrs zone" for cfg cipher cidrs zone
  by unfold_locales (rule api_engine_statuses, rule quiet_engine)


end
