(* ===== verification/RateLimit.thy ===== *)
theory RateLimit
  imports AuthGuard
begin

text \<open>
  The rate limiter refines a fixed-window counter: how many requests of an address were seen, and
  when the window ends.
\<close>

section \<open>The abstract limiter\<close>

text \<open>A window: the requests seen and the end, which is missing after a failed EXPIRE.\<close>

type_synonym window = "(int \<times> timestamp option) option"

definition open_at :: "timestamp \<Rightarrow> window \<Rightarrow> window" where
  "open_at now win = (case win of None \<Rightarrow> None | Some (n, None) \<Rightarrow> Some (n, None)
     | Some (n, Some t) \<Rightarrow> if now < t then Some (n, Some t) else None)"

definition whole_seconds :: "int \<Rightarrow> int" where
  "whole_seconds d = max (10 ^ 9) (d div 10 ^ 9 * 10 ^ 9)"

text \<open>One request: the window after it, and whether it is admitted.\<close>

definition admit :: "int \<Rightarrow> int \<Rightarrow> timestamp \<Rightarrow> timestamp \<Rightarrow> window \<Rightarrow> window \<times> bool" where
  "admit limit len now now' win =
     (case open_at now win of
       None \<Rightarrow> (Some (1, Some (now' + whole_seconds len)), 1 \<le> limit)
     | Some (n, t) \<Rightarrow> (Some (n + 1, t), n + 1 \<le> limit))"

text \<open>How the entry of Redis represents a window.\<close>

definition window_ok :: "window \<Rightarrow> bool" where
  "window_ok win \<longleftrightarrow> (case win of None \<Rightarrow> True | Some (n, t) \<Rightarrow> 1 \<le> n)"

definition entry_of :: "window \<Rightarrow> redis_entry option" where
  "entry_of win = map_option (\<lambda>(n, t). (show_int n, t)) win"

section \<open>The refinement\<close>

lemma dash_not_digit: "\<not> is_digit (CHR ''-'')"
  by (simp add: is_digit_def)

lemma parse_int_show [parse_simps]: "parse_int (show_int n) = Some n"
proof (cases "n < 0")
  case True
  then show ?thesis by (simp add: parse_int_def show_int_def parse_dec_show_nat)
next
  case False
  have "hd (show_nat (nat n)) \<noteq> CHR ''-''"
    using not_digit_show_nat [of "CHR ''-''" "nat n"] hd_in_set [OF show_nat_nonempty, of "nat n"]
    by (metis dash_not_digit)
  then have "take 1 (show_nat (nat n)) \<noteq> ''-''"
    by (cases "show_nat (nat n)") auto
  with False show ?thesis by (simp add: parse_int_def show_int_def parse_dec_show_nat)
qed

lemma lookup_entry:
  "map_of r k = entry_of win \<Longrightarrow> redis_lookup now k r = entry_of (open_at now win)"
  by (auto simp: redis_lookup_def entry_of_def open_at_def alive_def split: option.splits)

lemma map_of_put: "map_of (redis_put k e r) k' = (if k' = k then Some e else map_of r k')"
proof -
  have "map_of (filter (\<lambda>(k'', _). k'' \<noteq> k) r) k' = (if k' = k then None else map_of r k')"
    by (induction r) auto
  then show ?thesis by (simp add: redis_put_def)
qed

text \<open>What a request leaves alone: all but the counter of its address.\<close>

definition only_key :: "string \<Rightarrow> world \<Rightarrow> world \<Rightarrow> bool" where
  "only_key k w w' \<longleftrightarrow> w_db w' = w_db w \<and> w_store w' = w_store w \<and> w_env w' = w_env w \<and>
     w_tx_now w' = w_tx_now w \<and> (\<forall>k'. k' \<noteq> k \<longrightarrow> map_of (w_redis w') k' = map_of (w_redis w) k')"

lemma redis_run:
  "\<not> env_fault (w_env w) (w_tick w) \<Longrightarrow> redis_cmd f w =
    (case f (env_clock (w_env w) (w_tick w)) (w_redis w) of
      (r, keys) \<Rightarrow> (r, (step_tick w)\<lparr>w_redis := keys\<rparr>))"
  by (simp add: redis_cmd_def)

lemma Incr_run:
  assumes "\<not> env_fault (w_env w) (w_tick w)" "map_of (w_redis w) k = entry_of win"
  shows "redis_Incr k w =
    (case open_at (env_clock (w_env w) (w_tick w)) win of
      None \<Rightarrow> (Inr 1, (step_tick w)\<lparr>w_redis := redis_put k (show_int 1, None) (w_redis w)\<rparr>)
    | Some (n, t) \<Rightarrow>
        (Inr (n + 1), (step_tick w)\<lparr>w_redis := redis_put k (show_int (n + 1), t) (w_redis w)\<rparr>))"
  using lookup_entry [OF assms(2)]
  by (auto simp: redis_Incr_def redis_run [OF assms(1)] entry_of_def parse_int_show
      split: option.splits)

lemma Expire_run:
  assumes "\<not> env_fault (w_env w) (w_tick w)" "map_of (w_redis w) k = Some (v, None)"
  shows "redis_Expire k d w = (Inr (), (step_tick w)\<lparr>w_redis := redis_put k
    (v, Some (env_clock (w_env w) (w_tick w) + whole_seconds d)) (w_redis w)\<rparr>)"
  using assms(2)
  by (simp add: redis_Expire_def redis_run [OF assms(1)] redis_lookup_def alive_def whole_seconds_def)

lemma too_many_run:
  "\<exists>w' after. same_state w w' \<and> too_many len k rw w =
    writeError 429 ''rate limit exceeded'' (set_header ''Retry-After'' after rw) w'"
proof -
  obtain r w' where "redis_TTL k w = (r, w')" by fastforce
  moreover from this have "same_state w w'" by (rule quietD [OF quiet_redis_read(2)])
  ultimately show ?thesis
    by (cases r) (auto simp: too_many_def on_result_def catch_def return_def)
qed

lemma pass_or_reject:
  "\<exists>w' after. same_state w w' \<and>
    (if (count :: int) > limit then too_many len k else next r) rw w =
    (if count \<le> limit then next r rw w'
     else writeError 429 ''rate limit exceeded'' (set_header ''Retry-After'' after rw) w')"
proof (cases "count > limit")
  case True
  obtain w' after where "same_state w w'" "too_many len k rw w =
      writeError 429 ''rate limit exceeded'' (set_header ''Retry-After'' after rw) w'"
    using too_many_run by blast
  with True show ?thesis by (intro exI [of _ w'] exI [of _ after]) auto
next
  case False
  then show ?thesis by (intro exI [of _ w]) simp
qed

text \<open>
  While Redis answers, the rate limiter is the fixed-window counter: a request is handed to the
  next handler exactly when the counter admits it and answered 429 otherwise, the counter of its
  address is stepped, and no other key and no table changes.
\<close>

lemma rate_limiter_steps:
  assumes "\<And>n. \<not> env_fault (w_env w) n" "map_of (w_redis w) (rate_key scope r) = entry_of win"
    and "window_ok win"
  shows "\<exists>w' after. only_key (rate_key scope r) w w' \<and>
      (case admit limit len (env_clock (w_env w) (w_tick w)) (env_clock (w_env w) (Suc (w_tick w))) win of
        (win', ok) \<Rightarrow> window_ok win' \<and> map_of (w_redis w') (rate_key scope r) = entry_of win' \<and>
          RateLimiter_Middleware scope limit len next r rw w =
            (if ok then next r rw w'
             else writeError 429 ''rate limit exceeded'' (set_header ''Retry-After'' after rw) w'))"
proof (cases "open_at (env_clock (w_env w) (w_tick w)) win")
  case None
  let ?k = "rate_key scope r" and ?w1 = "(step_tick w)\<lparr>w_redis := redis_put (rate_key scope r) (show_int 1, None) (w_redis w)\<rparr>"
  have 1: "redis_Incr ?k w = (Inr 1, ?w1)" using Incr_run [OF assms(1,2)] None by simp
  have "redis_Expire ?k len ?w1 = (Inr (), (step_tick ?w1)\<lparr>w_redis := redis_put ?k
      (show_int 1, Some (env_clock (w_env ?w1) (w_tick ?w1) + whole_seconds len)) (w_redis ?w1)\<rparr>)"
    by (rule Expire_run) (simp_all add: assms(1) map_of_put)
  then obtain w2 where 2: "redis_Expire ?k len ?w1 = (Inr (), w2)" "only_key ?k w w2"
    "map_of (w_redis w2) ?k = entry_of (Some (1, Some (env_clock (w_env w) (Suc (w_tick w)) + whole_seconds len)))"
    by (auto simp: only_key_def map_of_put entry_of_def)
  obtain w' after where w': "same_state w2 w'" "(if 1 > limit then too_many len ?k else next r) rw w2 =
      (if 1 \<le> limit then next r rw w'
       else writeError 429 ''rate limit exceeded'' (set_header ''Retry-After'' after rw) w')"
    using pass_or_reject [of w2 limit 1 len ?k "next" r rw] by blast
  have "RateLimiter_Middleware scope limit len next r rw w =
      (if 1 > limit then too_many len ?k else next r) rw w2"
    by (simp add: RateLimiter_Middleware_def on_result_def 1 run_if_def bind_def attempt_def
        2(1) return_def)
  with w' 2 show ?thesis
    by (intro exI [of _ w'] exI [of _ after])
      (auto simp: None admit_def only_key_def same_state_def window_ok_def)
next
  case (Some nt)
  obtain n t where nt: "nt = (n, t)" by fastforce
  let ?k = "rate_key scope r" and ?w1 = "(step_tick w)\<lparr>w_redis := redis_put (rate_key scope r) (show_int (n + 1), t) (w_redis w)\<rparr>"
  have 1: "redis_Incr ?k w = (Inr (n + 1), ?w1)" using Incr_run [OF assms(1,2)] Some nt by simp
  have n: "1 \<le> n" using assms(3) Some nt
    by (auto simp: window_ok_def open_at_def split: option.splits if_splits)
  obtain w' after where w': "same_state ?w1 w'" "(if n + 1 > limit then too_many len ?k else next r) rw ?w1 =
      (if n + 1 \<le> limit then next r rw w'
       else writeError 429 ''rate limit exceeded'' (set_header ''Retry-After'' after rw) w')"
    using pass_or_reject [of ?w1 limit "n + 1" len ?k "next" r rw] by blast
  have "RateLimiter_Middleware scope limit len next r rw w =
      (if n + 1 > limit then too_many len ?k else next r) rw ?w1"
    using n by (simp add: RateLimiter_Middleware_def on_result_def 1 run_if_def return_def)
  with w' n show ?thesis
    by (intro exI [of _ w'] exI [of _ after])
      (auto simp: Some nt admit_def only_key_def same_state_def window_ok_def map_of_put entry_of_def)
qed

section \<open>Bursts\<close>

text \<open>Requests one after the other, each with its own response.\<close>

fun serve_all :: "handler \<Rightarrow> request list \<Rightarrow> world \<Rightarrow> writer list \<times> world" where
  "serve_all h [] w = ([], w)"
| "serve_all h (r # rs) w =
     (case h r fresh_writer w of (rw, w') \<Rightarrow>
       case serve_all h rs w' of (rws, w'') \<Rightarrow> (rw # rws, w''))"

text \<open>A handler that never answers 429 itself and leaves the counter alone.\<close>

definition bystander :: "string \<Rightarrow> handler \<Rightarrow> bool" where
  "bystander k h \<longleftrightarrow> (\<forall>r w. case h r fresh_writer w of (rw, w') \<Rightarrow>
     status_of rw \<noteq> 429 \<and> w_env w' = w_env w \<and> map_of (w_redis w') k = map_of (w_redis w) k)"

lemma status_writeError:
  "status_of (fst (writeError code msg rw w)) = from_option code (writer.wr_Status rw)"
  "snd (writeError code msg rw w) = w"
  by (cases "writer.wr_Status rw";
      simp add: writeError_def writeJSON_def Write_def WriteHeader_def set_header_def status_of_def)+

lemma burst_step:
  assumes "bystander k next" "rate_key scope r = k" "\<And>n. \<not> env_fault (w_env w) n"
    and "map_of (w_redis w) k = entry_of win" "window_ok win"
    and "admit limit len (env_clock (w_env w) (w_tick w)) (env_clock (w_env w) (Suc (w_tick w))) win =
      (win', ok)"
  obtains rw w' where "RateLimiter_Middleware scope limit len next r fresh_writer w = (rw, w')"
    "(status_of rw \<noteq> 429) = ok" "w_env w' = w_env w" "map_of (w_redis w') k = entry_of win'"
proof -
  let ?m = "RateLimiter_Middleware scope limit len next"
  obtain w1 after where w1: "only_key k w w1" "map_of (w_redis w1) k = entry_of win'"
    "?m r fresh_writer w = (if ok then next r fresh_writer w1
      else writeError 429 ''rate limit exceeded'' (set_header ''Retry-After'' after fresh_writer) w1)"
    using rate_limiter_steps [OF assms(3), of scope r win limit len "next" fresh_writer] assms(2,4-6)
    by auto
  obtain rw w' where rw: "?m r fresh_writer w = (rw, w')" by fastforce
  show thesis
  proof (rule that [OF rw])
    have "from_option 429 (writer.wr_Status (set_header ''Retry-After'' after fresh_writer)) = 429"
      by (simp add: set_header_def fresh_writer_def)
    then show "(status_of rw \<noteq> 429) = ok" "w_env w' = w_env w" "map_of (w_redis w') k = entry_of win'"
      using rw w1 assms(1) status_writeError [of 429 "''rate limit exceeded''"
        "set_header ''Retry-After'' after fresh_writer" w1]
      by (auto simp: bystander_def only_key_def split: if_splits prod.splits)
  qed
qed

lemma burst_counts:
  assumes "bystander k next" "\<And>r. r \<in> set rs \<Longrightarrow> rate_key scope r = k"
    and "\<And>n. \<not> env_fault (w_env w) n" "\<And>n. env_clock (w_env w) n < t"
    and "map_of (w_redis w) k = entry_of (Some (n, Some t))" "1 \<le> n"
  shows "length (filter (\<lambda>rw. status_of rw \<noteq> 429)
      (fst (serve_all (RateLimiter_Middleware scope limit len next) rs w))) =
    min (length rs) (nat (limit - n))"
  using assms(2-6)
proof (induction rs arbitrary: w n)
  case (Cons r rs)
  let ?m = "RateLimiter_Middleware scope limit len next"
  have admit: "admit limit len (env_clock (w_env w) (w_tick w)) (env_clock (w_env w) (Suc (w_tick w)))
      (Some (n, Some t)) = (Some (n + 1, Some t), n + 1 \<le> limit)"
    using Cons.prems(3) by (simp add: admit_def open_at_def)
  obtain rw w2 where rw: "?m r fresh_writer w = (rw, w2)" "(status_of rw \<noteq> 429) = (n + 1 \<le> limit)"
    "w_env w2 = w_env w" "map_of (w_redis w2) k = entry_of (Some (n + 1, Some t))"
    by (rule burst_step [OF assms(1) _ Cons.prems(2,4) _ admit])
      (use Cons.prems in \<open>auto simp: window_ok_def\<close>)
  have "length (filter (\<lambda>rw. status_of rw \<noteq> 429) (fst (serve_all ?m rs w2))) =
      min (length rs) (nat (limit - (n + 1)))"
    by (rule Cons.IH) (use Cons.prems rw in auto)
  then show ?case using rw(2) by (auto simp: rw(1) split: prod.split)
qed simp

text \<open>
  C39. Of the requests of one address that arrive within a window, exactly the first ones up to the
  limit are handed on; the others are answered 429.
\<close>

theorem rate_limit_exact:
  assumes "bystander k next" "\<And>r. r \<in> set rs \<Longrightarrow> rate_key scope r = k"
    and "\<And>n. \<not> env_fault (w_env w) n"
      "\<And>n. env_clock (w_env w) n < env_clock (w_env w) (Suc (w_tick w)) + whole_seconds len"
    and "map_of (w_redis w) k = None" "0 \<le> limit"
  shows "length (filter (\<lambda>rw. status_of rw \<noteq> 429)
      (fst (serve_all (RateLimiter_Middleware scope limit len next) rs w))) =
    min (length rs) (nat limit)"
proof (cases rs)
  case (Cons r rs')
  let ?m = "RateLimiter_Middleware scope limit len next"
    and ?t = "env_clock (w_env w) (Suc (w_tick w)) + whole_seconds len"
  have admit: "admit limit len (env_clock (w_env w) (w_tick w)) (env_clock (w_env w) (Suc (w_tick w)))
      None = (Some (1, Some ?t), 1 \<le> limit)" by (simp add: admit_def open_at_def)
  obtain rw w2 where rw: "?m r fresh_writer w = (rw, w2)" "(status_of rw \<noteq> 429) = (1 \<le> limit)"
    "w_env w2 = w_env w" "map_of (w_redis w2) k = entry_of (Some (1, Some ?t))"
    by (rule burst_step [OF assms(1) _ assms(3) _ _ admit])
      (use assms Cons in \<open>auto simp: window_ok_def entry_of_def\<close>)
  have "length (filter (\<lambda>rw. status_of rw \<noteq> 429) (fst (serve_all ?m rs' w2))) =
      min (length rs') (nat (limit - 1))"
    by (rule burst_counts [OF assms(1)]) (use assms Cons rw in auto)
  then show ?thesis using rw(2) assms(6) by (auto simp: Cons rw(1) split: prod.split)
qed simp

text \<open>
  When the EXPIRE of a fresh counter fails, its error is dropped and the counter never ends:
  once the limit is passed, every later request of the address is answered 429, at any time.
\<close>

theorem failed_expire_blocks_forever:
  assumes "\<And>n. \<not> env_fault (w_env w) n" "limit \<le> n" "1 \<le> n"
    and "map_of (w_redis w) (rate_key scope r) = Some (show_int n, None)"
  shows "\<exists>w' after. map_of (w_redis w') (rate_key scope r) = Some (show_int (n + 1), None) \<and>
    RateLimiter_Middleware scope limit len next r rw w =
      writeError 429 ''rate limit exceeded'' (set_header ''Retry-After'' after rw) w'"
proof -
  have "map_of (w_redis w) (rate_key scope r) = entry_of (Some (n, None))" "window_ok (Some (n, None))"
    using assms(3,4) by (simp_all add: entry_of_def window_ok_def)
  from rate_limiter_steps [OF assms(1) this, of limit len "next" rw] assms(2) show ?thesis
    by (auto simp: admit_def open_at_def entry_of_def)
qed

end
