(* ===== verification/TelegramCorrect.thy ===== *)
theory TelegramCorrect
  imports Platform RateLimit
begin

text \<open>
  The bot: a draft survives its way through Redis, and nobody is sent the configuration of a VPN
  that is not theirs.
\<close>

section \<open>Drafts\<close>

lemma draft_names [simp]:
  "fold_eq ''country_id'' ''country_id''" "fold_eq ''protocol'' ''protocol''"
  "fold_eq ''routing'' ''routing''" "fold_eq ''plan_id'' ''plan_id''"
  "fold_eq ''renew_sub_id'' ''renew_sub_id''"
  "\<not> fold_eq ''country_id'' ''protocol''" "\<not> fold_eq ''country_id'' ''routing''"
  "\<not> fold_eq ''country_id'' ''plan_id''" "\<not> fold_eq ''country_id'' ''renew_sub_id''"
  "\<not> fold_eq ''protocol'' ''country_id''" "\<not> fold_eq ''protocol'' ''routing''"
  "\<not> fold_eq ''protocol'' ''plan_id''" "\<not> fold_eq ''protocol'' ''renew_sub_id''"
  "\<not> fold_eq ''routing'' ''country_id''" "\<not> fold_eq ''routing'' ''protocol''"
  "\<not> fold_eq ''routing'' ''plan_id''" "\<not> fold_eq ''routing'' ''renew_sub_id''"
  "\<not> fold_eq ''plan_id'' ''country_id''" "\<not> fold_eq ''plan_id'' ''protocol''"
  "\<not> fold_eq ''plan_id'' ''routing''" "\<not> fold_eq ''plan_id'' ''renew_sub_id''"
  "\<not> fold_eq ''renew_sub_id'' ''country_id''" "\<not> fold_eq ''renew_sub_id'' ''protocol''"
  "\<not> fold_eq ''renew_sub_id'' ''routing''" "\<not> fold_eq ''renew_sub_id'' ''plan_id''"
  by (simp_all add: fold_eq_def ascii_lower_def)

definition draft_ok :: "draft \<Rightarrow> bool" where
  "draft_ok d \<longleftrightarrow> valid_utf8 (df_CountryID d) \<and> valid_utf8 (df_Protocol d) \<and>
     valid_utf8 (df_Routing d) \<and> valid_utf8 (df_PlanID d) \<and> valid_utf8 (df_RenewSubID d)"

lemma draft_names_valid [simp]:
  "valid_utf8 ''country_id''" "valid_utf8 ''protocol''" "valid_utf8 ''routing''"
  "valid_utf8 ''plan_id''" "valid_utf8 ''renew_sub_id''"
  by (rule valid_utf8_ascii, simp)+

lemma wf_draft_json: "draft_ok d \<Longrightarrow> wf_json (draft_json d)"
  by (simp add: draft_ok_def draft_json_def)

text \<open>What a decoder reads from the members that are not left out.\<close>

definition members_text :: "string \<Rightarrow> string \<Rightarrow> (string \<times> string) list \<Rightarrow> string" where
  "members_text d name kvs = last_text d (field_values name
     (map (\<lambda>(k, v). (k, JStr v)) (filter (\<lambda>(k, v). v \<noteq> '''') kvs)))"

lemma members_text_simps:
  "members_text d name [] = d"
  "members_text '''' name ((k, v) # kvs) = members_text (if fold_eq k name then v else '''') name kvs"
  "\<not> fold_eq k name \<Longrightarrow> members_text d name ((k, v) # kvs) = members_text d name kvs"
  by (simp_all add: members_text_def field_values_def)

lemma draft_of_json:
  assumes "draft_ok d"
  shows "draft_of (json_Marshal (draft_json d)) = d"
  unfolding draft_of_def json_Unmarshal_Marshal [OF wf_draft_json [OF assms]]
  unfolding draft_json_def struct_members.simps Option.bind.simps option.case Let_def
    members_text_def [symmetric]
  by (simp add: members_text_simps)

text \<open>
  A draft that was saved is read back as it was, as long as its entry is kept and an hour has not
  passed.
\<close>

theorem draft_roundtrip:
  assumes "saveDraft chatID d w = (Inr (), w1)" "draft_ok d"
    and "map_of (w_redis w2) (draftKey chatID) = map_of (w_redis w1) (draftKey chatID)"
    and "\<not> env_fault (w_env w2) (w_tick w2)"
    and "env_clock (w_env w2) (w_tick w2) < env_clock (w_env w) (w_tick w) + draftTTL"
  shows "fst (getDraft chatID w2) = Inr d"
proof -
  have ttl: "redis_ttl draftTTL = draftTTL" "draftTTL \<noteq> 0"
    by (simp_all add: redis_ttl_def draftTTL_def)
  have "map_of (w_redis w1) (draftKey chatID) = Some (json_Marshal (draft_json d),
      Some (env_clock (w_env w) (w_tick w) + draftTTL))"
    using assms(1) ttl
    by (auto simp: saveDraft_def redis_Set_def redis_cmd_def redis_put_def split: if_splits)
  with assms(3,5) have "redis_lookup (env_clock (w_env w2) (w_tick w2)) (draftKey chatID) (w_redis w2) =
      Some (json_Marshal (draft_json d), Some (env_clock (w_env w) (w_tick w) + draftTTL))"
    by (simp add: redis_lookup_def alive_def)
  with assms(2,4) show ?thesis
    by (simp add: getDraft_def redis_Get_def redis_cmd_def bind_def attempt_def return_def
        draft_of_json)
qed

section \<open>Configurations\<close>

text \<open>
  C15. The bot answers a request for the configuration of another user's VPN, or of a deleted one, with
  the error text alone: no document, photo or link is sent.
\<close>

theorem foreign_config_not_sent:
  assumes "distinct (map sub_id (subscriptions (w_db w)))"
    and "r \<in> set (subscriptions (w_db w))" "sub_user_id r \<noteq> userID \<or> sub_status r = ''deleted''"
    and "uuid_Parse subIDStr = Some (sub_id r)"
  shows "\<exists>w1. same_state w w1 \<and> w_nodes w1 = w_nodes w \<and>
    sendConfig b chatID userID subIDStr w = reply b chatID textError (Some mainMenuKeyboard) w1"
proof -
  have none: "live_sub userID (sub_id r) (w_db w) = None"
    using assms(1-3) by (intro live_sub_foreign [where r = r]) auto
  obtain e w1 where 1: "GetArtifactForUser userID (sub_id r) w = (Inl e, w1)"
    using GetArtifact_missing [OF none] by blast
  have q: "quiet (GetArtifactForUser userID (sub_id r))" by (rule quiet_reads)
  have "w_nodes w1 = w_nodes w"
    using 1 by (auto simp: GetArtifactForUser_def no_rows_def catch_def bind_def throw_def
        return_def sql_def select_row_def Let_def split: if_splits option.splits prod.splits)
  moreover have "sendConfig b chatID userID subIDStr w = reply b chatID textError (Some mainMenuKeyboard) w1"
    using 1 assms(4) by (simp add: sendConfig_def or_reply_def FetchConfig_def bind_def attempt_def)
  ultimately show ?thesis using quietD [OF q 1] by blast
qed

end
