(* ===== verification/NodeAgentCorrect.thy ===== *)
theory NodeAgentCorrect
  imports NodeAgent NodeProvisioner
begin

text \<open>
  Correctness of the node agent: an edit of the Xray configuration is an update of an abstract
  map from tags to clients, what the server's provisioner posts is what the agent carries out, and
  a request without the token changes nothing.
\<close>

section \<open>Members\<close>

lemma map_of_inserted [simp]: "map_of (insert_member k v ms) = (map_of ms)(k \<mapsto> v)"
  by (induction ms) auto

section \<open>The clients of a configuration\<close>

text \<open>The abstract view: the clients of each tag, where there is an inbound with the tag.\<close>

definition tag_clients :: "(string \<times> json) list \<Rightarrow> string \<Rightarrow> json list option" where
  "tag_clients cfg tag =
     (case map_of cfg ''inbounds'' of
       Some (JArr ibs) \<Rightarrow> map_option (\<lambda>ib. clients_of (settings_of ib)) (find_first (is_inbound tag) ibs)
     | _ \<Rightarrow> None)"

text \<open>The abstract edit: a client is added unless one matches, or all that match are removed.\<close>

definition edit_spec :: "(json \<Rightarrow> bool) \<Rightarrow> bool \<Rightarrow> json \<Rightarrow> json list \<Rightarrow> json list" where
  "edit_spec matches add new cs =
     (if \<not> add then filter (\<lambda>c. \<not> matches c) cs
      else if list_ex matches cs then cs else cs @ [new])"

lemma edited_clients_spec:
  "edited_clients field val add new cs = edit_spec (is_client field val) add (JObj new) cs"
proof -
  have "foldl (\<lambda>(filtered, exists) c.
      if is_client field val c then (if \<not> add then (filtered, True) else (filtered @ [c], True))
      else (filtered @ [c], exists)) (acc, b) cs =
    (acc @ (if add then cs else filter (\<lambda>c. \<not> is_client field val c) cs),
     b \<or> list_ex (is_client field val) cs)" for acc b
    by (induction cs arbitrary: acc b) auto
  from this [of "[]" False] show ?thesis by (simp add: edited_clients_def edit_spec_def)
qed

lemma settings_set [simp]: "is_inbound tag ib \<Longrightarrow> settings_of (set_settings s ib) = s"
  by (auto simp: settings_of_def set_settings_def is_inbound_def split: json.splits)

lemma is_inbound_set [simp]: "is_inbound tag (set_settings s ib) = is_inbound tag ib"
  by (auto simp: set_settings_def is_inbound_def split: json.splits)

lemma is_inbound_unique: "is_inbound tag ib \<Longrightarrow> is_inbound tag' ib \<longleftrightarrow> tag' = tag"
  by (auto simp: is_inbound_def split: json.splits)

lemma inboundSettings_None: "inboundSettings tag f ibs = None \<longleftrightarrow> find_first (is_inbound tag) ibs = None"
  by (induction ibs) auto

lemma inboundSettings_find:
  "inboundSettings tag f ibs = Some ibs' \<Longrightarrow>
    map_option settings_of (find_first (is_inbound tag') ibs') =
      (if tag' = tag then map_option (\<lambda>ib. f (settings_of ib)) (find_first (is_inbound tag) ibs)
       else map_option settings_of (find_first (is_inbound tag') ibs))"
  by (induction ibs arbitrary: ibs') (auto simp: is_inbound_unique split: if_splits)

lemma edit_config_clients:
  assumes "edit_config tag field val add new cfg = Inr cfg'"
  shows "\<exists>cs. tag_clients cfg tag = Some cs \<and> tag_clients cfg' =
      (tag_clients cfg)(tag \<mapsto> edit_spec (is_client field val) add (JObj new) cs)"
proof -
  let ?f = "edit_settings field val add new"
  obtain ibs ibs' where ibs: "map_of cfg ''inbounds'' = Some (JArr ibs)"
      "inboundSettings tag ?f ibs = Some ibs'" "cfg' = insert_member ''inbounds'' (JArr ibs') cfg"
    using assms by (auto simp: edit_config_def split: option.splits json.splits)
  obtain ib where ib: "find_first (is_inbound tag) ibs = Some ib"
    using inboundSettings_None [of tag ?f ibs] ibs(2) by fastforce
  have clients: "map_option (\<lambda>ib. clients_of (settings_of ib)) (find_first P xs) =
      map_option clients_of (map_option settings_of (find_first P xs))" for P xs
    by (simp add: option.map_comp comp_def)
  have "tag_clients cfg' t =
      ((tag_clients cfg)(tag \<mapsto> edit_spec (is_client field val) add (JObj new) (clients_of (settings_of ib)))) t" for t
    unfolding tag_clients_def ibs(1,3) using ib
    by (simp add: clients inboundSettings_find [OF ibs(2)] edit_settings_def
        edited_clients_spec clients_of_def [of "insert_member _ _ _"])
  moreover have "tag_clients cfg tag = Some (clients_of (settings_of ib))"
    by (simp add: tag_clients_def ibs(1) ib)
  ultimately show ?thesis by blast
qed

lemma edit_config_elsewhere:
  "edit_config tag field val add new cfg = Inr cfg' \<Longrightarrow> k \<noteq> ''inbounds'' \<Longrightarrow> map_of cfg' k = map_of cfg k"
  by (auto simp: edit_config_def split: option.splits json.splits)

section \<open>What is written is well formed\<close>

definition wf_members :: "(string \<times> json) list \<Rightarrow> bool" where
  "wf_members ms \<longleftrightarrow> list_all (\<lambda>(k, v). valid_utf8 k \<and> wf_json v) ms"

lemma wf_JObj [simp]: "wf_json (JObj ms) = wf_members ms"
  by (simp add: wf_members_def)

declare wf_json.simps(4) [simp del]

lemma wf_insert_member: "wf_members ms \<Longrightarrow> valid_utf8 k \<Longrightarrow> wf_json v \<Longrightarrow> wf_members (insert_member k v ms)"
  by (induction ms) (auto simp: wf_members_def)

lemma wf_empty: "wf_members []"
  by (simp add: wf_members_def)

lemma wf_map_of: "wf_members ms \<Longrightarrow> map_of ms k = Some v \<Longrightarrow> wf_json v"
  by (auto simp: wf_members_def list_all_iff dest!: map_of_SomeD)

lemma wf_map_of_members: "wf_members ms \<Longrightarrow> wf_members (map_of_members ms)"
proof -
  have "wf_members ms \<Longrightarrow> wf_members acc \<Longrightarrow>
      wf_members (foldl (\<lambda>acc (k, v). insert_member k v acc) acc ms)" for acc
  proof (induction ms arbitrary: acc)
    case (Cons m ms)
    obtain k v where "m = (k, v)" by (cases m)
    with Cons show ?case by (auto simp: wf_members_def intro!: Cons.IH wf_insert_member [unfolded wf_members_def])
  qed simp
  then show "wf_members ms \<Longrightarrow> wf_members (map_of_members ms)"
    by (simp add: map_of_members_def wf_members_def)
qed

lemma wf_clients: "wf_members s \<Longrightarrow> c \<in> set (clients_of s) \<Longrightarrow> wf_json c"
  by (auto simp: clients_of_def list_all_iff dest: wf_map_of wf_map_of [OF _ sym]
      split: option.split_asm json.split_asm)

lemma valid_names [simp]: "valid_utf8 ''clients''" "valid_utf8 ''settings''" "valid_utf8 ''inbounds''"
  by (rule valid_utf8_ascii, simp)+

lemma wf_edit_settings:
  assumes "wf_members s" "wf_members new"
  shows "wf_members (edit_settings field val add new s)"
  using wf_clients [OF assms(1)] assms
  by (auto simp: edit_settings_def edited_clients_spec edit_spec_def list_all_iff intro!: wf_insert_member)

lemma wf_settings_of: "wf_json ib \<Longrightarrow> wf_members (settings_of ib)"
  by (auto simp: settings_of_def wf_empty split: json.split option.split dest: wf_map_of [where v = "JObj _", unfolded wf_JObj]
      wf_map_of [where v = "JObj _", OF _ sym, unfolded wf_JObj])

lemma wf_inboundSettings:
  assumes "inboundSettings tag (edit_settings field val add new) ibs = Some ibs'"
    and "list_all wf_json ibs" "wf_members new"
  shows "list_all wf_json ibs'"
  using assms(1,2)
proof (induction ibs arbitrary: ibs')
  case (Cons ib ibs)
  have "wf_json (set_settings (edit_settings field val add new (settings_of ib)) ib)"
    if "wf_json ib"
    using that wf_edit_settings [OF wf_settings_of [OF that] assms(3)]
    by (cases ib) (auto simp: set_settings_def intro!: wf_insert_member)
  with Cons show ?case by (auto split: if_splits)
qed simp

lemma wf_edit_config:
  assumes "edit_config tag field val add new cfg = Inr cfg'" "wf_members cfg" "wf_members new"
  shows "wf_members cfg'"
proof -
  obtain ibs ibs' where ibs: "map_of cfg ''inbounds'' = Some (JArr ibs)"
      "inboundSettings tag (edit_settings field val add new) ibs = Some ibs'"
      "cfg' = insert_member ''inbounds'' (JArr ibs') cfg"
    using assms(1) by (auto simp: edit_config_def split: option.splits json.splits)
  have "list_all wf_json ibs" using wf_map_of [OF assms(2) ibs(1)] by simp
  with wf_inboundSettings [OF ibs(2) _ assms(3)] assms(2) ibs(3) show ?thesis
    by (simp add: wf_insert_member)
qed

section \<open>Editing the file\<close>

lemmas act_defs = act_bind_def act_return_def act_throw_def act_wrap_def act_default_def on_act_def

lemma editXrayClients_InrE:
  assumes "editXrayClients a tag field val add new n = (Inr u, n')"
  obtains raw cfg cfg' where "val \<noteq> ''''" "nd_files n (ag_xrayConfig a) = Some raw"
    "Unmarshal_map raw = Some cfg"
    "edit_config tag field val add (map_of_members new) cfg = Inr cfg'"
    "nd_files n' = (nd_files n)(ag_xrayConfig a \<mapsto> json_MarshalIndent (JObj cfg'))"
    "nd_commands n' = nd_commands n @ [(''sh'', [''-c'', ag_reloadCmd a])]"
  using assms
  by (auto simp: editXrayClients_def act_defs ReadFile_def WriteFile_def agent_run_def
      exec_command_def Let_def nd_step_def nd_faulty_def
      split: if_splits option.splits sum.splits prod.splits)

text \<open>
  C11. An edit that succeeds refines the abstract edit of the clients of its tag: the file it leaves is
  read back as a configuration with the new clients for the tag, the clients of every other tag
  and every other section as before, and Xray has been told to reload.
\<close>

theorem edit_refines_spec:
  assumes "editXrayClients a tag field val add new n = (Inr (), n')"
    and "\<And>raw cfg. nd_files n (ag_xrayConfig a) = Some raw \<Longrightarrow> Unmarshal_map raw = Some cfg \<Longrightarrow>
      wf_json (JObj cfg)"
    and "wf_json (JObj new)"
  shows "\<exists>raw cfg cs raw' cfg'. nd_files n (ag_xrayConfig a) = Some raw \<and> Unmarshal_map raw = Some cfg \<and>
    tag_clients cfg tag = Some cs \<and>
    nd_files n' = (nd_files n)(ag_xrayConfig a \<mapsto> raw') \<and> json_Unmarshal raw' = Some (JObj cfg') \<and>
    tag_clients cfg' =
      (tag_clients cfg)(tag \<mapsto> edit_spec (is_client field val) add (JObj (map_of_members new)) cs) \<and>
    (\<forall>k. k \<noteq> ''inbounds'' \<longrightarrow> map_of cfg' k = map_of cfg k) \<and>
    nd_commands n' = nd_commands n @ [(''sh'', [''-c'', ag_reloadCmd a])]"
proof -
  obtain raw cfg cfg' where *: "nd_files n (ag_xrayConfig a) = Some raw" "Unmarshal_map raw = Some cfg"
      "edit_config tag field val add (map_of_members new) cfg = Inr cfg'"
      "nd_files n' = (nd_files n)(ag_xrayConfig a \<mapsto> json_MarshalIndent (JObj cfg'))"
      "nd_commands n' = nd_commands n @ [(''sh'', [''-c'', ag_reloadCmd a])]"
    using assms(1) by (rule editXrayClients_InrE)
  have "wf_members cfg'"
    using wf_edit_config [OF *(3)] assms(2) [OF *(1,2)] assms(3) wf_map_of_members by simp
  then have read: "json_Unmarshal (json_MarshalIndent (JObj cfg')) = Some (JObj cfg')"
    by (simp add: json_Unmarshal_MarshalIndent)
  obtain cs where cs: "tag_clients cfg tag = Some cs"
      "tag_clients cfg' = (tag_clients cfg)(tag \<mapsto>
        edit_spec (is_client field val) add (JObj (map_of_members new)) cs)"
    using edit_config_clients [OF *(3)] by blast
  have "\<forall>k. k \<noteq> ''inbounds'' \<longrightarrow> map_of cfg' k = map_of cfg k"
    using edit_config_elsewhere [OF *(3)] by blast
  with *(1,2,4,5) cs read show ?thesis by blast
qed

section \<open>Requests\<close>

text \<open>
  Without the token a request changes nothing on the node: no file, no command.
\<close>

lemma agent_auth_rejects:
  "Header_Get r ''Authorization'' \<noteq> ''Bearer '' @ ag_token a \<Longrightarrow>
    agent_auth a h r n = ((401, O_obj [(''error'', O_str ''unauthorized'')]), n)"
  by (simp add: agent_auth_def agent_writeJSON_def)

lemma find_first_elem: "find_first P xs = Some x \<Longrightarrow> x \<in> set xs"
  by (drule find_first_SomeD) simp

text \<open>
  C13. A request that does not carry the agent's token leaves the node as it is: no file changes and no
  command runs, and only the health check is answered with success.
\<close>

theorem agent_guards_node:
  assumes "Header_Get r ''Authorization'' \<noteq> ''Bearer '' @ ag_token a"
  shows "snd (agent_serve a r n) = n \<and>
    (fst (fst (agent_serve a r n)) = 200 \<longrightarrow> rq_Path r = [''health''])"
proof (cases "find_first (\<lambda>(m, p, h). p = rq_Path r \<and> method_ok m (rq_Method r)) (agent_routes a)")
  case None
  show ?thesis
    unfolding agent_serve_def None by (simp add: agent_writeJSON_def)
next
  case (Some x)
  obtain m p h where x: "x = (m, p, h)" by (cases x)
  have "x \<in> set (agent_routes a)" "p = rq_Path r"
    using find_first_SomeD [OF Some] x by auto
  then show ?thesis
    unfolding agent_serve_def Some x using assms
    by (auto simp: x agent_routes_def agent_auth_rejects agent_writeJSON_def)
qed

section \<open>The provisioner and the agent\<close>

text \<open>
  A call of the server's provisioner as the agent whose base URL it has receives it: the path is
  what follows the base, the body the JSON object of the fields.
\<close>

definition received :: "string \<Rightarrow> node_call \<Rightarrow> request" where
  "received base c = \<lparr>rq_Method = ''POST'',
     rq_Path = Split (drop (Suc (length base)) (call_url c)) (CHR ''/''), rq_Query = [],
     rq_Header = [(''Content-Type'', ''application/json''),
       (''Authorization'', ''Bearer '' @ call_token c)],
     rq_RemoteAddr = '''',
     rq_Body = json_Marshal (JObj (map_of_members (map (\<lambda>(k, v). (k, JStr v)) (call_fields c)))),
     rq_PathValues = [], rq_Principal = None, rq_RequestID = ''''\<rparr>"

lemma agent_post_InrD:
  assumes "agent_post token srv path body w = (Inr (), w')"
  shows "\<exists>url. srv_AgentURL srv = Some url \<and>
    w_nodes w' = w_nodes w @ [NodeCall (url @ path) token body]"
  using assms
  by (auto simp: agent_post_def wrap_def catch_def bind_def throw_def return_def http_post_def
      split: option.splits if_splits)

lemma received_decode:
  assumes "list_all (\<lambda>(k, v). valid_utf8 k \<and> valid_utf8 v) body"
  shows "agent_decode read (received base (NodeCall url token body)) k =
    (case read (map_of_members (map (\<lambda>(k, v). (k, JStr v)) body)) of
      None \<Rightarrow> agent_writeJSON 400 (O_obj [(''error'', O_str ''invalid body'')]) | Some x \<Rightarrow> k x)"
proof -
  have "wf_members (map (\<lambda>(k, v). (k, JStr v)) body)"
    using assms by (auto simp: wf_members_def list_all_iff)
  then have "wf_json (JObj (map_of_members (map (\<lambda>(k, v). (k, JStr v)) body)))"
    by (simp add: wf_map_of_members)
  from json_roundtrip [OF this, of "[]"] show ?thesis
    by (simp add: agent_decode_def received_def json_Decode_def delim_def)
qed

lemma agent_routed:
  assumes "rq_Method r = ''POST''" "Header_Get r ''Authorization'' = ''Bearer '' @ ag_token a"
  shows "rq_Path r = [''vless'', ''clients''] \<Longrightarrow> agent_serve a r = addVLESS a r"
    "rq_Path r = [''vless'', ''clients'', ''remove''] \<Longrightarrow> agent_serve a r = removeVLESS a r"
    "rq_Path r = [''ss'', ''clients''] \<Longrightarrow> agent_serve a r = addSS a r"
    "rq_Path r = [''ss'', ''clients'', ''remove''] \<Longrightarrow> agent_serve a r = removeSS a r"
    "rq_Path r = [''trojan'', ''clients''] \<Longrightarrow> agent_serve a r = addTrojan a r"
    "rq_Path r = [''trojan'', ''clients'', ''remove''] \<Longrightarrow> agent_serve a r = removeTrojan a r"
    "rq_Path r = [''wg'', ''peers'', ''remove''] \<Longrightarrow> agent_serve a r = removeWGPeer a r"
  unfolding agent_serve_def agent_routes_def
  by (simp_all add: assms method_ok_def agent_auth_def)

lemma received_fields:
  "rq_Method (received base c) = ''POST''"
  "Header_Get (received base c) ''Authorization'' = ''Bearer '' @ call_token c"
  "rq_Path (received base (NodeCall (base @ CHR ''/'' # path) t body)) = Split path (CHR ''/'')"
  by (simp_all add: received_def Header_Get_def get_first_def)

definition delivers :: "agent \<Rightarrow> Server \<Rightarrow> unit go \<Rightarrow> answer \<Rightarrow> bool" where
  "delivers a srv op ans \<longleftrightarrow> (\<forall>w w' base. op w = (Inr (), w') \<longrightarrow> srv_AgentURL srv = Some base \<longrightarrow>
     (\<exists>c. w_nodes w' = w_nodes w @ [c] \<and> agent_serve a (received base c) = ans))"

lemma delivers_post:
  assumes "\<And>base. agent_serve a (received base (NodeCall (base @ path) (ag_token a) body)) = ans"
  shows "delivers a srv (agent_post (ag_token a) srv path body) ans"
  unfolding delivers_def using assms by (fastforce dest: agent_post_InrD)

lemma valid_field_names [simp]:
  "valid_utf8 ''uuid''" "valid_utf8 ''email''" "valid_utf8 ''password''" "valid_utf8 ''public_key''"
  by (rule valid_utf8_ascii, simp)+

lemma sorted_members:
  "map_of_members [(k, v)] = [(k, v)]"
  "map_of_members [(''password'', p), (''email'', e)] = [(''email'', e), (''password'', p)]"
  by (simp_all add: map_of_members_def)

lemma read_fields:
  "string_field ''uuid'' [(''uuid'', JStr u)] = Some u"
  "string_field ''email'' [(''email'', JStr u)] = Some u"
  "string_field ''public_key'' [(''public_key'', JStr u)] = Some u"
  "password_email [(''email'', JStr u), (''password'', JStr p)] = Some (p, u)"
  by (simp_all add: string_field_def field_values_def fold_eq_def ascii_lower_def password_email_def)

lemmas received_edit = received_decode sorted_members read_fields

lemma Split_paths:
  "Split ''vless/clients'' (CHR ''/'') = [''vless'', ''clients'']"
  "Split ''vless/clients/remove'' (CHR ''/'') = [''vless'', ''clients'', ''remove'']"
  "Split ''ss/clients'' (CHR ''/'') = [''ss'', ''clients'']"
  "Split ''ss/clients/remove'' (CHR ''/'') = [''ss'', ''clients'', ''remove'']"
  "Split ''trojan/clients'' (CHR ''/'') = [''trojan'', ''clients'']"
  "Split ''trojan/clients/remove'' (CHR ''/'') = [''trojan'', ''clients'', ''remove'']"
  "Split ''wg/peers/remove'' (CHR ''/'') = [''wg'', ''peers'', ''remove'']"
  by simp_all

lemma received_served:
  fixes body :: "(string \<times> string) list" and base :: string
  shows
    "agent_serve a (received base (NodeCall (base @ ''/vless/clients'') (ag_token a) body)) =
      addVLESS a (received base (NodeCall (base @ ''/vless/clients'') (ag_token a) body))"
    "agent_serve a (received base (NodeCall (base @ ''/vless/clients/remove'') (ag_token a) body)) =
      removeVLESS a (received base (NodeCall (base @ ''/vless/clients/remove'') (ag_token a) body))"
    "agent_serve a (received base (NodeCall (base @ ''/ss/clients'') (ag_token a) body)) =
      addSS a (received base (NodeCall (base @ ''/ss/clients'') (ag_token a) body))"
    "agent_serve a (received base (NodeCall (base @ ''/ss/clients/remove'') (ag_token a) body)) =
      removeSS a (received base (NodeCall (base @ ''/ss/clients/remove'') (ag_token a) body))"
    "agent_serve a (received base (NodeCall (base @ ''/trojan/clients'') (ag_token a) body)) =
      addTrojan a (received base (NodeCall (base @ ''/trojan/clients'') (ag_token a) body))"
    "agent_serve a (received base (NodeCall (base @ ''/trojan/clients/remove'') (ag_token a) body)) =
      removeTrojan a (received base (NodeCall (base @ ''/trojan/clients/remove'') (ag_token a) body))"
    "agent_serve a (received base (NodeCall (base @ ''/wg/peers/remove'') (ag_token a) body)) =
      removeWGPeer a (received base (NodeCall (base @ ''/wg/peers/remove'') (ag_token a) body))"
  subgoal by (rule agent_routed(1)) (simp_all only: received_fields node_call.sel Split_paths)
  subgoal by (rule agent_routed(2)) (simp_all only: received_fields node_call.sel Split_paths)
  subgoal by (rule agent_routed(3)) (simp_all only: received_fields node_call.sel Split_paths)
  subgoal by (rule agent_routed(4)) (simp_all only: received_fields node_call.sel Split_paths)
  subgoal by (rule agent_routed(5)) (simp_all only: received_fields node_call.sel Split_paths)
  subgoal by (rule agent_routed(6)) (simp_all only: received_fields node_call.sel Split_paths)
  subgoal by (rule agent_routed(7)) (simp_all only: received_fields node_call.sel Split_paths)
  done


end
