(* ===== verification/BillingOrders.thy ===== *)
theory BillingOrders
  imports BillingLedger
begin

text \<open>
  The life of an order: final states stay, an order is claimed for provisioning once however
  requests interleave, and fulfilling it ends with the paid order and its subscription, whatever
  is delivered again.
\<close>

section \<open>Final states\<close>

lemma row_evolves_final:
  "row_evolves r r' \<Longrightarrow> o_status r \<in> {''paid'', ''failed''} \<Longrightarrow> r' = r"
  by (cases r; cases r') (auto simp: row_evolves_def status_step_def)

lemma since_rowD:
  assumes "since d d'" "r \<in> set (orders d)"
  obtains r' where "r' \<in> set (orders d')" "row_evolves r r'"
  using assms unfolding since_def orders_evolve_def by (metis in_set_conv_nth less_le_trans)

text \<open>
  A paid or failed order is never touched again: its row is the same after any run, with its
  subscription and time of payment.
\<close>

theorem final_orders_unchanged:
  assumes "billing_run (api_billing cfg cipher cidrs) w w'"
    and "r \<in> set (orders (w_db w))" "o_status r \<in> {''paid'', ''failed''}"
  shows "r \<in> set (orders (w_db w'))"
  using since_rowD [OF api.run_since [OF assms(1)] assms(2)] row_evolves_final [OF _ assms(3)]
  by metis

section \<open>Claiming\<close>

text \<open>
  The statements of concurrent requests, interleaved in any order: successful claims, and
  anything else that moves orders along their life cycle and keeps the primary key.
\<close>

inductive interleaved :: "world \<Rightarrow> uuid list \<Rightarrow> world \<Rightarrow> bool" where
  inter_start: "interleaved w [] w"
| inter_claim: "interleaved w is w1 \<Longrightarrow> ClaimForProvisioning i w1 = (Inr True, w2) \<Longrightarrow>
    interleaved w (is @ [i]) w2"
| inter_other: "interleaved w is w1 \<Longrightarrow> since (w_db w1) (w_db w2) \<Longrightarrow>
    distinct (map o_id (orders (w_db w2))) \<Longrightarrow> interleaved w is w2"

definition claimed :: "uuid \<Rightarrow> db \<Rightarrow> bool" where
  "claimed i d \<longleftrightarrow> (\<exists>r \<in> set (orders d). o_id r = i \<and> o_status r \<noteq> ''wait_payment'')"

lemma key_unique:
  "distinct (map key rows) \<Longrightarrow> r \<in> set rows \<Longrightarrow> r' \<in> set rows \<Longrightarrow> key r' = key r \<Longrightarrow> r' = r"
  by (auto simp: distinct_map inj_on_def)

lemma row_evolves_claimed:
  "row_evolves r r' \<Longrightarrow> o_id r' = o_id r \<and> (o_status r \<noteq> ''wait_payment'' \<longrightarrow> o_status r' \<noteq> ''wait_payment'')"
  by (cases r; cases r') (auto simp: row_evolves_def status_step_def)

lemma claimed_since:
  assumes "since d d'" "claimed i d"
  shows "claimed i d'"
proof -
  obtain r where r: "r \<in> set (orders d)" "o_id r = i" "o_status r \<noteq> ''wait_payment''"
    using assms(2) by (auto simp: claimed_def)
  obtain r' where "r' \<in> set (orders d')" "row_evolves r r'" using since_rowD [OF assms(1) r(1)] .
  with r row_evolves_claimed show ?thesis unfolding claimed_def by blast
qed

lemma Claim_InrD:
  assumes "ClaimForProvisioning i w = (Inr True, w')"
  obtains r where "r \<in> set (orders (w_db w))" "o_id r = i" "o_status r = ''wait_payment''"
    "w_db w' = (w_db w)\<lparr>orders := update_where (\<lambda>o1. o_id o1 = i \<and> o_status o1 = ''wait_payment'')
       (\<lambda>r. r\<lparr>o_status := ''processing''\<rparr>) (orders (w_db w))\<rparr>"
proof -
  obtain r0 w1 where "sql (claim_order i) w = (Inr r0, w1)" "w' = w1"
    using assms unfolding ClaimForProvisioning_def
    by (auto simp: catch_def bind_def return_def throw_def split: prod.splits sum.splits if_splits)
  then obtain d where "claim_order i (now_of w) (env_uuid (w_env w) (w_tick w)) (w_db w) = Inr (r0, d)"
      "w_db w' = d" by (auto elim!: sql_InrD)
  with that show thesis
    by (auto simp: claim_order_def update_order_def Let_def dest!: find_first_SomeD
        split: option.splits)
qed

text \<open>
  C25. However the requests for the same orders interleave, no order is claimed for provisioning
  twice.
\<close>

theorem claimed_at_most_once:
  assumes "interleaved w is w'" "distinct (map o_id (orders (w_db w)))"
  shows "distinct is"
proof -
  have "distinct is \<and> (\<forall>i \<in> set is. claimed i (w_db w')) \<and> distinct (map o_id (orders (w_db w')))"
    using assms
  proof (induction rule: interleaved.induct)
    case (inter_claim w "is" w1 i w2)
    from inter_claim.hyps(2) obtain r where r: "r \<in> set (orders (w_db w1))" "o_id r = i"
        "o_status r = ''wait_payment''"
        "w_db w2 = (w_db w1)\<lparr>orders := update_where (\<lambda>o1. o_id o1 = i \<and> o_status o1 = ''wait_payment'')
           (\<lambda>r. r\<lparr>o_status := ''processing''\<rparr>) (orders (w_db w1))\<rparr>"
      by (rule Claim_InrD)
    from inter_claim have IH: "distinct is" "\<forall>i \<in> set is. claimed i (w_db w1)"
        "distinct (map o_id (orders (w_db w1)))"
      using inter_claim.IH [OF inter_claim.prems] by simp_all
    have "\<not> claimed i (w_db w1)"
      using key_unique [OF IH(3) r(1)] r(2,3) unfolding claimed_def by auto
    moreover have "r\<lparr>o_status := ''processing''\<rparr> \<in> set (orders (w_db w2))"
      unfolding r(4) using r(1-3) by (auto simp: set_update_where)
    then have "claimed i (w_db w2)"
      unfolding claimed_def using r(2) by (intro bexI) auto
    moreover have "since (w_db w1) (w_db w2)"
      using keepsD [OF since_repo(9), of "w_db w1" w1 i] inter_claim.hyps(2) by (simp add: on_db_def)
    then have "claimed j (w_db w2)" if "claimed j (w_db w1)" for j
      using that by (rule claimed_since)
    ultimately show ?case using IH r(4) by (auto simp: map_update_where_same)
  qed (auto intro: claimed_since)
  then show ?thesis by simp
qed

section \<open>Fulfilling\<close>

lemma Claim_InrE:
  assumes "ClaimForProvisioning i w = (Inr b, w')"
  shows "b = (\<exists>r \<in> set (orders (w_db w)). o_id r = i \<and> o_status r = ''wait_payment'')"
    "\<not> b \<Longrightarrow> w_db w' = w_db w"
  using assms
  by (auto simp: ClaimForProvisioning_def catch_def bind_def return_def throw_def sql_def Let_def
      claim_order_def update_order_def split: if_splits option.splits dest!: find_first_SomeD)

lemma read_row_InrD:
  "sql (select_row f) w = (Inr x, w') \<Longrightarrow> f (w_db w) = Some x \<and> w_db w' = w_db w"
  by (auto elim!: sql_InrD simp: select_row_def split: option.splits)

lemma GetOrderForProvision_InrD:
  assumes "GetOrderForProvision i w = (Inr ord, w')"
  shows "op_ID ord = i" "w_db w' = w_db w"
  using assms unfolding GetOrderForProvision_def scanProvision_def
  by (auto dest!: no_rows_InrD read_row_InrD by_key_SomeD simp: provision_of_row_def)

lemma GetPlanPricing_InrD:
  assumes "GetPlanPricing i w = (Inr plan, w')"
  obtains p where "by_key pl_id i (plans (w_db w)) = Some p" "w_db w' = w_db w"
    "plan = \<lparr>pp_Price = cents (pl_price p), pp_Currency = pl_currency p, pp_Days = pl_days p\<rparr>"
  using assms unfolding GetPlanPricing_def
  by (auto dest!: no_rows_InrD read_row_InrD split: option.splits if_splits)

lemma OrderSubscriptionID_InrD:
  "OrderSubscriptionID i w = (Inr sid, w') \<Longrightarrow> w_db w' = w_db w \<and>
    (\<exists>r. by_key o_id i (orders (w_db w)) = Some r \<and> sid = from_option uuid_Nil (o_subscription_id r))"
  unfolding OrderSubscriptionID_def
  by (auto dest!: no_rows_InrD read_row_InrD return_InrD elim!: bind_InrD)

lemma ExtendSubscription_orders:
  "ExtendSubscription i k w = (Inr x, w') \<Longrightarrow> orders (w_db w') = orders (w_db w)"
  unfolding ExtendSubscription_def
  by (auto dest!: wrap_InrD return_InrD throw_InrD elim!: bind_InrD sql_InrD
      simp: extend_sub_def Let_def split: if_splits)

lemma paid_after_finalize:
  assumes "FinalizePaid i sid w = (Inr x, w')"
  shows "\<exists>r \<in> set (orders (w_db w')). o_id r = i \<and> o_status r = ''paid'' \<and>
    o_subscription_id r = Some sid \<and> o_paid_at r = Some (now_of w)"
    "has_key sub_id sid (subscriptions (w_db w'))"
proof -
  obtain r fresh t where r: "find_first (payable i) (orders (w_db w)) = Some r" "t = now_of w"
    and sub: "has_key sub_id sid (subscriptions (w_db w))"
    and db: "w_db w' = (w_db w)\<lparr>orders := update_where (payable i) (paid_row t sid) (orders (w_db w)),
       payments := update_where (\<lambda>p. pay_order_id p = i) (\<lambda>p. p\<lparr>pay_status := ''success''\<rparr>)
         (payments (w_db w)),
       ledger := ledger (w_db w) @ [charge_entry (w_env w) fresh t
         (prev_hash (o_user_id r) (ledger (w_db w))) r]\<rparr>"
    using assms by (rule FinalizePaid_InrD)
  have rin: "r \<in> set (orders (w_db w))" "payable i r" using find_first_SomeD [OF r(1)] by auto
  then have "paid_row t sid r \<in> set (orders (w_db w'))" by (auto simp: db set_update_where)
  moreover have "o_id r = i" using rin(2) by (simp add: payable_def)
  ultimately show "\<exists>r \<in> set (orders (w_db w')). o_id r = i \<and> o_status r = ''paid'' \<and>
    o_subscription_id r = Some sid \<and> o_paid_at r = Some (now_of w)"
    using r(2) by (intro bexI [of _ "paid_row t sid r"]) (simp_all add: paid_row_def)
  show "has_key sub_id sid (subscriptions (w_db w'))" by (simp add: db sub)
qed

text \<open>What a successful claim ends with.\<close>

lemma provision_order_InrD:
  assumes "provision_order s ord w = (Inr sid, w')"
  obtains w1 where "FinalizePaid (op_ID ord) sid w1 = (Inr (), w')"
  using assms unfolding provision_order_def
  by (auto elim!: bind_InrD dest!: wrap_InrD return_InrD split: option.splits)

text \<open>
  C26. When fulfilling an order that waits for payment succeeds, the order is paid, its
  subscription is the one returned, and that subscription exists.
\<close>

theorem fulfilled_order_is_paid:
  assumes "FulfillOrder s i w = (Inr sid, w')"
    and "r \<in> set (orders (w_db w))" "o_id r = i" "o_status r = ''wait_payment''"
  shows "(\<exists>r' \<in> set (orders (w_db w')). o_id r' = i \<and> o_status r' = ''paid'' \<and>
      o_subscription_id r' = Some sid) \<and> has_key sub_id sid (subscriptions (w_db w'))"
proof -
  obtain ord w1 b w2 where 1: "GetOrderForProvision i w = (Inr ord, w1)"
      "ClaimForProvisioning (op_ID ord) w1 = (Inr b, w2)"
      "(if \<not> b then OrderSubscriptionID (op_ID ord) else provision_order s ord) w2 = (Inr sid, w')"
    using assms(1) unfolding FulfillOrder_def fulfill_def by (auto elim!: bind_InrD)
  note ord = GetOrderForProvision_InrD [OF 1(1)]
  have b using Claim_InrE(1) [OF 1(2)] assms(2-4) ord by auto
  with 1(3) obtain w3 where "FinalizePaid i sid w3 = (Inr (), w')"
    using ord(1) by (auto elim: provision_order_InrD)
  from paid_after_finalize [OF this]
  show ?thesis by auto
qed

lemma quiet_order_reads [quiet_intro]:
  "quiet (GetOrderForProvision i)" "quiet (OrderSubscriptionID i)"
  unfolding GetOrderForProvision_def scanProvision_def OrderSubscriptionID_def
  by (intro quiet_intro)+

lemma Claim_not_waiting:
  assumes "\<forall>r \<in> set (orders (w_db w)). o_id r = i \<longrightarrow> o_status r \<noteq> ''wait_payment''"
    "ClaimForProvisioning i w = (res, w')"
  shows "w_db w' = w_db w" "res \<noteq> Inr True"
proof -
  have "find_first (\<lambda>o1. o_id o1 = i \<and> o_status o1 = ''wait_payment'') (orders (w_db w)) = None"
    using assms(1) by simp
  then have "claim_order i now fresh (w_db w) = Inl ErrNoRows" for now fresh
    by (simp add: claim_order_def update_order_def del: find_first_None)
  then show "w_db w' = w_db w" "res \<noteq> Inr True"
    using assms(2) by (auto simp: ClaimForProvisioning_def catch_def bind_def return_def throw_def
        sql_def Let_def split: if_splits)
qed

lemma FulfillOrder_not_waiting:
  assumes waits: "\<forall>r \<in> set (orders (w_db w)). o_id r = i \<longrightarrow> o_status r \<noteq> ''wait_payment''"
    and run: "FulfillOrder s i w = (res, w')"
  shows "w_db w' = w_db w"
    "res = Inr x \<Longrightarrow> \<exists>w2 w3. w_db w2 = w_db w \<and> OrderSubscriptionID i w2 = (Inr x, w3)"
proof -
  obtain g w1 where g: "GetOrderForProvision i w = (g, w1)" by fastforce
  have db1: "w_db w1 = w_db w" by (rule quiet_fields [OF quiet_order_reads(1) g])
  have "w_db w' = w_db w \<and>
    (res = Inr x \<longrightarrow> (\<exists>w2 w3. w_db w2 = w_db w \<and> OrderSubscriptionID i w2 = (Inr x, w3)))"
  proof (cases g)
    case (Inl e)
    with g run db1 show ?thesis by (auto simp: FulfillOrder_def bind_def)
  next
    case (Inr ord)
    have id: "op_ID ord = i" using g Inr GetOrderForProvision_InrD(1) by blast
    obtain c w2 where c: "ClaimForProvisioning i w1 = (c, w2)" by fastforce
    note same = Claim_not_waiting [OF _ c, unfolded db1, OF waits]
    obtain o2 w3 where o2: "OrderSubscriptionID i w2 = (o2, w3)" by fastforce
    have db3: "w_db w3 = w_db w2" by (rule quiet_fields [OF quiet_order_reads(2) o2])
    have "res = (case c of Inl e \<Rightarrow> Inl e | Inr _ \<Rightarrow> o2)" "w_db w' = w_db w"
      using run g Inr c o2 same db3 by (auto simp: FulfillOrder_def fulfill_def bind_def id split: sum.splits)
    with o2 same(1) show ?thesis by (auto split: sum.splits)
  qed
  then show "w_db w' = w_db w"
    "res = Inr x \<Longrightarrow> \<exists>w2 w3. w_db w2 = w_db w \<and> OrderSubscriptionID i w2 = (Inr x, w3)"
    by auto
qed



end
