(* ===== verification/BillingBuy.thy ===== *)
theory BillingBuy
  imports BillingOrders
begin

text \<open>
  Buying: promo codes are never redeemed beyond their limits nor twice by a user, the amount of
  an order is exact to the cent, and a user never has more than five recent unpaid orders.
\<close>

section \<open>Promo codes\<close>

definition redemptions_of :: "uuid \<Rightarrow> redemption_row list \<Rightarrow> nat" where
  "redemptions_of p rs = count_where (\<lambda>r. rd_promo_id r = p) rs"

definition within_limit :: "promo_row \<Rightarrow> bool" where
  "within_limit p \<longleftrightarrow> (case pm_max_uses p of None \<Rightarrow> True | Some m \<Rightarrow> pm_used_count p \<le> m)"

definition promo_ok :: "db \<Rightarrow> bool" where
  "promo_ok d \<longleftrightarrow> distinct (map pm_id (promocodes d)) \<and>
     distinct (map (\<lambda>r. (rd_promo_id r, rd_user_id r)) (promo_redemptions d)) \<and>
     (\<forall>p \<in> set (promocodes d). within_limit p \<and>
        pm_used_count p = int (redemptions_of (pm_id p) (promo_redemptions d)))"

lemma promo_ok_local:
  "promocodes d' = promocodes d \<Longrightarrow> promo_redemptions d' = promo_redemptions d \<Longrightarrow>
    promo_ok d' = promo_ok d"
  by (simp add: promo_ok_def)

lemma promo_ok_billing: "billing_is d d' \<Longrightarrow> promo_ok d = promo_ok d'"
  by (rule promo_ok_local) (simp_all add: billing_is_def billing_tables_def)

lemma stmt_keeps_promo_local:
  "(\<And>now fresh d x d'. st now fresh d = Inr (x, d') \<Longrightarrow>
      promocodes d' = promocodes d \<and> promo_redemptions d' = promo_redemptions d) \<Longrightarrow>
    stmt_keeps promo_ok st"
  unfolding stmt_keeps_def by (metis promo_ok_local)

lemma promo_statements [keeps_intro]:
  "stmt_keeps promo_ok (claim_order i)" "stmt_keeps promo_ok (mark_paid i sid)"
  "stmt_keeps promo_ok (insert_payment i g x st a c l)" "stmt_keeps promo_ok (set_payments i st)"
  "stmt_keeps promo_ok (fail_order i)" "stmt_keeps promo_ok (insert_ledger u ty k c rt ri ph h)"
  "stmt_keeps promo_ok (upsert_webhook g x st pl)" "stmt_keeps promo_ok (stamp_webhook g x)"
  by (rule stmt_keeps_promo_local;
      auto simp: claim_order_def mark_paid_def update_order_def insert_payment_def set_payments_def
        modify_def fail_order_def insert_ledger_def upsert_webhook_def stamp_webhook_def Let_def
        split: option.splits if_splits)+

lemma redeem_InrD:
  assumes "redeem pid u i w = (Inr x, w')"
  obtains p fresh where "p \<in> set (promocodes (w_db w))" "pm_id p = pid" "redeemable p"
    "orders (w_db w') = orders (w_db w)"
    "\<forall>r \<in> set (promo_redemptions (w_db w)). \<not> (rd_promo_id r = pid \<and> rd_user_id r = u)"
    "promo_redemptions (w_db w') = promo_redemptions (w_db w) @
       [\<lparr>rd_id = fresh, rd_promo_id = pid, rd_user_id = u, rd_order_id = i\<rparr>]"
    "promocodes (w_db w') = update_where (\<lambda>p. pm_id p = pid \<and> redeemable p)
       (\<lambda>p. p\<lparr>pm_used_count := pm_used_count p + 1\<rparr>) (promocodes (w_db w))"
proof -
  let ?hit = "\<lambda>p. pm_id p = pid \<and> redeemable p"
  let ?upd = "update_where ?hit (\<lambda>p. p\<lparr>pm_used_count := pm_used_count p + 1\<rparr>)"
  obtain q w1 k where 1: "sql (use_promo pid) w = (Inr q, w1)"
    and 2: "sql (insert_redemption pid u i) w1 = (Inr k, w')" "k \<noteq> 0"
    using assms unfolding redeem_def
    by (auto elim!: bind_InrD dest!: no_rows_InrD wrap_InrD throw_InrD return_InrD split: if_splits)
  obtain p where p: "find_first ?hit (promocodes (w_db w)) = Some p"
      "w_db w1 = (w_db w)\<lparr>promocodes := ?upd (promocodes (w_db w))\<rparr>"
    using 1 by (auto elim!: sql_InrD simp: use_promo_def Let_def split: option.splits)
  show thesis
    using find_first_SomeD [OF p(1)] 2 p(2)
    by (intro that [of p "env_uuid (w_env w1) (w_tick w1)"])
      (auto elim!: sql_InrD simp: insert_redemption_def list_ex_iff split: if_splits)
qed

lemma insert_order_InrD:
  assumes "insert_order n now fresh d = Inr (r, d')"
  shows "d' = d\<lparr>orders := orders d @ [r]\<rparr> \<and> o_id r = fresh \<and> o_user_id r = no_UserID n \<and>
    o_amount r = numeric2 (no_Amount n) \<and> o_status r = ''wait_payment'' \<and> o_created_at r = now \<and>
    o_plan_id r = no_PlanID n \<and> \<bar>numeric2 (no_Amount n)\<bar> < 10 ^ 10"
  using assms
  by (auto simp: insert_order_def numeric_in_def Let_def order_status_defs split: if_splits option.splits)

text \<open>A redemption keeps the counters.\<close>

lemma promo_ok_redeem:
  assumes ok: "promo_ok d"
    and p: "p \<in> set (promocodes d)" "pm_id p = pid" "redeemable p"
    and r: "\<forall>r \<in> set (promo_redemptions d). \<not> (rd_promo_id r = pid \<and> rd_user_id r = u)"
      "promo_redemptions d' = promo_redemptions d @
        [\<lparr>rd_id = fresh, rd_promo_id = pid, rd_user_id = u, rd_order_id = i\<rparr>]"
    and pc: "promocodes d' = update_where (\<lambda>p. pm_id p = pid \<and> redeemable p)
       (\<lambda>p. p\<lparr>pm_used_count := pm_used_count p + 1\<rparr>) (promocodes d)"
  shows "promo_ok d'"
proof -
  define g where "g = (\<lambda>p. if pm_id p = pid \<and> redeemable p
    then p\<lparr>pm_used_count := pm_used_count p + 1\<rparr> else p)"
  have pc': "promocodes d' = map g (promocodes d)" by (simp add: pc update_where_def g_def)
  have "pm_id \<circ> g = pm_id" by (simp add: fun_eq_iff g_def)
  moreover have "within_limit (g q) \<and> pm_used_count (g q) =
      int (redemptions_of (pm_id (g q)) (promo_redemptions d'))" if q: "q \<in> set (promocodes d)" for q
  proof (cases "pm_id q = pid")
    case True
    with q ok p have "q = p" by (auto simp: promo_ok_def intro: key_unique [of pm_id])
    with ok p q r show ?thesis
      by (auto simp: g_def promo_ok_def within_limit_def redeemable_def redemptions_of_def
          split: option.splits)
  next
    case False
    with ok q r show ?thesis by (auto simp: g_def promo_ok_def redemptions_of_def)
  qed
  moreover have "distinct (map (\<lambda>r. (rd_promo_id r, rd_user_id r)) (promo_redemptions d'))"
    using ok r by (auto simp: promo_ok_def)
  ultimately show ?thesis using ok by (auto simp: promo_ok_def pc')
qed

lemma CreateOrder_InrD:
  assumes "CreateOrder n w = (Inr ord, w')"
  obtains r where "ord = order_of_row r" "orders (w_db w') = orders (w_db w) @ [r]"
    "o_user_id r = no_UserID n" "o_amount r = numeric2 (no_Amount n)" "o_status r = ''wait_payment''"
    "o_created_at r = now_of w" "\<bar>numeric2 (no_Amount n)\<bar> < 10 ^ 10"
    "case no_PromoID n of None \<Rightarrow> w_db w' = (w_db w)\<lparr>orders := orders (w_db w) @ [r]\<rparr>
      | Some pid \<Rightarrow> \<exists>w1 w2. w_db w1 = (w_db w)\<lparr>orders := orders (w_db w) @ [r]\<rparr> \<and>
          redeem pid (no_UserID n) (o_id r) w1 = (Inr (), w2) \<and> w_db w' = w_db w2"
proof -
  let ?n = "n\<lparr>no_Routing := if no_Routing n = '''' then ''full'' else no_Routing n\<rparr>"
  let ?w0 = "(step_tick w)\<lparr>w_tx_now := Some (now_of w)\<rparr>"
  obtain r w1 w2 where 1: "sql (insert_order ?n) ?w0 = (Inr r, w1)"
    and 2: "(case no_PromoID n of None \<Rightarrow> return () | Some pid \<Rightarrow> redeem pid (no_UserID n) (o_id r)) w1
      = (Inr (), w2)"
    and 3: "ord = order_of_row r" "w_db w' = w_db w2"
    using assms unfolding CreateOrder_def Let_def
    by (auto elim!: transaction_SomeD bind_InrD dest!: wrap_InrD return_InrD)
  obtain d where "insert_order ?n (now_of w) (env_uuid (w_env w) (Suc (w_tick w))) (w_db w) = Inr (r, d)"
      "w_db w1 = d"
    using 1 by (auto elim!: sql_InrD simp: now_of_def)
  note ins = insert_order_InrD [OF this(1)] this(2)
  show thesis
  proof (rule that [OF 3(1)])
    show "orders (w_db w') = orders (w_db w) @ [r]"
      using 2 3(2) ins by (auto dest!: return_InrD elim!: redeem_InrD split: option.splits)
    show "case no_PromoID n of None \<Rightarrow> w_db w' = (w_db w)\<lparr>orders := orders (w_db w) @ [r]\<rparr>
      | Some pid \<Rightarrow> \<exists>w1 w2. w_db w1 = (w_db w)\<lparr>orders := orders (w_db w) @ [r]\<rparr> \<and>
          redeem pid (no_UserID n) (o_id r) w1 = (Inr (), w2) \<and> w_db w' = w_db w2"
      using 2 3(2) ins by (auto dest!: return_InrD split: option.splits)
  qed (use ins in auto)
qed

lemma promo_CreateOrder [keeps_intro]: "keeps (on_db promo_ok) (CreateOrder n)"
proof (rule keeps_atomic)
  fix w ord w' assume ok: "promo_ok (w_db w)" and run: "CreateOrder n w = (Inr ord, w')"
  obtain r where r: "case no_PromoID n of None \<Rightarrow> w_db w' = (w_db w)\<lparr>orders := orders (w_db w) @ [r]\<rparr>
      | Some pid \<Rightarrow> \<exists>w1 w2. w_db w1 = (w_db w)\<lparr>orders := orders (w_db w) @ [r]\<rparr> \<and>
          redeem pid (no_UserID n) (o_id r) w1 = (Inr (), w2) \<and> w_db w' = w_db w2"
    using run by (rule CreateOrder_InrD)
  show "promo_ok (w_db w')"
  proof (cases "no_PromoID n")
    case None
    with ok r show ?thesis by (simp add: promo_ok_def)
  next
    case (Some pid)
    with r obtain w1 w2 where w1: "w_db w1 = (w_db w)\<lparr>orders := orders (w_db w) @ [r]\<rparr>"
        "redeem pid (no_UserID n) (o_id r) w1 = (Inr (), w2)" "w_db w' = w_db w2" by auto
    have "promo_ok (w_db w1)" using ok by (simp add: promo_ok_def w1(1))
    then have "promo_ok (w_db w2)"
      using w1(2) by (elim redeem_InrD) (rule promo_ok_redeem)
    with w1(3) show ?thesis by simp
  qed
qed (simp add: CreateOrder_def Let_def transaction_error_db)

lemma promo_repo [keeps_intro]:
  "keeps (on_db promo_ok) (CreatePayment i g x st a c l)"
  "keeps (on_db promo_ok) (ClaimForProvisioning i)" "keeps (on_db promo_ok) (FinalizePaid i sid)"
  "keeps (on_db promo_ok) (MarkFailed i)"
  "keeps (on_db promo_ok) (RecordWebhook g x st b)" "keeps (on_db promo_ok) (MarkWebhookProcessed g x)"
  unfolding CreatePayment_def ClaimForProvisioning_def MarkFailed_def FinalizePaid_def
    appendLedger_def RecordWebhook_def MarkWebhookProcessed_def Let_def
  by (intro keeps_intro)+


section \<open>The amount of an order\<close>

lemma fl_sign: "x \<ge> 0 \<Longrightarrow> fl x \<ge> 0" "x \<le> 0 \<Longrightarrow> fl x \<le> 0"
  using fl_error [of x] by (simp_all add: abs_if split: if_splits)

lemma cents_0 [simp]: "cents 0 = 0"
  by (simp add: cents_def)

lemma rat_bound: "\<bar>k\<bar> \<le> 10 ^ 13 \<Longrightarrow> \<bar>of_int k\<bar> \<le> (10 ^ 13 :: rat)"
  by (metis of_int_abs of_int_le_iff of_int_numeral of_int_power)

lemma of_int_bound: "k \<le> 10 ^ n \<Longrightarrow> (of_int k :: rat) \<le> 10 ^ n"
  by (metis of_int_le_iff of_int_numeral of_int_power)

lemma cents_mono:
  assumes "j \<le> k" "\<bar>j\<bar> \<le> 10 ^ 13" "\<bar>k\<bar> \<le> 10 ^ 13"
  shows "cents j \<le> cents k"
proof (cases "j = k")
  case False
  then have "of_int j + 1 \<le> (of_int k :: rat)" using assms(1) by (metis antisym_conv2 of_int_1 of_int_add of_int_le_iff zless_iff_Suc_zadd add1_zle_eq)
  then have "cents j * 100 \<le> cents k * 100"
    using cents_near [OF rat_bound [OF assms(2)]] cents_near [OF rat_bound [OF assms(3)]]
    unfolding abs_le_iff by linarith
  then show ?thesis by simp
qed simp

text \<open>What is charged is the exact difference in cents, or nothing.\<close>

lemma charge_cents:
  assumes "0 \<le> p" "p < 10 ^ 10" "0 \<le> k" "k < 10 ^ 10"
  shows "charge (cents p) (cents k) = cents (max 0 (p - k))"
proof (cases "k \<le> p")
  case True
  then have "cents k \<le> cents p" using assms by (intro cents_mono) auto
  then have "max 0 (fl (cents p - cents k)) = fl (cents p - cents k)"
    using fl_sign(1) [of "cents p - cents k"] by simp
  with True show ?thesis using round2_diff [of p k] assms by (simp add: charge_def)
next
  case False
  then have "cents p \<le> cents k" using assms by (intro cents_mono) auto
  then have "max 0 (fl (cents p - cents k)) = 0"
    using fl_sign(2) [of "cents p - cents k"] by simp
  with False show ?thesis using round2_cents [of 0] by (simp add: charge_def)
qed

text \<open>A float is rounded to a whole number of cents that is nearest to it.\<close>

lemma round2_cents_of:
  obtains k where "round2 v = cents k" "\<bar>of_int k - v * 100\<bar> \<le> 1 / 2 + \<bar>v * 100\<bar> / 2 ^ 53"
proof -
  obtain k where k: "math_Round (fl (v * 100)) = of_int k" by (auto simp: math_Round_def)
  have "\<bar>of_int k - fl (v * 100)\<bar> \<le> 1 / 2"
    using math_Round_error [of "fl (v * 100)"] by (simp add: k)
  with fl_error [of "v * 100"] have "\<bar>of_int k - v * 100\<bar> \<le> 1 / 2 + \<bar>v * 100\<bar> / 2 ^ 53" by arith
  with that k show thesis by (simp add: round2_def cents_def)
qed

lemma fl_near: "\<bar>x\<bar> \<le> c \<Longrightarrow> \<bar>fl x - x\<bar> \<le> c / 2 ^ 53"
  by (rule order_trans [OF fl_error]) (simp add: divide_right_mono)

text \<open>The product of a price and a percentage, in floats.\<close>

lemma percent_product:
  assumes a: "0 \<le> a" "a < 10 ^ 10" and b: "0 \<le> b" "b \<le> 10 ^ 4"
  shows "\<bar>fl (fl (cents a * cents b) / 100) * 100 - of_int (a * b) / 10 ^ 4\<bar> \<le> 1 / 1000"
proof -
  define A B X where "A = cents a" and "B = cents b" and "X = (of_int (a * b) / 10 ^ 4 :: rat)"
  have ra: "0 \<le> (of_int a :: rat)" "(of_int a :: rat) \<le> 10 ^ 10"
    using a of_int_bound [of a 10] by simp_all
  have rb: "0 \<le> (of_int b :: rat)" "(of_int b :: rat) \<le> 10 ^ 4"
    using b of_int_bound [of b 4] by simp_all
  have eA: "\<bar>A - of_int a / 100\<bar> \<le> 10 ^ 8 / 2 ^ 53"
    using fl_error [of "of_int a / 100"] ra unfolding A_def cents_def by simp
  have eB: "\<bar>B - of_int b / 100\<bar> \<le> 100 / 2 ^ 53"
    using fl_error [of "of_int b / 100"] rb unfolding B_def cents_def by simp
  have "(10 ^ 8 / 2 ^ 53 :: rat) \<le> 1" "(10 ^ 10 / 100 :: rat) = 10 ^ 8" "(1 :: rat) \<le> 10 ^ 8" by simp_all
  then have A2: "\<bar>A\<bar> \<le> 2 * 10 ^ 8" using eA ra by arith
  have X: "0 \<le> X" "X \<le> 10 ^ 10"
    using mult_mono [OF ra(2) rb(2)] ra rb by (simp_all add: X_def)
  have "A * B - X = A * (B - of_int b / 100) + (A - of_int a / 100) * (of_int b / 100)"
    by (simp add: X_def algebra_simps)
  moreover have "\<bar>A * (B - of_int b / 100)\<bar> \<le> 2 * 10 ^ 8 * (100 / 2 ^ 53)"
    unfolding abs_mult using A2 eB by (rule mult_mono) auto
  moreover have "\<bar>(A - of_int a / 100) * (of_int b / 100)\<bar> \<le> 10 ^ 8 / 2 ^ 53 * 100"
    unfolding abs_mult using eA by (rule mult_mono) (use rb in auto)
  moreover have "2 * 10 ^ 8 * (100 / 2 ^ 53) + 10 ^ 8 / 2 ^ 53 * 100 \<le> (1 / 10 ^ 5 :: rat)" by simp
  ultimately have AB: "\<bar>A * B - X\<bar> \<le> 1 / 10 ^ 5" by arith
  have small: "(1 / 10 ^ 5 :: rat) \<le> 1" "((10 ^ 10 + 1) / 2 ^ 53 :: rat) \<le> 1 / 10 ^ 5"
    "((10 ^ 10 + 2) / 2 ^ 53 :: rat) \<le> 1 / 10 ^ 5" by simp_all
  have "\<bar>A * B\<bar> \<le> 10 ^ 10 + 1" using AB X small(1) by arith
  then have P: "\<bar>fl (A * B) - A * B\<bar> \<le> 1 / 10 ^ 5"
    using fl_near [of "A * B" "10 ^ 10 + 1"] small(2) by linarith
  define F where "F = fl (A * B)"
  have "\<bar>F\<bar> \<le> 10 ^ 10 + 2" using P AB X small(1) unfolding F_def by arith
  then have "\<bar>F / 100\<bar> \<le> (10 ^ 10 + 2) / 100" by simp
  from fl_near [OF this] have "\<bar>fl (F / 100) * 100 - F\<bar> \<le> (10 ^ 10 + 2) / 2 ^ 53"
    by (simp add: abs_if field_simps split: if_splits)
  with P AB small(3) have "\<bar>fl (F / 100) * 100 - X\<bar> \<le> 1 / 10 ^ 5 + 1 / 10 ^ 5 + 1 / 10 ^ 5"
    unfolding F_def [symmetric] by arith
  then show ?thesis unfolding A_def [symmetric] B_def [symmetric] X_def [symmetric] F_def [symmetric]
    by simp
qed

lemma percent_cents:
  assumes "0 \<le> a" "a < 10 ^ 10" "0 \<le> b" "b \<le> 10 ^ 4"
  obtains k where "round2 (fl (fl (cents a * cents b) / 100)) = cents k" "0 \<le> k" "k \<le> a"
    "\<bar>of_int k - of_int (a * b) / 10 ^ 4\<bar> \<le> (51 / 100 :: rat)"
proof -
  define v where "v = fl (fl (cents a * cents b) / 100)"
  define X where "X = (of_int (a * b) / 10 ^ 4 :: rat)"
  obtain k where k: "round2 v = cents k" "\<bar>of_int k - v * 100\<bar> \<le> 1 / 2 + \<bar>v * 100\<bar> / 2 ^ 53"
    by (rule round2_cents_of)
  have v: "\<bar>v * 100 - X\<bar> \<le> 1 / 1000" unfolding v_def X_def using assms by (rule percent_product)
  have "of_int (a * b) \<le> (of_int (a * 10 ^ 4) :: rat)"
    unfolding of_int_le_iff using assms by (intro mult_left_mono) auto
  then have X: "0 \<le> X" "X \<le> of_int a" using assms by (simp_all add: X_def)
  moreover have "(of_int a :: rat) \<le> 10 ^ 10"
    using assms(2) of_int_bound [of a 10] by simp
  ultimately have near: "\<bar>of_int k - X\<bar> \<le> 51 / 100" using k(2) v by (simp add: abs_le_iff abs_if split: if_splits)
  then have "(of_int k :: rat) < of_int (a + 1)" "(of_int (- 1) :: rat) < of_int k"
    using X unfolding abs_le_iff of_int_add of_int_minus of_int_1 by linarith+
  then have "0 \<le> k" "k \<le> a" unfolding of_int_less_iff by simp_all
  with that k(1) near show thesis unfolding v_def X_def by blast
qed

definition fixed_discount :: "db \<Rightarrow> string \<Rightarrow> int \<Rightarrow> bool" where
  "fixed_discount d code k \<longleftrightarrow> TrimSpace code = '''' \<and> k = 0 \<or>
     TrimSpace code \<noteq> '''' \<and>
     (\<exists>p. find_first (\<lambda>p. citext_eq (pm_code p) (TrimSpace code)) (promocodes d) = Some p \<and>
        pm_type p = ''fixed'' \<and> pm_discount p = k)"

lemma resolvePromo_InrD:
  assumes "resolvePromo code plan w = (Inr (disc, pid), w')"
  shows "w_db w' = w_db w \<and>
    (TrimSpace code = '''' \<and> disc = 0 \<and> pid = None \<or>
     TrimSpace code \<noteq> '''' \<and>
     (\<exists>p. find_first (\<lambda>p. citext_eq (pm_code p) (TrimSpace code)) (promocodes (w_db w)) = Some p \<and>
       pid = Some (pm_id p) \<and> pm_active p \<and> disc = round2 (promo_discount (promo_of_row p) plan)))"
proof (cases "TrimSpace code = ''''")
  case True
  with assms show ?thesis by (auto simp: resolvePromo_def dest: return_InrD)
next
  case False
  then obtain promo w1 ok w2 where 1: "GetPromoByCode (TrimSpace code) w = (Inr promo, w1)"
    and 2: "(if pc_Active promo then (case pc_ExpiresAt promo of None \<Rightarrow> return True
        | Some t \<Rightarrow> bind time_Now (\<lambda>now. return (\<not> t < now))) else return False) w1 = (Inr ok, w2)"
    and 3: "ok" "disc = round2 (promo_discount promo plan)" "pid = Some (pc_ID promo)" "w' = w2"
    using assms unfolding resolvePromo_def Let_def
    by (auto elim!: bind_InrD dest!: return_InrD throw_InrD split: if_splits)
  obtain p where p: "find_first (\<lambda>p. citext_eq (pm_code p) (TrimSpace code)) (promocodes (w_db w)) = Some p"
      "promo = promo_of_row p" "w_db w1 = w_db w"
    using 1 unfolding GetPromoByCode_def by (auto dest!: no_rows_InrD read_row_InrD)
  have "w_db w2 = w_db w1 \<and> pc_Active promo"
    using 2 3(1) by (auto dest!: return_InrD elim!: bind_InrD simp: time_Now_def split: if_splits option.splits)
  with p 3 False show ?thesis by (simp add: promo_of_row_def)
qed

lemma discount_cents:
  assumes "resolvePromo code plan w = (Inr (disc, pid), w')" "fixed_discount (w_db w) code k"
    "0 \<le> k" "k < 10 ^ 10"
  shows "disc = cents k"
  using resolvePromo_InrD [OF assms(1)] assms(2-4)
  by (auto simp: fixed_discount_def promo_discount_def promo_of_row_def)

lemma Count_InrD:
  "CountRecentPendingOrders u t w = (Inr n, w') \<Longrightarrow>
    n = count_where (is_pending u (pg_time t)) (orders (w_db w)) \<and> w_db w' = w_db w"
  unfolding CountRecentPendingOrders_def
  by (auto dest!: wrap_InrD elim!: sql_InrD simp: select_def)

lemma CreatePayment_InrD:
  assumes "CreatePayment i g x st a c l w = (Inr pay, w')"
  shows "py_Amount pay = cents (numeric2 a) \<and> py_OrderID pay = i \<and> orders (w_db w') = orders (w_db w)"
  using assms unfolding CreatePayment_def
  by (auto elim!: bind_InrD sql_InrD dest!: wrap_InrD return_InrD
      simp: insert_payment_def payment_of_row_def numeric_in_def Let_def split: if_splits option.splits)

lemma fail_then_throw_InrD:
  "catch m (\<lambda>e. bind (attempt h) (\<lambda>_. throw (f e))) w = (Inr x, w') \<Longrightarrow> m w = (Inr x, w')"
  by (auto simp: catch_def bind_def attempt_def throw_def split: prod.splits sum.splits)

lemma quiet_prices [quiet_intro]:
  "quiet (GetPlanPricing i)" "quiet (GetPromoByCode code)" "quiet (resolvePromo code plan)"
  unfolding resolvePromo_def GetPlanPricing_def GetPromoByCode_def Let_def by (intro quiet_intro)+

context billing_wiring
begin

text \<open>A purchase that succeeds, in its parts.\<close>

lemma Buy_InrD:
  assumes "Buy s inp w = (Inr (ord, pay), w')"
  obtains p disc pid w1 w2 now r where
    "by_key pl_id (bi_PlanID inp) (plans (w_db w)) = Some p" "w_db w1 = w_db w"
    "resolvePromo (bi_PromoCode inp) \<lparr>pp_Price = cents (pl_price p), pp_Currency = pl_currency p,
       pp_Days = pl_days p\<rparr> w1 = (Inr (disc, pid), w2)"
    "count_where (is_pending (bi_UserID inp) (pg_time (now - pendingWindow))) (orders (w_db w)) < maxPendingOrder"
    "now \<in> range (env_clock (w_env w))"
    "ord = order_of_row r" "orders (w_db w') = orders (w_db w) @ [r]" "o_user_id r = bi_UserID inp"
    "o_amount r = numeric2 (charge (cents (pl_price p)) disc)" "o_status r = ''wait_payment''"
    "py_Amount pay = or_Amount ord" "py_OrderID pay = or_ID ord"
proof -
  obtain pv where pv: "map_of (bs_providers s) (bi_Gateway inp) = Some pv"
    using assms unfolding Buy_def by (auto dest!: throw_InrD split: if_splits option.splits)
  obtain plan w1 disc pid w2 now w3 n w4 w5 res w6 where
    plan: "GetPlanPricing (bi_PlanID inp) w = (Inr plan, w1)" and
    promo: "resolvePromo (bi_PromoCode inp) plan w1 = (Inr (disc, pid), w2)" and
    time: "time_Now w2 = (Inr now, w3)" and
    cnt: "CountRecentPendingOrders (bi_UserID inp) (now - pendingWindow) w3 = (Inr n, w4)"
      "n < maxPendingOrder" and
    create: "CreateOrder \<lparr>no_UserID = bi_UserID inp, no_PlanID = bi_PlanID inp,
        no_CountryID = bi_CountryID inp, no_Protocol = bi_Protocol inp,
        no_Amount = charge (pp_Price plan) disc, no_Discount = round2 disc,
        no_Currency = pp_Currency plan, no_Gateway = bi_Gateway inp, no_PromoID = pid,
        no_Label = bi_Label inp, no_RenewSubscriptionID = bi_RenewSubscriptionID inp,
        no_Routing = bi_Routing inp\<rparr> w4 = (Inr ord, w5)" and
    prov: "pv_CreatePayment pv \<lparr>ip_OrderID = or_ID ord, ip_Amount = charge (pp_Price plan) disc,
        ip_Currency = pp_Currency plan, ip_Description = ''VPN subscription'',
        ip_CallbackURL = bs_callbackURL s @ ''/api/v1/billing/webhook/'' @ bi_Gateway inp,
        ip_ReturnURL = bs_callbackURL s\<rparr> w5 = (Inr res, w6)" and
    payment: "CreatePayment (or_ID ord) (bi_Gateway inp) (rs_ExternalID res) (rs_Status res)
        (charge (pp_Price plan) disc) (pp_Currency plan) (rs_PaymentURL res) w6 = (Inr pay, w')"
    using assms pv unfolding Buy_def Let_def
    by (auto elim!: bind_InrD dest!: throw_InrD return_InrD fail_then_throw_InrD split: if_splits prod.splits)
  obtain p where p: "by_key pl_id (bi_PlanID inp) (plans (w_db w)) = Some p" "w_db w1 = w_db w"
      "plan = \<lparr>pp_Price = cents (pl_price p), pp_Currency = pl_currency p, pp_Days = pl_days p\<rparr>"
    using plan by (rule GetPlanPricing_InrD)
  have db4: "w_db w3 = w_db w" "w_db w4 = w_db w" "now \<in> range (env_clock (w_env w))"
      "n = count_where (is_pending (bi_UserID inp) (pg_time (now - pendingWindow))) (orders (w_db w))"
    using resolvePromo_InrD [OF promo] Count_InrD [OF cnt(1)] time p(2)
      quiet_fields(4) [OF quiet_prices(1) plan] quiet_fields(4) [OF quiet_prices(3) promo]
    by (auto simp: time_Now_def)
  obtain r where r: "ord = order_of_row r" "orders (w_db w5) = orders (w_db w4) @ [r]"
      "o_user_id r = bi_UserID inp" "o_amount r = numeric2 (charge (pp_Price plan) disc)"
      "o_status r = ''wait_payment''"
    using create by (rule CreateOrder_InrD) simp
  note quiet_fields(1) [OF quiet_provider(1) [OF pv] prov] CreatePayment_InrD [OF payment]
  with p db4 r promo cnt(2) show thesis
    by (intro that [OF p(1,2) promo [unfolded p(3)], of now r]) (auto simp: order_of_row_def)
qed

end

text \<open>
  C29. A purchase without a promo code, or with a code for a fixed discount, costs the price less
  the discount to the cent, and nothing when the discount is larger: the order, its row and its
  payment have that amount, although the code computes with floats.
\<close>

theorem Buy_charges_exactly:
  assumes "Buy (api_billing cfg cipher cidrs) inp w = (Inr (ord, pay), w')"
    and "by_key pl_id (bi_PlanID inp) (plans (w_db w)) = Some p" "0 \<le> pl_price p" "pl_price p < 10 ^ 10"
    and "fixed_discount (w_db w) (bi_PromoCode inp) k" "0 \<le> k" "k < 10 ^ 10"
  shows "or_Amount ord = cents (max 0 (pl_price p - k)) \<and> py_Amount pay = or_Amount ord \<and>
    (\<exists>r \<in> set (orders (w_db w')). order_of_row r = ord \<and> o_amount r = max 0 (pl_price p - k))"
proof -
  obtain p' disc pid w1 w2 r where *:
    "by_key pl_id (bi_PlanID inp) (plans (w_db w)) = Some p'" "w_db w1 = w_db w"
    "resolvePromo (bi_PromoCode inp) \<lparr>pp_Price = cents (pl_price p'), pp_Currency = pl_currency p',
       pp_Days = pl_days p'\<rparr> w1 = (Inr (disc, pid), w2)"
    "ord = order_of_row r" "orders (w_db w') = orders (w_db w) @ [r]"
    "o_amount r = numeric2 (charge (cents (pl_price p')) disc)" "py_Amount pay = or_Amount ord"
    using assms(1) by (rule api.Buy_InrD) blast
  have "disc = cents k" using discount_cents [OF *(3)] *(2) assms(5-7) by simp
  then have "o_amount r = max 0 (pl_price p - k)"
    using * assms charge_cents [of "pl_price p" k] by simp
  with * show ?thesis by (auto simp: order_of_row_def)
qed

text \<open>
  With a percentage code the discount is the percentage of the price rounded to a cent: off
  by at most half a cent and a hundredth of one.
\<close>

theorem Buy_percent_within_a_cent:
  assumes "Buy (api_billing cfg cipher cidrs) inp w = (Inr (ord, pay), w')"
    and "by_key pl_id (bi_PlanID inp) (plans (w_db w)) = Some p" "0 \<le> pl_price p" "pl_price p < 10 ^ 10"
    and "TrimSpace (bi_PromoCode inp) \<noteq> ''''"
    and "find_first (\<lambda>q. citext_eq (pm_code q) (TrimSpace (bi_PromoCode inp))) (promocodes (w_db w)) = Some q"
    and "pm_type q = ''percent''" "0 \<le> pm_discount q" "pm_discount q \<le> 10 ^ 4"
  shows "\<exists>k. or_Amount ord = cents (pl_price p - k) \<and> 0 \<le> k \<and> k \<le> pl_price p \<and>
    \<bar>of_int k - of_int (pl_price p * pm_discount q) / 10 ^ 4\<bar> \<le> (51 / 100 :: rat)"
proof -
  obtain p' disc pid w1 w2 r where *:
    "by_key pl_id (bi_PlanID inp) (plans (w_db w)) = Some p'" "w_db w1 = w_db w"
    "resolvePromo (bi_PromoCode inp) \<lparr>pp_Price = cents (pl_price p'), pp_Currency = pl_currency p',
       pp_Days = pl_days p'\<rparr> w1 = (Inr (disc, pid), w2)"
    "ord = order_of_row r"
    "o_amount r = numeric2 (charge (cents (pl_price p')) disc)" "py_Amount pay = or_Amount ord"
    using assms(1) by (rule api.Buy_InrD) blast
  have "disc = round2 (fl (fl (cents (pl_price p) * cents (pm_discount q)) / 100))"
    using resolvePromo_InrD [OF *(3)] *(1,2) assms(2,5-7)
    by (simp add: promo_discount_def promo_of_row_def)
  moreover obtain k where k: "round2 (fl (fl (cents (pl_price p) * cents (pm_discount q)) / 100)) = cents k"
      "0 \<le> k" "k \<le> pl_price p"
      "\<bar>of_int k - of_int (pl_price p * pm_discount q) / 10 ^ 4\<bar> \<le> (51 / 100 :: rat)"
    using percent_cents [OF assms(3,4,8,9)] by blast
  ultimately have "o_amount r = pl_price p - k"
    using *(1,5) assms(2-4) charge_cents [of "pl_price p" k] by simp
  with k *(4) show ?thesis by (auto simp: order_of_row_def)
qed

lemma pending_antimono:
  "t \<le> t' \<Longrightarrow> count_where (is_pending u t') os \<le> count_where (is_pending u t) os"
  by (induction os) (auto simp: is_pending_def)

lemma pg_time_mono: "t \<le> t' \<Longrightarrow> pg_time t \<le> pg_time t'"
  by (simp add: pg_time_def zdiv_mono1)

text \<open>
  C30. After a purchase the user has at most five unpaid orders from the last ten minutes, at any
  time that is not before the clock of the purchase.
\<close>

theorem pending_orders_bounded:
  assumes "Buy (api_billing cfg cipher cidrs) inp w = (Inr (ord, pay), w')"
    and "\<And>n. env_clock (w_env w) n \<le> t"
  shows "count_where (is_pending (bi_UserID inp) (pg_time (t - pendingWindow))) (orders (w_db w')) \<le> 5"
proof -
  obtain now r where *:
    "count_where (is_pending (bi_UserID inp) (pg_time (now - pendingWindow))) (orders (w_db w)) < maxPendingOrder"
    "now \<in> range (env_clock (w_env w))" "orders (w_db w') = orders (w_db w) @ [r]"
    using assms(1) by (rule api.Buy_InrD) blast
  then have "pg_time (now - pendingWindow) \<le> pg_time (t - pendingWindow)"
    using assms(2) by (intro pg_time_mono) auto
  from pending_antimono [OF this, of "bi_UserID inp" "orders (w_db w)"] * show ?thesis
    by (simp add: maxPendingOrder_def)
qed

end
