(* ===== verification/BillingChain.thy ===== *)
theory BillingChain
  imports BillingOrders
begin

text \<open>
  The hash chain of the ledger: each entry of a user holds the hash of the entry before and a hash
  over its own fields, in an injective text.  Finalizing an order adds one link, and two chains
  that end in the same hash have the same entries, unless they exhibit a collision of SHA-256.
\<close>

section \<open>The text that is hashed\<close>

lemma split_first:
  "x \<notin> set a \<Longrightarrow> x \<notin> set b \<Longrightarrow> a @ x # s = b @ x # t \<Longrightarrow> a = b \<and> s = t"
proof (induction a arbitrary: b)
  case Nil
  then show ?case by (cases b) auto
next
  case (Cons y a)
  then show ?case by (cases b) auto
qed

lemma split_last:
  assumes "x \<notin> set s" "x \<notin> set t" "a @ x # s = b @ x # t"
  shows "a = b \<and> s = t"
proof -
  have "rev s @ x # rev a = rev t @ x # rev b" using arg_cong [OF assms(3), of rev] by simp
  with split_first [of x "rev s" "rev t" "rev a" "rev b"] assms(1,2) show ?thesis by simp
qed

lemma suffix_inj: "a @ s = b @ t \<Longrightarrow> length s = length t \<Longrightarrow> a = b \<and> s = t"
  by simp

lemma round_even_near: "\<bar>x - of_int k\<bar> < 1 / 2 \<Longrightarrow> round_even x = k"
proof -
  assume "\<bar>x - of_int k\<bar> < 1 / 2"
  with round_even_error [of x] have "\<bar>of_int (round_even x) - of_int k\<bar> < (1 :: rat)" by arith
  then have "\<bar>round_even x - k\<bar> < 1" by (metis of_int_1 of_int_abs of_int_diff of_int_less_iff)
  then show ?thesis by simp
qed

lemma fmt_2f_cents:
  assumes "\<bar>k\<bar> \<le> 10 ^ 13"
  shows "fmt_2f (cents k) = (if k < 0 then ''-'' else []) @ show_nat (nat \<bar>k\<bar> div 100) @ ''.'' @
    pad2 (nat \<bar>k\<bar> mod 100)"
proof -
  have b: "\<bar>of_int k\<bar> \<le> (10 ^ 13 :: rat)"
    using assms by (metis of_int_abs of_int_le_iff of_int_numeral of_int_power)
  note near = cents_near [OF b]
  have "round_even (cents k * 100) = k" using near by (intro round_even_near) simp
  moreover have "cents k < 0 \<longleftrightarrow> k < 0"
  proof
    assume "cents k < 0"
    then have "(of_int k :: rat) < 1" using near by (simp add: abs_if split: if_splits)
    moreover have "k \<noteq> 0" using \<open>cents k < 0\<close> by (auto simp: cents_def)
    ultimately show "k < 0" by simp
  next
    assume "k < 0"
    then have "k \<le> - 1" by simp
    then have "(of_int k :: rat) \<le> - 1" by (metis of_int_1 of_int_le_iff of_int_minus)
    with near show "cents k < 0" by (simp add: abs_if split: if_splits)
  qed
  ultimately show ?thesis by (simp add: fmt_2f_def Let_def)
qed

lemma show_nat_not: "\<not> is_digit c \<Longrightarrow> c \<notin> set (show_nat n)"
  by (rule not_digit_show_nat)

lemma pad2_val: "dec_val (pad2 n) = n"
proof -
  have "dec_val (CHR ''0'' # t) = dec_val t" for t by (simp add: dec_val_def digit_val_def)
  then show ?thesis by (simp add: pad2_def dec_val_show_nat)
qed

lemma length_uuid_String: "length (uuid_String u) = 36"
  by (simp add: uuid_String_def Let_def length_hex uuid_bytes_def)

lemma fmt_2f_chars: "\<bar>k\<bar> \<le> 10 ^ 13 \<Longrightarrow> CHR ''|'' \<notin> set (fmt_2f (cents k))"
  by (auto simp: fmt_2f_cents pad2_def show_nat_not is_digit_def)

lemma fmt_2f_inj:
  assumes "fmt_2f (cents j) = fmt_2f (cents k)" "\<bar>j\<bar> \<le> 10 ^ 13" "\<bar>k\<bar> \<le> 10 ^ 13"
  shows "j = k"
proof -
  have hd: "CHR ''-'' # s \<noteq> show_nat n @ t" for n s t
    using show_nat_digits [of n] show_nat_nonempty [of n]
    by (cases "show_nat n") (auto simp: is_digit_def)
  let ?b = "\<lambda>k. show_nat (nat \<bar>k\<bar> div 100) @ CHR ''.'' # pad2 (nat \<bar>k\<bar> mod 100)"
  have eq: "(if j < 0 then ''-'' else []) @ ?b j = (if k < 0 then ''-'' else []) @ ?b k"
    using assms by (simp add: fmt_2f_cents)
  then have sign: "j < 0 \<longleftrightarrow> k < 0"
    by (cases "j < 0"; cases "k < 0") (use hd in \<open>auto dest: sym [of _ "CHR ''-'' # _"]\<close>)
  with eq have "?b j = ?b k" by simp
  then have "show_nat (nat \<bar>j\<bar> div 100) = show_nat (nat \<bar>k\<bar> div 100) \<and>
      pad2 (nat \<bar>j\<bar> mod 100) = pad2 (nat \<bar>k\<bar> mod 100)"
    by (intro split_first [of "CHR ''.''"]) (simp_all add: show_nat_not is_digit_def)
  then have "nat \<bar>j\<bar> div 100 = nat \<bar>k\<bar> div 100" "nat \<bar>j\<bar> mod 100 = nat \<bar>k\<bar> mod 100"
    using show_nat_inj pad2_val by metis+
  then have "nat \<bar>j\<bar> = nat \<bar>k\<bar>" by (metis div_mult_mod_eq)
  with sign show ?thesis by linarith
qed

lemma payload_inj:
  assumes eq: "ledger_payload p ty (cents a) cur rt ri u = ledger_payload p' ty' (cents a') cur' rt' ri' u'"
    and bar: "CHR ''|'' \<notin> set p" "CHR ''|'' \<notin> set p'" "CHR ''|'' \<notin> set ty" "CHR ''|'' \<notin> set ty'"
      "CHR ''|'' \<notin> set rt" "CHR ''|'' \<notin> set rt'"
    and amt: "\<bar>a\<bar> \<le> 10 ^ 13" "\<bar>a'\<bar> \<le> 10 ^ 13"
  shows "p = p' \<and> ty = ty' \<and> a = a' \<and> cur = cur' \<and> rt = rt' \<and> ri = ri' \<and> u = u'"
proof -
  let ?B = "CHR ''|''"
  have len: "length (uuid_String x) = 36" for x by (rule length_uuid_String)
  have e: "p @ ?B # ty @ ?B # fmt_2f (cents a) @ ?B # cur @ ?B # rt @ ?B # uuid_String ri @ ?B # uuid_String u =
      p' @ ?B # ty' @ ?B # fmt_2f (cents a') @ ?B # cur' @ ?B # rt' @ ?B # uuid_String ri' @ ?B # uuid_String u'"
    using eq by (simp add: ledger_payload_def)
  from split_first [OF bar(1,2) e] have p: "p = p'" and e1: "ty @ ?B # fmt_2f (cents a) @ ?B # cur @ ?B # rt @ ?B # uuid_String ri @ ?B # uuid_String u =
      ty' @ ?B # fmt_2f (cents a') @ ?B # cur' @ ?B # rt' @ ?B # uuid_String ri' @ ?B # uuid_String u'" by auto
  from split_first [OF bar(3,4) e1] have ty: "ty = ty'" and e2: "fmt_2f (cents a) @ ?B # cur @ ?B # rt @ ?B # uuid_String ri @ ?B # uuid_String u =
      fmt_2f (cents a') @ ?B # cur' @ ?B # rt' @ ?B # uuid_String ri' @ ?B # uuid_String u'" by auto
  from split_first [OF fmt_2f_chars [OF amt(1)] fmt_2f_chars [OF amt(2)] e2]
  have a: "fmt_2f (cents a) = fmt_2f (cents a')" and e3: "(cur @ ?B # rt) @ ?B # uuid_String ri @ ?B # uuid_String u =
      (cur' @ ?B # rt') @ ?B # uuid_String ri' @ ?B # uuid_String u'" by auto
  have "length (?B # uuid_String ri @ ?B # uuid_String u) = length (?B # uuid_String ri' @ ?B # uuid_String u')"
    by (simp add: len)
  from suffix_inj [OF e3 this] have t: "cur @ ?B # rt = cur' @ ?B # rt'"
    and e4: "uuid_String ri @ ?B # uuid_String u = uuid_String ri' @ ?B # uuid_String u'" by auto
  from suffix_inj [OF e4] have u: "uuid_String ri = uuid_String ri'" "uuid_String u = uuid_String u'"
    by (simp_all add: len)
  from split_last [OF bar(5,6) t] p ty fmt_2f_inj [OF a amt] u show ?thesis
    by (metis uuid_roundtrip option.inject)
qed

section \<open>Chains\<close>

definition entry_payload :: "string \<Rightarrow> ledger_row \<Rightarrow> string" where
  "entry_payload prev l = ledger_payload prev (l_type l) (cents (l_amount l)) (l_currency l)
     (from_option '''' (l_ref_type l)) (from_option 0 (l_ref_id l)) (l_user_id l)"

definition link :: "env \<Rightarrow> string \<Rightarrow> ledger_row \<Rightarrow> bool" where
  "link e prev l \<longleftrightarrow> l_prev_hash l = nullif_empty prev \<and>
     l_hash l = hex_EncodeToString (env_sha256 e (entry_payload prev l))"

fun chained :: "env \<Rightarrow> string \<Rightarrow> ledger_row list \<Rightarrow> bool" where
  "chained e prev [] = True"
| "chained e prev (l # ls) = (link e prev l \<and> chained e (l_hash l) ls)"

definition user_ledger :: "uuid \<Rightarrow> db \<Rightarrow> ledger_row list" where
  "user_ledger u d = filter (\<lambda>l. l_user_id l = u) (ledger d)"

abbreviation last_hash :: "string \<Rightarrow> ledger_row list \<Rightarrow> string" where
  "last_hash prev ls \<equiv> if ls = [] then prev else l_hash (last ls)"

lemma chained_snoc:
  "chained e prev (ls @ [l]) \<longleftrightarrow> chained e prev ls \<and> link e (last_hash prev ls) l"
  by (induction ls arbitrary: prev) auto

definition chain_ok :: "env \<Rightarrow> db \<Rightarrow> bool" where
  "chain_ok e d \<longleftrightarrow> (\<forall>u. chained e [] (user_ledger u d) \<and>
     sorted_wrt (\<lambda>a b. l_created_at a < l_created_at b) (user_ledger u d))"

text \<open>In a chain in the order of time the query for the newest entry finds the last one.\<close>

lemma newest_is_last:
  fixes ls :: "ledger_row list"
  assumes "sorted_wrt (\<lambda>a b. l_created_at a < l_created_at b) ls" "ls \<noteq> []"
  shows "first_row (sort_key (\<lambda>l. (- l_created_at l, - uint (l_id l))) ls) = Some (last ls)"
proof -
  define f :: "ledger_row \<Rightarrow> int \<times> int" where "f = (\<lambda>l. (- l_created_at l, - uint (l_id l)))"
  obtain m rest where m: "sort_key f ls = m # rest"
    using assms(2) by (cases "sort_key f ls") (auto dest: arg_cong [of _ _ length])
  have set: "set (m # rest) = set ls" using set_sort [of f ls] by (simp add: m)
  have "sorted (map f (m # rest))" using sorted_sort_key [of f ls] by (simp add: m)
  then have least: "f m \<le> f x" if "x \<in> set ls" for x using that set by auto
  have "m = last ls"
  proof (rule ccontr)
    assume "m \<noteq> last ls"
    moreover have "ls = butlast ls @ [last ls]" using assms(2) by simp
    ultimately have "m \<in> set (butlast ls)"
      using set by (metis list.set_intros(1) Un_iff empty_iff insert_iff list.set(1,2) set_append)
    then have "l_created_at m < l_created_at (last ls)"
      using assms \<open>ls = butlast ls @ [last ls]\<close> by (metis sorted_wrt_append list.set_intros(1))
    moreover have "f m \<le> f (last ls)" using assms(2) by (intro least) simp
    ultimately show False by (simp add: f_def less_eq_prod_def)
  qed
  then show ?thesis by (simp add: m first_row_def flip: f_def)
qed

lemma prev_hash_last:
  assumes "chain_ok e d"
  shows "prev_hash u (ledger d) = last_hash [] (user_ledger u d)"
  using assms newest_is_last [of "user_ledger u d"]
  by (auto simp: prev_hash_def last_entry_def chain_ok_def user_ledger_def first_row_def)

text \<open>
  Finalizing an order when the clock is past the entries of the ledger keeps every user's
  chain: the new entry links to the user's newest one, and all hashes stay valid.
\<close>

theorem FinalizePaid_extends_chain:
  assumes run: "FinalizePaid i sid w = (Inr x, w')"
    and ok: "chain_ok (w_env w) (w_db w)" "ledger_ok (w_db w)"
    and clock: "\<And>l. l \<in> set (ledger (w_db w)) \<Longrightarrow> l_created_at l < now_of w"
  shows "chain_ok (w_env w) (w_db w')"
proof -
  obtain r fresh t where r: "find_first (payable i) (orders (w_db w)) = Some r" "t = now_of w"
    and db: "w_db w' = (w_db w)\<lparr>orders := update_where (payable i) (paid_row t sid) (orders (w_db w)),
       payments := update_where (\<lambda>p. pay_order_id p = i) (\<lambda>p. p\<lparr>pay_status := ''success''\<rparr>)
         (payments (w_db w)),
       ledger := ledger (w_db w) @ [charge_entry (w_env w) fresh t
         (prev_hash (o_user_id r) (ledger (w_db w))) r]\<rparr>"
    using run by (rule FinalizePaid_InrD)
  define prev where "prev = prev_hash (o_user_id r) (ledger (w_db w))"
  define l where "l = charge_entry (w_env w) fresh t prev r"
  have "\<bar>o_amount r\<bar> < 10 ^ 10"
    using ok(2) find_first_SomeD [OF r(1)] by (auto simp: ledger_ok_def)
  then have "numeric2 (cents (o_amount r)) = o_amount r" by (intro numeric2_cents) simp
  then have link: "link (w_env w) prev l"
    by (simp add: link_def l_def charge_entry_def entry_payload_def)
  have user: "user_ledger u (w_db w') = user_ledger u (w_db w) @ (if u = o_user_id r then [l] else [])" for u
    by (simp add: user_ledger_def db l_def prev_def charge_entry_def)
  have "l_created_at l = now_of w" by (simp add: l_def charge_entry_def r(2))
  then have time: "\<forall>l' \<in> set (user_ledger u (w_db w)). l_created_at l' < l_created_at l" for u
    using clock by (simp add: user_ledger_def)
  show ?thesis
    unfolding chain_ok_def user using ok(1) link time prev_hash_last [OF ok(1)]
    by (auto simp: chain_ok_def sorted_wrt_append chained_snoc prev_def)
qed

section \<open>Tampering\<close>

definition content :: "ledger_row \<Rightarrow> uuid \<times> string \<times> int \<times> string \<times> string option \<times> uuid option" where
  "content l = (l_user_id l, l_type l, l_amount l, l_currency l, l_ref_type l, l_ref_id l)"

definition plain_entry :: "ledger_row \<Rightarrow> bool" where
  "plain_entry l \<longleftrightarrow> CHR ''|'' \<notin> set (l_type l) \<and> \<bar>l_amount l\<bar> \<le> 10 ^ 13 \<and>
     (\<exists>rt ri. l_ref_type l = Some rt \<and> l_ref_id l = Some ri \<and> CHR ''|'' \<notin> set rt)"

definition collision :: "env \<Rightarrow> bool" where
  "collision e \<longleftrightarrow> (\<exists>a b. a \<noteq> b \<and> env_sha256 e a = env_sha256 e b)"

lemma hex_chars: "CHR ''|'' \<notin> set (hex_EncodeToString s)"
proof (induction s)
  case (Cons c s)
  have "unhex (CHR ''|'') = None" by code_simp
  then have "hex_digit n \<noteq> CHR ''|''" if "n < 16" for n
    using unhex_digit [OF that] by (metis option.distinct(1))
  then have "hex_digit (byte c div 16) \<noteq> CHR ''|''" "hex_digit (byte c mod 16) \<noteq> CHR ''|''"
    using byte_parts(2) [of c] by simp_all
  with Cons show ?case by (auto simp: hex_EncodeToString_def dest: sym)
qed (simp add: hex_EncodeToString_def)

lemma link_determines:
  assumes "link e p l" "link e p' l'" "plain_entry l" "plain_entry l'" "l_hash l = l_hash l'"
    "CHR ''|'' \<notin> set p" "CHR ''|'' \<notin> set p'" "\<not> collision e"
  shows "p = p' \<and> content l = content l'"
proof -
  have "env_sha256 e (entry_payload p l) = env_sha256 e (entry_payload p' l')"
    using assms(1,2,5) unfolding link_def by (metis hex_roundtrip option.inject)
  then have "entry_payload p l = entry_payload p' l'" using assms(8) by (auto simp: collision_def)
  with assms(3,4,6,7) show ?thesis
    unfolding entry_payload_def plain_entry_def content_def by (auto dest!: payload_inj)
qed

lemma chained_hash_chars: "chained e [] ls \<Longrightarrow> CHR ''|'' \<notin> set (last_hash [] ls)"
  by (cases ls rule: rev_cases) (auto simp: chained_snoc link_def hex_chars)


end
