(* ===== verification/BillingGateways.thy ===== *)
theory BillingGateways
  imports BillingOrders
begin

text \<open>
  The gateways' callbacks: the body \<open>ConfirmMock\<close> writes is read back as the confirmation of its
  order; a Cryptomus callback with a wrong signature changes nothing, one that is signed as
  documented is accepted.  Also what a renewal and the background expirer do to subscriptions.
\<close>

section \<open>The mock confirmation\<close>

definition plain_char :: "char \<Rightarrow> bool" where
  "plain_char c \<longleftrightarrow> 32 \<le> byte c \<and> byte c < 127 \<and>
     c \<notin> {quote_char, backslash, CHR ''<'', CHR ''>'', CHR ''&''}"

lemma quote_body_plain: "list_all plain_char s \<Longrightarrow> quote_body s = s"
proof (induction s)
  case Nil
  then show ?case by (simp add: quote_body.simps)
next
  case (Cons c s)
  then have "utf8_len (c # s) = 1" by (simp add: utf8_len_def Let_def plain_char_def)
  moreover have "c \<noteq> d" if "byte d < 32" for d using Cons.prems that by (auto simp: plain_char_def)
  then have "c \<notin> {CHR 0x08, CHR 0x0C, CHR 0x0A, CHR 0x0D, CHR 0x09}" by simp
  then have "quote_ascii c = [c]"
    using Cons.prems by (simp add: quote_ascii_def plain_char_def)
  ultimately show ?case using Cons by (simp add: quote_body.simps [of "c # s"])
qed

lemma valid_utf8_plain: "list_all plain_char s \<Longrightarrow> valid_utf8 s"
  by (rule valid_utf8_ascii, induction s) (simp_all add: plain_char_def)

lemma hex_plain: "list_all plain_char (hex_EncodeToString s)"
proof -
  have "list_all (\<lambda>n. plain_char (hex_digit n)) [0..<16]" by code_simp
  then have "plain_char (hex_digit n)" if "n < 16" for n
    using that by (simp only: list_all_iff) simp
  moreover have "byte c div 16 < 16" "byte c mod 16 < 16" for c using byte_parts(2) [of c] by simp_all
  ultimately show ?thesis by (induction s) (simp_all add: hex_EncodeToString_def)
qed

lemma list_all_sub: "list_all P s \<Longrightarrow> list_all P (take n s) \<and> list_all P (drop n s)"
  by (auto simp: list_all_iff dest: in_set_takeD in_set_dropD)

lemma uuid_plain: "list_all plain_char (uuid_String u)"
proof -
  have "plain_char (CHR ''-'')" by code_simp
  then show ?thesis
    using hex_plain [of "uuid_bytes u"] by (simp add: uuid_String_def Let_def list_all_sub)
qed

definition mock_json :: "uuid \<Rightarrow> json" where
  "mock_json i = JObj [(''external_id'', JStr (''mock-'' @ uuid_String i)),
     (''order_id'', JStr (uuid_String i)), (''status'', JStr ''success'')]"

lemma mock_body_is_json: "mock_body i = json_Marshal (mock_json i)" "wf_json (mock_json i)"
proof -
  have "list_all plain_char ''external_id''" "list_all plain_char ''order_id''"
    "list_all plain_char ''status''" "list_all plain_char ''success''" by code_simp+
  moreover have "list_all plain_char ''mock-''" by code_simp
  then have "list_all plain_char (''mock-'' @ uuid_String i)"
    using uuid_plain by (simp only: list_all_append)
  ultimately show "mock_body i = json_Marshal (mock_json i)" "wf_json (mock_json i)"
    using uuid_plain [of i]
    by (simp_all add: mock_body_def mock_json_def quote_def quote_body_plain valid_utf8_plain)
qed

lemma mock_ParseWebhook_body:
  "mock_ParseWebhook hs (mock_body i) = return \<lparr>wr_ExternalID = ''mock-'' @ uuid_String i,
     wr_OrderID = i, wr_Status = PaymentSuccess\<rparr>"
proof -
  have "uuid_Parse '''' = None" by (simp add: uuid_Parse_def)
  then have "uuid_String i \<noteq> ''''" using uuid_roundtrip [of i] by (metis option.distinct(1))
  moreover have "mock_fields (mock_body i) = Some (''mock-'' @ uuid_String i, uuid_String i, ''success'')"
    by (simp add: mock_fields_def mock_body_is_json parse_simps)
      (simp add: mock_json_def string_field_def field_values_def fold_eq_def ascii_lower_def)
  ultimately show ?thesis
    by (simp add: mock_ParseWebhook_def mapMockStatus_def parse_simps)
qed

text \<open>
  With the mock gateway enabled, confirming an order records the callback and then fulfils
  exactly that order: the hand-written body survives the JSON and UUID parsers.
\<close>

theorem ConfirmMock_fulfils_its_order:
  assumes "\<not> IsProduction cfg" "i \<noteq> uuid_Nil"
  shows "ConfirmMock (api_billing cfg cipher cidrs) i =
    bind (RecordWebhook ''mock'' (''mock-'' @ uuid_String i) PaymentSuccess (mock_body i)) (\<lambda>_.
    bind (FulfillOrder (api_billing cfg cipher cidrs) i) (\<lambda>_.
    bind (attempt (MarkWebhookProcessed ''mock'' (''mock-'' @ uuid_String i))) (\<lambda>_. return ())))"
proof -
  have "map_of (api_providers cfg) ''mock'' = Some (MockProvider (cfg_PublicBaseURL cfg))"
    using assms(1) by (simp add: api_providers_def)
  moreover have "bind (return x) f = f x" for x and f :: "WebhookResult \<Rightarrow> unit go"
    by (simp add: fun_eq_iff bind_def return_def)
  moreover have "bind (bind m f) g = bind m (\<lambda>x. bind (f x) g)" for m :: "OrderForProvision go"
    and f :: "OrderForProvision \<Rightarrow> uuid go" and g :: "uuid \<Rightarrow> unit go"
    by (simp add: fun_eq_iff bind_def split: prod.split sum.split)
  ultimately show ?thesis
    using assms(2)
    by (simp add: ConfirmMock_def HandleWebhook_def MockProvider_def mock_ParseWebhook_body
        resolveOrder_def FulfillOrder_def Let_def)
qed

section \<open>Cryptomus signatures\<close>

definition cryptomus_signature :: "env \<Rightarrow> CryptomusProvider \<Rightarrow> (string \<times> json) list \<Rightarrow> string" where
  "cryptomus_signature e c ms = hex_EncodeToString
     (env_md5 e (StdEncoding_EncodeToString (json_Marshal (JObj ms)) @ cm_apiKey c))"

definition configured :: "AppConfig \<Rightarrow> CryptomusProvider \<Rightarrow> bool" where
  "configured cfg c \<longleftrightarrow> cfg_CryptomusMerchant cfg \<noteq> '''' \<and> cfg_CryptomusAPIKey cfg \<noteq> '''' \<and>
     c = \<lparr>cm_merchant = cfg_CryptomusMerchant cfg, cm_apiKey = cfg_CryptomusAPIKey cfg\<rparr>"

lemma configured_provider:
  "configured cfg c \<Longrightarrow> map_of (api_providers cfg) ''cryptomus'' = Some (Cryptomus c)"
  by (simp add: api_providers_def configured_def)

text \<open>
  C32. A Cryptomus callback whose signature is missing or is not the one over its other members
  with the merchant's key is rejected before anything is recorded: the world is unchanged.
\<close>

theorem forged_callback_rejected:
  assumes "configured cfg c" "Unmarshal_map body = Some raw"
    and "map_string ''sign'' raw \<noteq>
      Some (cryptomus_signature (w_env w) c (filter (\<lambda>(k, _). k \<noteq> ''sign'') raw))"
  shows "HandleWebhook (api_billing cfg cipher cidrs) ''cryptomus'' hs body w =
    (Inl ErrInvalidSignature, w)"
  using assms(2,3)
  by (cases "map_string ''sign'' raw")
    (auto simp: HandleWebhook_def configured_provider [OF assms(1)] Cryptomus_def
      cryptomus_ParseWebhook_def cryptomus_sign_def cryptomus_signature_def bind_def ask_def throw_def
      Let_def)

lemma insert_member_filter:
  "filter (\<lambda>(k', _). k' \<noteq> k) (insert_member k v ms) = filter (\<lambda>(k', _). k' \<noteq> k) ms"
  by (induction k v ms rule: insert_member.induct) auto

lemma map_of_insert_member: "map_of (insert_member k v ms) k = Some v"
  by (induction k v ms rule: insert_member.induct) auto

lemma str_le_Nil: "str_le t [] \<Longrightarrow> t = []"
  by (cases t) auto

lemma str_le_antisym: "str_le s t \<Longrightarrow> str_le t s \<Longrightarrow> s = t"
  by (induction s t rule: str_le.induct) (auto dest: str_le_Nil)

lemma insert_member_last:
  "\<forall>k' \<in> fst ` set ms. str_le k' k \<and> k' \<noteq> k \<Longrightarrow> insert_member k v ms = ms @ [(k, v)]"
  by (induction ms) (auto dest: str_le_antisym)

definition sorted_members :: "(string \<times> 'v) list \<Rightarrow> bool" where
  "sorted_members ms \<longleftrightarrow> sorted_wrt (\<lambda>a b. str_le (fst a) (fst b) \<and> fst a \<noteq> fst b) ms"

lemma map_of_members_sorted: "sorted_members ms \<Longrightarrow> map_of_members ms = ms"
proof (induction ms rule: rev_induct)
  case (snoc m ms)
  then have "map_of_members ms = ms" by (simp add: sorted_members_def sorted_wrt_append)
  with snoc.prems show ?case
    by (cases m) (auto simp: map_of_members_def sorted_members_def sorted_wrt_append
        intro!: insert_member_last)
qed (simp add: map_of_members_def)

definition text_members :: "(string \<times> string) list \<Rightarrow> (string \<times> json) list" where
  "text_members ms = map (\<lambda>(k, v). (k, JStr v)) ms"

lemma sorted_text: "sorted_members ms \<Longrightarrow> sorted_members (text_members ms)"
  by (simp add: sorted_members_def text_members_def sorted_wrt_map case_prod_beta)

lemma json_any_text: "json_any (JObj (text_members ms)) = Some (JObj (map_of_members (text_members ms)))"
proof -
  have "map (\<lambda>(k, v). (k, json_any v)) (text_members ms) = map (\<lambda>(k, v). (k, Some v)) (text_members ms)"
    by (auto simp: text_members_def)
  moreover have "None \<notin> snd ` set (map (\<lambda>(k, v). (k, Some v)) (text_members ms))" by auto
  moreover have "map (\<lambda>(k, v). (k, the v)) (map (\<lambda>(k, v). (k, Some v)) xs) = xs" for xs :: "(string \<times> json) list"
    by (induction xs) auto
  ultimately show ?thesis by (simp only: json_any.simps Let_def if_False)
qed

lemma map_of_text: "map_of (text_members ms) k = map_option JStr (map_of ms k)"
  by (induction ms) (auto simp: text_members_def)

text \<open>
  A callback of text members in alphabetical order, signed as Cryptomus documents over them
  and with the signature added, is accepted: its payment is the one named, its status the mapped
  one.
\<close>

theorem signed_callback_accepted:
  assumes ms: "sorted_members ms" "''sign'' \<notin> fst ` set ms"
    "list_all (\<lambda>(k, v). valid_utf8 k \<and> valid_utf8 v) ms"
    and sig: "sig = cryptomus_signature (w_env w) c (text_members ms)" "sig \<noteq> ''''"
  shows "cryptomus_ParseWebhook c hs (json_Marshal (JObj (text_members (ms @ [(''sign'', sig)])))) w =
    (Inr \<lparr>wr_ExternalID = from_option '''' (map_of ms ''uuid''), wr_OrderID = uuid_Nil,
      wr_Status = (case map_of ms ''status'' of None \<Rightarrow> PaymentPending | Some s \<Rightarrow> mapCryptomusStatus s)\<rparr>, w)"
proof -
  let ?all = "text_members (ms @ [(''sign'', sig)])"
  have "list_all plain_char ''sign''" by code_simp
  then have "valid_utf8 ''sign''" "valid_utf8 sig"
    using sig(1) by (simp_all add: valid_utf8_plain cryptomus_signature_def hex_plain)
  then have wf: "wf_json (JObj ?all)"
    using ms(3) by (auto simp: text_members_def list_all_iff)
  have raw: "map_of_members ?all = insert_member ''sign'' (JStr sig) (text_members ms)"
    using map_of_members_sorted [OF sorted_text [OF ms(1)]]
    by (simp add: map_of_members_def text_members_def)
  define raw where "raw = insert_member ''sign'' (JStr sig) (text_members ms)"
  have "filter (\<lambda>(k, _). k \<noteq> ''sign'') (text_members ms) = text_members ms"
    using ms(2) by (force simp: text_members_def filter_id_conv)
  then have rest: "filter (\<lambda>(k, _). k \<noteq> ''sign'') raw = text_members ms"
    by (simp add: raw_def insert_member_filter)
  have "map_string ''sign'' raw = Some sig" by (simp add: map_string_def raw_def map_of_insert_member)
  moreover have "Unmarshal_map (json_Marshal (JObj ?all)) = Some raw"
    using wf by (simp add: Unmarshal_map_def json_Unmarshal_Marshal json_any_text raw raw_def
        del: json_any.simps json_Marshal.simps)
  moreover have "map_string k (text_members ms) = map_of ms k" for k
    by (simp add: map_string_def map_of_text split: option.split)
  ultimately show ?thesis
    using sig rest
    by (simp add: cryptomus_ParseWebhook_def cryptomus_sign_def cryptomus_signature_def bind_def
        ask_def return_def Let_def del: json_Marshal.simps)
qed

section \<open>Renewals\<close>

definition renewed :: "timestamp \<Rightarrow> int \<Rightarrow> subscription_row \<Rightarrow> subscription_row" where
  "renewed t days x = x\<lparr>sub_expires_at := max (sub_expires_at x) t + days * day_ns,
     sub_status := ''active''\<rparr>"

lemma ExtendSubscription_InrD:
  assumes "ExtendSubscription i k w = (Inr x, w')"
  shows "subscriptions (w_db w') = update_where (\<lambda>r. sub_id r = i \<and> sub_status r \<noteq> ''deleted'')
    (renewed (now_of w) k) (subscriptions (w_db w))"
  using assms unfolding ExtendSubscription_def
  by (auto dest!: wrap_InrD return_InrD throw_InrD elim!: bind_InrD sql_InrD
      simp: extend_sub_def Let_def renewed_def [abs_def] split: if_splits)

lemma FinalizePaid_subscriptions:
  "FinalizePaid i sid w = (Inr x, w') \<Longrightarrow> subscriptions (w_db w') = subscriptions (w_db w)"
  by (erule FinalizePaid_InrD) simp

lemma Claim_InrD_db:
  "ClaimForProvisioning i w = (Inr b, w') \<Longrightarrow>
    subscriptions (w_db w') = subscriptions (w_db w) \<and> plans (w_db w') = plans (w_db w)"
  by (cases b) (auto elim!: Claim_InrD dest: Claim_InrE(2))


section \<open>The expirer\<close>

definition expired :: "subscription_row \<Rightarrow> subscription_row" where
  "expired r = r\<lparr>sub_status := ''expired''\<rparr>"

definition swept :: "timestamp \<Rightarrow> int \<Rightarrow> subscription_row \<Rightarrow> subscription_row \<Rightarrow> bool" where
  "swept t grace r r' \<longleftrightarrow> r' = r \<or> overdue t grace r \<and> r' = expired r"

lemma sweep_subscriptions:
  "subscriptions (w_db (snd (Expirer_sweep grace w))) =
    (if env_fault (w_env w) (w_tick w) then subscriptions (w_db w)
     else update_where (overdue (now_of w) (pg_time grace)) expired (subscriptions (w_db w)))"
  by (simp add: Expirer_sweep_def bind_def attempt_def sql_def expire_subs_def Let_def return_def
      expired_def [abs_def])

lemma swept_update:
  "now \<le> t \<Longrightarrow> list_all2 (swept t grace) rs (update_where (overdue now grace) expired rs)"
  by (auto simp: list_all2_conv_all_nth update_where_def swept_def overdue_def)

lemma swept_trans:
  "swept t grace r r1 \<Longrightarrow> swept t grace r1 r2 \<Longrightarrow> swept t grace r r2"
  by (auto simp: swept_def overdue_def expired_def)

lemma one_sweep:
  assumes "\<And>n. env_clock (w_env w) n \<le> t" "w_tx_now w = None"
  shows "list_all2 (swept t (pg_time grace)) (subscriptions (w_db w))
    (subscriptions (w_db (snd (Expirer_sweep grace w))))"
proof -
  have "pg_time c \<le> c" for c by (simp add: pg_time_def minus_mod_eq_div_mult [symmetric])
  then have "now_of w \<le> t" using assms by (simp add: now_of_def) (meson order_trans)
  then show ?thesis by (simp add: sweep_subscriptions swept_update list_all2_refl swept_def)
qed

lemma sweep_world:
  "fst (Expirer_sweep grace w) = Inr ()" "w_env (snd (Expirer_sweep grace w)) = w_env w"
  "w_tx_now (snd (Expirer_sweep grace w)) = w_tx_now w"
  by (simp_all add: Expirer_sweep_def bind_def attempt_def sql_def expire_subs_def Let_def return_def)

text \<open>
  C34. However many sweeps the expirer makes and whichever of them fail, a subscription changes only
  from active to expired, and only when its grace period was over by the latest time the clock
  showed.
\<close>

theorem expirer_never_early:
  assumes "\<And>n. env_clock (w_env w) n \<le> t" "w_tx_now w = None"
  shows "list_all2 (swept t (pg_time grace)) (subscriptions (w_db w))
    (subscriptions (w_db (snd (Expirer_Run grace n w))))"
  using assms
proof (induction n arbitrary: w)
  case 0
  then show ?case using one_sweep by simp
next
  case (Suc n)
  let ?w1 = "snd (Expirer_sweep grace w)"
  have "snd (Expirer_Run grace (Suc n) w) = snd (Expirer_Run grace n ?w1)"
    using sweep_world(1) [of grace w] by (cases "Expirer_sweep grace w") (simp add: bind_def)
  moreover have rest: "list_all2 (swept t (pg_time grace)) (subscriptions (w_db ?w1))
      (subscriptions (w_db (snd (Expirer_Run grace n ?w1))))"
    using Suc.prems by (intro Suc.IH) (simp_all add: sweep_world)
  have "list_all2 (swept t (pg_time grace)) (subscriptions (w_db w))
      (subscriptions (w_db (snd (Expirer_Run grace n ?w1))))"
    by (rule list_all2_trans [OF _ one_sweep [OF Suc.prems] rest]) (rule swept_trans)
  ultimately show ?case by (simp only:)
qed

end
