(* ===== verification/VPNWitnesses.thy ===== *)
theory VPNWitnesses
  imports VPNAccess
begin

text \<open>
  Concrete runs of the VPN properties: a world with one live VPN, its migration to the reserve
  server, its deletion, and a creation in a country without servers.
\<close>

definition sample_sub :: subscription_row where
  "sample_sub = \<lparr>sub_id = 7, sub_user_id = 1, sub_plan_id = Some 3, sub_server_id = 4,
     sub_country_id = 2, sub_protocol = ''vless_reality'', sub_status = ''active'',
     sub_label = None, sub_max_devices = 2, sub_expires_at = 1702592000000000000,
     sub_created_at = 1700000000000000000\<rparr>"

definition sample_config :: config_row where
  "sample_config = \<lparr>vc_id = 8, vc_subscription_id = 7, vc_protocol = ''vless_reality'',
     vc_uri = Some ''vless://'', vc_config_object_key = Some ''cfg/8'',
     vc_qr_object_key = Some ''qr/8'', vc_hash = Some ''00'', vc_version = 1,
     vc_created_at = 1700000000000000000\<rparr>"

definition sample_key :: key_row where
  "sample_key = \<lparr>k_id = 9, k_vpn_config_id = 8, k_server_id = 4, k_private_key = None,
     k_public_key = None, k_psk = None, k_client_uuid = Some ''client'', k_assigned_ip = None,
     k_status = ''active'', k_created_at = 1700000000000000000\<rparr>"

definition live_db :: db where
  "live_db = sample_db\<lparr>subscriptions := [sample_sub], vpn_configs := [sample_config],
     vpn_keys := [sample_key],
     servers := [(sample_server 4 False)\<lparr>s_client_count := 1\<rparr>, sample_server 5 True]\<rparr>"

definition live_world :: world where
  "live_world = sample_world\<lparr>w_db := live_db\<rparr>"

lemma live_simps [simp]:
  "w_env live_world = sample_env" "w_tick live_world = 0" "w_tx_now live_world = None"
  "w_db live_world = live_db" "w_store live_world = []" "w_redis live_world = []"
  "w_nodes live_world = []"
  "users live_db = [sample_user]" "countries live_db = [sample_country]"
  "plans live_db = [sample_plan]" "subscriptions live_db = [sample_sub]"
  "vpn_configs live_db = [sample_config]" "vpn_keys live_db = [sample_key]"
  "servers live_db = [(sample_server 4 False)\<lparr>s_client_count := 1\<rparr>, sample_server 5 True]"
  by (simp_all add: live_world_def live_db_def)

lemma live_row_simps [simp]:
  "sub_id sample_sub = 7" "sub_user_id sample_sub = 1" "sub_server_id sample_sub = 4"
  "sub_country_id sample_sub = 2" "sub_status sample_sub = ''active''"
  "sub_protocol sample_sub = ''vless_reality''"
  "vc_id sample_config = 8" "vc_subscription_id sample_config = 7"
  "vc_config_object_key sample_config = Some ''cfg/8''"
  "vc_qr_object_key sample_config = Some ''qr/8''"
  "k_vpn_config_id sample_key = 8" "k_server_id sample_key = 4" "k_public_key sample_key = None"
  "k_client_uuid sample_key = Some ''client''" "k_status sample_key = ''active''"
  "k_assigned_ip sample_key = None"
  by (simp_all add: sample_sub_def sample_config_def sample_key_def)

lemma live_load_ok: "load_ok live_db" "ips_ok live_db" "distinct (map u_id (users live_db))"
    "distinct (map c_id (countries live_db))"
  by (simp_all add: load_ok_def live_count_def on_server_def ips_ok_def)

text \<open>A Reality configuration of the reserve server.\<close>

definition sample_params :: CreateParams where
  "sample_params = \<lparr>cp_UserID = 1, cp_Server = scanServer (sample_server 5 True),
     cp_CountryID = 2, cp_PlanID = None, cp_Protocol = ''vless_reality'', cp_Label = None,
     cp_MaxDevices = 0, cp_ExpiresAt = 0, cp_URI = ''vless://'', cp_ConfigObjectKey = ''cfg/10'',
     cp_QRObjectKey = ''qr/10'', cp_Hash = ''00'', cp_PrivateKeyEnc = None, cp_PublicKey = None,
     cp_PSKEnc = None, cp_ClientUUID = Some ''new'', cp_AssignedIP = None\<rparr>"

theorem client_count_exact_migration_witness:
  "load_ok (w_db live_world) \<and> lives_on 7 4 (w_db live_world) \<and>
   load_ok (w_db (snd (Reassign sample_params 10 7 4 ''manual'' live_world)))"
proof -
  have "lives_on 7 4 (w_db live_world)" "srv_ID (cp_Server sample_params) \<noteq> 4"
    by (simp_all add: lives_on_def on_server_def sample_params_def scanServer_def)
  with client_count_exact_migration [of live_world 7 4 sample_params 10 "''manual''"] live_load_ok
  show ?thesis by simp
qed

theorem MigrateServer_keeps_invariants_witness:
  "load_ok (w_db (snd (MigrateServer sample_service 4 ''manual'' live_world))) \<and>
   ips_ok (w_db (snd (MigrateServer sample_service 4 ''manual'' live_world)))"
proof (rule MigrateServer_keeps_invariants)
  show "vs_provisioner sample_service = NewProvisioner ''noop'' ''''"
    by (simp add: sample_service_def)
qed (use live_load_ok in \<open>simp_all only: live_simps\<close>)

text \<open>Country 99 has no server.\<close>

definition remote_input :: CreateInput where
  "remote_input = sample_input\<lparr>ci_CountryID := 99\<rparr>"

theorem Create_error_atomic_witness:
  "\<exists>e w'. Create sample_service remote_input sample_world = (Inl e, w') \<and>
    w_db w' = w_db sample_world"
proof -
  have run: "isl (fst (Create sample_service remote_input sample_world))"
    by (simp add: create_run_defs sample_service_def sample_input_def remote_input_def
        cong: bind_cong_weak catch_cong_weak)
  obtain r w' where "Create sample_service remote_input sample_world = (r, w')" by fastforce
  moreover obtain e where "r = Inl e" using run calculation by (cases r) auto
  ultimately have r: "Create sample_service remote_input sample_world = (Inl e, w')" by simp
  have "vs_provisioner sample_service = NewProvisioner ''noop'' ''''"
    by (simp add: sample_service_def)
  from Create_error_atomic [OF this r] r show ?thesis by blast
qed


lemmas delete_run_defs = monad_defs Delete_def SoftDelete_def live_sub_def key_rows_def
  scan_key_row_def revoke_keys_def config_ids_def set_sub_def set_server_def remove_client_def
  protocol_defs NewProvisioner_def noopProvisioner_def ignore_def Store_Remove_def dec_load_def

theorem Delete_effective_witness:
  "\<exists>w' e w''. Delete sample_service 1 7 live_world = (Inr (), w') \<and>
     FetchConfig sample_service 1 7 w' = (Inl e, w'') \<and> not_found e"
proof -
  have run: "\<not> isl (fst (Delete sample_service 1 7 live_world))"
    by (simp add: delete_run_defs sample_service_def cong: bind_cong_weak catch_cong_weak)
  obtain r w' where "Delete sample_service 1 7 live_world = (r, w')" by fastforce
  with run have r: "Delete sample_service 1 7 live_world = (Inr (), w')" by (cases r) auto
  have "vs_provisioner sample_service = NewProvisioner ''noop'' ''''"
    by (simp add: sample_service_def)
  from Delete_effective [OF this _ r] r show ?thesis by auto
qed

end
