(* ===== verification/BillingWitnesses.thy ===== *)
theory BillingWitnesses
  imports BillingBuy BillingChain BillingGateways VPNWitnesses
begin

text \<open>
  Concrete runs of the billing properties: a development server with all gateways, one live VPN
  and an order that renews it.
\<close>

definition sample_cfg :: AppConfig where
  "sample_cfg = read_config (\<lambda>k.
     if k \<in> {''CRYPTOMUS_MERCHANT'', ''CRYPTOMUS_API_KEY'', ''TELEGRAM_BOT_TOKEN''} then ''token'' else '''')"

definition sample_billing :: BillingService where
  "sample_billing = api_billing sample_cfg (replicate 32 (CHR ''k'')) ''''"

definition renewal_order :: "string \<Rightarrow> order_row" where
  "renewal_order st = \<lparr>o_id = 20, o_user_id = 1, o_plan_id = 3, o_country_id = 2,
     o_protocol = ''vless_reality'', o_amount = 999, o_discount = 0, o_currency = ''USD'',
     o_promo_id = None, o_gateway = ''mock'', o_status = st,
     o_subscription_id = (if st = ''paid'' then Some 7 else None), o_label = None,
     o_renew_subscription_id = Some 7, o_routing = ''full'', o_created_at = 0, o_paid_at = None\<rparr>"

definition order_world :: "string \<Rightarrow> world" where
  "order_world st = live_world\<lparr>w_db := live_db\<lparr>orders := [renewal_order st]\<rparr>\<rparr>"

lemma order_simps [simp]:
  "w_env (order_world st) = sample_env" "w_tick (order_world st) = 0" "w_tx_now (order_world st) = None"
  "orders (w_db (order_world st)) = [renewal_order st]" "ledger (w_db (order_world st)) = []"
  "payments (w_db (order_world st)) = []" "plans (w_db (order_world st)) = [sample_plan]"
  "users (w_db (order_world st)) = [sample_user]"
  "subscriptions (w_db (order_world st)) = [sample_sub]"
  "promocodes (w_db (order_world st)) = []" "promo_redemptions (w_db (order_world st)) = []"
  "o_id (renewal_order st) = 20" "o_status (renewal_order st) = st" "o_plan_id (renewal_order st) = 3"
  "o_user_id (renewal_order st) = 1" "o_amount (renewal_order st) = 999"
  "o_renew_subscription_id (renewal_order st) = Some 7"
  "o_subscription_id (renewal_order st) = (if st = ''paid'' then Some 7 else None)"
  by (simp_all add: order_world_def renewal_order_def live_db_def sample_db_def empty_db_def)

lemma renewal_ledger_ok: "st \<noteq> ''paid'' \<Longrightarrow> ledger_ok (w_db (order_world st))"
  by (simp add: ledger_ok_def settled_def charges_def)

lemma one_step: "billing_step s w w' \<Longrightarrow> billing_run s w w'"
  by (rule run_step [OF run_start])

theorem paid_orders_charged_once_witness:
  "ledger_ok (w_db (snd (FulfillOrder sample_billing 20 (order_world ''wait_payment''))))"
  unfolding sample_billing_def
  by (rule paid_orders_charged_once [OF one_step [OF step_FulfillOrder] renewal_ledger_ok]) simp

theorem final_orders_unchanged_witness:
  "renewal_order ''paid'' \<in> set (orders (w_db (snd (HandleWebhook sample_billing ''mock'' []
     (mock_body 20) (order_world ''paid'')))))"
  unfolding sample_billing_def
  by (rule final_orders_unchanged [OF one_step [OF step_HandleWebhook]]) simp_all



lemmas fulfil_run_defs = monad_defs FulfillOrder_def fulfill_def provision_order_def
  GetOrderForProvision_def scanProvision_def provision_of_row_def ClaimForProvisioning_def
  claim_order_def update_order_def GetPlanPricing_def ExtendSubscription_def extend_sub_def
  FinalizePaid_def mark_paid_def set_payments_def appendLedger_def sha256hex_def insert_ledger_def
  numeric_in_def last_entry_def first_row_def fk_ok_def

lemma claim_run: "fst (ClaimForProvisioning 20 (order_world ''wait_payment'')) = Inr True"
  by (simp add: fulfil_run_defs cong: bind_cong_weak catch_cong_weak)

theorem claimed_at_most_once_witness:
  "interleaved (order_world ''wait_payment'') [20]
     (snd (ClaimForProvisioning 20 (order_world ''wait_payment''))) \<and> distinct [20 :: uuid]"
proof -
  have "interleaved (order_world ''wait_payment'') ([] @ [20])
      (snd (ClaimForProvisioning 20 (order_world ''wait_payment'')))"
    by (rule inter_claim [OF inter_start]) (simp add: claim_run prod_eq_iff)
  with claimed_at_most_once [OF this] show ?thesis by simp
qed

lemma fulfil_run: "\<not> isl (fst (FulfillOrder sample_billing 20 (order_world ''wait_payment'')))"
  by (simp add: fulfil_run_defs cong: bind_cong_weak catch_cong_weak)

lemma Inr_run: "\<not> isl (fst p) \<Longrightarrow> \<exists>x w'. p = (Inr x, w')"
  by (cases p; cases "fst p") auto

theorem fulfilled_order_is_paid_witness:
  "\<exists>sid w'. FulfillOrder sample_billing 20 (order_world ''wait_payment'') = (Inr sid, w') \<and>
    (\<exists>r' \<in> set (orders (w_db w')). o_id r' = 20 \<and> o_status r' = ''paid'' \<and> o_subscription_id r' = Some sid)"
proof -
  obtain sid w' where r: "FulfillOrder sample_billing 20 (order_world ''wait_payment'') = (Inr sid, w')"
    using Inr_run [OF fulfil_run] by blast
  from fulfilled_order_is_paid [OF r, of "renewal_order ''wait_payment''"] r show ?thesis by auto
qed


theorem FinalizePaid_extends_chain_witness:
  "\<exists>w'. FinalizePaid 20 7 (order_world ''processing'') = (Inr (), w') \<and> chain_ok sample_env (w_db w')"
proof -
  have "\<not> isl (fst (FinalizePaid 20 7 (order_world ''processing'')))"
    by (simp add: fulfil_run_defs cong: bind_cong_weak catch_cong_weak)
  then obtain w' where r: "FinalizePaid 20 7 (order_world ''processing'') = (Inr (), w')"
    using Inr_run [of "FinalizePaid 20 7 (order_world ''processing'')"] by auto
  with FinalizePaid_extends_chain [OF r] show ?thesis
    by (simp add: renewal_ledger_ok) (simp add: chain_ok_def user_ledger_def)
qed

definition sample_entry :: ledger_row where
  "sample_entry = charge_entry sample_env 30 0 '''' (renewal_order ''paid'')"


theorem ConfirmMock_fulfils_its_order_witness:
  "ConfirmMock sample_billing 20 =
    bind (RecordWebhook ''mock'' (''mock-'' @ uuid_String 20) PaymentSuccess (mock_body 20)) (\<lambda>_.
    bind (FulfillOrder sample_billing 20) (\<lambda>_.
    bind (attempt (MarkWebhookProcessed ''mock'' (''mock-'' @ uuid_String 20))) (\<lambda>_. return ())))"
  unfolding sample_billing_def
  by (rule ConfirmMock_fulfils_its_order)
    (simp_all add: IsProduction_def sample_cfg_def read_config_def getenv_def)

definition sample_merchant :: CryptomusProvider where
  "sample_merchant = \<lparr>cm_merchant = ''token'', cm_apiKey = ''token''\<rparr>"

lemma sample_configured: "configured sample_cfg sample_merchant"
  by (simp add: configured_def sample_cfg_def read_config_def sample_merchant_def)

theorem forged_callback_rejected_witness:
  "HandleWebhook sample_billing ''cryptomus'' [] (json_Marshal (JObj (text_members [(''status'', ''paid'')])))
    live_world = (Inl ErrInvalidSignature, live_world)"
  unfolding sample_billing_def
proof (rule forged_callback_rejected [OF sample_configured])
  have "list_all plain_char ''status''" "list_all plain_char ''paid''" by code_simp+
  then have "wf_json (JObj (text_members [(''status'', ''paid'')]))"
    by (simp add: text_members_def valid_utf8_plain)
  then show "Unmarshal_map (json_Marshal (JObj (text_members [(''status'', ''paid'')]))) =
      Some [(''status'', JStr ''paid'')]"
    by (simp add: Unmarshal_map_def json_Unmarshal_Marshal json_any_text del: json_any.simps json_Marshal.simps)
      (simp add: text_members_def map_of_members_def)
qed (simp add: map_string_def)

theorem signed_callback_accepted_witness:
  "\<exists>sig. cryptomus_ParseWebhook sample_merchant []
      (json_Marshal (JObj (text_members ([(''status'', ''paid''), (''uuid'', ''u1'')] @ [(''sign'', sig)])))) live_world =
    (Inr \<lparr>wr_ExternalID = ''u1'', wr_OrderID = uuid_Nil, wr_Status = PaymentSuccess\<rparr>, live_world)"
proof -
  let ?ms = "[(''status'', ''paid''), (''uuid'', ''u1'')]"
  let ?sig = "cryptomus_signature (w_env live_world) sample_merchant (text_members ?ms)"
  have plain: "list_all plain_char ''status''" "list_all plain_char ''paid''" "list_all plain_char ''uuid''"
    "list_all plain_char ''u1''" by code_simp+
  have "str_le ''status'' ''uuid''" by code_simp
  moreover have "?sig \<noteq> ''''"
    using length_hex [of "env_md5 (w_env live_world) (StdEncoding_EncodeToString
        (json_Marshal (JObj (text_members ?ms))) @ cm_apiKey sample_merchant)"]
    by (auto simp: cryptomus_signature_def simp del: json_Marshal.simps) 
  ultimately have "cryptomus_ParseWebhook sample_merchant []
      (json_Marshal (JObj (text_members (?ms @ [(''sign'', ?sig)])))) live_world =
    (Inr \<lparr>wr_ExternalID = from_option '''' (map_of ?ms ''uuid''), wr_OrderID = uuid_Nil,
      wr_Status = (case map_of ?ms ''status'' of None \<Rightarrow> PaymentPending | Some s \<Rightarrow> mapCryptomusStatus s)\<rparr>, live_world)"
    by (intro signed_callback_accepted)
      (use plain in \<open>simp_all add: sorted_members_def valid_utf8_plain\<close>)
  then show ?thesis by (simp add: mapCryptomusStatus_def) blast
qed

section \<open>Purchases\<close>

definition buy_input :: "string \<Rightarrow> BuyInput" where
  "buy_input code = \<lparr>bi_UserID = 1, bi_PlanID = 3, bi_CountryID = 2, bi_Protocol = ''vless_reality'',
     bi_Gateway = ''mock'', bi_PromoCode = code, bi_Label = None, bi_RenewSubscriptionID = None,
     bi_Routing = ''full''\<rparr>"

definition sample_promo :: "string \<Rightarrow> promo_row" where
  "sample_promo ty = \<lparr>pm_id = 40, pm_code = ''SALE'', pm_type = ty, pm_discount = 1000,
     pm_currency = None, pm_max_uses = Some 10, pm_used_count = 0, pm_expires_at = None,
     pm_active = True, pm_created_at = 0\<rparr>"

text \<open>A world whose clock stands still.\<close>

definition still_env :: env where
  "still_env = sample_env\<lparr>env_clock := \<lambda>n. 1700000000000000000\<rparr>"

definition shop_world :: "promo_row list \<Rightarrow> world" where
  "shop_world ps = sample_world\<lparr>w_env := still_env, w_db := sample_db\<lparr>promocodes := ps\<rparr>\<rparr>"

lemma shop_simps [simp]:
  "w_env (shop_world ps) = still_env" "w_tick (shop_world ps) = 0" "w_tx_now (shop_world ps) = None"
  "env_fault still_env n = False" "env_uuid still_env n = of_nat (256 + n)"
  "env_clock still_env n = 1700000000000000000"
  "orders (w_db (shop_world ps)) = []" "payments (w_db (shop_world ps)) = []"
  "plans (w_db (shop_world ps)) = [sample_plan]" "users (w_db (shop_world ps)) = [sample_user]"
  "countries (w_db (shop_world ps)) = [sample_country]" "subscriptions (w_db (shop_world ps)) = []"
  "promocodes (w_db (shop_world ps)) = ps" "promo_redemptions (w_db (shop_world ps)) = []"
  "pm_id (sample_promo ty) = 40" "pm_code (sample_promo ty) = ''SALE''" "pm_type (sample_promo ty) = ty"
  "pm_discount (sample_promo ty) = 1000" "pm_expires_at (sample_promo ty) = None"
  "pm_active (sample_promo ty)" "pm_max_uses (sample_promo ty) = Some 10"
  "pm_used_count (sample_promo ty) = 0"
  "bi_UserID (buy_input code) = 1" "bi_PlanID (buy_input code) = 3" "bi_CountryID (buy_input code) = 2"
  "bi_Protocol (buy_input code) = ''vless_reality''" "bi_Gateway (buy_input code) = ''mock''"
  "bi_PromoCode (buy_input code) = code" "bi_Label (buy_input code) = None"
  "bi_RenewSubscriptionID (buy_input code) = None" "bi_Routing (buy_input code) = ''full''"
  by (simp_all add: shop_world_def still_env_def sample_db_def empty_db_def sample_promo_def buy_input_def)

lemma sample_billing_simps [simp]:
  "map_of (bs_providers sample_billing) ''mock'' = Some (MockProvider ''http://localhost:8080'')"
  by (simp add: sample_billing_def api_providers_def IsProduction_def sample_cfg_def read_config_def
      getenv_def)

lemmas buy_run_defs = monad_defs Buy_def resolvePromo_def GetPlanPricing_def GetPromoByCode_def
  promo_of_row_def CountRecentPendingOrders_def CreateOrder_def redeem_def use_promo_def
  insert_redemption_def insert_order_def numeric_in_def order_of_row_def CreatePayment_def
  insert_payment_def payment_of_row_def MockProvider_def mock_CreatePayment_def fk_ok_def
  fk_null_ok_def redeemable_def maxPendingOrder_def payment_status_enum_def payment_status_defs
  protocol_defs

lemma TrimSpace_samples: "TrimSpace '''' = ''''" "TrimSpace ''SALE'' = ''SALE''"
  by code_simp+

lemma zero_amount: "round2 0 = 0" "numeric2 0 = 0"
  using round2_cents [of 0] numeric2_cents [of 0] by simp_all

lemma buy_plain_run: "\<not> isl (fst (Buy sample_billing (buy_input '''') (shop_world [])))"
proof -
  have "charge (cents 999) 0 = cents 999" using charge_cents [of 999 0] by simp
  then show ?thesis
    by (simp add: buy_run_defs TrimSpace_samples zero_amount Protocol_Valid_def
        cong: bind_cong_weak catch_cong_weak)
qed

theorem Buy_charges_exactly_witness:
  "\<exists>ord pay w'. Buy sample_billing (buy_input '''') (shop_world []) = (Inr (ord, pay), w') \<and>
    or_Amount ord = cents 999"
proof -
  obtain ord pay w' where r: "Buy sample_billing (buy_input '''') (shop_world []) = (Inr (ord, pay), w')"
    using Inr_run [OF buy_plain_run] by auto
  from Buy_charges_exactly [OF r [unfolded sample_billing_def], of sample_plan 0] r show ?thesis
    by (simp add: by_key_def fixed_discount_def TrimSpace_samples)
qed

theorem pending_orders_bounded_witness:
  "\<exists>ord pay w'. Buy sample_billing (buy_input '''') (shop_world []) = (Inr (ord, pay), w') \<and>
    count_where (is_pending 1 (pg_time (1700000000000000000 - pendingWindow))) (orders (w_db w')) \<le> 5"
proof -
  obtain ord pay w' where r: "Buy sample_billing (buy_input '''') (shop_world []) = (Inr (ord, pay), w')"
    using Inr_run [OF buy_plain_run] by auto
  have "count_where (is_pending (bi_UserID (buy_input '''')) (pg_time (1700000000000000000 - pendingWindow)))
      (orders (w_db w')) \<le> 5"
    by (rule pending_orders_bounded [OF r [unfolded sample_billing_def]]) simp
  with r show ?thesis by simp
qed

text \<open>Ten percent of 9.99.\<close>

lemma buy_percent_run:
  "\<not> isl (fst (Buy sample_billing (buy_input ''SALE'') (shop_world [sample_promo ''percent''])))"
proof -
  obtain k where k: "round2 (fl (fl (cents 999 * cents 1000) / 100)) = cents k" "0 \<le> k" "k \<le> 999"
    using percent_cents [of 999 1000] by auto
  then have "charge (cents 999) (cents k) = cents (999 - k)" using charge_cents [of 999 k] by simp
  with k show ?thesis
    by (simp add: buy_run_defs TrimSpace_samples zero_amount Protocol_Valid_def promo_discount_def
        citext_eq_def cong: bind_cong_weak catch_cong_weak)
qed

theorem Buy_percent_within_a_cent_witness:
  "\<exists>ord pay w' k. Buy sample_billing (buy_input ''SALE'') (shop_world [sample_promo ''percent'']) =
      (Inr (ord, pay), w') \<and> or_Amount ord = cents (999 - k) \<and>
    \<bar>of_int k - of_int (999 * 1000) / 10 ^ 4\<bar> \<le> (51 / 100 :: rat)"
proof -
  obtain ord pay w' where
    r: "Buy sample_billing (buy_input ''SALE'') (shop_world [sample_promo ''percent'']) = (Inr (ord, pay), w')"
    using Inr_run [OF buy_percent_run] by auto
  from Buy_percent_within_a_cent [OF r [unfolded sample_billing_def], of sample_plan "sample_promo ''percent''"] r
  show ?thesis by (auto simp: by_key_def TrimSpace_samples citext_eq_def)
qed

theorem expirer_never_early_witness:
  "list_all2 (swept 1700000000000000000 (pg_time 0)) [] (subscriptions (w_db (snd (Expirer_Run 0 3 (shop_world [])))))"
  using expirer_never_early [of "shop_world []" 1700000000000000000 0 3] by simp

end
