(* ===== verification/AuthWitnesses.thy ===== *)
theory AuthWitnesses
  imports RateLimit Samples
begin

text \<open>
  The properties of the auth service at work on the sample world, where the user has a password and
  logs in.
\<close>

section \<open>A login\<close>

definition login_user :: user_row where
  "login_user = sample_user\<lparr>u_password_hash := Some ''$2a$secret''\<rparr>"

definition login_world :: world where
  "login_world = sample_world\<lparr>w_db := sample_db\<lparr>users := [login_user]\<rparr>\<rparr>"

definition sample_auth :: AuthService where
  "sample_auth = \<lparr>as_tokens = \<lparr>tm_secret = ''key'', tm_accessTTL = 900 * 10 ^ 9,
     tm_refreshTTL = 10 ^ 15\<rparr>, as_botToken = ''''\<rparr>"

definition sample_meta :: LoginMeta where
  "sample_meta = \<lparr>lm_UserAgent = '''', lm_IP = None\<rparr>"

lemma sample_auth_simps [simp]:
  "as_tokens sample_auth = \<lparr>tm_secret = ''key'', tm_accessTTL = 900 * 10 ^ 9, tm_refreshTTL = 10 ^ 15\<rparr>"
  "lm_UserAgent sample_meta = ''''" "lm_IP sample_meta = None"
  by (simp_all add: sample_auth_def sample_meta_def)

lemma login_world_simps [simp]:
  "w_env login_world = sample_env" "w_tick login_world = 0" "w_tx_now login_world = None"
  "users (w_db login_world) = [login_user]" "user_sessions (w_db login_world) = []"
  "w_redis login_world = []"
  by (simp_all add: login_world_def)

lemma login_user_simps [simp]:
  "u_email login_user = Some ''a@example.com''" "u_password_hash login_user = Some ''$2a$secret''"
  "u_status login_user = ''active''" "u_totp_enabled login_user = False" "u_id login_user = 1"
  by (simp_all add: login_user_def sample_user_def)

lemmas login_run_defs = monad_defs Login_def GetAuthByEmail_def deny_if_def CheckPassword_def
  check_second_factor_def issueTokens_def IssueAccess_def NewRefreshToken_def HashRefreshToken_def
  CreateSession_def insert_session_def auth_record_def scanUser_def StatusBlocked_def
  same_email_def citext_eq_def fk_ok_def has_key_def

lemma run_ok: "\<not> isl (fst (m w)) \<Longrightarrow> \<exists>x w'. m w = (Inr x, w')"
  by (cases "m w"; cases "fst (m w)") auto

lemma sample_login:
  "\<exists>u p w'. Login sample_auth ''a@example.com'' ''secret'' '''' sample_meta login_world = (Inr (u, p), w')"
proof -
  have "\<not> isl (fst (Login sample_auth ''a@example.com'' ''secret'' '''' sample_meta login_world))"
    by (simp add: login_run_defs ascii_lower_def cong: bind_cong_weak catch_cong_weak)
  then show ?thesis by (auto dest: run_ok)
qed


section \<open>A refresh token\<close>

definition active_session :: session_row where
  "active_session = \<lparr>se_id = 9, se_user_id = 1,
     se_token_hash = env_sha256 sample_env ''token'', se_user_agent = None, se_ip = None,
     se_expires_at = 1800000000000000000, se_revoked_at = None, se_created_at = 0\<rparr>"

definition refresh_world :: world where
  "refresh_world = sample_world\<lparr>w_db := sample_db\<lparr>users := [login_user],
     user_sessions := [active_session]\<rparr>\<rparr>"

lemma active_session_simps [simp]:
  "se_id active_session = 9" "se_user_id active_session = 1" "se_revoked_at active_session = None"
  "se_token_hash active_session = env_sha256 sample_env ''token''"
  "se_expires_at active_session = 1800000000000000000"
  by (simp_all add: active_session_def)

lemma refresh_world_simps [simp]:
  "w_env refresh_world = sample_env" "w_tick refresh_world = 0" "w_tx_now refresh_world = None"
  "users (w_db refresh_world) = [login_user]"
  "user_sessions (w_db refresh_world) = [active_session]"
  by (simp_all add: refresh_world_def)

lemma fresh_token:
  "RawURLEncoding_EncodeToString (rand_bytes sample_env (Suc (Suc (Suc (Suc (Suc (Suc 0)))))) 32) =
  ''BgYGBgYGBgYGBgYGBgYGBgYGBgYGBgYGBgYGBgYGBgY''"
proof -
  have "rand_bytes sample_env (Suc (Suc (Suc (Suc (Suc (Suc 0)))))) 32 = replicate 32 (char_of (6 :: nat))"
    by (simp add: rand_bytes_def)
  moreover have "char_of (6 :: nat) = CHR 0x06" by code_simp
  moreover have "RawURLEncoding_EncodeToString (replicate 32 (CHR 0x06)) =
    ''BgYGBgYGBgYGBgYGBgYGBgYGBgYGBgYGBgYGBgYGBgY''" by code_simp
  ultimately show ?thesis by simp
qed

lemma sample_refresh: "\<exists>p w'. Refresh sample_auth ''token'' sample_meta refresh_world = (Inr p, w')"
proof -
  have "\<not> isl (fst (Refresh sample_auth ''token'' sample_meta refresh_world))"
    by (simp add: login_run_defs Refresh_def GetSessionByHash_def RevokeSession_def revoke_where_def
        GetUserByID_def fresh_token cong: bind_cong_weak catch_cong_weak)
  then show ?thesis by (rule run_ok)
qed

theorem refresh_token_single_use_witness:
  "\<exists>p w1 w2 uid. Refresh sample_auth ''token'' sample_meta refresh_world = (Inr p, w1) \<and>
    (\<exists>x \<in> set (user_sessions (w_db w1)). se_user_id x = uid \<and> se_revoked_at x = None) \<and>
    Refresh sample_auth ''token'' sample_meta w1 = (Inl ErrSessionRevoked, w2) \<and>
    (\<forall>x \<in> set (user_sessions (w_db w2)). se_user_id x = uid \<longrightarrow> se_revoked_at x \<noteq> None)"
proof -
  obtain p w1 where run: "Refresh sample_auth ''token'' sample_meta refresh_world = (Inr p, w1)"
    using sample_refresh by blast
  have "w_env w1 = sample_env" using Refresh_env [OF run] by simp
  with refresh_token_single_use [OF run auth_start, of sample_meta] run show ?thesis by auto
qed

theorem accounts_stay_unique_witness:
  "accounts_ok (w_db (snd (Refresh sample_auth ''token'' sample_meta refresh_world)))"
proof (rule accounts_stay_unique)
  show "auth_run sample_auth refresh_world (snd (Refresh sample_auth ''token'' sample_meta refresh_world))"
    by (rule auth_next [OF auth_start step_Refresh])
  show "accounts_ok (w_db refresh_world)"
    by (simp add: accounts_ok_def has_key_def)
qed

section \<open>A logout\<close>

definition sample_claims :: jwt_claims where
  "sample_claims = \<lparr>jc_Subject = ''sub'', jc_ID = ''id'', jc_IssuedAt = 0, jc_ExpiresAt = None,
     jc_NotBefore = 0, jc_Role = ''user''\<rparr>"

definition sample_request :: request where
  "sample_request = \<lparr>rq_Method = ''POST'', rq_Path = [], rq_Query = [],
     rq_Header = [(''Authorization'', ''Bearer abc'')], rq_RemoteAddr = ''10.0.0.1:80'',
     rq_Body = '''', rq_PathValues = [], rq_Principal = None, rq_RequestID = ''''\<rparr>"

lemma sample_bearer: "bearerToken sample_request \<noteq> ''''"
  by code_simp

theorem logout_revokes_token_witness:
  "\<exists>w1 w2 w4. Logout ''id'' 1700000900000000000 '''' login_world = (Inr (), w1) \<and>
    w_redis w2 = w_redis w1 \<and>
    Authenticate sample_auth (\<lambda>r. writeError 200 ''ok'') sample_request fresh_writer w2 =
      writeError 401 ''token revoked'' fresh_writer w4"
proof -
  obtain w1 where run: "Logout ''id'' 1700000900000000000 '''' login_world = (Inr (), w1)"
    and env: "w_env w1 = sample_env" "w_tick w1 = 2"
    by (simp add: Logout_def time_Until_def redis_Set_def redis_cmd_def run_if_def monad_defs)
  define w2 where "w2 = w1\<lparr>w_env := sample_env\<lparr>env_jwt_parse := \<lambda>k t s. Some sample_claims\<rparr>\<rparr>"
  obtain w3 where "ParseAccess (as_tokens sample_auth) (bearerToken sample_request) w2 =
      (Inr sample_claims, w3)" "w_tick w3 = 3" "w_env w3 = w_env w2"
    by (simp add: w2_def ParseAccess_def monad_defs env)
  with logout_revokes_token [OF run, of w2 sample_request sample_auth sample_claims w3
      "\<lambda>r. writeError 200 ''ok''" fresh_writer] sample_bearer
  obtain w4 where "Authenticate sample_auth (\<lambda>r. writeError 200 ''ok'') sample_request fresh_writer w2 =
      writeError 401 ''token revoked'' fresh_writer w4"
    by (auto simp: w2_def sample_claims_def)
  moreover have "w_redis w2 = w_redis w1" by (simp add: w2_def)
  ultimately show ?thesis using run by blast
qed

section \<open>The rate limiter\<close>

definition still_world :: world where
  "still_world = sample_world\<lparr>w_env := sample_env\<lparr>env_clock := \<lambda>n. 0\<rparr>\<rparr>"

theorem rate_limit_exact_witness:
  "length (filter (\<lambda>rw. status_of rw \<noteq> 429) (fst (serve_all
      (RateLimiter_Middleware ''auth'' 2 (60 * 10 ^ 9) (\<lambda>r. writeError 200 ''ok''))
      [sample_request, sample_request, sample_request] still_world))) = 2"
proof -
  have "bystander (rate_key ''auth'' sample_request) (\<lambda>r. writeError 200 ''ok'')"
    by (simp add: bystander_def writeError_def writeJSON_def Write_def WriteHeader_def set_header_def
        status_of_def fresh_writer_def)
  from rate_limit_exact [OF this, of "[sample_request, sample_request, sample_request]" "''auth''"
      still_world "60 * 10 ^ 9" 2]
  show ?thesis by (simp add: still_world_def whole_seconds_def)
qed

definition stuck_world :: world where
  "stuck_world = sample_world\<lparr>w_redis := [(rate_key ''auth'' sample_request, show_int 2, None)]\<rparr>"

theorem failed_expire_blocks_forever_witness:
  "\<exists>w' after. RateLimiter_Middleware ''auth'' 2 (60 * 10 ^ 9) (\<lambda>r. writeError 200 ''ok'')
      sample_request fresh_writer stuck_world =
    writeError 429 ''rate limit exceeded'' (set_header ''Retry-After'' after fresh_writer) w'"
  using failed_expire_blocks_forever [of stuck_world 2 2 "''auth''" sample_request "60 * 10 ^ 9"
      "\<lambda>r. writeError 200 ''ok''" fresh_writer]
  by (auto simp: stuck_world_def)

section \<open>One-time codes\<close>

lemma ValidateTOTP_total: "\<exists>ok w'. ValidateTOTP secret code w = (Inr ok, w')"
  by (cases "length (TrimSpace code) = totpDigits") (auto simp: ValidateTOTP_def Let_def monad_defs)


theorem totp_window_exact_witness:
  "\<exists>ok w'. ValidateTOTP (b32_EncodeToString ''12345678901234567890'') ''287082'' sample_world =
      (Inr ok, w') \<and>
    (ok \<longleftrightarrow> TrimSpace ''287082'' \<in> totp_code sample_env ''12345678901234567890'' `
      {56666665, 56666666, 56666667})"
proof -
  obtain ok w' where run: "ValidateTOTP (b32_EncodeToString ''12345678901234567890'') ''287082'' sample_world =
      (Inr ok, w')"
    using ValidateTOTP_total by blast
  from totp_window_exact [OF run refl refl] run show ?thesis by simp
qed

end
