(* ===== verification/PlatformWitnesses.thy ===== *)
theory PlatformWitnesses
  imports RouteTable Interleaving PlatformTypes PlatformCorrect TelegramCorrect NodeAgentCorrect BillingWitnesses AuthWitnesses
begin

text \<open>
  Concrete runs of the properties of the whole program, of the bot, of monitoring and of the node
  agent.
\<close>

section \<open>A step of the server\<close>

definition sample_pages :: pages where
  "sample_pages = \<lparr>pg_cabinet = ''cabinet'', pg_panel = ''panel'', pg_metrics = \<lambda>_. ''metrics''\<rparr>"

definition sample_request :: "string \<Rightarrow> string list \<Rightarrow> (string \<times> string) list \<Rightarrow> request" where
  "sample_request meth path header = \<lparr>rq_Method = meth, rq_Path = path, rq_Query = [],
     rq_Header = header, rq_RemoteAddr = ''192.0.2.1:4000'', rq_Body = ''{}'',
     rq_PathValues = [], rq_Principal = None, rq_RequestID = ''''\<rparr>"

definition sample_server_run :: "request \<Rightarrow> world \<Rightarrow> world" where
  "sample_server_run r w = snd (api_server sample_cfg (replicate 32 (CHR ''k'')) '''' sample_pages r fresh_writer w)"

lemma sample_server_step:
  "platform_run sample_cfg (replicate 32 (CHR ''k'')) '''' (\<lambda>_. 0) sample_pages w (sample_server_run r w)"
  unfolding sample_server_run_def by (rule run_more [OF run_idle step_request])

definition delete_request :: request where
  "delete_request = sample_request ''DELETE'' [''api'', ''v1'', ''vpn'', ''7''] []"

lemma live_invariants: "accounts_ok live_db" "fleet_ok live_db" "ledger_ok live_db"
proof -
  show "accounts_ok live_db" by (simp add: accounts_ok_def live_db_def)
  show "fleet_ok live_db" using live_load_ok by (simp add: fleet_ok_def)
  show "ledger_ok live_db" by (simp add: ledger_ok_def live_db_def)
qed

theorem platform_keeps_invariants_witness:
  "accounts_ok (w_db (sample_server_run delete_request live_world)) \<and>
    fleet_ok (w_db (sample_server_run delete_request live_world)) \<and>
    ledger_ok (w_db (sample_server_run delete_request live_world))"
  by (rule platform_keeps_invariants [OF sample_server_step]) (simp_all add: live_invariants)

theorem platform_history_witness:
  "since live_db (w_db (sample_server_run delete_request live_world)) \<and>
    sessions_since live_db (w_db (sample_server_run delete_request live_world))"
  using platform_history [OF sample_server_step, of live_world delete_request] by simp

theorem statuses_stay_typed_witness:
  "enums_ok (w_db (sample_server_run delete_request live_world))"
  by (rule statuses_stay_typed [OF sample_server_step])
    (simp add: enums_ok_def sub_statuses_def, simp add: live_db_def)


theorem anonymous_changes_nothing_witness:
  "w_db (snd (api_server sample_cfg (replicate 32 (CHR ''k'')) '''' sample_pages delete_request
     fresh_writer live_world)) = live_db"
  using anonymous_changes_nothing [of delete_request sample_cfg "replicate 32 (CHR ''k'')" "''''"
      sample_pages fresh_writer live_world]
  by (simp add: delete_request_def sample_request_def public_write_def bearerToken_def
      Header_Get_def get_first_def)

text \<open>A token of an ordinary user.\<close>

definition user_claims :: jwt_claims where
  "user_claims = \<lparr>jc_Subject = ''1'', jc_ID = ''t'', jc_IssuedAt = 0, jc_ExpiresAt = None,
     jc_NotBefore = 0, jc_Role = ''user''\<rparr>"

definition user_world :: world where
  "user_world = live_world\<lparr>w_env := sample_env\<lparr>env_jwt_parse := \<lambda>k t s. Some user_claims\<rparr>\<rparr>"

theorem admin_api_needs_role_witness:
  "w_db (snd (api_server sample_cfg (replicate 32 (CHR ''k'')) '''' sample_pages
     (sample_request ''POST'' [''api'', ''v1'', ''admin'', ''users'', ''1'', ''role'']
       [(''Authorization'', ''Bearer t'')]) fresh_writer user_world)) = live_db"
  using admin_api_needs_role [of "sample_request ''POST'' [''api'', ''v1'', ''admin'', ''users'', ''1'', ''role'']
       [(''Authorization'', ''Bearer t'')]" "[''users'', ''1'', ''role'']" user_world sample_cfg
      "replicate 32 (CHR ''k'')" "''''" sample_pages fresh_writer]
  by (simp add: sample_request_def user_world_def user_claims_def RoleAdmin_def RoleSuperAdmin_def)

definition later_world :: world where
  "later_world = live_world\<lparr>w_env := sample_env\<lparr>env_clock := \<lambda>n. 1800000000000000000\<rparr>\<rparr>"

theorem overdue_gets_expired_witness:
  "sample_sub\<lparr>sub_status := ''expired''\<rparr> \<in>
    set (subscriptions (w_db (snd (Expirer_Run (72 * 3600 * 10 ^ 9) 0 later_world))))"
  using overdue_gets_expired [of sample_sub later_world "72 * 3600 * 10 ^ 9"]
  by (simp add: later_world_def sample_sub_def now_of_def pg_time_def)

section \<open>The bot\<close>

definition sample_draft :: draft where
  "sample_draft = \<lparr>df_CountryID = ''2'', df_Protocol = ''wireguard'', df_Routing = '''',
     df_PlanID = ''3'', df_RenewSubID = ''''\<rparr>"

lemma sample_draft_ok: "draft_ok sample_draft"
  unfolding draft_ok_def sample_draft_def by (simp add: valid_utf8_ascii)

theorem draft_roundtrip_witness:
  "fst (getDraft 42 (snd (saveDraft 42 sample_draft sample_world))) = Inr sample_draft"
proof -
  have save: "saveDraft 42 sample_draft sample_world =
      (Inr (), snd (saveDraft 42 sample_draft sample_world))"
    by (simp add: saveDraft_def redis_Set_def redis_cmd_def)
  have w: "w_env (snd (saveDraft 42 sample_draft sample_world)) = sample_env"
    "w_tick (snd (saveDraft 42 sample_draft sample_world)) = 1"
    by (simp_all add: saveDraft_def redis_Set_def redis_cmd_def)
  show ?thesis
    by (rule draft_roundtrip [OF save sample_draft_ok refl]) (simp_all add: w draftTTL_def)
qed

definition sample_bot :: Bot where
  "sample_bot = NewBot ''token'' (api_vpn sample_cfg (replicate 32 (CHR ''k'')) '''')
     (api_billing sample_cfg (replicate 32 (CHR ''k'')) '''') 50 (\<lambda>_. 0)"

theorem foreign_config_not_sent_witness:
  "\<exists>w1. same_state live_world w1 \<and> w_nodes w1 = [] \<and>
    sendConfig sample_bot 42 99 ''00000000-0000-0000-0000-000000000007'' live_world =
      reply sample_bot 42 textError (Some mainMenuKeyboard) w1"
proof -
  have "uuid_Parse ''00000000-0000-0000-0000-000000000007'' = Some 7" by code_simp
  then show ?thesis
    using foreign_config_not_sent [of live_world sample_sub 99 _ sample_bot 42] by simp
qed

section \<open>Monitoring\<close>

text \<open>The first call, the poll, fails.\<close>

definition silent_world :: world where
  "silent_world = live_world\<lparr>w_env := sample_env\<lparr>env_fault := \<lambda>n. n = 0\<rparr>\<rparr>"

definition sample_engine :: Engine where
  "sample_engine = api_engine sample_cfg (replicate 32 (CHR ''k'')) '''' (\<lambda>_. 0)"

definition polled :: serverRow where
  "polled = \<lparr>sw_id = 4, sw_agentURL = ''http://agent'', sw_status = ''active''\<rparr>"



definition offline_world :: world where
  "offline_world = live_world\<lparr>w_db := live_db\<lparr>servers := [(sample_server 4 False)\<lparr>s_status := ''offline''\<rparr>]\<rparr>\<rparr>"

theorem inactive_never_migrated_witness:
  "sweep (\<lambda>_. ''err'') (sample_engine\<lparr>en_migrator := \<lambda>i reason. throw Fault\<rparr>) offline_world =
    sweep (\<lambda>_. ''err'') sample_engine offline_world"
  by (rule inactive_never_migrated) (simp add: offline_world_def)

section \<open>The node agent\<close>

definition sample_agent :: agent where
  "sample_agent = \<lparr>ag_token = ''secret'', ag_wgInterface = ''wg0'', ag_xrayConfig = ''xray.json'',
     ag_xrayTag = ''vless'', ag_xrayFlow = ''flow'', ag_xraySSTag = ''ss'',
     ag_xrayTrojanTag = ''trojan'', ag_reloadCmd = ''reload''\<rparr>"

definition sample_xray :: "(string \<times> json) list" where
  "sample_xray = [(''inbounds'', JArr [JObj [(''tag'', JStr ''vless'')]])]"

definition sample_node :: node where
  "sample_node = \<lparr>nd_env = \<lparr>ne_fault = \<lambda>n. False, ne_cut = \<lambda>n. None, ne_output = \<lambda>n. '''',
       ne_status = \<lambda>n. 200, ne_temp = \<lambda>n. ''tmp'', ne_vars = \<lambda>k. '''', ne_cpus = 1\<rparr>,
     nd_tick = 0, nd_files = [''xray.json'' \<mapsto> json_Marshal (JObj sample_xray)], nd_commands = []\<rparr>"

lemma sample_agent_simps [simp]:
  "ag_xrayConfig sample_agent = ''xray.json''" "ag_reloadCmd sample_agent = ''reload''"
  "ag_token sample_agent = ''secret''"
  by (simp_all add: sample_agent_def)

lemma sample_node_simps [simp]:
  "nd_files sample_node = [''xray.json'' \<mapsto> json_Marshal (JObj sample_xray)]"
  "nd_commands sample_node = []" "nd_tick sample_node = 0" "ne_fault (nd_env sample_node) n = False"
  by (simp_all add: sample_node_def del: json_Marshal.simps)

lemma sample_names: "valid_utf8 ''tag''" "valid_utf8 ''vless''" "valid_utf8 ''id''" "valid_utf8 ''u1''"
  by (rule valid_utf8_ascii, simp)+

lemma sample_xray_read: "Unmarshal_map (json_Marshal (JObj sample_xray)) = Some sample_xray"
proof -
  have "wf_json (JObj sample_xray)"
    by (simp add: sample_xray_def wf_members_def sample_names)
  then show ?thesis
    by (simp add: Unmarshal_map_def json_Unmarshal_Marshal del: json_Marshal.simps)
      (simp add: sample_xray_def map_of_members_def)
qed

lemma sample_xray_edit:
  "\<exists>cfg'. edit_config ''vless'' ''id'' ''u1'' True new sample_xray = Inr cfg'"
  by (simp add: edit_config_def sample_xray_def is_inbound_def)

theorem edit_refines_spec_witness:
  "\<exists>raw' cfg'. nd_files (snd (editXrayClients sample_agent ''vless'' ''id'' ''u1'' True
       [(''id'', JStr ''u1'')] sample_node)) ''xray.json'' = Some raw' \<and>
     json_Unmarshal raw' = Some (JObj cfg') \<and>
     tag_clients cfg' ''vless'' = Some [JObj [(''id'', JStr ''u1'')]]"
proof -
  let ?m = "editXrayClients sample_agent ''vless'' ''id'' ''u1'' True [(''id'', JStr ''u1'')]"
  obtain cfg' where "edit_config ''vless'' ''id'' ''u1'' True (map_of_members [(''id'', JStr ''u1'')])
      sample_xray = Inr cfg'" using sample_xray_edit by blast
  then have "fst (?m sample_node) = Inr ()"
    by (simp add: editXrayClients_def ReadFile_def act_bind_def act_wrap_def nd_faulty_def nd_step_def
        sample_xray_read WriteFile_def agent_run_def exec_command_def act_return_def
        Let_def del: json_Marshal.simps)
  then have run: "?m sample_node = (Inr (), snd (?m sample_node))" by (cases "?m sample_node") auto
  have wf: "wf_json (JObj sample_xray)" "wf_json (JObj [(''id'', JStr ''u1'')])"
    by (simp_all add: sample_xray_def wf_members_def sample_names)
  have clients: "tag_clients sample_xray ''vless'' = Some []"
    by (simp add: tag_clients_def sample_xray_def is_inbound_def settings_of_def clients_of_def)
  have stored: "wf_json (JObj cfg)"
    if "nd_files sample_node (ag_xrayConfig sample_agent) = Some raw" "Unmarshal_map raw = Some cfg" for raw cfg
    using that wf(1) by (auto simp: sample_xray_read simp del: json_Marshal.simps)
  obtain raw cfg cs raw' cfg' where
      edit: "nd_files sample_node ''xray.json'' = Some raw" "Unmarshal_map raw = Some cfg"
        "tag_clients cfg ''vless'' = Some cs"
      and new: "nd_files (snd (?m sample_node)) = (nd_files sample_node)(''xray.json'' \<mapsto> raw')"
        "json_Unmarshal raw' = Some (JObj cfg')" "tag_clients cfg' = (tag_clients cfg)(''vless'' \<mapsto>
          edit_spec (is_client ''id'' ''u1'') True (JObj (map_of_members [(''id'', JStr ''u1'')])) cs)"
    by (rule exE [OF edit_refines_spec [OF run _ wf(2)]])
      (erule (1) stored, unfold sample_agent_simps, elim exE conjE, rule that)
  from edit clients have "cs = []" by (auto simp: sample_xray_read simp del: json_Marshal.simps)
  with new show ?thesis by (simp add: edit_spec_def map_of_members_def)
qed

theorem agent_guards_node_witness:
  "snd (agent_serve sample_agent (sample_request ''POST'' [''wg'', ''peers''] []) sample_node) = sample_node"
  using agent_guards_node [of "sample_request ''POST'' [''wg'', ''peers''] []" sample_agent sample_node]
  by (simp add: sample_request_def sample_agent_def Header_Get_def get_first_def)


section \<open>Orders\<close>


section \<open>Interleaving\<close>

text \<open>The owner deletes the VPN; the migration of its server may not move it any more.\<close>

definition after_delete :: db where
  "after_delete = w_db (snd (SoftDelete 1 7 live_world))"

lemma run_delete: "db_run timely live_db after_delete"
  by (rule more_writes [OF no_write write_delete])
    (auto simp: commits_def after_delete_def intro!: exI [of _ live_world])


theorem interleaved_history_witness: "since live_db after_delete \<and> sessions_since live_db after_delete"
  by (rule interleaved_history [OF run_delete [of True]])


section \<open>The route table\<close>

theorem registration_order_irrelevant_witness:
  "Mux (rev (api_routes sample_cfg (replicate 32 (CHR ''k'')) '''' sample_pages)) =
   Mux (api_routes sample_cfg (replicate 32 (CHR ''k'')) '''' sample_pages)"
  by (rule registration_order_irrelevant) simp

end
