(* ===== verification/Commands.thy ===== *)
theory Commands
  imports ApiServer JsonIndent
begin

text \<open>
  The commands beside the server: \<open>cmd/grantadmin\<close>, \<open>cmd/keygen\<close> and \<open>cmd/seed\<close>.  A command
  prints lines and exits with a code.
\<close>

section \<open>Commands\<close>

record exit_with =
  ex_code :: nat
  ex_out :: "string list"

definition leave :: "nat \<Rightarrow> exit_with go" where
  "leave n = return \<lparr>ex_code = n, ex_out = []\<rparr>"

definition leave_with :: "string list \<Rightarrow> exit_with go" where
  "leave_with ls = return \<lparr>ex_code = 0, ex_out = ls\<rparr>"

section \<open>grantadmin\<close>

definition grant_role :: "string \<Rightarrow> string \<Rightarrow> nat statement" where
  "grant_role email role now fresh d =
     (if role \<notin> set user_role_enum then Inl enum_violation
      else let P = (\<lambda>r. same_email (u_email r) (Some email))
        in Inr (count_where P (users d),
          d\<lparr>users := update_where P (\<lambda>r. r\<lparr>u_role := role\<rparr>) (users d)\<rparr>))"

text \<open>The arguments follow the name of the command; the pool of connections is lazy.\<close>

definition grantadmin_main :: "clients \<Rightarrow> environment \<Rightarrow> string list \<Rightarrow> exit_with go" where
  "grantadmin_main c vars args =
     (case args of
       [] \<Rightarrow> leave 2
     | email # rest \<Rightarrow>
         let role = (case rest of [] \<Rightarrow> ''superadmin'' | r # _ \<Rightarrow> r)
         in if vars ''DATABASE_URL'' = '''' then leave 1
            else catch
              (bind (of_sum (cl_dsn c (vars ''DATABASE_URL''))) (\<lambda>_.
               bind (sql (grant_role email role)) (\<lambda>n.
               if n = 0 then leave 1
               else leave_with [''user '' @ email @ '' is now '' @ role])))
              (\<lambda>_. leave 1))"

section \<open>keygen\<close>

text \<open>The keys of a node, as JSON with its members in the order of their names.\<close>

definition node_keys :: "string list \<Rightarrow> json" where
  "node_keys vs = JObj (zip [''reality_private_key'', ''reality_public_key'', ''reality_short_id'',
     ''ss_server_key'', ''wg_private_key'', ''wg_public_key''] (map JStr vs))"

definition keygen_main :: "exit_with go" where
  "keygen_main = catch
     (bind GenerateWireGuardKeypair (\<lambda>(wgPriv, wgPub).
      bind GenerateRealityKeypair (\<lambda>(rPriv, rPub).
      bind NewShortID (\<lambda>sid.
      bind GenerateShadowsocksKey (\<lambda>ssKey.
      leave_with [json_MarshalIndent (node_keys [rPriv, rPub, sid, ssKey, wgPriv, wgPub])])))))
     (\<lambda>_. leave 1)"

section \<open>seed\<close>

definition upsert_country :: "string \<Rightarrow> string \<Rightarrow> string \<Rightarrow> uuid statement" where
  "upsert_country code name flag now fresh d =
     (case by_key c_iso code (countries d) of
       Some r \<Rightarrow> Inr (c_id r, d\<lparr>countries := update_where (\<lambda>r. c_iso r = code)
         (\<lambda>r. r\<lparr>c_name := name, c_flag := Some flag\<rparr>) (countries d)\<rparr>)
     | None \<Rightarrow>
         if has_key c_id fresh (countries d) then Inl unique_violation
         else Inr (fresh, d\<lparr>countries := countries d @ [\<lparr>c_id = fresh, c_iso = code, c_name = name,
           c_flag = Some flag, c_enabled = True, c_priority = 10\<rparr>]\<rparr>))"

definition upsertCountry :: "string \<Rightarrow> string \<Rightarrow> string \<Rightarrow> uuid go" where
  "upsertCountry code name flag = sql (upsert_country code name flag)"

text \<open>The prices are in cents.\<close>

definition seed_plans :: "(string \<times> int \<times> int \<times> int) list" where
  "seed_plans = [(''Trial'', 0, 1, 1), (''Monthly'', 499, 30, 3), (''Quarterly'', 1299, 90, 5),
     (''Yearly'', 3999, 365, 5)]"

definition insert_plan :: "string \<Rightarrow> int \<Rightarrow> int \<Rightarrow> int \<Rightarrow> unit statement" where
  "insert_plan name price days maxDevices now fresh d =
     (if has_key pl_id fresh (plans d) then Inl unique_violation
      else Inr ((), d\<lparr>plans := plans d @ [\<lparr>pl_id = fresh, pl_name = name, pl_price = price,
        pl_currency = ''USD'', pl_days = days, pl_max_devices = maxDevices, pl_active = True\<rparr>]\<rparr>))"

definition ensurePlans :: "unit go" where
  "ensurePlans =
     bind (sql (select (\<lambda>d. length (plans d)))) (\<lambda>count.
     if count > 0 then return ()
     else for_each (\<lambda>(name, price, days, devs). sql (insert_plan name price days devs)) seed_plans)"

definition seed_server :: "uuid \<Rightarrow> uuid \<Rightarrow> string \<Rightarrow> string \<Rightarrow> string \<Rightarrow> string \<Rightarrow> string \<Rightarrow> server_row" where
  "seed_server i country host wgPub realPub shortID ssKey =
     \<lparr>s_id = i, s_country_id = country, s_hostname = ''de-dev-01'', s_public_host = host,
      s_agent_url = None, s_status = ''active'', s_reserve = False, s_priority = 10,
      s_capacity = 1000, s_client_count = 0, s_wg_port = Some 51820, s_wg_public_key = Some wgPub,
      s_wg_subnet = Some ''10.7.0.0/24'', s_wg_dns = Some ''1.1.1.1'', s_reality_port = Some 443,
      s_reality_public_key = Some realPub, s_reality_sni = Some ''www.microsoft.com'',
      s_reality_short_id = Some shortID, s_reality_dest = Some ''www.microsoft.com:443'',
      s_ss_port = Some 8388, s_ss_method = Some ''2022-blake3-aes-128-gcm'',
      s_ss_server_key = Some ssKey, s_trojan_port = Some 8443, s_health_score = 100,
      s_last_seen = None\<rparr>"

definition insert_server :: "uuid \<Rightarrow> (uuid \<Rightarrow> server_row) \<Rightarrow> unit statement" where
  "insert_server country row now fresh d =
     (if has_key s_id fresh (servers d) then Inl unique_violation
      else if \<not> fk_ok c_id country (countries d) then Inl foreign_key_violation
      else Inr ((), d\<lparr>servers := servers d @ [row fresh]\<rparr>))"

definition ensureServer :: "uuid \<Rightarrow> string \<Rightarrow> string list go" where
  "ensureServer countryID host =
     bind (sql (select (\<lambda>d. has_key s_hostname ''de-dev-01'' (servers d)))) (\<lambda>exists.
     if exists then return [''server de-dev-01 already present'']
     else bind GenerateWireGuardKeypair (\<lambda>(wgPriv, wgPub).
       bind GenerateRealityKeypair (\<lambda>(realPriv, realPub).
       bind NewShortID (\<lambda>shortID.
       bind GenerateShadowsocksKey (\<lambda>ssKey.
       bind (sql (insert_server countryID
         (\<lambda>i. seed_server i countryID host wgPub realPub shortID ssKey))) (\<lambda>_.
       return [''server de-dev-01 created: '' @ host,
         ''---- NODE SECRETS (store securely; needed to provision the real node) ----'',
         ''WireGuard server private key: '' @ wgPriv,
         ''Reality server private key:   '' @ realPriv,
         ''Reality short id:             '' @ shortID,
         ''-------------------------------------------------------------------------'']))))))"

text \<open>The flag is the two regional indicator letters.\<close>

definition seed_run :: "clients \<Rightarrow> environment \<Rightarrow> string list go" where
  "seed_run c vars =
     (if vars ''DATABASE_URL'' = '''' then throw (Errorf ''DATABASE_URL is required'')
      else
        bind (of_sum (cl_dsn c (vars ''DATABASE_URL''))) (\<lambda>_.
        bind (upsertCountry ''DE'' ''Germany'' (runes [127465, 127466])) (\<lambda>countryID.
        bind ensurePlans (\<lambda>_.
        bind (ensureServer countryID (getenv vars ''SEED_SERVER_HOST'' ''203.0.113.10'')) (\<lambda>ls.
        return ([''country DE: '' @ uuid_String countryID, ''plans ensured''] @ ls))))))"

definition seed_main :: "clients \<Rightarrow> environment \<Rightarrow> exit_with go" where
  "seed_main c vars = catch (bind (seed_run c vars) leave_with) (\<lambda>_. leave 1)"

end
