(* ===== verification/Spec2Isabelle.thy ===== *)
theory Spec2Isabelle
  imports PlatformWitnesses RouteTable HttpServer Commands
begin

text \<open>
  A model of the VPN subscription platform (the Go module \<open>github.com/vpnsaas/platform\<close>) with the
  theorems that make it correct.

  The program.  \<open>cmd/api\<close> is one process: an HTTP server, a Telegram bot (long polling), an expirer
  of overdue subscriptions and a monitoring engine, over PostgreSQL, Redis and an object store.
  Users register (\<open>internal/auth\<close>), buy a plan (\<open>internal/billing\<close>) through a payment gateway, and
  when the gateway confirms the payment a VPN is created on a server (\<open>internal/vpn\<close>): keys are
  generated, the client is provisioned on the node, the configuration is encrypted and stored.
  Monitoring polls the nodes and moves the clients of a failed one to a reserve.  On every node
  runs \<open>cmd/agent\<close>, which edits WireGuard and Xray.  \<open>internal/admin\<close> is the back office,
  \<open>internal/user\<close> profiles and devices; \<open>cmd/grantadmin\<close>, \<open>cmd/keygen\<close> and \<open>cmd/seed\<close> are tools.

  How code is modelled.  An operation is a function of type \<open>'a go\<close> (theory \<open>World\<close>): from a world to
  an error or a result, and a new world.  The world holds the tables (\<open>Database\<close>: one record type
  per table of \<open>migrations/\<close>, constraints and enums included), the object store, Redis, and the
  calls made to nodes and to other services.  Every interaction with the outside takes the next
  position of a tape, and the environment \<open>w_env\<close> says for each position whether the call fails and
  what it yields; a theorem for every environment holds for every pattern of failures, clock
  readings and random bytes.  A Go error is a value of \<open>error\<close> (\<open>Errors\<close>), a Go string a list of
  bytes, a \<open>float64\<close> the rational it denotes with rounding after every operation (\<open>Float64\<close>), an IPv4
  address a 32-bit word, a NUMERIC column an integer number of cents, a time the nanoseconds since
  the epoch.  A transaction restores the tables when its body or commit fails.  A step of the
  program is a whole request; \<open>Interleaving\<close> takes it apart into the writes it commits, between
  which other requests commit theirs, with arguments read at any time before.

  Theories.
    \<^item> Go and its standard library, what the sources use of it: \<open>Prelude\<close>, \<open>GoStrings\<close>, \<open>GoNet\<close>,
      \<open>Encoding\<close>, \<open>Float64\<close>, \<open>Json\<close>, \<open>JsonIndent\<close>; \<open>JsonCorrect\<close> proves that what the marshaller wrote
      is read back.
    \<^item> The world: \<open>Errors\<close>, \<open>Database\<close>, \<open>World\<close>, \<open>Redis\<close>, \<open>Http\<close> (requests, the mux, decoding, and the
      middleware of \<open>internal/platform/httpx\<close>), \<open>AppConfig\<close> (\<open>internal/platform/config\<close>).
    \<^item> VPN (\<open>internal/vpn\<close>): \<open>Routing\<close> and \<open>RoutingCorrect\<close> (split tunnelling), \<open>WireGuard\<close>, \<open>VPNLinks\<close>
      (import links), \<open>VPNModel\<close> (data, keys, cipher), \<open>VPNRepo\<close> (every query), \<open>NodeProvisioner\<close> (the
      interface as the locale \<open>provisioner\<close> and its two implementations), \<open>VPNService\<close>;
      \<open>VPNRepoCorrect\<close>, \<open>VPNServiceCorrect\<close>, \<open>VPNAccess\<close> prove what they keep and who reads what.
    \<^item> Billing (\<open>internal/billing\<close>): \<open>BillingRepo\<close>, \<open>BillingProviders\<close> (the locale \<open>payment_provider\<close> and
      the three gateways), \<open>BillingService\<close>, \<open>BillingWiring\<close> (the providers of a configuration);
      \<open>BillingInvariants\<close> (the locales \<open>vpn_issuer\<close> and \<open>billing_wiring\<close>), \<open>BillingLedger\<close>,
      \<open>BillingOrders\<close>, \<open>BillingBuy\<close>, \<open>BillingChain\<close>, \<open>BillingGateways\<close> prove its properties.
    \<^item> Authentication (\<open>internal/auth\<close>): \<open>AuthCrypto\<close> (passwords, tokens, one-time codes, the Telegram
      signature), \<open>AuthRepo\<close>, \<open>AuthService\<close>, \<open>AuthHandler\<close>; \<open>AuthSessions\<close> (the locale
      \<open>evolving_table\<close>), \<open>AuthCorrect\<close>, \<open>AuthGuard\<close> and \<open>RateLimit\<close> prove who gets in.
    \<^item> \<open>UserModule\<close>, \<open>ApiHandlers\<close> (VPN and billing endpoints, health), \<open>AdminModule\<close>, \<open>TelegramApi\<close> and
      \<open>TelegramBot\<close> (\<open>internal/telegram\<close>), \<open>Monitoring\<close> (\<open>internal/monitoring\<close>), \<open>Commands\<close>.
    \<^item> \<open>NodeAgent\<close> (\<open>cmd/agent\<close>), a process of its own over the files and commands of a node.
    \<^item> \<open>ApiServer\<close> wires all of it as \<open>cmd/api/main.go\<close> does; \<open>Platform\<close> is the program as a step
      relation: a request, a bot update, a sweep of the expirer or of monitoring is a step, and a
      run is any sequence of them.  \<open>Serving\<close> and \<open>PlatformKeeps\<close> reduce an invariant of a run to one
      law per write of a repository (the locale \<open>platform_invariant\<close>), which \<open>PlatformInvariants\<close>
      and \<open>PlatformTypes\<close> interpret seven times.  \<open>Interleaving\<close> interprets it once more, by the
      step relation of the writes themselves, so that a run refines a sequence of writes.
    \<^item> \<open>HttpServer\<close> puts the outermost layers around \<open>ApiServer\<close>: \<open>Recover\<close> and \<open>Observe\<close> of
      \<open>internal/platform/httpx\<close>, the request counter, the start of the server, \<open>main\<close> and the level
      of the logger.  \<open>RouteTable\<close> lists every route and shows that no two overlap.
    \<^item> \<open>Samples\<close>, \<open>VPNWitnesses\<close>, \<open>BillingWitnesses\<close>, \<open>AuthWitnesses\<close> and \<open>PlatformWitnesses\<close> apply the
      properties to concrete worlds, evaluated by the simplifier.

  What is shown.
    \<^item> Of any run of the program, with any failures: accounts, sessions, client counts and tunnel
      addresses stay unique or exact, every paid order has exactly one charge and its subscription,
      orders and sessions only move forwards, statuses stay within their enums
      (\<open>PlatformCorrect\<close>, \<open>PlatformTypes\<close>).
    \<^item> Of concurrent requests: the same invariants and histories hold for any interleaving of
      committed writes, provided a migration finds its subscription live on the server it was read
      from; without the proviso the client counts fail (\<open>Interleaving\<close>, \<open>late_migration_miscounts\<close>).
    \<^item> Access: without a token no table changes but by the public calls; the back office needs an
      administrator's token; a login, a refresh and a logout do what they promise; the rate limiter
      is a fixed-window counter; a foreign or deleted VPN is out of reach through the service and
      the bot.
    \<^item> Money: prices are exact to the cent although computed in floats, promo codes keep their
      limits, an order is claimed once, redelivery changes nothing, the ledger is a hash chain.
    \<^item> VPNs: split routing covers exactly the addresses outside the excluded blocks, the allocator
      takes the lowest free address, links and configurations are read back, a failed creation
      leaves no trace in the tables, a deletion is effective.
    \<^item> Nodes: an edit of the Xray file refines an abstract edit of a client list, what the
      provisioner posts is what the agent does, monitoring is a state machine over what it polls.

  Bounds and loops.  Loops over lists are structural.  \<open>Routing.rangeToCIDRs\<close> ends because the start
  of the range grows; its prefix buffer never overflows.  The loops that run until the context is
  cancelled (\<open>Engine_Run\<close>, \<open>Expirer_Run\<close>, \<open>Bot_Run\<close>) take the number of ticks or polls before that,
  and the theorems hold for every number.  No fuel is used.  Floats have no overflow, infinity or
  NaN: amounts come from NUMERIC(12,2) columns, where \<open>Float64\<close> proves that rounding to cents is exact.

  Arguments of the model, being code outside the repository: bcrypt, SHA-1, SHA-256, MD5, HMAC, AES,
  X25519, the JWT library, the Unicode tables, the QR encoder, the tools on a node, and what other
  services answer.  A property that relies on one of them says so in its hypotheses, and its
  witness instantiates it.

  Not modelled.  Log lines and the duration of a request.  Panics of the handlers: \<open>Recover\<close> and
  \<open>Observe\<close> are defined for any handler that panics, but no handler of the model does, and
  \<open>api_server\<close> leaves the two out, which \<open>observed_server\<close> shows is the same; a panic of the bot is
  an error that \<open>dispatch\<close> drops.  What \<open>net/http\<close> does between the listener and the handler,
  signals, and time-outs of calls, which are failures of the tape.  Statements of one transaction
  in between those of another: what PostgreSQL's isolation lets through there, as when two
  payments of one user are finalized at the same instant, is not covered, except that an order is
  claimed once (\<open>BillingOrders.claimed_at_most_once\<close>).  ILIKE folds ASCII letters only.  The lines
  \<open>cmd/seed\<close> prints before it fails.  The text of a JSON reply: replies
  are trees.  The web pages, tests, migrations as code, containers, Ansible and scripts.
\<close>

end
